(* ===== verification/Ovl_Prelude.thy ===== *)
theory Ovl_Prelude
  imports "HOL-Library.Word" "HOL-Library.AList" "HOL-Library.Char_ord" "HOL-Library.List_Lexorder"
begin

unbundle bit_operations_syntax

text \<open>
  Shared base of the development: byte strings, the error type of \<^verbatim>\<open>src/error.rs\<close>, the
  Linux constants the program uses (the generic Linux ABI of x86-64), and the state-passing
  programs in which the stateful components are written, with the rules by which
  invariants and frame conditions of a program follow from those of its parts.
\<close>

section \<open>Byte strings and errors\<close>

text \<open>
  A Rust \<^verbatim>\<open>Vec<u8>\<close>, \<^verbatim>\<open>&[u8]\<close> or UTF-8 \<^verbatim>\<open>&str\<close> is its list of bytes (\<^typ>\<open>char\<close> is an
  8-bit value). Every delimiter the program splits at is ASCII, and an ASCII byte never occurs
  inside a multi-byte UTF-8 sequence, so splitting bytes is splitting characters.
\<close>

type_synonym bytes = "char list"

datatype fs_error = FsError int

type_synonym 'a fs_result = "fs_error + 'a"

primrec errno_of :: "fs_error \<Rightarrow> int" where
  "errno_of (FsError e) = e"

abbreviation (input) EPERM :: int where "EPERM \<equiv> 1"
abbreviation (input) ENOENT :: int where "ENOENT \<equiv> 2"
abbreviation (input) EINTR :: int where "EINTR \<equiv> 4"
abbreviation (input) EIO :: int where "EIO \<equiv> 5"
abbreviation (input) EBADF :: int where "EBADF \<equiv> 9"
abbreviation (input) ENOMEM :: int where "ENOMEM \<equiv> 12"
abbreviation (input) EACCES :: int where "EACCES \<equiv> 13"
abbreviation (input) EEXIST :: int where "EEXIST \<equiv> 17"
abbreviation (input) EXDEV :: int where "EXDEV \<equiv> 18"
abbreviation (input) ENOTDIR :: int where "ENOTDIR \<equiv> 20"
abbreviation (input) EINVAL :: int where "EINVAL \<equiv> 22"
abbreviation (input) EROFS :: int where "EROFS \<equiv> 30"
abbreviation (input) ERANGE :: int where "ERANGE \<equiv> 34"
abbreviation (input) ENAMETOOLONG :: int where "ENAMETOOLONG \<equiv> 36"
abbreviation (input) ENOSYS :: int where "ENOSYS \<equiv> 38"
abbreviation (input) ENOTEMPTY :: int where "ENOTEMPTY \<equiv> 39"
abbreviation (input) ENODATA :: int where "ENODATA \<equiv> 61"
abbreviation (input) ENOTSUP :: int where "ENOTSUP \<equiv> 95"

text \<open>\<^verbatim>\<open>cstr\<close> and \<^verbatim>\<open>cstr_bytes\<close>: \<^verbatim>\<open>CString::new\<close> refuses an interior NUL byte.\<close>

definition cstr_bytes :: "bytes \<Rightarrow> bytes fs_result" where
  "cstr_bytes s = (if CHR 0x00 \<in> set s then Inl (FsError EINVAL) else Inr s)"

definition cstr :: "bytes \<Rightarrow> bytes fs_result" where
  "cstr s = (if CHR 0x00 \<in> set s then Inl (FsError EINVAL) else Inr s)"

section \<open>Constants\<close>

type_synonym mode_t = "32 word"

abbreviation (input) S_IFMT :: mode_t where "S_IFMT \<equiv> 0xF000"
abbreviation (input) S_IFSOCK :: mode_t where "S_IFSOCK \<equiv> 0xC000"
abbreviation (input) S_IFLNK :: mode_t where "S_IFLNK \<equiv> 0xA000"
abbreviation (input) S_IFREG :: mode_t where "S_IFREG \<equiv> 0x8000"
abbreviation (input) S_IFBLK :: mode_t where "S_IFBLK \<equiv> 0x6000"
abbreviation (input) S_IFDIR :: mode_t where "S_IFDIR \<equiv> 0x4000"
abbreviation (input) S_IFCHR :: mode_t where "S_IFCHR \<equiv> 0x2000"
abbreviation (input) S_IFIFO :: mode_t where "S_IFIFO \<equiv> 0x1000"
abbreviation (input) S_ISUID :: mode_t where "S_ISUID \<equiv> 0x800"
abbreviation (input) S_ISGID :: mode_t where "S_ISGID \<equiv> 0x400"

type_synonym oflags = "32 word"

abbreviation (input) O_RDONLY :: oflags where "O_RDONLY \<equiv> 0"
abbreviation (input) O_WRONLY :: oflags where "O_WRONLY \<equiv> 1"
abbreviation (input) O_RDWR :: oflags where "O_RDWR \<equiv> 2"
abbreviation (input) O_ACCMODE :: oflags where "O_ACCMODE \<equiv> 3"
abbreviation (input) O_CREAT :: oflags where "O_CREAT \<equiv> 0x40"
abbreviation (input) O_EXCL :: oflags where "O_EXCL \<equiv> 0x80"
abbreviation (input) O_NOCTTY :: oflags where "O_NOCTTY \<equiv> 0x100"
abbreviation (input) O_TRUNC :: oflags where "O_TRUNC \<equiv> 0x200"
abbreviation (input) O_APPEND :: oflags where "O_APPEND \<equiv> 0x400"
abbreviation (input) O_NONBLOCK :: oflags where "O_NONBLOCK \<equiv> 0x800"
abbreviation (input) O_DSYNC :: oflags where "O_DSYNC \<equiv> 0x1000"
abbreviation (input) O_DIRECT :: oflags where "O_DIRECT \<equiv> 0x4000"
abbreviation (input) O_LARGEFILE :: oflags where "O_LARGEFILE \<equiv> 0"
abbreviation (input) O_DIRECTORY :: oflags where "O_DIRECTORY \<equiv> 0x10000"
abbreviation (input) O_NOFOLLOW :: oflags where "O_NOFOLLOW \<equiv> 0x20000"
abbreviation (input) O_NOATIME :: oflags where "O_NOATIME \<equiv> 0x40000"
abbreviation (input) O_CLOEXEC :: oflags where "O_CLOEXEC \<equiv> 0x80000"
abbreviation (input) O_SYNC :: oflags where "O_SYNC \<equiv> 0x101000"
abbreviation (input) O_PATH :: oflags where "O_PATH \<equiv> 0x200000"
abbreviation (input) O_TMPFILE :: oflags where "O_TMPFILE \<equiv> 0x410000"

abbreviation (input) AT_SYMLINK_NOFOLLOW :: oflags where "AT_SYMLINK_NOFOLLOW \<equiv> 0x100"
abbreviation (input) AT_REMOVEDIR :: oflags where "AT_REMOVEDIR \<equiv> 0x200"
abbreviation (input) AT_EACCESS :: oflags where "AT_EACCESS \<equiv> 0x200"
abbreviation (input) AT_EMPTY_PATH :: oflags where "AT_EMPTY_PATH \<equiv> 0x1000"
abbreviation (input) AT_STATX_DONT_SYNC :: oflags where "AT_STATX_DONT_SYNC \<equiv> 0x4000"
abbreviation (input) AT_FDCWD :: int where "AT_FDCWD \<equiv> -100"

abbreviation (input) DT_UNKNOWN :: "8 word" where "DT_UNKNOWN \<equiv> 0"
abbreviation (input) DT_CHR :: "8 word" where "DT_CHR \<equiv> 2"
abbreviation (input) DT_DIR :: "8 word" where "DT_DIR \<equiv> 4"

section \<open>State-passing programs\<close>

text \<open>
  A stateful function of the source is a program \<open>'s \<Rightarrow> 'a \<times> 's\<close>. \<open>bindS\<close> is sequencing,
  \<open>bindE\<close> is sequencing with Rust's \<^verbatim>\<open>?\<close> (an error ends the function), \<open>withS\<close> reads the state
  at the point where it stands, \<open>modS\<close> writes it, and \<open>doS m k\<close> is \<^verbatim>\<open>let _ = m; k\<close>.
\<close>

type_synonym ('s, 'a) prog = "'s \<Rightarrow> 'a \<times> 's"

definition ret :: "'a \<Rightarrow> ('s, 'a) prog" where
  "ret x = (\<lambda>s. (x, s))"

definition bindS :: "('s, 'a) prog \<Rightarrow> ('a \<Rightarrow> ('s, 'b) prog) \<Rightarrow> ('s, 'b) prog" where
  "bindS m k = (\<lambda>s. case m s of (x, s') \<Rightarrow> k x s')"

definition bindE ::
  "('s, 'e + 'a) prog \<Rightarrow> ('a \<Rightarrow> ('s, 'e + 'b) prog) \<Rightarrow> ('s, 'e + 'b) prog" where
  "bindE m k = bindS m (\<lambda>r. case r of Inl e \<Rightarrow> ret (Inl e) | Inr x \<Rightarrow> k x)"

definition doS :: "('s, 'a) prog \<Rightarrow> ('s, 'b) prog \<Rightarrow> ('s, 'b) prog" where
  "doS m k = bindS m (\<lambda>_. k)"

definition withS :: "('s \<Rightarrow> ('s, 'a) prog) \<Rightarrow> ('s, 'a) prog" where
  "withS f = (\<lambda>s. f s s)"

definition modS :: "('s \<Rightarrow> 's) \<Rightarrow> ('s, unit) prog" where
  "modS f = (\<lambda>s. ((), f s))"

abbreviation ok :: "'a \<Rightarrow> ('s, fs_error + 'a) prog" where
  "ok x \<equiv> ret (Inr x)"

abbreviation fail :: "int \<Rightarrow> ('s, fs_error + 'a) prog" where
  "fail e \<equiv> ret (Inl (FsError e))"

lemmas prog_defs = ret_def bindS_def bindE_def doS_def withS_def modS_def

text \<open>
  \<open>keeps I m\<close>: from every state with \<open>I\<close> the program \<open>m\<close> ends in a state with \<open>I\<close>.
  \<open>frames f m\<close>: the program leaves the observation \<open>f\<close> of the state alone. The rules below
  are the collections \<open>keeps\<close> and \<open>frames\<close>; each operation adds its own rule.
\<close>

definition keeps :: "('s \<Rightarrow> bool) \<Rightarrow> ('s, 'a) prog \<Rightarrow> bool" where
  "keeps I m \<longleftrightarrow> (\<forall>s. I s \<longrightarrow> I (snd (m s)))"

definition frames :: "('s \<Rightarrow> 'x) \<Rightarrow> ('s, 'a) prog \<Rightarrow> bool" where
  "frames f m \<longleftrightarrow> (\<forall>s. f (snd (m s)) = f s)"

named_theorems keeps_intro \<open>rules for \<open>keeps\<close>\<close>
named_theorems frames_intro \<open>rules for \<open>frames\<close>\<close>

lemma keeps_snd: "keeps I m \<Longrightarrow> I s \<Longrightarrow> I (snd (m s))"
  by (simp add: keeps_def)

lemma keepsD: "keeps I m \<Longrightarrow> I s \<Longrightarrow> m s = (r, s') \<Longrightarrow> I s'"
  by (metis keeps_def snd_conv)

lemma framesD: "frames f m \<Longrightarrow> m s = (r, s') \<Longrightarrow> f s' = f s"
  by (metis frames_def snd_conv)

lemma frames_snd: "frames f m \<Longrightarrow> f (snd (m s)) = f s"
  by (simp add: frames_def)

lemma frames_keeps: "frames f m \<Longrightarrow> keeps (\<lambda>s. P (f s)) m"
  by (simp add: frames_def keeps_def)

lemma keeps_ret [keeps_intro]: "keeps I (ret x)"
  by (simp add: keeps_def ret_def)

lemma keeps_bindS [keeps_intro]: "keeps I m \<Longrightarrow> (\<And>x. keeps I (k x)) \<Longrightarrow> keeps I (bindS m k)"
  by (simp add: keeps_def bindS_def split_beta)

lemma keeps_bindE [keeps_intro]: "keeps I m \<Longrightarrow> (\<And>x. keeps I (k x)) \<Longrightarrow> keeps I (bindE m k)"
  unfolding bindE_def by (rule keeps_bindS) (auto intro: keeps_ret split: sum.splits)

lemma keeps_doS [keeps_intro]: "keeps I m \<Longrightarrow> keeps I k \<Longrightarrow> keeps I (doS m k)"
  by (simp add: doS_def keeps_bindS)

lemma keeps_withS [keeps_intro]: "(\<And>s. I s \<Longrightarrow> keeps I (f s)) \<Longrightarrow> keeps I (withS f)"
  by (simp add: keeps_def withS_def)

lemma keeps_modS: "(\<And>s. I s \<Longrightarrow> I (f s)) \<Longrightarrow> keeps I (modS f)"
  by (simp add: keeps_def modS_def)

lemma keeps_if [keeps_intro]: "(b \<Longrightarrow> keeps I m) \<Longrightarrow> (\<not> b \<Longrightarrow> keeps I n) \<Longrightarrow> keeps I (if b then m else n)"
  by simp

lemma keeps_case_sum [keeps_intro]:
  "(\<And>a. x = Inl a \<Longrightarrow> keeps I (f a)) \<Longrightarrow> (\<And>b. x = Inr b \<Longrightarrow> keeps I (g b)) \<Longrightarrow>
   keeps I (case x of Inl a \<Rightarrow> f a | Inr b \<Rightarrow> g b)"
  by (cases x) auto

lemma keeps_case_option [keeps_intro]:
  "(x = None \<Longrightarrow> keeps I m) \<Longrightarrow> (\<And>a. x = Some a \<Longrightarrow> keeps I (f a)) \<Longrightarrow>
   keeps I (case x of None \<Rightarrow> m | Some a \<Rightarrow> f a)"
  by (cases x) auto

lemma keeps_case_prod [keeps_intro]: "(\<And>a b. x = (a, b) \<Longrightarrow> keeps I (f a b)) \<Longrightarrow> keeps I (case x of (a, b) \<Rightarrow> f a b)"
  by (cases x) auto

lemma keeps_Let [keeps_intro]: "keeps I (f x) \<Longrightarrow> keeps I (Let x f)"
  by simp

text \<open>
  \<open>yields I m Q\<close>: \<open>m\<close> keeps \<open>I\<close>, and from a state with \<open>I\<close> it returns a value with \<open>Q\<close>, on which the
  rest of the program may rely.
\<close>

definition yields :: "('s \<Rightarrow> bool) \<Rightarrow> ('s, 'a) prog \<Rightarrow> ('a \<Rightarrow> bool) \<Rightarrow> bool" where
  "yields I m Q \<longleftrightarrow> (\<forall>s. I s \<longrightarrow> I (snd (m s)) \<and> Q (fst (m s)))"

named_theorems yields_intro \<open>rules for \<open>yields\<close>\<close>

lemma yields_keeps: "yields I m Q \<Longrightarrow> keeps I m"
  by (simp add: yields_def keeps_def)

lemma yieldsD: "yields I m Q \<Longrightarrow> I s \<Longrightarrow> Q (fst (m s))"
  by (simp add: yields_def)

lemma keeps_bindS_val: "yields I m Q \<Longrightarrow> (\<And>x. Q x \<Longrightarrow> keeps I (k x)) \<Longrightarrow> keeps I (bindS m k)"
  by (simp add: keeps_def yields_def bindS_def split_beta)

lemma keeps_bindE_val:
  "yields I m (\<lambda>r. \<forall>x. r = Inr x \<longrightarrow> Q x) \<Longrightarrow> (\<And>x. Q x \<Longrightarrow> keeps I (k x)) \<Longrightarrow> keeps I (bindE m k)"
  unfolding bindE_def by (erule keeps_bindS_val) (auto intro: keeps_ret split: sum.splits)

lemma yields_ret [yields_intro]: "Q x \<Longrightarrow> yields I (ret x) Q"
  by (simp add: yields_def ret_def)

lemma yields_bindS [yields_intro]:
  "keeps I m \<Longrightarrow> (\<And>x. yields I (k x) Q) \<Longrightarrow> yields I (bindS m k) Q"
  by (simp add: yields_def keeps_def bindS_def split_beta)

lemma yields_bindS_val:
  "yields I m P \<Longrightarrow> (\<And>x. P x \<Longrightarrow> yields I (k x) Q) \<Longrightarrow> yields I (bindS m k) Q"
  by (simp add: yields_def bindS_def split_beta)

lemma yields_bindE [yields_intro]:
  "keeps I m \<Longrightarrow> (\<And>e. Q (Inl e)) \<Longrightarrow> (\<And>x. yields I (k x) Q) \<Longrightarrow> yields I (bindE m k) Q"
  unfolding bindE_def by (rule yields_bindS) (auto intro: yields_ret split: sum.splits)

lemma yields_doS [yields_intro]: "keeps I m \<Longrightarrow> yields I k Q \<Longrightarrow> yields I (doS m k) Q"
  by (simp add: doS_def yields_bindS)

lemma yields_withS [yields_intro]: "(\<And>s. I s \<Longrightarrow> yields I (f s) Q) \<Longrightarrow> yields I (withS f) Q"
  by (simp add: yields_def withS_def)

lemma yields_if [yields_intro]:
  "(b \<Longrightarrow> yields I m Q) \<Longrightarrow> (\<not> b \<Longrightarrow> yields I n Q) \<Longrightarrow> yields I (if b then m else n) Q"
  by simp

lemma yields_case_option [yields_intro]:
  "(x = None \<Longrightarrow> yields I m Q) \<Longrightarrow> (\<And>a. x = Some a \<Longrightarrow> yields I (f a) Q) \<Longrightarrow>
   yields I (case x of None \<Rightarrow> m | Some a \<Rightarrow> f a) Q"
  by (cases x) auto

lemma yields_case_sum [yields_intro]:
  "(\<And>a. x = Inl a \<Longrightarrow> yields I (f a) Q) \<Longrightarrow> (\<And>b. x = Inr b \<Longrightarrow> yields I (g b) Q) \<Longrightarrow>
   yields I (case x of Inl a \<Rightarrow> f a | Inr b \<Rightarrow> g b) Q"
  by (cases x) auto

lemma yields_Let [yields_intro]: "yields I (f x) Q \<Longrightarrow> yields I (Let x f) Q"
  by simp

lemma frames_ret [frames_intro]: "frames f (ret x)"
  by (simp add: frames_def ret_def)

lemma frames_bindS [frames_intro]: "frames f m \<Longrightarrow> (\<And>x. frames f (k x)) \<Longrightarrow> frames f (bindS m k)"
  by (simp add: frames_def bindS_def split_beta)

lemma frames_bindE [frames_intro]: "frames f m \<Longrightarrow> (\<And>x. frames f (k x)) \<Longrightarrow> frames f (bindE m k)"
  unfolding bindE_def by (rule frames_bindS) (auto intro: frames_ret split: sum.splits)

lemma frames_doS [frames_intro]: "frames f m \<Longrightarrow> frames f k \<Longrightarrow> frames f (doS m k)"
  by (simp add: doS_def frames_bindS)

lemma frames_withS [frames_intro]: "(\<And>s. frames f (g s)) \<Longrightarrow> frames f (withS g)"
  by (simp add: frames_def withS_def)

lemma frames_modS: "(\<And>s. f (g s) = f s) \<Longrightarrow> frames f (modS g)"
  by (simp add: frames_def modS_def)

lemma frames_if [frames_intro]: "(b \<Longrightarrow> frames f m) \<Longrightarrow> (\<not> b \<Longrightarrow> frames f n) \<Longrightarrow> frames f (if b then m else n)"
  by simp

lemma frames_case_sum [frames_intro]:
  "(\<And>a. x = Inl a \<Longrightarrow> frames h (f a)) \<Longrightarrow> (\<And>b. x = Inr b \<Longrightarrow> frames h (g b)) \<Longrightarrow>
   frames h (case x of Inl a \<Rightarrow> f a | Inr b \<Rightarrow> g b)"
  by (cases x) auto

lemma frames_case_option [frames_intro]:
  "(x = None \<Longrightarrow> frames h m) \<Longrightarrow> (\<And>a. x = Some a \<Longrightarrow> frames h (f a)) \<Longrightarrow>
   frames h (case x of None \<Rightarrow> m | Some a \<Rightarrow> f a)"
  by (cases x) auto

lemma frames_case_prod [frames_intro]: "(\<And>a b. x = (a, b) \<Longrightarrow> frames h (f a b)) \<Longrightarrow> frames h (case x of (a, b) \<Rightarrow> f a b)"
  by (cases x) auto

lemma frames_Let [frames_intro]: "frames h (f x) \<Longrightarrow> frames h (Let x f)"
  by simp

text \<open>How a run decomposes.\<close>

lemma bindE_Inr_iff:
  "bindE m k s = (Inr y, s') \<longleftrightarrow> (\<exists>x s1. m s = (Inr x, s1) \<and> k x s1 = (Inr y, s'))"
  by (auto simp: prog_defs split: prod.splits sum.splits)

lemma bindS_iff: "bindS m k s = (y, s') \<longleftrightarrow> (\<exists>x s1. m s = (x, s1) \<and> k x s1 = (y, s'))"
  by (auto simp: bindS_def split: prod.splits)

lemma ret_iff: "ret x s = (y, s') \<longleftrightarrow> x = y \<and> s' = s"
  by (auto simp: ret_def)

section \<open>Association lists\<close>

text \<open>
  A hash map that the program iterates over is an association list with distinct keys
  (\<^const>\<open>AList.update\<close> and \<^const>\<open>AList.delete\<close> keep the keys distinct); every use of an iteration
  order in the source is either sorted afterwards or independent of the order.
\<close>

lemma map_of_alist_update [simp]: "map_of (AList.update k v al) = (map_of al)(k \<mapsto> v)"
  by (simp add: AList.update_conv' fun_eq_iff)

lemma map_of_alist_delete [simp]: "map_of (AList.delete k al) = (map_of al)(k := None)"
  by (simp add: AList.delete_conv' fun_eq_iff)

lemma distinct_keys_update: "distinct (map fst al) \<Longrightarrow> distinct (map fst (AList.update k v al))"
  by (rule distinct_update)

lemma distinct_keys_delete: "distinct (map fst al) \<Longrightarrow> distinct (map fst (AList.delete k al))"
  by (rule distinct_delete)

section \<open>Prefixes\<close>

text \<open>\<^verbatim>\<open>starts_with\<close> and \<^verbatim>\<open>strip_prefix\<close> of the standard library.\<close>

definition starts_with :: "bytes \<Rightarrow> bytes \<Rightarrow> bool" where
  "starts_with s p \<longleftrightarrow> take (length p) s = p"

definition strip_prefix :: "bytes \<Rightarrow> bytes \<Rightarrow> bytes option" where
  "strip_prefix s p = (if starts_with s p then Some (drop (length p) s) else None)"

lemma starts_with_append [simp]: "starts_with (p @ s) p"
  by (simp add: starts_with_def)

lemma starts_withD: "starts_with s p \<Longrightarrow> s = p @ drop (length p) s"
  by (metis append_take_drop_id starts_with_def)

lemma starts_with_iff: "starts_with s p \<longleftrightarrow> (\<exists>r. s = p @ r)"
  by (metis starts_withD starts_with_append)

lemma strip_prefix_Some_iff: "strip_prefix s p = Some r \<longleftrightarrow> s = p @ r"
  by (auto simp: strip_prefix_def starts_with_iff)

section \<open>Text formats\<close>

text \<open>
  The contract of a text format the program reads back: a reader \<open>dec\<close> that recovers every
  valid value from the text \<open>enc\<close> writes for it. Two valid values never share a text.
\<close>

locale codec =
  fixes enc :: "'a \<Rightarrow> 'b"
    and dec :: "'b \<Rightarrow> 'a option"
    and valid :: "'a \<Rightarrow> bool"
  assumes dec_enc: "valid x \<Longrightarrow> dec (enc x) = Some x"
begin

lemma enc_inj: "valid x \<Longrightarrow> valid y \<Longrightarrow> enc x = enc y \<Longrightarrow> x = y"
  by (metis dec_enc option.inject)

lemma enc_inj_on: "inj_on enc {x. valid x}"
  by (auto intro!: inj_onI dest: enc_inj)

lemma dec_enc_map: "list_all valid xs \<Longrightarrow> map (\<lambda>x. dec (enc x)) xs = map Some xs"
  by (induction xs) (auto simp: dec_enc)

end

end
