(* ===== verification/Rust_Std.thy ===== *)
theory Rust_Std
  imports Ovl_Prelude
begin

text \<open>
  The parts of the Rust standard library the program computes with: splitting strings,
  parsing and printing integers, UTF-8 validation, searching. Each function follows the
  documented behaviour of the library function it is named after.
\<close>

section \<open>Splitting\<close>

text \<open>\<^verbatim>\<open>s.split(c)\<close>: always at least one piece.\<close>

fun split_on :: "'a \<Rightarrow> 'a list \<Rightarrow> 'a list list" where
  "split_on c [] = [[]]"
| "split_on c (x # xs) =
     (if x = c then [] # split_on c xs
      else case split_on c xs of [] \<Rightarrow> [[x]] | p # ps \<Rightarrow> (x # p) # ps)"

text \<open>\<^verbatim>\<open>s.split_once(c)\<close>.\<close>

fun split_once :: "'a \<Rightarrow> 'a list \<Rightarrow> ('a list \<times> 'a list) option" where
  "split_once c [] = None"
| "split_once c (x # xs) =
     (if x = c then Some ([], xs)
      else map_option (\<lambda>(a, b). (x # a, b)) (split_once c xs))"

text \<open>\<^verbatim>\<open>s.splitn(n, c)\<close>: at most \<open>n\<close> pieces, the last one holds the rest.\<close>

fun splitn_on :: "nat \<Rightarrow> 'a \<Rightarrow> 'a list \<Rightarrow> 'a list list" where
  "splitn_on 0 c xs = []"
| "splitn_on (Suc 0) c xs = [xs]"
| "splitn_on (Suc (Suc n)) c xs =
     (case split_once c xs of None \<Rightarrow> [xs] | Some (a, b) \<Rightarrow> a # splitn_on (Suc n) c b)"

text \<open>\<^verbatim>\<open>slice.iter().rposition(p)\<close>: the split at the last occurrence of \<open>c\<close>.\<close>

fun rsplit_once :: "'a \<Rightarrow> 'a list \<Rightarrow> ('a list \<times> 'a list) option" where
  "rsplit_once c [] = None"
| "rsplit_once c (x # xs) =
     (case rsplit_once c xs of
        Some (a, b) \<Rightarrow> Some (x # a, b)
      | None \<Rightarrow> if x = c then Some ([], xs) else None)"

fun join_with :: "'a list \<Rightarrow> 'a list list \<Rightarrow> 'a list" where
  "join_with sep [] = []"
| "join_with sep [p] = p"
| "join_with sep (p # q # ps) = p @ sep @ join_with sep (q # ps)"

lemma join_with_Cons: "ps \<noteq> [] \<Longrightarrow> join_with sep (p # ps) = p @ sep @ join_with sep ps"
  by (cases ps) auto

lemma split_on_nonempty [simp]: "split_on c xs \<noteq> []"
  by (induction xs) (auto split: list.splits)

lemma split_on_no_sep [simp]: "c \<notin> set xs \<Longrightarrow> split_on c xs = [xs]"
  by (induction xs) auto

lemma split_on_append:
  "c \<notin> set p \<Longrightarrow> split_on c (p @ c # r) = p # split_on c r"
  by (induction p) auto

lemma split_on_join:
  "ps \<noteq> [] \<Longrightarrow> (\<forall>p \<in> set ps. c \<notin> set p) \<Longrightarrow> split_on c (join_with [c] ps) = ps"
  by (induction "[c]" ps rule: join_with.induct) (auto simp: split_on_append)

lemma join_split_on: "join_with [c] (split_on c xs) = xs"
proof (induction xs)
  case (Cons x xs)
  obtain p ps where "split_on c xs = p # ps" by (cases "split_on c xs") auto
  with Cons show ?case by (cases ps) auto
qed simp

lemma split_on_pieces: "p \<in> set (split_on c xs) \<Longrightarrow> c \<notin> set p"
proof (induction xs arbitrary: p)
  case (Cons x xs)
  obtain q qs where q: "split_on c xs = q # qs" by (cases "split_on c xs") auto
  with Cons.IH[of q] Cons.IH have "c \<notin> set q" "\<forall>r \<in> set qs. c \<notin> set r" by auto
  with Cons.prems q show ?case by (auto split: if_splits)
qed simp

lemma split_once_append: "c \<notin> set a \<Longrightarrow> split_once c (a @ c # b) = Some (a, b)"
  by (induction a) auto

lemma split_once_None_iff: "split_once c xs = None \<longleftrightarrow> c \<notin> set xs"
  by (induction xs) auto

lemma split_once_Some: "split_once c xs = Some (a, b) \<Longrightarrow> xs = a @ c # b \<and> c \<notin> set a"
  by (induction xs arbitrary: a) (auto split: if_splits)

lemma rsplit_once_None_iff: "rsplit_once c xs = None \<longleftrightarrow> c \<notin> set xs"
  by (induction xs) (auto split: option.splits)

lemma rsplit_once_Some: "rsplit_once c xs = Some (a, b) \<Longrightarrow> xs = a @ c # b \<and> c \<notin> set b"
  by (induction xs arbitrary: a) (auto simp: rsplit_once_None_iff split: if_splits option.splits)

lemma rsplit_once_append: "c \<notin> set b \<Longrightarrow> rsplit_once c (a @ c # b) = Some (a, b)"
proof (induction a)
  case Nil
  then have "rsplit_once c b = None" by (simp add: rsplit_once_None_iff)
  then show ?case by simp
qed auto

section \<open>Integers in text\<close>

text \<open>\<^verbatim>\<open>char::to_digit\<close> for the radixes 8 and 10 the program uses.\<close>

definition digit_val :: "nat \<Rightarrow> char \<Rightarrow> nat option" where
  "digit_val radix c =
     (let v = of_char c in
      if 48 \<le> v \<and> v < 48 + radix \<and> v \<le> 57 then Some (v - 48) else None)"

fun digits_val :: "nat \<Rightarrow> nat \<Rightarrow> bytes \<Rightarrow> nat option" where
  "digits_val radix acc [] = Some acc"
| "digits_val radix acc (c # cs) =
     (case digit_val radix c of None \<Rightarrow> None | Some d \<Rightarrow> digits_val radix (acc * radix + d) cs)"

text \<open>
  \<^verbatim>\<open>uN::from_str_radix\<close>: empty input, a lone sign, a non-digit and overflow are errors; a
  leading plus sign is accepted.
\<close>

definition parse_unsigned :: "nat \<Rightarrow> nat \<Rightarrow> bytes \<Rightarrow> nat option" where
  "parse_unsigned radix bound s =
     (let ds = (case s of [] \<Rightarrow> [] | c # cs \<Rightarrow> if c = CHR ''+'' then cs else s) in
      if ds = [] then None
      else case digits_val radix 0 ds of
          None \<Rightarrow> None | Some n \<Rightarrow> if n < bound then Some n else None)"

definition parse_u32_radix :: "nat \<Rightarrow> bytes \<Rightarrow> 32 word option" where
  "parse_u32_radix radix s = map_option of_nat (parse_unsigned radix (2 ^ 32) s)"

definition parse_u32 :: "bytes \<Rightarrow> 32 word option" where
  "parse_u32 s = parse_u32_radix 10 s"

definition parse_i32 :: "bytes \<Rightarrow> int option" where
  "parse_i32 s =
     (case s of
        CHR ''-'' # ds \<Rightarrow>
          (if ds = [] \<or> hd ds = CHR ''+'' then None
           else case parse_unsigned 10 (2 ^ 31 + 1) ds of None \<Rightarrow> None | Some n \<Rightarrow> Some (- int n))
      | _ \<Rightarrow> map_option int (parse_unsigned 10 (2 ^ 31) s))"

text \<open>\<^verbatim>\<open>format!("{}", n)\<close> and \<^verbatim>\<open>format!("{:o}", n)\<close>.\<close>

definition digit_char :: "nat \<Rightarrow> char" where
  "digit_char d = char_of (48 + d)"

fun show_digits :: "nat \<Rightarrow> nat \<Rightarrow> bytes" where
  "show_digits radix n =
     (if radix < 2 then [] else if n < radix then [digit_char n]
      else show_digits radix (n div radix) @ [digit_char (n mod radix)])"

declare show_digits.simps [simp del]

definition show_nat :: "nat \<Rightarrow> bytes" where
  "show_nat n = show_digits 10 n"

definition show_octal :: "nat \<Rightarrow> bytes" where
  "show_octal n = show_digits 8 n"

definition show_int :: "int \<Rightarrow> bytes" where
  "show_int i = (if i < 0 then CHR ''-'' # show_nat (nat (- i)) else show_nat (nat i))"

lemma of_char_digit_char: "d < 10 \<Longrightarrow> of_char (digit_char d) = 48 + d"
  by (simp add: digit_char_def)

lemma digit_val_digit_char: "d < radix \<Longrightarrow> radix \<le> 10 \<Longrightarrow> digit_val radix (digit_char d) = Some d"
  by (simp add: digit_val_def of_char_digit_char)

lemma digits_val_append:
  "digits_val radix acc (xs @ ys) =
     (case digits_val radix acc xs of None \<Rightarrow> None | Some n \<Rightarrow> digits_val radix n ys)"
  by (induction xs arbitrary: acc) (auto split: option.splits)

lemma show_digits_nonempty: "2 \<le> radix \<Longrightarrow> show_digits radix n \<noteq> []"
  by (subst show_digits.simps) simp

lemma digits_val_show_digits:
  assumes "2 \<le> radix" "radix \<le> 10"
  shows "digits_val radix 0 (show_digits radix n) = Some n"
proof (induction n rule: less_induct)
  case (less n)
  show ?case
  proof (cases "n < radix")
    case True
    with assms show ?thesis by (subst show_digits.simps) (simp add: digit_val_digit_char)
  next
    case False
    with assms have lt: "n div radix < n" by (simp add: div_less_dividend)
    from False assms less[OF lt] show ?thesis
      by (subst show_digits.simps) (simp add: digits_val_append digit_val_digit_char)
  qed
qed

lemma show_digits_chars:
  assumes "2 \<le> radix" "radix \<le> 10"
  shows "c \<in> set (show_digits radix n) \<Longrightarrow> \<exists>d < radix. c = digit_char d"
proof (induction n rule: less_induct)
  case (less n)
  show ?case
  proof (cases "n < radix")
    case True
    with assms less.prems show ?thesis by (subst (asm) show_digits.simps) auto
  next
    case False
    with assms have lt: "n div radix < n" by (simp add: div_less_dividend)
    from False assms less.prems have "c \<in> set (show_digits radix (n div radix)) \<or> c = digit_char (n mod radix)"
      by (subst (asm) show_digits.simps) auto
    then show ?thesis using less.IH[OF lt] assms by (auto intro: exI[of _ "n mod radix"])
  qed
qed

lemma digit_char_neq:
  assumes "d < 10" and "of_char c < (48::nat) \<or> 57 < (of_char c :: nat)"
  shows "digit_char d \<noteq> c"
  using of_char_digit_char[OF assms(1)] assms by auto

lemma show_digits_no_char:
  assumes "2 \<le> radix" "radix \<le> 10" "of_char c < (48::nat) \<or> 57 < (of_char c :: nat)"
  shows "c \<notin> set (show_digits radix n)"
proof
  assume "c \<in> set (show_digits radix n)"
  then obtain d where "d < radix" "c = digit_char d"
    using show_digits_chars[OF assms(1,2)] by blast
  with digit_char_neq[of d c] assms(2,3) show False by simp
qed

lemma parse_unsigned_show_digits:
  assumes "2 \<le> radix" "radix \<le> 10" "n < bound"
  shows "parse_unsigned radix bound (show_digits radix n) = Some n"
proof -
  have "CHR ''+'' \<notin> set (show_digits radix n)"
    using assms by (intro show_digits_no_char) simp_all
  then have "(case show_digits radix n of [] \<Rightarrow> [] | c # cs \<Rightarrow> if c = CHR ''+'' then cs else show_digits radix n)
      = show_digits radix n"
    by (cases "show_digits radix n") auto
  with assms show ?thesis
    by (simp add: parse_unsigned_def digits_val_show_digits show_digits_nonempty)
qed

lemma parse_u32_show: "parse_u32 (show_nat (unat w)) = Some w"
proof -
  have "unat w < 2 ^ 32" using unsigned_less[of w] by simp
  then show ?thesis
    by (simp add: parse_u32_def parse_u32_radix_def show_nat_def parse_unsigned_show_digits)
qed

lemma parse_u32_octal_show: "parse_u32_radix 8 (show_octal (unat w)) = Some w"
proof -
  have "unat w < 2 ^ 32" using unsigned_less[of w] by simp
  then show ?thesis
    by (simp add: parse_u32_radix_def show_octal_def parse_unsigned_show_digits)
qed

lemma show_nat_no_char:
  "of_char c < (48::nat) \<or> 57 < (of_char c :: nat) \<Longrightarrow> c \<notin> set (show_nat n)"
  unfolding show_nat_def by (rule show_digits_no_char) simp_all

lemma show_octal_no_char:
  "of_char c < (48::nat) \<or> 57 < (of_char c :: nat) \<Longrightarrow> c \<notin> set (show_octal n)"
  unfolding show_octal_def by (rule show_digits_no_char) simp_all

lemma show_nat_nonempty [simp]: "show_nat n \<noteq> []"
  by (simp add: show_nat_def show_digits_nonempty)

lemma show_digits_inj:
  assumes "2 \<le> radix" "radix \<le> 10" "show_digits radix m = show_digits radix n"
  shows "m = n"
  using digits_val_show_digits[OF assms(1,2)] assms(3) by (metis option.inject)

lemma show_nat_inj: "show_nat m = show_nat n \<Longrightarrow> m = n"
  unfolding show_nat_def by (rule show_digits_inj) simp_all

section \<open>UTF-8\<close>

text \<open>
  \<^verbatim>\<open>std::str::from_utf8\<close> succeeds exactly on well-formed UTF-8 (no overlong forms, no
  surrogates, nothing above U+10FFFF).
\<close>

definition byte_in :: "nat \<Rightarrow> nat \<Rightarrow> char \<Rightarrow> bool" where
  "byte_in lo hi c \<longleftrightarrow> lo \<le> of_char c \<and> of_char c \<le> hi"

fun valid_utf8 :: "bytes \<Rightarrow> bool" where
  "valid_utf8 [] = True"
| "valid_utf8 (a # cs) =
     (if byte_in 0 0x7F a then valid_utf8 cs
      else case cs of [] \<Rightarrow> False
      | b # cs' \<Rightarrow>
        if byte_in 0xC2 0xDF a \<and> byte_in 0x80 0xBF b then valid_utf8 cs'
        else case cs' of [] \<Rightarrow> False
        | c # cs'' \<Rightarrow>
          if byte_in 0x80 0xBF c \<and>
             (byte_in 0xE0 0xE0 a \<and> byte_in 0xA0 0xBF b \<or>
              byte_in 0xE1 0xEC a \<and> byte_in 0x80 0xBF b \<or>
              byte_in 0xED 0xED a \<and> byte_in 0x80 0x9F b \<or>
              byte_in 0xEE 0xEF a \<and> byte_in 0x80 0xBF b) then valid_utf8 cs''
          else case cs'' of [] \<Rightarrow> False
          | d # cs''' \<Rightarrow>
            if byte_in 0x80 0xBF c \<and> byte_in 0x80 0xBF d \<and>
               (byte_in 0xF0 0xF0 a \<and> byte_in 0x90 0xBF b \<or>
                byte_in 0xF1 0xF3 a \<and> byte_in 0x80 0xBF b \<or>
                byte_in 0xF4 0xF4 a \<and> byte_in 0x80 0x8F b) then valid_utf8 cs'''
            else False)"

definition from_utf8 :: "bytes \<Rightarrow> bytes option" where
  "from_utf8 s = (if valid_utf8 s then Some s else None)"

lemma valid_utf8_ascii: "(\<forall>c \<in> set s. of_char c \<le> (0x7F::nat)) \<Longrightarrow> valid_utf8 s"
  by (induction s) (auto simp: byte_in_def)

section \<open>Searching\<close>

text \<open>\<^verbatim>\<open>s.find(pat)\<close>, as the split around the first occurrence.\<close>

fun find_sub :: "bytes \<Rightarrow> bytes \<Rightarrow> (bytes \<times> bytes) option" where
  "find_sub pat [] = (if pat = [] then Some ([], []) else None)"
| "find_sub pat (x # xs) =
     (case strip_prefix (x # xs) pat of
        Some r \<Rightarrow> Some ([], r)
      | None \<Rightarrow> map_option (\<lambda>(a, b). (x # a, b)) (find_sub pat xs))"

lemma find_sub_Some: "find_sub pat s = Some (a, b) \<Longrightarrow> s = a @ pat @ b"
  by (induction s arbitrary: a) (auto simp: strip_prefix_Some_iff split: if_splits option.splits)

lemma find_sub_None: "find_sub pat s = None \<Longrightarrow> s \<noteq> a @ pat @ b"
proof (induction s arbitrary: a)
  case (Cons x xs)
  then show ?case
    by (cases a) (auto simp: strip_prefix_Some_iff[symmetric] split: option.splits)
qed (auto split: if_splits)

end
