(* ===== verification/Sys.thy ===== *)
theory Sys
  imports Rust_Std
begin

text \<open>
  \<^verbatim>\<open>src/sys/\<close>: the system-call layer. The kernel and the C library are not part of the
  repository: they are the record \<open>'w os\<close> of functions over an unspecified world \<open>'w\<close>, a
  parameter of every definition that calls them. A call that fails is \<open>Inl errno\<close> (a negative
  return with that \<^verbatim>\<open>errno\<close>); a call that fills a buffer gives the bytes it delivers. Calls that
  only observe (stat, getxattr, readlink, faccessat, reading a directory) have no effect on the world;
  the others return the next world. Descriptors are the raw integers; that dropping an \<^verbatim>\<open>OwnedFd\<close>
  closes it is not part of the world. \<open>hs_order\<close> is the order in which a hash set of ids is iterated.
\<close>

section \<open>Data\<close>

record stat =
  st_dev :: "64 word"
  st_ino :: "64 word"
  st_mode :: mode_t
  st_nlink :: "64 word"
  st_uid :: "32 word"
  st_gid :: "32 word"
  st_rdev :: "64 word"
  st_size :: "64 word"
  st_blksize :: "64 word"
  st_blocks :: "64 word"
  st_atime :: "64 word"
  st_atime_nsec :: "64 word"
  st_mtime :: "64 word"
  st_mtime_nsec :: "64 word"
  st_ctime :: "64 word"
  st_ctime_nsec :: "64 word"

definition zeroed_stat :: stat where
  "zeroed_stat = \<lparr>st_dev = 0, st_ino = 0, st_mode = 0, st_nlink = 0, st_uid = 0, st_gid = 0,
     st_rdev = 0, st_size = 0, st_blksize = 0, st_blocks = 0, st_atime = 0, st_atime_nsec = 0,
     st_mtime = 0, st_mtime_nsec = 0, st_ctime = 0, st_ctime_nsec = 0\<rparr>"

record statx =
  stx_dev_major :: "32 word"
  stx_dev_minor :: "32 word"
  stx_ino :: "64 word"
  stx_mode :: "16 word"
  stx_nlink :: "32 word"
  stx_uid :: "32 word"
  stx_gid :: "32 word"
  stx_rdev_major :: "32 word"
  stx_rdev_minor :: "32 word"
  stx_size :: "64 word"
  stx_blksize :: "32 word"
  stx_blocks :: "64 word"
  stx_atime :: "64 word \<times> 32 word"
  stx_mtime :: "64 word \<times> 32 word"
  stx_ctime :: "64 word \<times> 32 word"

record statvfs =
  f_bsize :: "64 word"
  f_frsize :: "64 word"
  f_blocks :: "64 word"
  f_bfree :: "64 word"
  f_bavail :: "64 word"
  f_files :: "64 word"
  f_ffree :: "64 word"
  f_namemax :: "64 word"
  f_flag :: "64 word"

record timespec =
  tv_sec :: "64 word"
  tv_nsec :: "64 word"

text \<open>One entry delivered by \<^verbatim>\<open>readdir\<close> (\<^verbatim>\<open>RawDirEntry\<close>, and \<^verbatim>\<open>DirEntry\<close> of the DataSource).\<close>

record dir_entry =
  de_name :: bytes
  de_ino :: "64 word"
  de_dtype :: "8 word"

record file_handle =
  handle_bytes :: "32 word"
  handle :: bytes

section \<open>The kernel and the C library\<close>

record 'w os_fs =
  libc_major :: "64 word \<Rightarrow> 32 word"
  libc_minor :: "64 word \<Rightarrow> 32 word"
  libc_makedev :: "32 word \<Rightarrow> 32 word \<Rightarrow> 64 word"
  k_fstat :: "int \<Rightarrow> 'w \<Rightarrow> int + stat"
  k_fstatat :: "int \<Rightarrow> bytes \<Rightarrow> oflags \<Rightarrow> 'w \<Rightarrow> int + stat"
  k_fstatvfs :: "int \<Rightarrow> 'w \<Rightarrow> int + statvfs"
  k_statx :: "int \<Rightarrow> bytes \<Rightarrow> oflags \<Rightarrow> 32 word \<Rightarrow> 'w \<Rightarrow> int + statx"
  k_fchown :: "int \<Rightarrow> 32 word \<Rightarrow> 32 word \<Rightarrow> 'w \<Rightarrow> (int + unit) \<times> 'w"
  k_fchownat :: "int \<Rightarrow> bytes \<Rightarrow> 32 word \<Rightarrow> 32 word \<Rightarrow> oflags \<Rightarrow> 'w \<Rightarrow> (int + unit) \<times> 'w"
  k_fchmod :: "int \<Rightarrow> mode_t \<Rightarrow> 'w \<Rightarrow> (int + unit) \<times> 'w"
  k_fchmodat :: "int \<Rightarrow> bytes \<Rightarrow> mode_t \<Rightarrow> oflags \<Rightarrow> 'w \<Rightarrow> (int + unit) \<times> 'w"
  k_futimens :: "int \<Rightarrow> timespec \<times> timespec \<Rightarrow> 'w \<Rightarrow> (int + unit) \<times> 'w"
  k_utimensat :: "int \<Rightarrow> bytes \<Rightarrow> timespec \<times> timespec \<Rightarrow> oflags \<Rightarrow> 'w \<Rightarrow> (int + unit) \<times> 'w"
  k_mkdirat :: "int \<Rightarrow> bytes \<Rightarrow> mode_t \<Rightarrow> 'w \<Rightarrow> (int + unit) \<times> 'w"
  k_mknodat :: "int \<Rightarrow> bytes \<Rightarrow> mode_t \<Rightarrow> 64 word \<Rightarrow> 'w \<Rightarrow> (int + unit) \<times> 'w"
  k_unlinkat :: "int \<Rightarrow> bytes \<Rightarrow> oflags \<Rightarrow> 'w \<Rightarrow> (int + unit) \<times> 'w"
  k_linkat :: "int \<Rightarrow> bytes \<Rightarrow> int \<Rightarrow> bytes \<Rightarrow> oflags \<Rightarrow> 'w \<Rightarrow> (int + unit) \<times> 'w"
  k_symlinkat :: "bytes \<Rightarrow> int \<Rightarrow> bytes \<Rightarrow> 'w \<Rightarrow> (int + unit) \<times> 'w"
  k_readlinkat :: "int \<Rightarrow> bytes \<Rightarrow> 'w \<Rightarrow> int + bytes"
  k_renameat :: "int \<Rightarrow> bytes \<Rightarrow> int \<Rightarrow> bytes \<Rightarrow> 'w \<Rightarrow> (int + unit) \<times> 'w"
  k_renameat2 :: "int \<Rightarrow> bytes \<Rightarrow> int \<Rightarrow> bytes \<Rightarrow> 32 word \<Rightarrow> 'w \<Rightarrow> (int + unit) \<times> 'w"
  k_fallocate :: "int \<Rightarrow> 32 word \<Rightarrow> 64 word \<Rightarrow> 64 word \<Rightarrow> 'w \<Rightarrow> (int + unit) \<times> 'w"
  k_truncate :: "bytes \<Rightarrow> 64 word \<Rightarrow> 'w \<Rightarrow> (int + unit) \<times> 'w"
  k_realpath :: "bytes \<Rightarrow> 'w \<Rightarrow> int + bytes"
  k_openat2 :: "int \<Rightarrow> bytes \<Rightarrow> 64 word \<Rightarrow> 64 word \<Rightarrow> 64 word \<Rightarrow> 'w \<Rightarrow> (int + int) \<times> 'w"
  k_open :: "bytes \<Rightarrow> oflags \<Rightarrow> mode_t \<Rightarrow> 'w \<Rightarrow> (int + int) \<times> 'w"
  k_faccessat :: "int \<Rightarrow> bytes \<Rightarrow> oflags \<Rightarrow> 'w \<Rightarrow> int + unit"
  k_readdir :: "int \<Rightarrow> 'w \<Rightarrow> int + dir_entry list"
  k_dup :: "int \<Rightarrow> 'w \<Rightarrow> int + int"
  k_name_to_handle_at :: "int \<Rightarrow> bytes \<Rightarrow> oflags \<Rightarrow> 'w \<Rightarrow> int + file_handle"

record 'w os_io = "'w os_fs" +
  k_pread :: "int \<Rightarrow> nat \<Rightarrow> 64 word \<Rightarrow> 'w \<Rightarrow> int + bytes"
  k_pwrite :: "int \<Rightarrow> bytes \<Rightarrow> 64 word \<Rightarrow> 'w \<Rightarrow> (int + nat) \<times> 'w"
  k_read :: "int \<Rightarrow> nat \<Rightarrow> 'w \<Rightarrow> (int + bytes) \<times> 'w"
  k_write :: "int \<Rightarrow> bytes \<Rightarrow> 'w \<Rightarrow> (int + nat) \<times> 'w"
  k_sendfile :: "int \<Rightarrow> int \<Rightarrow> nat \<Rightarrow> 'w \<Rightarrow> (int + nat) \<times> 'w"
  k_copy_file_range :: "int \<Rightarrow> 64 word \<Rightarrow> int \<Rightarrow> 64 word \<Rightarrow> nat \<Rightarrow> 'w \<Rightarrow> (int + nat) \<times> 'w"
  k_fsync :: "int \<Rightarrow> 'w \<Rightarrow> (int + unit) \<times> 'w"
  k_fdatasync :: "int \<Rightarrow> 'w \<Rightarrow> (int + unit) \<times> 'w"
  k_ftruncate :: "int \<Rightarrow> 64 word \<Rightarrow> 'w \<Rightarrow> (int + unit) \<times> 'w"
  k_lseek :: "int \<Rightarrow> 64 word \<Rightarrow> 32 word \<Rightarrow> 'w \<Rightarrow> (int + 64 word) \<times> 'w"
  k_ficlone :: "int \<Rightarrow> int \<Rightarrow> 'w \<Rightarrow> (int + unit) \<times> 'w"
  k_ioctl_long :: "int \<Rightarrow> 64 word \<Rightarrow> 64 word \<Rightarrow> 'w \<Rightarrow> (int + 64 word) \<times> 'w"

record 'w os = "'w os_io" +
  k_fgetxattr :: "int \<Rightarrow> bytes \<Rightarrow> nat \<Rightarrow> 'w \<Rightarrow> int + bytes"
  k_lgetxattr :: "bytes \<Rightarrow> bytes \<Rightarrow> nat \<Rightarrow> 'w \<Rightarrow> int + bytes"
  k_fsetxattr :: "int \<Rightarrow> bytes \<Rightarrow> bytes \<Rightarrow> 32 word \<Rightarrow> 'w \<Rightarrow> (int + unit) \<times> 'w"
  k_lsetxattr :: "bytes \<Rightarrow> bytes \<Rightarrow> bytes \<Rightarrow> 32 word \<Rightarrow> 'w \<Rightarrow> (int + unit) \<times> 'w"
  k_llistxattr :: "bytes \<Rightarrow> nat \<Rightarrow> 'w \<Rightarrow> int + bytes"
  k_flistxattr :: "int \<Rightarrow> nat \<Rightarrow> 'w \<Rightarrow> int + bytes"
  k_lremovexattr :: "bytes \<Rightarrow> bytes \<Rightarrow> 'w \<Rightarrow> (int + unit) \<times> 'w"
  hs_order :: "nat list \<Rightarrow> nat list"
  k_open_backing :: "int \<Rightarrow> 'w \<Rightarrow> (int + nat) \<times> 'w"

section \<open>Wrappers\<close>

text \<open>\<^verbatim>\<open>if ret < 0 { Err(FsError::last()) } else { Ok(..) }\<close>.\<close>

definition lift_obs :: "int + 'a \<Rightarrow> 'a fs_result" where
  "lift_obs r = (case r of Inl e \<Rightarrow> Inl (FsError e) | Inr x \<Rightarrow> Inr x)"

definition lift_eff :: "('w \<Rightarrow> (int + 'a) \<times> 'w) \<Rightarrow> ('w, 'a fs_result) prog" where
  "lift_eff f = (\<lambda>w. case f w of (r, w') \<Rightarrow> (lift_obs r, w'))"

lemma lift_obs_Inr_iff [simp]: "lift_obs r = Inr x \<longleftrightarrow> r = Inr x"
  by (cases r) (auto simp: lift_obs_def)

lemma lift_obs_Inl_iff [simp]: "lift_obs r = Inl (FsError e) \<longleftrightarrow> r = Inl e"
  by (cases r) (auto simp: lift_obs_def)

subsection \<open>fs.rs\<close>

definition fstat :: "'w os \<Rightarrow> int \<Rightarrow> 'w \<Rightarrow> stat fs_result" where
  "fstat os fd w = lift_obs (k_fstat os fd w)"

definition fstatat :: "'w os \<Rightarrow> int \<Rightarrow> bytes \<Rightarrow> oflags \<Rightarrow> 'w \<Rightarrow> stat fs_result" where
  "fstatat os dirfd path flags w = lift_obs (k_fstatat os dirfd path flags w)"

definition fstatvfs :: "'w os \<Rightarrow> int \<Rightarrow> 'w \<Rightarrow> statvfs fs_result" where
  "fstatvfs os fd w = lift_obs (k_fstatvfs os fd w)"

definition statx_call :: "'w os \<Rightarrow> int \<Rightarrow> bytes \<Rightarrow> oflags \<Rightarrow> 32 word \<Rightarrow> 'w \<Rightarrow> statx fs_result" where
  "statx_call os dirfd path flags msk w = lift_obs (k_statx os dirfd path flags msk w)"

definition fchown :: "'w os \<Rightarrow> int \<Rightarrow> 32 word \<Rightarrow> 32 word \<Rightarrow> ('w, unit fs_result) prog" where
  "fchown os fd u g = lift_eff (k_fchown os fd u g)"

definition fchownat ::
  "'w os \<Rightarrow> int \<Rightarrow> bytes \<Rightarrow> 32 word \<Rightarrow> 32 word \<Rightarrow> oflags \<Rightarrow> ('w, unit fs_result) prog" where
  "fchownat os dirfd path u g flags = lift_eff (k_fchownat os dirfd path u g flags)"

definition fchmod :: "'w os \<Rightarrow> int \<Rightarrow> mode_t \<Rightarrow> ('w, unit fs_result) prog" where
  "fchmod os fd mode = lift_eff (k_fchmod os fd mode)"

definition fchmodat :: "'w os \<Rightarrow> int \<Rightarrow> bytes \<Rightarrow> mode_t \<Rightarrow> oflags \<Rightarrow> ('w, unit fs_result) prog" where
  "fchmodat os dirfd path mode flags = lift_eff (k_fchmodat os dirfd path mode flags)"

definition futimens :: "'w os \<Rightarrow> int \<Rightarrow> timespec \<times> timespec \<Rightarrow> ('w, unit fs_result) prog" where
  "futimens os fd ts = lift_eff (k_futimens os fd ts)"

definition utimensat ::
  "'w os \<Rightarrow> int \<Rightarrow> bytes \<Rightarrow> timespec \<times> timespec \<Rightarrow> oflags \<Rightarrow> ('w, unit fs_result) prog" where
  "utimensat os dirfd path ts flags = lift_eff (k_utimensat os dirfd path ts flags)"

definition mkdirat :: "'w os \<Rightarrow> int \<Rightarrow> bytes \<Rightarrow> mode_t \<Rightarrow> ('w, unit fs_result) prog" where
  "mkdirat os dirfd path mode = lift_eff (k_mkdirat os dirfd path mode)"

definition mknodat :: "'w os \<Rightarrow> int \<Rightarrow> bytes \<Rightarrow> mode_t \<Rightarrow> 64 word \<Rightarrow> ('w, unit fs_result) prog" where
  "mknodat os dirfd path mode dev = lift_eff (k_mknodat os dirfd path mode dev)"

definition unlinkat :: "'w os \<Rightarrow> int \<Rightarrow> bytes \<Rightarrow> oflags \<Rightarrow> ('w, unit fs_result) prog" where
  "unlinkat os dirfd path flags = lift_eff (k_unlinkat os dirfd path flags)"

definition linkat ::
  "'w os \<Rightarrow> int \<Rightarrow> bytes \<Rightarrow> int \<Rightarrow> bytes \<Rightarrow> oflags \<Rightarrow> ('w, unit fs_result) prog" where
  "linkat os od op nd np flags = lift_eff (k_linkat os od op nd np flags)"

definition symlinkat :: "'w os \<Rightarrow> bytes \<Rightarrow> int \<Rightarrow> bytes \<Rightarrow> ('w, unit fs_result) prog" where
  "symlinkat os target dirfd path = lift_eff (k_symlinkat os target dirfd path)"

definition readlinkat :: "'w os \<Rightarrow> int \<Rightarrow> bytes \<Rightarrow> 'w \<Rightarrow> bytes fs_result" where
  "readlinkat os dirfd path w = lift_obs (k_readlinkat os dirfd path w)"

definition renameat :: "'w os \<Rightarrow> int \<Rightarrow> bytes \<Rightarrow> int \<Rightarrow> bytes \<Rightarrow> ('w, unit fs_result) prog" where
  "renameat os od op nd np = lift_eff (k_renameat os od op nd np)"

definition renameat2 ::
  "'w os \<Rightarrow> int \<Rightarrow> bytes \<Rightarrow> int \<Rightarrow> bytes \<Rightarrow> 32 word \<Rightarrow> ('w, unit fs_result) prog" where
  "renameat2 os od op nd np flags = lift_eff (k_renameat2 os od op nd np flags)"

definition fallocate :: "'w os \<Rightarrow> int \<Rightarrow> 32 word \<Rightarrow> 64 word \<Rightarrow> 64 word \<Rightarrow> ('w, unit fs_result) prog" where
  "fallocate os fd mode off len = lift_eff (k_fallocate os fd mode off len)"

definition truncate :: "'w os \<Rightarrow> bytes \<Rightarrow> 64 word \<Rightarrow> ('w, unit fs_result) prog" where
  "truncate os path len = lift_eff (k_truncate os path len)"

definition realpath :: "'w os \<Rightarrow> bytes \<Rightarrow> 'w \<Rightarrow> bytes fs_result" where
  "realpath os path w = lift_obs (k_realpath os path w)"

subsection \<open>io.rs\<close>

definition pread :: "'w os \<Rightarrow> int \<Rightarrow> nat \<Rightarrow> 64 word \<Rightarrow> 'w \<Rightarrow> bytes fs_result" where
  "pread os fd n off w = lift_obs (k_pread os fd n off w)"

definition pwrite :: "'w os \<Rightarrow> int \<Rightarrow> bytes \<Rightarrow> 64 word \<Rightarrow> ('w, nat fs_result) prog" where
  "pwrite os fd buf off = lift_eff (k_pwrite os fd buf off)"

definition io_read :: "'w os \<Rightarrow> int \<Rightarrow> nat \<Rightarrow> ('w, bytes fs_result) prog" where
  "io_read os fd n = lift_eff (k_read os fd n)"

definition io_write :: "'w os \<Rightarrow> int \<Rightarrow> bytes \<Rightarrow> ('w, nat fs_result) prog" where
  "io_write os fd buf = lift_eff (k_write os fd buf)"

definition sendfile :: "'w os \<Rightarrow> int \<Rightarrow> int \<Rightarrow> nat \<Rightarrow> ('w, nat fs_result) prog" where
  "sendfile os out_fd in_fd count = lift_eff (k_sendfile os out_fd in_fd count)"

definition copy_file_range_call ::
  "'w os \<Rightarrow> int \<Rightarrow> 64 word \<Rightarrow> int \<Rightarrow> 64 word \<Rightarrow> nat \<Rightarrow> ('w, nat fs_result) prog" where
  "copy_file_range_call os fi oi fo oo len = lift_eff (k_copy_file_range os fi oi fo oo len)"

definition fsync_call :: "'w os \<Rightarrow> int \<Rightarrow> ('w, unit fs_result) prog" where
  "fsync_call os fd = lift_eff (k_fsync os fd)"

definition fdatasync :: "'w os \<Rightarrow> int \<Rightarrow> ('w, unit fs_result) prog" where
  "fdatasync os fd = lift_eff (k_fdatasync os fd)"

definition ftruncate :: "'w os \<Rightarrow> int \<Rightarrow> 64 word \<Rightarrow> ('w, unit fs_result) prog" where
  "ftruncate os fd len = lift_eff (k_ftruncate os fd len)"

definition lseek_call :: "'w os \<Rightarrow> int \<Rightarrow> 64 word \<Rightarrow> 32 word \<Rightarrow> ('w, (64 word) fs_result) prog" where
  "lseek_call os fd off whence = lift_eff (k_lseek os fd off whence)"

definition ficlone :: "'w os \<Rightarrow> int \<Rightarrow> int \<Rightarrow> ('w, unit fs_result) prog" where
  "ficlone os dst src = lift_eff (k_ficlone os dst src)"

definition ioctl_long :: "'w os \<Rightarrow> int \<Rightarrow> 64 word \<Rightarrow> 64 word \<Rightarrow> ('w, (64 word) fs_result) prog" where
  "ioctl_long os fd cmd val = lift_eff (k_ioctl_long os fd cmd val)"

subsection \<open>xattr.rs\<close>

text \<open>Names and paths pass through \<^verbatim>\<open>CString\<close> first, in the order of the source.\<close>

definition with_cstr :: "bytes \<Rightarrow> (bytes \<Rightarrow> 'a fs_result) \<Rightarrow> 'a fs_result" where
  "with_cstr s f = (case cstr_bytes s of Inl e \<Rightarrow> Inl e | Inr c \<Rightarrow> f c)"

definition with_cstrP :: "bytes \<Rightarrow> (bytes \<Rightarrow> ('w, 'a fs_result) prog) \<Rightarrow> ('w, 'a fs_result) prog" where
  "with_cstrP s f = (case cstr_bytes s of Inl e \<Rightarrow> ret (Inl e) | Inr c \<Rightarrow> f c)"

definition fgetxattr :: "'w os \<Rightarrow> int \<Rightarrow> bytes \<Rightarrow> nat \<Rightarrow> 'w \<Rightarrow> bytes fs_result" where
  "fgetxattr os fd name n w = with_cstr name (\<lambda>c. lift_obs (k_fgetxattr os fd c n w))"

definition lgetxattr :: "'w os \<Rightarrow> bytes \<Rightarrow> bytes \<Rightarrow> nat \<Rightarrow> 'w \<Rightarrow> bytes fs_result" where
  "lgetxattr os path name n w =
     with_cstr path (\<lambda>p. with_cstr name (\<lambda>c. lift_obs (k_lgetxattr os p c n w)))"

definition fsetxattr :: "'w os \<Rightarrow> int \<Rightarrow> bytes \<Rightarrow> bytes \<Rightarrow> 32 word \<Rightarrow> ('w, unit fs_result) prog" where
  "fsetxattr os fd name val flags = with_cstrP name (\<lambda>c. lift_eff (k_fsetxattr os fd c val flags))"

definition lsetxattr :: "'w os \<Rightarrow> bytes \<Rightarrow> bytes \<Rightarrow> bytes \<Rightarrow> 32 word \<Rightarrow> ('w, unit fs_result) prog" where
  "lsetxattr os path name val flags =
     with_cstrP path (\<lambda>p. with_cstrP name (\<lambda>c. lift_eff (k_lsetxattr os p c val flags)))"

definition llistxattr :: "'w os \<Rightarrow> bytes \<Rightarrow> nat \<Rightarrow> 'w \<Rightarrow> bytes fs_result" where
  "llistxattr os path n w = with_cstr path (\<lambda>p. lift_obs (k_llistxattr os p n w))"

definition flistxattr :: "'w os \<Rightarrow> int \<Rightarrow> nat \<Rightarrow> 'w \<Rightarrow> bytes fs_result" where
  "flistxattr os fd n w = lift_obs (k_flistxattr os fd n w)"

definition lremovexattr :: "'w os \<Rightarrow> bytes \<Rightarrow> bytes \<Rightarrow> ('w, unit fs_result) prog" where
  "lremovexattr os path name =
     with_cstrP path (\<lambda>p. with_cstrP name (\<lambda>c. lift_eff (k_lremovexattr os p c)))"

subsection \<open>dir.rs\<close>

text \<open>
  A directory stream is the list of entries it will still deliver, taken when it is opened;
  \<^verbatim>\<open>next_entry\<close> takes the first one.
\<close>

definition dir_stream_from_fd :: "'w os \<Rightarrow> int \<Rightarrow> 'w \<Rightarrow> dir_entry list fs_result" where
  "dir_stream_from_fd os fd w = lift_obs (k_readdir os fd w)"

definition dir_stream_from_raw_fd :: "'w os \<Rightarrow> int \<Rightarrow> 'w \<Rightarrow> dir_entry list fs_result" where
  "dir_stream_from_raw_fd os fd w =
     (case k_dup os fd w of
        Inl e \<Rightarrow> Inl (FsError e)
      | Inr dup_fd \<Rightarrow> lift_obs (k_readdir os dup_fd w))"

definition next_entry :: "dir_entry list \<Rightarrow> (dir_entry \<times> dir_entry list) option" where
  "next_entry stream = (case stream of [] \<Rightarrow> None | e # rest \<Rightarrow> Some (e, rest))"

subsection \<open>openat2.rs\<close>

definition RESOLVE_IN_ROOT :: "64 word" where "RESOLVE_IN_ROOT = 0x10"

definition VALID_OPEN_FLAGS :: "64 word" where
  "VALID_OPEN_FLAGS = ucast (O_RDONLY OR O_WRONLY OR O_RDWR OR O_CREAT OR O_EXCL OR O_NOCTTY OR
     O_TRUNC OR O_APPEND OR O_NONBLOCK OR O_SYNC OR O_DSYNC OR O_DIRECT OR O_LARGEFILE OR
     O_DIRECTORY OR O_NOFOLLOW OR O_NOATIME OR O_CLOEXEC OR O_PATH OR O_TMPFILE)"

definition syscall_openat2 ::
  "'w os \<Rightarrow> int \<Rightarrow> bytes \<Rightarrow> 64 word \<Rightarrow> 64 word \<Rightarrow> 64 word \<Rightarrow> 'w \<Rightarrow> (int + int) \<times> 'w" where
  "syscall_openat2 os dirfd path flags mode resolve =
     k_openat2 os dirfd path (flags AND VALID_OPEN_FLAGS)
       (if flags AND ucast O_CREAT \<noteq> 0 then mode AND 0xFFF else 0) resolve"

definition safe_openat :: "'w os \<Rightarrow> int \<Rightarrow> bytes \<Rightarrow> oflags \<Rightarrow> mode_t \<Rightarrow> ('w, int fs_result) prog" where
  "safe_openat os dirfd pathname flags mode =
     with_cstrP pathname (\<lambda>c.
       lift_eff (syscall_openat2 os dirfd c (scast flags) (ucast mode) RESOLVE_IN_ROOT))"

definition open_trusted :: "'w os \<Rightarrow> bytes \<Rightarrow> oflags \<Rightarrow> mode_t \<Rightarrow> ('w, int fs_result) prog" where
  "open_trusted os path flags mode = with_cstrP path (\<lambda>c. lift_eff (k_open os c flags mode))"

definition open_parent_safe ::
  "'w os \<Rightarrow> int \<Rightarrow> bytes \<Rightarrow> ('w, (int option \<times> bytes) fs_result) prog" where
  "open_parent_safe os dirfd path =
     (case rsplit_once (CHR ''/'') path of
        Some (parent, basename) \<Rightarrow>
          bindE (safe_openat os dirfd parent (O_DIRECTORY OR O_PATH) 0)
            (\<lambda>parent_fd. ok (Some parent_fd, basename))
      | None \<Rightarrow> ok (None, path))"

definition open_parent_safe_cstr ::
  "'w os \<Rightarrow> int \<Rightarrow> bytes \<Rightarrow> ('w, (int \<times> bytes) fs_result) prog" where
  "open_parent_safe_cstr os dirfd path =
     bindE (open_parent_safe os dirfd path) (\<lambda>(parent_fd, basename).
       with_cstrP basename (\<lambda>c_name.
         ok (case parent_fd of Some f \<Rightarrow> f | None \<Rightarrow> dirfd, c_name)))"

definition proc_fd_path :: "int \<Rightarrow> bytes \<Rightarrow> bytes" where
  "proc_fd_path fd basename = ''/proc/self/fd/'' @ show_int fd @ ''/'' @ basename"

definition file_exists_at :: "'w os \<Rightarrow> int \<Rightarrow> bytes \<Rightarrow> 'w \<Rightarrow> bool" where
  "file_exists_at os dirfd pathname w =
     (case cstr_bytes pathname of
        Inl _ \<Rightarrow> False
      | Inr c \<Rightarrow>
          (case k_faccessat os dirfd c (AT_SYMLINK_NOFOLLOW OR AT_EACCESS) w of
             Inr _ \<Rightarrow> True
           | Inl e \<Rightarrow>
               if e = EINVAL
               then (case k_fstatat os dirfd c AT_SYMLINK_NOFOLLOW w of Inr _ \<Rightarrow> True | Inl _ \<Rightarrow> False)
               else False))"

subsection \<open>statx.rs and handle.rs\<close>

abbreviation (input) STATX_TYPE :: "32 word" where "STATX_TYPE \<equiv> 0x1"
abbreviation (input) STATX_MODE :: "32 word" where "STATX_MODE \<equiv> 0x2"
abbreviation (input) STATX_INO :: "32 word" where "STATX_INO \<equiv> 0x100"
abbreviation STATX_BASIC_STATS :: "32 word" where "STATX_BASIC_STATS \<equiv> 0x7FF"

definition statx_to_stat :: "'w os \<Rightarrow> statx \<Rightarrow> stat" where
  "statx_to_stat os stx =
     \<lparr>st_dev = libc_makedev os (stx_dev_major stx) (stx_dev_minor stx), st_ino = stx_ino stx,
      st_mode = ucast (stx_mode stx), st_nlink = ucast (stx_nlink stx), st_uid = stx_uid stx,
      st_gid = stx_gid stx, st_rdev = libc_makedev os (stx_rdev_major stx) (stx_rdev_minor stx),
      st_size = stx_size stx, st_blksize = ucast (stx_blksize stx), st_blocks = stx_blocks stx,
      st_atime = fst (stx_atime stx), st_atime_nsec = ucast (snd (stx_atime stx)),
      st_mtime = fst (stx_mtime stx), st_mtime_nsec = ucast (snd (stx_mtime stx)),
      st_ctime = fst (stx_ctime stx), st_ctime_nsec = ucast (snd (stx_ctime stx))\<rparr>"

text \<open>The handle bytes are the first \<^verbatim>\<open>handle_bytes\<close> of the 128-byte buffer.\<close>

definition name_to_handle_at :: "'w os \<Rightarrow> int \<Rightarrow> bytes \<Rightarrow> oflags \<Rightarrow> 'w \<Rightarrow> file_handle fs_result" where
  "name_to_handle_at os dirfd pathname flags w =
     with_cstr pathname (\<lambda>c. lift_obs (k_name_to_handle_at os dirfd c flags w))"

fun fnv1a_go :: "64 word \<Rightarrow> bytes \<Rightarrow> 64 word" where
  "fnv1a_go h [] = h"
| "fnv1a_go h (b # bs) = fnv1a_go ((h XOR of_nat (of_char b)) * 0x100000001b3) bs"

definition fnv1a_hash :: "bytes \<Rightarrow> 64 word" where
  "fnv1a_hash data = fnv1a_go 0xcbf29ce484222325 data"

section \<open>What the wrappers guarantee\<close>

lemma cstr_bytes_Inr: "cstr_bytes s = Inr c \<longleftrightarrow> c = s \<and> CHR 0x00 \<notin> set s"
  by (auto simp: cstr_bytes_def)

lemma scast_ucast_and_valid: "(flags AND VALID_OPEN_FLAGS) AND NOT VALID_OPEN_FLAGS = 0"
  by (simp add: and.assoc)

lemma lift_eff_Inr: "lift_eff f w = (Inr x, w') \<longleftrightarrow> f w = (Inr x, w')"
  by (auto simp: lift_eff_def split: prod.splits)

lemma lift_eff_Inl: "lift_eff f w = (Inl (FsError e), w') \<longleftrightarrow> f w = (Inl e, w')"
  by (auto simp: lift_eff_def split: prod.splits)

text \<open>
  Every open on behalf of a user goes through \<^verbatim>\<open>openat2\<close> with \<^verbatim>\<open>RESOLVE_IN_ROOT\<close>, only known flags,
  a mode only when the file may be created, and no NUL byte in the path.
\<close>

lemma safe_openat_call:
  assumes "safe_openat os dirfd path flags mode w = (Inr fd, w')"
  obtains f m where "k_openat2 os dirfd path f m RESOLVE_IN_ROOT w = (Inr fd, w')"
    and "f AND NOT VALID_OPEN_FLAGS = 0" and "CHR 0x00 \<notin> set path"
    and "m \<noteq> 0 \<Longrightarrow> f AND ucast O_CREAT \<noteq> 0"
proof -
  from assms have p: "CHR 0x00 \<notin> set path"
    and call: "syscall_openat2 os dirfd path (scast flags) (ucast mode) RESOLVE_IN_ROOT w = (Inr fd, w')"
    by (auto simp: safe_openat_def with_cstrP_def cstr_bytes_Inr lift_eff_Inr ret_def split: sum.splits)
  have oc: "VALID_OPEN_FLAGS AND ucast O_CREAT = ucast O_CREAT"
    by (simp add: VALID_OPEN_FLAGS_def)
  show ?thesis
    by (rule that[of "scast flags AND VALID_OPEN_FLAGS"
          "if scast flags AND ucast O_CREAT \<noteq> (0::64 word) then ucast mode AND 0xFFF else 0"])
      (use call p oc in \<open>auto simp: syscall_openat2_def scast_ucast_and_valid and.assoc\<close>)
qed

lemma open_parent_safe_Inr:
  assumes "open_parent_safe os dirfd path w = (Inr (pfd, base), w')"
  shows "CHR ''/'' \<notin> set base \<and>
         (case pfd of None \<Rightarrow> base = path \<and> w' = w | Some _ \<Rightarrow> \<exists>parent. path = parent @ ''/'' @ base)"
  using assms rsplit_once_Some[of "CHR ''/''" path] rsplit_once_None_iff[of "CHR ''/''" path]
  by (auto simp: open_parent_safe_def prog_defs split: option.splits prod.splits sum.splits)

section \<open>A kernel that refuses every call\<close>

text \<open>
  The base from which concrete kernels for evaluated examples are made, by overriding the calls
  the example needs. The device number functions use eight bits for the minor number.
\<close>

definition refusing_os :: "'w os" where
  "refusing_os =
     \<lparr>libc_major = (\<lambda>d. ucast (drop_bit 8 d)),
      libc_minor = (\<lambda>d. ucast (d AND 0xFF)),
      libc_makedev = (\<lambda>a b. push_bit 8 (ucast a) OR ucast b),
      k_fstat = (\<lambda>_ w. Inl ENOSYS),
      k_fstatat = (\<lambda>_ _ _ w. Inl ENOSYS),
      k_fstatvfs = (\<lambda>_ w. Inl ENOSYS),
      k_statx = (\<lambda>_ _ _ _ w. Inl ENOSYS),
      k_fchown = (\<lambda>_ _ _ w. (Inl ENOSYS, w)),
      k_fchownat = (\<lambda>_ _ _ _ _ w. (Inl ENOSYS, w)),
      k_fchmod = (\<lambda>_ _ w. (Inl ENOSYS, w)),
      k_fchmodat = (\<lambda>_ _ _ _ w. (Inl ENOSYS, w)),
      k_futimens = (\<lambda>_ _ w. (Inl ENOSYS, w)),
      k_utimensat = (\<lambda>_ _ _ _ w. (Inl ENOSYS, w)),
      k_mkdirat = (\<lambda>_ _ _ w. (Inl ENOSYS, w)),
      k_mknodat = (\<lambda>_ _ _ _ w. (Inl ENOSYS, w)),
      k_unlinkat = (\<lambda>_ _ _ w. (Inl ENOSYS, w)),
      k_linkat = (\<lambda>_ _ _ _ _ w. (Inl ENOSYS, w)),
      k_symlinkat = (\<lambda>_ _ _ w. (Inl ENOSYS, w)),
      k_readlinkat = (\<lambda>_ _ w. Inl ENOSYS),
      k_renameat = (\<lambda>_ _ _ _ w. (Inl ENOSYS, w)),
      k_renameat2 = (\<lambda>_ _ _ _ _ w. (Inl ENOSYS, w)),
      k_fallocate = (\<lambda>_ _ _ _ w. (Inl ENOSYS, w)),
      k_truncate = (\<lambda>_ _ w. (Inl ENOSYS, w)),
      k_realpath = (\<lambda>_ w. Inl ENOSYS),
      k_openat2 = (\<lambda>_ _ _ _ _ w. (Inl ENOSYS, w)),
      k_open = (\<lambda>_ _ _ w. (Inl ENOSYS, w)),
      k_faccessat = (\<lambda>_ _ _ w. Inl ENOSYS),
      k_readdir = (\<lambda>_ w. Inl ENOSYS),
      k_dup = (\<lambda>_ w. Inl ENOSYS),
      k_name_to_handle_at = (\<lambda>_ _ _ w. Inl ENOSYS),
      k_pread = (\<lambda>_ _ _ w. Inl ENOSYS),
      k_pwrite = (\<lambda>_ _ _ w. (Inl ENOSYS, w)),
      k_read = (\<lambda>_ _ w. (Inl ENOSYS, w)),
      k_write = (\<lambda>_ _ w. (Inl ENOSYS, w)),
      k_sendfile = (\<lambda>_ _ _ w. (Inl ENOSYS, w)),
      k_copy_file_range = (\<lambda>_ _ _ _ _ w. (Inl ENOSYS, w)),
      k_fsync = (\<lambda>_ w. (Inl ENOSYS, w)),
      k_fdatasync = (\<lambda>_ w. (Inl ENOSYS, w)),
      k_ftruncate = (\<lambda>_ _ w. (Inl ENOSYS, w)),
      k_lseek = (\<lambda>_ _ _ w. (Inl ENOSYS, w)),
      k_ficlone = (\<lambda>_ _ w. (Inl ENOSYS, w)),
      k_ioctl_long = (\<lambda>_ _ _ w. (Inl ENOSYS, w)),
      k_fgetxattr = (\<lambda>_ _ _ w. Inl ENOSYS),
      k_lgetxattr = (\<lambda>_ _ _ w. Inl ENOSYS),
      k_fsetxattr = (\<lambda>_ _ _ _ w. (Inl ENOSYS, w)),
      k_lsetxattr = (\<lambda>_ _ _ _ w. (Inl ENOSYS, w)),
      k_llistxattr = (\<lambda>_ _ w. Inl ENOSYS),
      k_flistxattr = (\<lambda>_ _ w. Inl ENOSYS),
      k_lremovexattr = (\<lambda>_ _ w. (Inl ENOSYS, w)),
      hs_order = (\<lambda>xs. xs),
      k_open_backing = (\<lambda>_ w. (Inl ENOSYS, w))\<rparr>"

end
