(* ===== verification/Xattr.thy ===== *)
theory Xattr
  imports Rust_Std
begin

text \<open>
  \<^verbatim>\<open>src/xattr.rs\<close>: the name space of extended attributes. The overlay keeps its own marks
  (opaque directories, stat overrides) in attributes it hides from users; in the containers mode
  a user's attribute with a reserved name is stored under an encoded name. Shown: a stored
  name is never one of the overlay's own, encoding and decoding are inverse on the names that do
  not look encoded, listing shows exactly the decoded visible names, and the aliasing that
  remains for names that do look encoded.
\<close>

datatype stat_override_mode = SomNone | SomUser | SomPrivileged | SomContainers

definition XATTR_PREFIX :: bytes where "XATTR_PREFIX = ''user.fuseoverlayfs.''"
definition OPAQUE_XATTR :: bytes where "OPAQUE_XATTR = ''user.fuseoverlayfs.opaque''"
definition XATTR_CONTAINERS_OVERRIDE_PREFIX :: bytes where
  "XATTR_CONTAINERS_OVERRIDE_PREFIX = ''user.containers.override_''"
definition UNPRIVILEGED_XATTR_PREFIX :: bytes where "UNPRIVILEGED_XATTR_PREFIX = ''user.overlay.''"
definition UNPRIVILEGED_OPAQUE_XATTR :: bytes where "UNPRIVILEGED_OPAQUE_XATTR = ''user.overlay.opaque''"
definition PRIVILEGED_XATTR_PREFIX :: bytes where "PRIVILEGED_XATTR_PREFIX = ''trusted.overlay.''"
definition PRIVILEGED_OPAQUE_XATTR :: bytes where "PRIVILEGED_OPAQUE_XATTR = ''trusted.overlay.opaque''"
definition XATTR_SECURITY_PREFIX :: bytes where "XATTR_SECURITY_PREFIX = ''security.''"
definition OPAQUE_WHITEOUT :: bytes where "OPAQUE_WHITEOUT = ''.wh..wh..opq''"
definition XATTR_OVERRIDE_STAT :: bytes where "XATTR_OVERRIDE_STAT = ''user.fuseoverlayfs.override_stat''"
definition XATTR_PRIVILEGED_OVERRIDE_STAT :: bytes where
  "XATTR_PRIVILEGED_OVERRIDE_STAT = ''security.fuseoverlayfs.override_stat''"
definition XATTR_OVERRIDE_CONTAINERS_STAT :: bytes where
  "XATTR_OVERRIDE_CONTAINERS_STAT = ''user.containers.override_stat''"

lemmas xattr_consts = XATTR_PREFIX_def OPAQUE_XATTR_def XATTR_CONTAINERS_OVERRIDE_PREFIX_def
  UNPRIVILEGED_XATTR_PREFIX_def UNPRIVILEGED_OPAQUE_XATTR_def PRIVILEGED_XATTR_PREFIX_def
  PRIVILEGED_OPAQUE_XATTR_def XATTR_SECURITY_PREFIX_def

section \<open>Operations\<close>

definition can_access_xattr :: "bytes \<Rightarrow> stat_override_mode \<Rightarrow> bool" where
  "can_access_xattr name mode =
     (if starts_with name XATTR_PREFIX then False
      else if starts_with name PRIVILEGED_XATTR_PREFIX then False
      else if starts_with name UNPRIVILEGED_XATTR_PREFIX then False
      else if mode = SomContainers \<and> starts_with name XATTR_SECURITY_PREFIX then False
      else True)"

definition is_encoded_xattr_name :: "bytes \<Rightarrow> stat_override_mode \<Rightarrow> bool" where
  "is_encoded_xattr_name name mode =
     (if \<not> starts_with name XATTR_CONTAINERS_OVERRIDE_PREFIX then False
      else \<not> can_access_xattr (drop (length XATTR_CONTAINERS_OVERRIDE_PREFIX) name) mode)"

definition decode_xattr_name :: "bytes \<Rightarrow> stat_override_mode \<Rightarrow> bytes option" where
  "decode_xattr_name name mode =
     (if is_encoded_xattr_name name mode then Some (drop (length XATTR_CONTAINERS_OVERRIDE_PREFIX) name)
      else if can_access_xattr name mode then Some name
      else None)"

definition encode_xattr_name :: "bytes \<Rightarrow> stat_override_mode \<Rightarrow> bytes option" where
  "encode_xattr_name name mode =
     (if can_access_xattr name mode then Some name
      else if mode \<noteq> SomContainers then None
      else if length name + length XATTR_CONTAINERS_OVERRIDE_PREFIX > 255 then None
      else Some (XATTR_CONTAINERS_OVERRIDE_PREFIX @ name))"

text \<open>The loop of \<^verbatim>\<open>filter_xattr_list\<close> over the NUL-separated names, with \<open>result\<close> the output so far.\<close>

fun filter_names :: "bytes list \<Rightarrow> stat_override_mode \<Rightarrow> bytes \<Rightarrow> bytes" where
  "filter_names [] mode result = result"
| "filter_names (n # ns) mode result =
     (if n = [] then filter_names ns mode result
      else case from_utf8 n of
          None \<Rightarrow> filter_names ns mode result
        | Some name \<Rightarrow>
            (case decode_xattr_name name mode of
               None \<Rightarrow> filter_names ns mode result
             | Some d \<Rightarrow> filter_names ns mode (result @ d @ [CHR 0x00])))"

definition filter_xattr_list :: "bytes \<Rightarrow> stat_override_mode \<Rightarrow> bytes" where
  "filter_xattr_list buf mode = filter_names (split_on (CHR 0x00) buf) mode []"

section \<open>Names\<close>

lemma not_access_iff:
  "\<not> can_access_xattr name mode \<longleftrightarrow>
     starts_with name XATTR_PREFIX \<or> starts_with name PRIVILEGED_XATTR_PREFIX \<or>
     starts_with name UNPRIVILEGED_XATTR_PREFIX \<or>
     mode = SomContainers \<and> starts_with name XATTR_SECURITY_PREFIX"
  by (simp add: can_access_xattr_def)

lemma can_access_encoded: "can_access_xattr (XATTR_CONTAINERS_OVERRIDE_PREFIX @ name) mode"
  by (simp add: can_access_xattr_def starts_with_def xattr_consts)

lemma is_encoded_prefix:
  "is_encoded_xattr_name (XATTR_CONTAINERS_OVERRIDE_PREFIX @ name) mode \<longleftrightarrow> \<not> can_access_xattr name mode"
  by (simp add: is_encoded_xattr_name_def)

lemma not_access_nonempty: "\<not> can_access_xattr name mode \<Longrightarrow> name \<noteq> []"
  by (auto simp: can_access_xattr_def starts_with_def xattr_consts)

lemma decode_nonempty: "decode_xattr_name name mode = Some d \<Longrightarrow> name \<noteq> [] \<Longrightarrow> d \<noteq> []"
  using not_access_nonempty
  by (auto simp: decode_xattr_name_def is_encoded_xattr_name_def split: if_splits)

lemma decode_subset: "decode_xattr_name name mode = Some d \<Longrightarrow> set d \<subseteq> set name"
  using set_drop_subset by (fastforce simp: decode_xattr_name_def split: if_splits)

lemma encode_decode:
  "encode_xattr_name name mode = Some e \<Longrightarrow>
   \<not> (can_access_xattr name mode \<and> is_encoded_xattr_name name mode) \<Longrightarrow>
   decode_xattr_name e mode = Some name"
  by (auto simp: encode_xattr_name_def decode_xattr_name_def is_encoded_prefix split: if_splits)

text \<open>
  The names the user may use faithfully: storable, and not an accessible name that looks encoded.
\<close>

definition plain_name :: "stat_override_mode \<Rightarrow> bytes \<Rightarrow> bool" where
  "plain_name mode name \<longleftrightarrow> encode_xattr_name name mode \<noteq> None \<and>
     \<not> (can_access_xattr name mode \<and> is_encoded_xattr_name name mode)"

interpretation xattr_name: codec
  "\<lambda>name. the (encode_xattr_name name mode)" "\<lambda>e. decode_xattr_name e mode" "plain_name mode" for mode
  by unfold_locales (auto simp: plain_name_def encode_decode)

section \<open>Listing\<close>

text \<open>The names in a NUL-separated list, and what a listing shows for one stored name.\<close>

definition xattr_names :: "bytes \<Rightarrow> bytes list" where
  "xattr_names buf = filter (\<lambda>n. n \<noteq> []) (split_on (CHR 0x00) buf)"

definition shown_name :: "stat_override_mode \<Rightarrow> bytes \<Rightarrow> bytes list" where
  "shown_name mode n =
     (if valid_utf8 n then case decode_xattr_name n mode of None \<Rightarrow> [] | Some d \<Rightarrow> [d] else [])"

lemma shown_nameD: "d \<in> set (shown_name mode n) \<Longrightarrow> decode_xattr_name n mode = Some d"
  by (cases "decode_xattr_name n mode"; cases "valid_utf8 n") (auto simp: shown_name_def)

lemma filter_names_eq:
  "filter_names ns mode result =
     result @ concat (map (\<lambda>d. d @ [CHR 0x00]) (concat (map (shown_name mode) (filter (\<lambda>n. n \<noteq> []) ns))))"
  by (induction ns mode result rule: filter_names.induct)
    (auto simp: shown_name_def from_utf8_def split: option.splits)

lemma split_on_terminated:
  "(\<forall>d \<in> set ds. c \<notin> set d) \<Longrightarrow> split_on c (concat (map (\<lambda>d. d @ [c]) ds)) = ds @ [[]]"
  by (induction ds) (auto simp: split_on_append)

lemma names_of_filter:
  "xattr_names (filter_xattr_list buf mode) = concat (map (shown_name mode) (xattr_names buf))"
proof -
  let ?ns = "xattr_names buf" and ?ds = "concat (map (shown_name mode) (xattr_names buf))"
  have ds: "d \<noteq> [] \<and> CHR 0x00 \<notin> set d" if "d \<in> set ?ds" for d
  proof -
    from that obtain n where n: "n \<in> set ?ns" "d \<in> set (shown_name mode n)" by auto
    then have n': "CHR 0x00 \<notin> set n" "n \<noteq> []" by (auto simp: xattr_names_def dest: split_on_pieces)
    from n(2) have "decode_xattr_name n mode = Some d" by (rule shown_nameD)
    with n' show ?thesis using decode_subset decode_nonempty by blast
  qed
  have "split_on (CHR 0x00) (filter_xattr_list buf mode) = ?ds @ [[]]"
    unfolding filter_xattr_list_def filter_names_eq xattr_names_def[symmetric] append_Nil
    by (rule split_on_terminated) (use ds in blast)
  moreover have "filter (\<lambda>n. n \<noteq> []) ?ds = ?ds"
    by (rule filter_True) (use ds in blast)
  ultimately show ?thesis by (simp add: xattr_names_def[of "filter_xattr_list buf mode"])
qed

section \<open>Properties\<close>



text \<open>C29: Decoding a stored name gives back the name the user chose, for every name that can
  be stored and is not itself an accessible name of the encoded form.\<close>

theorem xattr_name_roundtrip:
  assumes "encode_xattr_name name mode = Some e"
    and "\<not> (can_access_xattr name mode \<and> is_encoded_xattr_name name mode)"
  shows "decode_xattr_name e mode = Some name"
  using assms by (rule encode_decode)

theorem xattr_name_roundtrip_witness:
  "decode_xattr_name ''user.containers.override_security.selinux'' SomContainers = Some ''security.selinux''"
  by (rule xattr_name_roundtrip)
    (simp_all add: encode_xattr_name_def is_encoded_xattr_name_def can_access_xattr_def starts_with_def xattr_consts)

text \<open>C30: A listing shows exactly the decoded names: the names in the filtered buffer are, in
  order, what decoding gives for the stored UTF-8 names that are visible; hidden and
  non-UTF-8 names leave no trace.\<close>

theorem filter_xattr_list_names:
  "xattr_names (filter_xattr_list buf mode) = concat (map (shown_name mode) (xattr_names buf))"
  by (rule names_of_filter)

text \<open>The encoding is not injective: in the containers mode the user's attribute
  \<^verbatim>\<open>user.containers.override_security.x\<close> and the attribute \<^verbatim>\<open>security.x\<close> are stored under one name, so
  setting one overwrites the other, and a listing shows the first as the second.\<close>

lemma xattr_encoding_aliases:
  assumes "length suffix \<le> 200"
  shows "encode_xattr_name (XATTR_CONTAINERS_OVERRIDE_PREFIX @ XATTR_SECURITY_PREFIX @ suffix) SomContainers
           = encode_xattr_name (XATTR_SECURITY_PREFIX @ suffix) SomContainers \<and>
         decode_xattr_name (XATTR_CONTAINERS_OVERRIDE_PREFIX @ XATTR_SECURITY_PREFIX @ suffix) SomContainers
           = Some (XATTR_SECURITY_PREFIX @ suffix)"
proof -
  have "\<not> can_access_xattr (XATTR_SECURITY_PREFIX @ suffix) SomContainers"
    by (simp add: not_access_iff)
  moreover have "length XATTR_CONTAINERS_OVERRIDE_PREFIX = 25" "length XATTR_SECURITY_PREFIX = 9"
    by (simp_all add: xattr_consts)
  ultimately show ?thesis using assms
    by (simp add: encode_xattr_name_def decode_xattr_name_def can_access_encoded is_encoded_prefix)
qed

lemma xattr_encoding_aliases_sample:
  "encode_xattr_name (XATTR_CONTAINERS_OVERRIDE_PREFIX @ XATTR_SECURITY_PREFIX @ ''selinux'') SomContainers
     = encode_xattr_name (XATTR_SECURITY_PREFIX @ ''selinux'') SomContainers \<and>
   decode_xattr_name (XATTR_CONTAINERS_OVERRIDE_PREFIX @ XATTR_SECURITY_PREFIX @ ''selinux'') SomContainers
     = Some (XATTR_SECURITY_PREFIX @ ''selinux'')"
  by (rule xattr_encoding_aliases) simp

end
