(* ===== verification/Id_Mapping.thy ===== *)
theory Id_Mapping
  imports Rust_Std
begin

text \<open>
  \<^verbatim>\<open>src/mapping.rs\<close>: UID/GID mapping tables. \<open>parse_mappings\<close> reads the \<^verbatim>\<open>uidmapping=\<close> and
  \<^verbatim>\<open>gidmapping=\<close> options, \<open>find_mapping\<close> translates one id in either direction. Shown: the parser
  recovers every table from its text, translation there and back is the identity on mapped
  ids of a table whose ranges neither wrap nor overlap, unmapped ids become the overflow id, and
  the squash options take precedence.
\<close>

record id_mapping =
  im_host :: "32 word"
  im_to :: "32 word"
  im_len :: "32 word"

record overflow_ids =
  ov_uid :: "32 word"
  ov_gid :: "32 word"

text \<open>\<^verbatim>\<open>s.trim()\<close> on the ASCII white space the kernel writes, then \<^verbatim>\<open>parse()\<close>.\<close>

definition is_ws :: "char \<Rightarrow> bool" where
  "is_ws c \<longleftrightarrow> of_char c \<in> {9, 10, 11, 12, 13, 32 :: nat}"

definition trim :: "bytes \<Rightarrow> bytes" where
  "trim s = rev (dropWhile is_ws (rev (dropWhile is_ws s)))"

text \<open>\<open>contents\<close> is what \<^verbatim>\<open>fs::read_to_string\<close> returned (\<open>None\<close>: an error).\<close>

definition read_proc_id :: "bytes option \<Rightarrow> 32 word option" where
  "read_proc_id contents = (case contents of None \<Rightarrow> None | Some s \<Rightarrow> parse_u32 (trim s))"

definition overflow_ids_read :: "bytes option \<Rightarrow> bytes option \<Rightarrow> overflow_ids" where
  "overflow_ids_read uid_file gid_file =
     \<lparr>ov_uid = (case read_proc_id uid_file of None \<Rightarrow> 65534 | Some u \<Rightarrow> u),
      ov_gid = (case read_proc_id gid_file of None \<Rightarrow> 65534 | Some g \<Rightarrow> g)\<rparr>"

section \<open>Parsing\<close>

definition mapping_error :: "bytes \<Rightarrow> bytes" where
  "mapping_error s = ''invalid mapping specified: '' @ s"

text \<open>The loop over \<^verbatim>\<open>parts.chunks(3)\<close>; the length test before it leaves only full chunks.\<close>

fun parse_chunks :: "bytes \<Rightarrow> bytes list \<Rightarrow> bytes + id_mapping list" where
  "parse_chunks s (a # b # c # rest) =
     (case parse_u32 a of None \<Rightarrow> Inl (mapping_error s)
      | Some h \<Rightarrow> (case parse_u32 b of None \<Rightarrow> Inl (mapping_error s)
      | Some t \<Rightarrow> (case parse_u32 c of None \<Rightarrow> Inl (mapping_error s)
      | Some l \<Rightarrow> (case parse_chunks s rest of Inl e \<Rightarrow> Inl e
                 | Inr ms \<Rightarrow> Inr (\<lparr>im_host = h, im_to = t, im_len = l\<rparr> # ms)))))"
| "parse_chunks s _ = Inr []"

definition parse_mappings :: "bytes \<Rightarrow> bytes + id_mapping list" where
  "parse_mappings s =
     (let parts = filter (\<lambda>p. p \<noteq> []) (split_on CHR '':'' s) in
      if length parts mod 3 \<noteq> 0 then Inl (mapping_error s) else parse_chunks s parts)"

section \<open>Translation\<close>

fun find_in :: "32 word \<Rightarrow> bool \<Rightarrow> 32 word \<Rightarrow> id_mapping list \<Rightarrow> 32 word" where
  "find_in uid direct overflow_id [] = overflow_id"
| "find_in uid direct overflow_id (m # ms) =
     (if direct then
        if im_host m \<le> uid \<and> uid - im_host m < im_len m then im_to m + (uid - im_host m)
        else find_in uid direct overflow_id ms
      else if im_to m \<le> uid \<and> uid - im_to m < im_len m then im_host m + (uid - im_to m)
      else find_in uid direct overflow_id ms)"

definition find_mapping ::
  "32 word \<Rightarrow> id_mapping list \<Rightarrow> bool \<Rightarrow> bool \<Rightarrow> 32 word option \<Rightarrow> 32 word \<Rightarrow> 32 word" where
  "find_mapping uid mappings direct squash_to_root squash_to_id overflow_id =
     (if direct \<and> squash_to_id \<noteq> None then the squash_to_id
      else if direct \<and> squash_to_root then 0
      else if mappings = [] then uid
      else find_in uid direct overflow_id mappings)"

section \<open>The text format\<close>

definition render_mapping :: "id_mapping \<Rightarrow> bytes list" where
  "render_mapping m = [show_nat (unat (im_host m)), show_nat (unat (im_to m)), show_nat (unat (im_len m))]"

definition render_mappings :: "id_mapping list \<Rightarrow> bytes" where
  "render_mappings ms = join_with '':'' (concat (map render_mapping ms))"

lemma parse_chunks_render: "parse_chunks s (concat (map render_mapping ms)) = Inr ms"
  by (induction ms) (auto simp: render_mapping_def parse_u32_show)

lemma render_parts_ok:
  "p \<in> set (concat (map render_mapping ms)) \<Longrightarrow> p \<noteq> [] \<and> CHR '':'' \<notin> set p"
  using show_nat_no_char[of "CHR '':''"] by (auto simp: render_mapping_def)

lemma length_render_parts: "length (concat (map render_mapping ms)) = 3 * length ms"
  by (induction ms) (auto simp: render_mapping_def)

lemma parse_render_mappings: "parse_mappings (render_mappings ms) = Inr ms"
proof (cases "ms = []")
  case True
  then show ?thesis by (simp add: parse_mappings_def render_mappings_def)
next
  case False
  let ?ps = "concat (map render_mapping ms)"
  have ne: "?ps \<noteq> []" using False by (cases ms) (auto simp: render_mapping_def)
  have "split_on CHR '':'' (render_mappings ms) = ?ps"
    unfolding render_mappings_def using ne render_parts_ok by (intro split_on_join) blast+
  moreover have "filter (\<lambda>p. p \<noteq> []) ?ps = ?ps"
    by (rule filter_True) (use render_parts_ok in blast)
  ultimately show ?thesis
    by (simp add: parse_mappings_def length_render_parts parse_chunks_render)
qed

interpretation mapping_text: codec render_mappings "\<lambda>s. case parse_mappings s of Inl _ \<Rightarrow> None | Inr ms \<Rightarrow> Some ms" "\<lambda>_. True"
  by unfold_locales (simp add: parse_render_mappings)

lemma parse_chunks_error: "parse_chunks s ps = Inl e \<Longrightarrow> e = mapping_error s"
  by (induction s ps rule: parse_chunks.induct) (auto split: option.splits sum.splits)

section \<open>Translation there and back\<close>

definition host_range :: "id_mapping \<Rightarrow> nat set" where
  "host_range m = {unat (im_host m) ..< unat (im_host m) + unat (im_len m)}"

definition to_range :: "id_mapping \<Rightarrow> nat set" where
  "to_range m = {unat (im_to m) ..< unat (im_to m) + unat (im_len m)}"

definition no_wrap :: "id_mapping \<Rightarrow> bool" where
  "no_wrap m \<longleftrightarrow> unat (im_host m) + unat (im_len m) \<le> 2 ^ 32 \<and>
                  unat (im_to m) + unat (im_len m) \<le> 2 ^ 32"

fun disjoint_to :: "id_mapping list \<Rightarrow> bool" where
  "disjoint_to [] = True"
| "disjoint_to (m # ms) = ((\<forall>n \<in> set ms. to_range m \<inter> to_range n = {}) \<and> disjoint_to ms)"

lemma in_range_word:
  fixes a b l :: "32 word"
  shows "(a \<le> b \<and> b - a < l) \<longleftrightarrow> unat b \<in> {unat a ..< unat a + unat l}"
proof (cases "a \<le> b")
  case True
  then have "unat (b - a) = unat b - unat a" by (simp add: unat_sub)
  with True show ?thesis by (auto simp: word_less_nat_alt word_le_nat_alt)
qed (auto simp: word_le_nat_alt)

lemma unat_shift:
  fixes a t uid l :: "32 word"
  assumes "a \<le> uid" "uid - a < l" "unat t + unat l \<le> 2 ^ 32"
  shows "unat (t + (uid - a)) = unat t + (unat uid - unat a)"
proof -
  have "unat (uid - a) = unat uid - unat a" using assms(1) by (simp add: unat_sub)
  moreover have "unat (uid - a) < unat l" using assms(2) by (simp add: word_less_nat_alt)
  ultimately show ?thesis using assms(3) by (subst unat_add_lem[THEN iffD1]) auto
qed

lemma find_in_direct_range:
  "\<lbrakk>\<forall>m \<in> set ms. no_wrap m; \<exists>m \<in> set ms. unat uid \<in> host_range m\<rbrakk> \<Longrightarrow>
   \<exists>m \<in> set ms. im_host m \<le> uid \<and> uid - im_host m < im_len m \<and>
      find_in uid True ov ms = im_to m + (uid - im_host m) \<and>
      unat (find_in uid True ov ms) \<in> to_range m"
proof (induction ms)
  case (Cons m ms)
  show ?case
  proof (cases "im_host m \<le> uid \<and> uid - im_host m < im_len m")
    case True
    with Cons.prems(1) have u: "unat (im_to m + (uid - im_host m)) = unat (im_to m) + (unat uid - unat (im_host m))"
      by (intro unat_shift) (auto simp: no_wrap_def)
    moreover from True have "unat uid \<in> host_range m"
      by (simp add: in_range_word host_range_def)
    ultimately have "unat (im_to m + (uid - im_host m)) \<in> to_range m"
      by (auto simp: to_range_def host_range_def)
    with True show ?thesis by auto
  next
    case False
    then have "unat uid \<notin> host_range m" by (simp add: in_range_word host_range_def)
    with Cons.prems Cons.IH False show ?thesis by auto
  qed
qed simp

lemma find_in_reverse_hit:
  "\<lbrakk>disjoint_to ms; m \<in> set ms; unat v \<in> to_range m\<rbrakk> \<Longrightarrow>
   find_in v False ov ms = im_host m + (v - im_to m)"
proof (induction ms)
  case (Cons n ms)
  show ?case
  proof (cases "m = n")
    case True
    with Cons.prems(3) have "im_to n \<le> v \<and> v - im_to n < im_len n"
      by (simp add: in_range_word to_range_def)
    with True show ?thesis by simp
  next
    case False
    with Cons.prems have "unat v \<notin> to_range n" by auto
    then have "\<not> (im_to n \<le> v \<and> v - im_to n < im_len n)"
      by (simp add: in_range_word to_range_def)
    with False Cons show ?thesis by auto
  qed
qed simp

lemma find_in_unmapped:
  "(\<forall>m \<in> set ms. unat uid \<notin> host_range m) \<Longrightarrow> find_in uid True ov ms = ov"
  by (induction ms) (auto simp: in_range_word host_range_def)

lemma find_in_unmapped_rev:
  "(\<forall>m \<in> set ms. unat uid \<notin> to_range m) \<Longrightarrow> find_in uid False ov ms = ov"
  by (induction ms) (auto simp: in_range_word to_range_def)

text \<open>C26: Presenting an on-disk uid to the container and writing the result back gives the
  uid one started from: for every table whose ranges do not wrap around and whose container
  ranges are disjoint, reverse lookup after direct lookup is the identity on every mapped uid.\<close>

theorem find_mapping_roundtrip:
  assumes "\<forall>m \<in> set ms. no_wrap m" and "disjoint_to ms"
    and "\<exists>m \<in> set ms. unat uid \<in> host_range m"
  shows "find_mapping (find_mapping uid ms True False None ov) ms False sq sqid ov' = uid"
proof -
  have ne: "ms \<noteq> []" using assms(3) by auto
  obtain m where m: "m \<in> set ms" "im_host m \<le> uid"
      "find_in uid True ov ms = im_to m + (uid - im_host m)"
      "unat (find_in uid True ov ms) \<in> to_range m"
    using find_in_direct_range[OF assms(1,3), of ov] by blast
  have "find_in (find_in uid True ov ms) False ov' ms = im_host m + (find_in uid True ov ms - im_to m)"
    by (rule find_in_reverse_hit[OF assms(2) m(1,4)])
  also have "\<dots> = uid" by (simp add: m(3))
  finally show ?thesis by (simp add: find_mapping_def ne)
qed

theorem find_mapping_roundtrip_witness:
  "find_mapping (find_mapping 1005 [\<lparr>im_host = 1000, im_to = 0, im_len = 10\<rparr>] True False None 65534)
     [\<lparr>im_host = 1000, im_to = 0, im_len = 10\<rparr>] False True (Some 7) 65534 = 1005"
  by (rule find_mapping_roundtrip) (simp_all add: no_wrap_def host_range_def)

lemma find_mapping_precedence:
  "find_mapping uid ms True sq (Some u) ov = u"
  "find_mapping uid ms True True None ov = 0"
  "find_mapping uid ms False sq sqid ov = find_mapping uid ms False False None ov"
  "ms \<noteq> [] \<Longrightarrow> (\<forall>m \<in> set ms. unat uid \<notin> host_range m) \<Longrightarrow> find_mapping uid ms True False None ov = ov"
  "ms \<noteq> [] \<Longrightarrow> (\<forall>m \<in> set ms. unat uid \<notin> to_range m) \<Longrightarrow> find_mapping uid ms False sq sqid ov = ov"
  by (simp_all add: find_mapping_def find_in_unmapped find_in_unmapped_rev)

text \<open>C27: With a non-empty table that does not wrap around, and no squash option, the container
  only ever sees ids of its own: every on-disk owner is presented as an id inside a container
  range of the table or as the overflow id, and the overflow id is presented exactly for
  the owners outside every host range (unless a range maps some owner onto it).\<close>

theorem find_mapping_contained:
  assumes "ms \<noteq> []" and "\<forall>m \<in> set ms. no_wrap m"
  shows "(if \<exists>m \<in> set ms. unat uid \<in> host_range m
          then \<exists>m \<in> set ms. unat (find_mapping uid ms True False None ov) \<in> to_range m
          else find_mapping uid ms True False None ov = ov)"
proof (cases "\<exists>m \<in> set ms. unat uid \<in> host_range m")
  case True
  with assms show ?thesis
    using find_in_direct_range[OF assms(2) True, of ov] by (auto simp: find_mapping_def)
next
  case False
  with assms(1) show ?thesis by (auto simp: find_mapping_precedence)
qed

theorem find_mapping_contained_witness:
  "\<exists>m \<in> set [\<lparr>im_host = 1000, im_to = 0, im_len = 10\<rparr>].
     unat (find_mapping 1005 [\<lparr>im_host = 1000, im_to = 0, im_len = 10\<rparr>] True False None 65534) \<in> to_range m"
  using find_mapping_contained[of "[\<lparr>im_host = 1000, im_to = 0, im_len = 10\<rparr>]" 1005 65534]
  by (simp add: no_wrap_def host_range_def split: if_splits)

end
