(* ===== verification/Config.thy ===== *)
theory Config
  imports Id_Mapping
begin

text \<open>
  \<^verbatim>\<open>src/config.rs\<close>: command-line parsing. \<open>split_options\<close> cuts the \<^verbatim>\<open>-o\<close> string at unquoted,
  unescaped commas, \<open>parse_single_option\<close> interprets one option, \<open>parse_lowerdir\<close> cuts the list of
  lower directories, \<open>parse_args\<close> is the whole command line. What the program prints (help,
  version, warnings about ignored options) is not modelled.
\<close>

section \<open>Floating-point option values\<close>

text \<open>
  \<^verbatim>\<open>timeout=\<close> is read with \<^verbatim>\<open>str::parse::<f64>\<close>. A finite value is kept as the decimal that was
  written, \<open>F64_dec negative mantissa exponent10\<close>; its rounding to a binary fraction is not modelled.
\<close>

datatype f64 = F64_dec bool nat int | F64_inf bool | F64_nan

definition lower_char :: "char \<Rightarrow> char" where
  "lower_char c = (if byte_in 65 90 c then char_of (of_char c + (32::nat)) else c)"

definition is_digit :: "char \<Rightarrow> bool" where
  "is_digit c \<longleftrightarrow> byte_in 48 57 c"

definition parse_exp10 :: "bytes \<Rightarrow> int option" where
  "parse_exp10 s =
     (case s of
        [] \<Rightarrow> Some 0
      | c # cs \<Rightarrow>
          if lower_char c \<noteq> CHR ''e'' then None
          else let neg = (cs \<noteq> [] \<and> hd cs = CHR ''-'');
                   ds = (if cs \<noteq> [] \<and> (hd cs = CHR ''-'' \<or> hd cs = CHR ''+'') then tl cs else cs)
               in if ds = [] \<or> \<not> list_all is_digit ds then None
                  else map_option (\<lambda>n. if neg then - int n else int n) (digits_val 10 0 ds))"

definition parse_f64 :: "bytes \<Rightarrow> f64 option" where
  "parse_f64 s =
     (let neg = (s \<noteq> [] \<and> hd s = CHR ''-'');
          t = (if s \<noteq> [] \<and> (hd s = CHR ''-'' \<or> hd s = CHR ''+'') then tl s else s);
          lc = map lower_char t
      in if lc = ''inf'' \<or> lc = ''infinity'' then Some (F64_inf neg)
         else if lc = ''nan'' then Some F64_nan
         else
           let ip = takeWhile is_digit t; r1 = dropWhile is_digit t;
               dot = (r1 \<noteq> [] \<and> hd r1 = CHR ''.'');
               fp = (if dot then takeWhile is_digit (tl r1) else []);
               r2 = (if dot then dropWhile is_digit (tl r1) else r1)
           in if ip = [] \<and> fp = [] then None
              else case parse_exp10 r2 of
                  None \<Rightarrow> None
                | Some e \<Rightarrow> (case digits_val 10 0 (ip @ fp) of
                      None \<Rightarrow> None
                    | Some m \<Rightarrow> Some (F64_dec neg m (e - int (length fp)))))"

definition f64_pos :: "f64 \<Rightarrow> bool" where
  "f64_pos x = (case x of F64_dec neg m e \<Rightarrow> \<not> neg \<and> m > 0 | F64_inf neg \<Rightarrow> \<not> neg | F64_nan \<Rightarrow> False)"

text \<open>\<^verbatim>\<open>Duration::from_secs_f64\<close> panics on negative, non-finite and too large values.\<close>

definition duration_from_secs_f64 :: "f64 \<Rightarrow> f64 option" where
  "duration_from_secs_f64 x =
     (case x of
        F64_dec neg m e \<Rightarrow>
          if neg \<and> m > 0 then None
          else if e \<ge> 0 \<and> m * 10 ^ nat e \<ge> 2 ^ 64 then None
          else if e < 0 \<and> m \<ge> 2 ^ 64 * 10 ^ nat (- e) then None
          else Some x
      | F64_inf _ \<Rightarrow> None
      | F64_nan \<Rightarrow> None)"

section \<open>Configuration\<close>

record overlay_config =
  lowerdir :: "bytes option"
  upperdir :: "bytes option"
  workdir :: "bytes option"
  mountpoint :: "bytes option"
  redirect_dir :: "bytes option"
  context_opt :: "bytes option"
  plugins :: "bytes option"
  uid_str :: "bytes option"
  gid_str :: "bytes option"
  uid_mappings :: "id_mapping list"
  gid_mappings :: "id_mapping list"
  timeout :: f64
  xattr_permissions :: int
  nfs_filehandles :: int
  threaded :: bool
  cfg_fsync :: bool
  fast_ino_check :: bool
  writeback :: bool
  disable_xattrs :: bool
  squash_to_uid :: "32 word option"
  squash_to_gid :: "32 word option"
  debug :: bool
  foreground :: bool
  squash_to_root :: bool
  ino_t_32 :: bool
  static_nlink :: bool
  volatile_mode :: bool
  noacl :: bool
  fuse_options :: "bytes list"
  euid :: "32 word"

text \<open>\<open>uid\<close> is what \<^verbatim>\<open>geteuid()\<close> returns.\<close>

definition config_default :: "32 word \<Rightarrow> overlay_config" where
  "config_default uid =
     \<lparr>lowerdir = None, upperdir = None, workdir = None, mountpoint = None, redirect_dir = None,
      context_opt = None, plugins = None, uid_str = None, gid_str = None, uid_mappings = [],
      gid_mappings = [], timeout = F64_dec False 1000000000 0, xattr_permissions = 0,
      nfs_filehandles = 0, threaded = False, cfg_fsync = True, fast_ino_check = False,
      writeback = True, disable_xattrs = False, squash_to_uid = None, squash_to_gid = None,
      debug = False, foreground = False, squash_to_root = False, ino_t_32 = False,
      static_nlink = False, volatile_mode = False, noacl = False, fuse_options = [],
      euid = uid\<rparr>"

definition FUSE_PASSTHROUGH_OPTS :: "bytes list" where
  "FUSE_PASSTHROUGH_OPTS =
     [''allow_root'', ''default_permissions'', ''allow_other'', ''suid'', ''nosuid'', ''dev'', ''nodev'',
      ''exec'', ''noexec'', ''atime'', ''noatime'', ''diratime'', ''nodiratime'', ''splice_write'',
      ''splice_read'', ''splice_move'', ''kernel_cache'', ''max_write'', ''ro'', ''rw'']"

definition push_fuse_option :: "bytes \<Rightarrow> overlay_config \<Rightarrow> overlay_config" where
  "push_fuse_option opt c = c\<lparr>fuse_options := fuse_options c @ [opt]\<rparr>"

section \<open>Splitting and unescaping\<close>

abbreviation backslash :: char where "backslash \<equiv> CHR 0x5C"
abbreviation dquote :: char where "dquote \<equiv> CHR 0x22"

text \<open>The scanning loop: remaining characters, \<open>current\<close>, \<open>in_quotes\<close>; the pieces pushed from here on.\<close>

fun split_options_go :: "bytes \<Rightarrow> bytes \<Rightarrow> bool \<Rightarrow> bytes list" where
  "split_options_go [] current in_quotes = (if current \<noteq> [] then [current] else [])"
| "split_options_go (c # cs) current in_quotes =
     (if c = backslash then
        (case cs of
           [] \<Rightarrow> split_options_go [] current in_quotes
         | nxt # cs' \<Rightarrow> split_options_go cs' (current @ [c, nxt]) in_quotes)
      else if c = dquote then split_options_go cs (current @ [c]) (\<not> in_quotes)
      else if c = CHR '','' \<and> \<not> in_quotes then
        (if current \<noteq> [] then current # split_options_go cs [] in_quotes
         else split_options_go cs current in_quotes)
      else split_options_go cs (current @ [c]) in_quotes)"

definition split_options :: "bytes \<Rightarrow> bytes list" where
  "split_options s = split_options_go s [] False"

fun unescape_path :: "bytes \<Rightarrow> bytes" where
  "unescape_path [] = []"
| "unescape_path (c # cs) =
     (if c = backslash then
        (case cs of [] \<Rightarrow> [c] | nxt # cs' \<Rightarrow> nxt # unescape_path cs')
      else c # unescape_path cs)"

fun parse_lowerdir_go :: "bytes \<Rightarrow> bytes \<Rightarrow> bytes list" where
  "parse_lowerdir_go [] current = (if current \<noteq> [] then [current] else [])"
| "parse_lowerdir_go (c # cs) current =
     (if c = backslash then
        (case cs of
           [] \<Rightarrow> parse_lowerdir_go [] (current @ [c])
         | nxt # cs' \<Rightarrow>
             if nxt = CHR '':'' then parse_lowerdir_go cs' (current @ [CHR '':''])
             else parse_lowerdir_go cs (current @ [c]))
      else if c = CHR '':'' then
        (if current \<noteq> [] then current # parse_lowerdir_go cs []
         else parse_lowerdir_go cs current)
      else parse_lowerdir_go cs (current @ [c]))"

definition parse_lowerdir :: "bytes \<Rightarrow> bytes list" where
  "parse_lowerdir s = parse_lowerdir_go s []"

definition parse_plugin_path :: "bytes \<Rightarrow> (bytes \<times> bytes) option" where
  "parse_plugin_path path =
     (if \<not> starts_with path ''//'' then None
      else let rest = drop 2 path in
           case find_sub ''//'' rest of
             Some (plugin_opaque, data_path) \<Rightarrow> Some (plugin_opaque, data_path)
           | None \<Rightarrow> Some (rest, []))"

section \<open>Options\<close>

definition opt_error :: "bytes \<Rightarrow> bytes \<Rightarrow> bytes" where
  "opt_error what value = ''invalid '' @ what @ '' value: '' @ value"

definition parse_flag :: "bytes \<Rightarrow> bytes \<Rightarrow> (bool \<Rightarrow> overlay_config) \<Rightarrow> bytes + overlay_config" where
  "parse_flag what value upd =
     (case parse_i32 value of None \<Rightarrow> Inl (opt_error what value) | Some n \<Rightarrow> Inr (upd (n \<noteq> 0)))"

definition parse_key_value :: "bytes \<Rightarrow> bytes \<Rightarrow> bytes \<Rightarrow> overlay_config \<Rightarrow> bytes + overlay_config" where
  "parse_key_value opt key value c =
     (if key = ''lowerdir'' then Inr (c\<lparr>lowerdir := Some value\<rparr>)
      else if key = ''upperdir'' then Inr (c\<lparr>upperdir := Some (unescape_path value)\<rparr>)
      else if key = ''workdir'' then Inr (c\<lparr>workdir := Some (unescape_path value)\<rparr>)
      else if key = ''redirect_dir'' then Inr (c\<lparr>redirect_dir := Some value\<rparr>)
      else if key = ''context'' then Inr (c\<lparr>context_opt := Some value\<rparr>)
      else if key = ''uidmapping'' then Inr (c\<lparr>uid_str := Some value\<rparr>)
      else if key = ''gidmapping'' then Inr (c\<lparr>gid_str := Some value\<rparr>)
      else if key = ''timeout'' then
        (case parse_f64 value of None \<Rightarrow> Inl (opt_error ''timeout'' value) | Some t \<Rightarrow> Inr (c\<lparr>timeout := t\<rparr>))
      else if key = ''threaded'' then parse_flag ''threaded'' value (\<lambda>b. c\<lparr>threaded := b\<rparr>)
      else if key = ''fsync'' \<or> key = ''sync'' then parse_flag ''fsync'' value (\<lambda>b. c\<lparr>cfg_fsync := b\<rparr>)
      else if key = ''fast_ino'' \<or> key = ''fast_ino_check'' then
        parse_flag ''fast_ino'' value (\<lambda>b. c\<lparr>fast_ino_check := b\<rparr>)
      else if key = ''writeback'' then parse_flag ''writeback'' value (\<lambda>b. c\<lparr>writeback := b\<rparr>)
      else if key = ''noxattrs'' then parse_flag ''noxattrs'' value (\<lambda>b. c\<lparr>disable_xattrs := b\<rparr>)
      else if key = ''plugins'' then Inr (c\<lparr>plugins := Some value\<rparr>)
      else if key = ''xattr_permissions'' then
        (case parse_i32 value of None \<Rightarrow> Inl (opt_error ''xattr_permissions'' value)
         | Some n \<Rightarrow> Inr (c\<lparr>xattr_permissions := n\<rparr>))
      else if key = ''squash_to_uid'' then
        (case parse_u32 value of None \<Rightarrow> Inl (opt_error ''squash_to_uid'' value)
         | Some n \<Rightarrow> Inr (c\<lparr>squash_to_uid := Some n\<rparr>))
      else if key = ''squash_to_gid'' then
        (case parse_u32 value of None \<Rightarrow> Inl (opt_error ''squash_to_gid'' value)
         | Some n \<Rightarrow> Inr (c\<lparr>squash_to_gid := Some n\<rparr>))
      else if key = ''xino'' then
        (if value = ''off'' then Inr (c\<lparr>nfs_filehandles := 0\<rparr>)
         else if value = ''auto'' then Inr (c\<lparr>nfs_filehandles := 1\<rparr>)
         else if value = ''on'' then Inr (c\<lparr>nfs_filehandles := 2\<rparr>)
         else Inl (opt_error ''xino'' value))
      else if key \<in> set FUSE_PASSTHROUGH_OPTS then Inr (push_fuse_option opt c)
      else Inr c)"

definition parse_flag_option :: "bytes \<Rightarrow> overlay_config \<Rightarrow> overlay_config" where
  "parse_flag_option opt c =
     (if opt = ''debug'' then push_fuse_option ''debug'' (c\<lparr>debug := True, foreground := True\<rparr>)
      else if opt = ''squash_to_root'' then c\<lparr>squash_to_root := True\<rparr>
      else if opt = ''ino32_t'' then c\<lparr>ino_t_32 := True\<rparr>
      else if opt = ''static_nlink'' then c\<lparr>static_nlink := True\<rparr>
      else if opt = ''volatile'' then c\<lparr>volatile_mode := True\<rparr>
      else if opt = ''noacl'' then c\<lparr>noacl := True\<rparr>
      else if opt \<in> set FUSE_PASSTHROUGH_OPTS then push_fuse_option opt c
      else c)"

definition parse_single_option :: "bytes \<Rightarrow> overlay_config \<Rightarrow> bytes + overlay_config" where
  "parse_single_option opt c =
     (case split_once (CHR ''='') opt of
        Some (key, value) \<Rightarrow> parse_key_value opt key value c
      | None \<Rightarrow> Inr (parse_flag_option opt c))"

fun parse_options :: "bytes list \<Rightarrow> overlay_config \<Rightarrow> bytes + overlay_config" where
  "parse_options [] c = Inr c"
| "parse_options (opt # opts) c =
     (case parse_single_option opt c of Inl e \<Rightarrow> Inl e | Inr c' \<Rightarrow> parse_options opts c')"

definition parse_option_string :: "bytes \<Rightarrow> overlay_config \<Rightarrow> bytes + overlay_config" where
  "parse_option_string opts c = parse_options (split_options opts) c"

section \<open>The command line\<close>

text \<open>\<^verbatim>\<open>--help\<close> and \<^verbatim>\<open>--version\<close> print and end the process with status 0.\<close>

datatype args_result = ArgsOk overlay_config | ArgsErr bytes | ArgsExit

fun parse_args_go :: "bytes list \<Rightarrow> overlay_config \<Rightarrow> args_result" where
  "parse_args_go [] c = ArgsOk c"
| "parse_args_go (arg # rest) c =
     (if arg = ''-f'' then
        parse_args_go rest (push_fuse_option ''fsname=fuse-overlayfs'' (c\<lparr>foreground := True\<rparr>))
      else if arg = ''-d'' \<or> arg = ''--debug'' then
        parse_args_go rest (push_fuse_option ''debug'' (c\<lparr>debug := True, foreground := True\<rparr>))
      else if arg = ''--help'' \<or> arg = ''-h'' then ArgsExit
      else if arg = ''--version'' \<or> arg = ''-V'' then ArgsExit
      else if arg = ''-o'' then
        (case rest of
           [] \<Rightarrow> ArgsErr ''missing argument for -o''
         | opts # rest' \<Rightarrow>
             (case parse_option_string opts c of
                Inl e \<Rightarrow> ArgsErr e | Inr c' \<Rightarrow> parse_args_go rest' c'))
      else case strip_prefix arg ''-o'' of
          Some opts \<Rightarrow>
            (case parse_option_string opts c of
               Inl e \<Rightarrow> ArgsErr e | Inr c' \<Rightarrow> parse_args_go rest c')
        | None \<Rightarrow>
            if starts_with arg ''-'' then parse_args_go rest c
            else parse_args_go rest (c\<lparr>mountpoint := Some arg\<rparr>))"

definition default_fuse_options :: "32 word \<Rightarrow> bytes list" where
  "default_fuse_options uid =
     (if uid = 0 then [''default_permissions'', ''allow_other'', ''suid'', ''noatime'']
      else [''default_permissions'', ''noatime''])"

definition finish_mappings :: "overlay_config \<Rightarrow> bytes + overlay_config" where
  "finish_mappings c =
     (case (case uid_str c of None \<Rightarrow> Inr (uid_mappings c) | Some s \<Rightarrow> parse_mappings s) of
        Inl e \<Rightarrow> Inl e
      | Inr us \<Rightarrow>
          (case (case gid_str c of None \<Rightarrow> Inr (gid_mappings c) | Some s \<Rightarrow> parse_mappings s) of
             Inl e \<Rightarrow> Inl e
           | Inr gs \<Rightarrow> Inr (c\<lparr>uid_mappings := us, gid_mappings := gs\<rparr>)))"

definition parse_args :: "32 word \<Rightarrow> bytes list \<Rightarrow> args_result" where
  "parse_args uid args =
     (let c0 = config_default uid;
          c1 = c0\<lparr>fuse_options := fuse_options c0 @ default_fuse_options (euid c0)\<rparr>
      in case parse_args_go (tl args) c1 of
           ArgsOk c \<Rightarrow>
             (case finish_mappings c of
                Inl e \<Rightarrow> ArgsErr e
              | Inr c' \<Rightarrow> ArgsOk (if volatile_mode c' then c'\<lparr>cfg_fsync := False\<rparr> else c'))
         | r \<Rightarrow> r)"

section \<open>Lower directories: escape and split\<close>

definition escape_colons :: "bytes \<Rightarrow> bytes" where
  "escape_colons s = concat (map (\<lambda>c. if c = CHR '':'' then [backslash, CHR '':''] else [c]) s)"

lemma parse_lowerdir_go_escaped:
  "r \<noteq> [] \<and> hd r = CHR '':'' \<longrightarrow> s = [] \<or> last s \<noteq> backslash \<Longrightarrow>
   parse_lowerdir_go (escape_colons s @ r) cur = parse_lowerdir_go r (cur @ s)"
proof (induction s arbitrary: cur)
  case Nil
  then show ?case by (simp add: escape_colons_def)
next
  case (Cons c s)
  have IH: "parse_lowerdir_go (escape_colons s @ r) cur' = parse_lowerdir_go r (cur' @ s)" for cur'
    by (rule Cons.IH) (use Cons.prems in \<open>auto split: if_splits\<close>)
  consider "c = CHR '':''" | "c = backslash" | "c \<noteq> CHR '':''" "c \<noteq> backslash" by blast
  then show ?case
  proof cases
    case 1
    with IH show ?thesis by (simp add: escape_colons_def)
  next
    case 2
    have nc: "escape_colons s @ r = [] \<or> hd (escape_colons s @ r) \<noteq> CHR '':''"
      using Cons.prems 2 by (cases s) (auto simp: escape_colons_def)
    have "parse_lowerdir_go (backslash # escape_colons s @ r) cur
        = parse_lowerdir_go (escape_colons s @ r) (cur @ [backslash])"
      using nc by (cases "escape_colons s @ r") auto
    with 2 IH show ?thesis by (simp add: escape_colons_def)
  next
    case 3
    with IH show ?thesis by (simp add: escape_colons_def)
  qed
qed

lemma parse_lowerdir_go_join:
  "\<lbrakk>\<forall>d \<in> set ds. d \<noteq> [] \<and> last d \<noteq> backslash\<rbrakk> \<Longrightarrow>
   parse_lowerdir_go (join_with '':'' (map escape_colons ds)) [] = ds"
proof (induction ds)
  case (Cons d ds)
  show ?case
  proof (cases "ds = []")
    case True
    with Cons.prems show ?thesis using parse_lowerdir_go_escaped[of "[]" d "[]"] by simp
  next
    case False
    with Cons show ?thesis
      using parse_lowerdir_go_escaped[of "CHR '':'' # join_with '':'' (map escape_colons ds)" d "[]"]
      by (simp add: join_with_Cons)
  qed
qed simp

section \<open>Options: escape and split\<close>

definition opt_special :: "char \<Rightarrow> bool" where
  "opt_special c \<longleftrightarrow> c = CHR '','' \<or> c = backslash \<or> c = dquote"

definition escape_opt :: "bytes \<Rightarrow> bytes" where
  "escape_opt s = concat (map (\<lambda>c. if opt_special c then [backslash, c] else [c]) s)"

lemma unescape_escape_opt: "unescape_path (escape_opt s) = s"
  by (induction s) (auto simp: escape_opt_def opt_special_def)

lemma split_options_go_escaped:
  "split_options_go (escape_opt s @ r) cur q = split_options_go r (cur @ escape_opt s) q"
  by (induction s arbitrary: cur) (auto simp: escape_opt_def opt_special_def)

lemma escape_opt_id: "\<forall>c \<in> set s. \<not> opt_special c \<Longrightarrow> escape_opt s = s"
  by (induction s) (auto simp: escape_opt_def)

lemma escape_opt_append: "escape_opt (s @ t) = escape_opt s @ escape_opt t"
  by (simp add: escape_opt_def)

lemma escape_opt_nonempty: "s \<noteq> [] \<Longrightarrow> escape_opt s \<noteq> []"
  by (cases s) (auto simp: escape_opt_def)

lemma split_options_join:
  "\<forall>s \<in> set ss. s \<noteq> [] \<Longrightarrow> split_options (join_with '','' (map escape_opt ss)) = map escape_opt ss"
  unfolding split_options_def
proof (induction ss)
  case (Cons s ss)
  show ?case
  proof (cases "ss = []")
    case True
    with Cons.prems show ?thesis
      using split_options_go_escaped[of s "[]" "[]" False] by (simp add: escape_opt_nonempty)
  next
    case False
    with Cons show ?thesis
      using split_options_go_escaped[of s "CHR '','' # join_with '','' (map escape_opt ss)" "[]" False]
      by (simp add: join_with_Cons escape_opt_nonempty)
  qed
qed simp

interpretation option_text: codec escape_opt "\<lambda>s. Some (unescape_path s)" "\<lambda>_. True"
  by unfold_locales (simp add: unescape_escape_opt)

section \<open>Well-formed configurations\<close>

text \<open>What holds of the configuration while options are read (the tables are parsed at the end).\<close>

definition config_ok :: "overlay_config \<Rightarrow> bool" where
  "config_ok c \<longleftrightarrow> nfs_filehandles c \<in> {0, 1, 2} \<and> (debug c \<longrightarrow> foreground c) \<and>
     uid_mappings c = [] \<and> gid_mappings c = []"

text \<open>Results that are well formed if they are configurations, one rule per shape of branch.\<close>

definition result_ok :: "bytes + overlay_config \<Rightarrow> bool" where
  "result_ok r \<longleftrightarrow> (\<forall>c. r = Inr c \<longrightarrow> config_ok c)"

lemma result_ok_if: "result_ok a \<Longrightarrow> result_ok b \<Longrightarrow> result_ok (if p then a else b)"
  by simp

lemma result_ok_option: "result_ok a \<Longrightarrow> (\<And>x. result_ok (f x)) \<Longrightarrow> result_ok (case r of None \<Rightarrow> a | Some x \<Rightarrow> f x)"
  by (cases r) auto

lemma result_ok_Inl: "result_ok (Inl e)"
  by (simp add: result_ok_def)

lemma result_ok_Inr: "config_ok c \<Longrightarrow> result_ok (Inr c)"
  by (simp add: result_ok_def)

lemma result_ok_flag: "(\<And>b. config_ok (f b)) \<Longrightarrow> result_ok (parse_flag what value f)"
  unfolding parse_flag_def by (intro result_ok_option result_ok_Inl result_ok_Inr)

lemmas result_ok_intros = result_ok_if result_ok_option result_ok_Inl result_ok_Inr result_ok_flag

lemma parse_key_value_ok: "config_ok c \<Longrightarrow> result_ok (parse_key_value opt key value c)"
  unfolding parse_key_value_def
  by (intro result_ok_intros) (simp_all add: config_ok_def push_fuse_option_def)

lemma parse_flag_option_ok: "config_ok c \<Longrightarrow> config_ok (parse_flag_option opt c)"
  by (simp add: parse_flag_option_def config_ok_def push_fuse_option_def)

lemma parse_single_option_ok: "parse_single_option opt c = Inr c' \<Longrightarrow> config_ok c \<Longrightarrow> config_ok c'"
  using parse_key_value_ok
  by (fastforce simp: parse_single_option_def parse_flag_option_ok result_ok_def split: option.splits)

lemma parse_options_ok: "parse_options opts c = Inr c' \<Longrightarrow> config_ok c \<Longrightarrow> config_ok c'"
  by (induction opts arbitrary: c) (auto split: sum.splits dest: parse_single_option_ok)

lemma parse_option_string_ok: "parse_option_string s c = Inr c' \<Longrightarrow> config_ok c \<Longrightarrow> config_ok c'"
  unfolding parse_option_string_def by (rule parse_options_ok)

lemma parse_args_go_ok: "parse_args_go args c = ArgsOk c' \<Longrightarrow> config_ok c \<Longrightarrow> config_ok c'"
proof (induction args c rule: parse_args_go.induct)
  case (2 arg rest c)
  have step: "config_ok (push_fuse_option opt (c\<lparr>foreground := True\<rparr>))"
      "config_ok (push_fuse_option opt (c\<lparr>debug := True, foreground := True\<rparr>))"
      "config_ok (c\<lparr>mountpoint := m\<rparr>)" for opt m
    using 2(8) by (auto simp: config_ok_def push_fuse_option_def)
  have str: "config_ok c''" if "parse_option_string s c = Inr c''" for s c''
    using that 2(8) by (rule parse_option_string_ok)
  from 2 step str show ?case
    by (auto split: if_splits option.splits list.splits sum.splits)
qed simp

lemma config_default_ok: "config_ok (config_default uid\<lparr>fuse_options := fo\<rparr>)"
  by (simp add: config_ok_def config_default_def)

section \<open>Properties\<close>

text \<open>C31: The list of lower directories survives the command line: escaping the colons of each
  path and joining the paths with colons is undone by \<open>parse_lowerdir\<close>, for non-empty paths
  that do not end in a backslash.\<close>

theorem parse_lowerdir_roundtrip:
  assumes "\<forall>d \<in> set ds. d \<noteq> [] \<and> last d \<noteq> backslash"
  shows "parse_lowerdir (join_with '':'' (map escape_colons ds)) = ds"
  unfolding parse_lowerdir_def using assms by (rule parse_lowerdir_go_join)

theorem parse_lowerdir_roundtrip_witness:
  "parse_lowerdir (join_with '':'' (map escape_colons [''/a:b'', ''/c''])) = [''/a:b'', ''/c'']"
  by (rule parse_lowerdir_roundtrip) simp

text \<open>C32: Any upper and work directory can be named: with commas, backslashes and quotes escaped
  by a backslash, the option string \<^verbatim>\<open>upperdir=...,workdir=...\<close> sets exactly these two paths and
  leaves the rest of the configuration alone.\<close>

theorem parse_option_string_paths:
  "parse_option_string (join_with '','' (map escape_opt [''upperdir='' @ u, ''workdir='' @ w])) c
     = Inr (c\<lparr>upperdir := Some u, workdir := Some w\<rparr>)"
proof -
  have esc: "escape_opt (''upperdir='' @ u) = ''upperdir'' @ CHR ''='' # escape_opt u"
       "escape_opt (''workdir='' @ w) = ''workdir'' @ CHR ''='' # escape_opt w"
    by (simp_all add: escape_opt_def opt_special_def)
  have "split_options (join_with '','' (map escape_opt [''upperdir='' @ u, ''workdir='' @ w]))
      = [''upperdir'' @ CHR ''='' # escape_opt u, ''workdir'' @ CHR ''='' # escape_opt w]"
    by (subst split_options_join) (simp_all add: esc del: append.simps)
  moreover have "split_once (CHR ''='') (''upperdir'' @ CHR ''='' # escape_opt u) = Some (''upperdir'', escape_opt u)"
    "split_once (CHR ''='') (''workdir'' @ CHR ''='' # escape_opt w) = Some (''workdir'', escape_opt w)"
    by (rule split_once_append, simp)+
  ultimately show ?thesis
    by (simp add: parse_option_string_def parse_single_option_def parse_key_value_def
        unescape_escape_opt del: append.simps)
qed

text \<open>What an accepted command line guarantees: a legal \<^verbatim>\<open>xino\<close> mode, debug mode runs in the
  foreground, \<^verbatim>\<open>volatile\<close> disables \<^verbatim>\<open>fsync\<close>, and the mapping tables are exactly the parsed option
  strings (empty without one).\<close>

lemma parse_args_invariant:
  assumes "parse_args uid args = ArgsOk c"
  shows "nfs_filehandles c \<in> {0, 1, 2} \<and> (debug c \<longrightarrow> foreground c) \<and>
         (volatile_mode c \<longrightarrow> \<not> cfg_fsync c) \<and>
         (case uid_str c of None \<Rightarrow> uid_mappings c = [] | Some s \<Rightarrow> parse_mappings s = Inr (uid_mappings c)) \<and>
         (case gid_str c of None \<Rightarrow> gid_mappings c = [] | Some s \<Rightarrow> parse_mappings s = Inr (gid_mappings c))"
proof -
  obtain c1 c2 where go: "parse_args_go (tl args) ((config_default uid)\<lparr>fuse_options :=
        fuse_options (config_default uid) @ default_fuse_options (euid (config_default uid))\<rparr>) = ArgsOk c1"
    and fin: "finish_mappings c1 = Inr c2"
    and c: "c = (if volatile_mode c2 then c2\<lparr>cfg_fsync := False\<rparr> else c2)"
    using assms by (auto simp: parse_args_def Let_def split: args_result.splits sum.splits)
  have "config_ok c1" using parse_args_go_ok[OF go config_default_ok] .
  with fin have "nfs_filehandles c2 \<in> {0, 1, 2} \<and> (debug c2 \<longrightarrow> foreground c2) \<and>
      (case uid_str c2 of None \<Rightarrow> uid_mappings c2 = [] | Some s \<Rightarrow> parse_mappings s = Inr (uid_mappings c2)) \<and>
      (case gid_str c2 of None \<Rightarrow> gid_mappings c2 = [] | Some s \<Rightarrow> parse_mappings s = Inr (gid_mappings c2))"
    by (auto simp: finish_mappings_def config_ok_def split: sum.splits option.splits)
  then show ?thesis by (auto simp: c split: option.splits)
qed

text \<open>A negative timeout is accepted by the option parser although no handler can use it:
  \<^verbatim>\<open>timeout=-1\<close> parses, and \<^verbatim>\<open>Duration::from_secs_f64\<close>, which every entry and attribute reply calls
  on it, has no result (the process panics).\<close>

lemma negative_timeout_accepted:
  "\<exists>c'. parse_single_option ''timeout=-1'' c = Inr c' \<and> duration_from_secs_f64 (timeout c') = None"
  by (simp add: parse_single_option_def parse_key_value_def parse_f64_def lower_char_def byte_in_def
      is_digit_def parse_exp10_def digit_val_def duration_from_secs_f64_def Let_def)

end
