(* ===== verification/Layer.thy ===== *)
theory Layer
  imports Sys Xattr Config
begin

text \<open>
  \<^verbatim>\<open>src/datasource.rs\<close>, \<^verbatim>\<open>src/direct.rs\<close>, \<^verbatim>\<open>src/layer.rs\<close>: a layer is a \<^verbatim>\<open>DataSource\<close> trait object
  (here the record of its methods) and the flag \<open>low\<close>; \<open>direct_ds\<close> is the implementation over system
  calls. A method that opens a parent directory closes it before it returns, so the observing methods
  give no next world. Shown: the layer stack \<open>init_layers\<close> builds has the writable layer, if
  any, first and only read-only layers after it, and \<open>xino=on\<close> is honoured by every layer.
\<close>

section \<open>The DataSource trait\<close>

record 'w data_source =
  ds_file_exists :: "bytes \<Rightarrow> 'w \<Rightarrow> bool fs_result"
  ds_statat :: "bytes \<Rightarrow> oflags \<Rightarrow> 32 word \<Rightarrow> 'w \<Rightarrow> stat fs_result"
  ds_fstat :: "int \<Rightarrow> bytes \<Rightarrow> 32 word \<Rightarrow> 'w \<Rightarrow> stat fs_result"
  ds_opendir :: "bytes \<Rightarrow> 'w \<Rightarrow> dir_entry list fs_result"
  ds_openat :: "bytes \<Rightarrow> oflags \<Rightarrow> mode_t \<Rightarrow> 'w \<Rightarrow> int fs_result \<times> 'w"
  ds_listxattr :: "bytes \<Rightarrow> nat \<Rightarrow> 'w \<Rightarrow> bytes fs_result"
  ds_getxattr :: "bytes \<Rightarrow> bytes \<Rightarrow> nat \<Rightarrow> 'w \<Rightarrow> bytes fs_result"
  ds_readlinkat :: "bytes \<Rightarrow> 'w \<Rightarrow> bytes fs_result"
  ds_get_nfs_filehandle :: "bytes \<Rightarrow> 'w \<Rightarrow> 64 word"
  ds_root_fd :: int
  ds_st_dev :: "64 word"
  ds_stat_override_mode :: stat_override_mode
  ds_nfs_filehandles :: int

record 'w ovl_layer =
  ly_ds :: "'w data_source"
  ly_low :: bool

section \<open>DirectAccess\<close>

record direct_access =
  da_resolved_path :: bytes
  da_fd :: "int option"
  da_dev :: "64 word"
  da_stat_override :: stat_override_mode
  da_nfs_fh :: int
  da_fh_size :: "32 word"

definition direct_new :: direct_access where
  "direct_new = \<lparr>da_resolved_path = [], da_fd = None, da_dev = 0, da_stat_override = SomNone,
     da_nfs_fh = 0, da_fh_size = 0\<rparr>"

definition direct_raw_fd :: "direct_access \<Rightarrow> int" where
  "direct_raw_fd da = (case da_fd da of Some f \<Rightarrow> f | None \<Rightarrow> -1)"

definition probe_nfs_handles :: "'w os \<Rightarrow> bytes \<Rightarrow> 'w \<Rightarrow> int \<times> 32 word" where
  "probe_nfs_handles os path w =
     (case name_to_handle_at os AT_FDCWD path 0 w of
        Inr fh \<Rightarrow> (1, handle_bytes fh)
      | Inl (FsError e) \<Rightarrow> if e = ENOTSUP then (0, 0) else (-1, 0))"

definition detect_stat_override :: "'w os \<Rightarrow> int \<Rightarrow> 'w \<Rightarrow> stat_override_mode" where
  "detect_stat_override os fd w =
     (if \<not> isl (fgetxattr os fd XATTR_PRIVILEGED_OVERRIDE_STAT 64 w) then SomPrivileged
      else if \<not> isl (fgetxattr os fd XATTR_OVERRIDE_CONTAINERS_STAT 64 w) then SomContainers
      else if \<not> isl (fgetxattr os fd XATTR_OVERRIDE_STAT 64 w) then SomUser
      else SomNone)"

definition load_data_source ::
  "'w os \<Rightarrow> direct_access \<Rightarrow> bytes \<Rightarrow> ('w, direct_access fs_result) prog" where
  "load_data_source os da path =
     (case cstr path of Inl e \<Rightarrow> ret (Inl e)
      | Inr c_path \<Rightarrow>
        withS (\<lambda>w. case realpath os c_path w of
            Inl e \<Rightarrow> ret (Inl e)
          | Inr resolved \<Rightarrow>
              bindE (open_trusted os path O_DIRECTORY 0) (\<lambda>fd.
              withS (\<lambda>w. case fstat os fd w of
                  Inl e \<Rightarrow> ret (Inl e)
                | Inr st \<Rightarrow>
                    (case probe_nfs_handles os resolved w of (nfs_fh, fh_size) \<Rightarrow>
                     ok (da\<lparr>da_resolved_path := resolved, da_fd := Some fd, da_dev := st_dev st,
                            da_stat_override := detect_stat_override os fd w,
                            da_nfs_fh := nfs_fh, da_fh_size := fh_size\<rparr>))))))"

text \<open>
  Run an observation below the parent directory of \<open>path\<close>: open the parent safely, then
  observe with its descriptor (or the root's) and the basename.
\<close>

definition at_parent ::
  "'w os \<Rightarrow> direct_access \<Rightarrow> bytes \<Rightarrow> (int \<Rightarrow> bytes \<Rightarrow> 'w \<Rightarrow> 'a fs_result) \<Rightarrow> 'w \<Rightarrow> 'a fs_result" where
  "at_parent os da path f w =
     (case open_parent_safe os (direct_raw_fd da) path w of
        (Inl e, w') \<Rightarrow> Inl e
      | (Inr (parent_fd, basename), w') \<Rightarrow>
          f (case parent_fd of Some p \<Rightarrow> p | None \<Rightarrow> direct_raw_fd da) basename w')"

definition direct_file_exists :: "'w os \<Rightarrow> direct_access \<Rightarrow> bytes \<Rightarrow> 'w \<Rightarrow> bool fs_result" where
  "direct_file_exists os da path =
     at_parent os da path (\<lambda>dirfd basename w. Inr (file_exists_at os dirfd basename w))"

definition direct_statat ::
  "'w os \<Rightarrow> direct_access \<Rightarrow> bytes \<Rightarrow> oflags \<Rightarrow> 32 word \<Rightarrow> 'w \<Rightarrow> stat fs_result" where
  "direct_statat os da path flags msk =
     at_parent os da path (\<lambda>dirfd basename w.
       with_cstr basename (\<lambda>c_name.
         case statx_call os dirfd c_name (AT_STATX_DONT_SYNC OR flags) msk w of
           Inr stx \<Rightarrow> Inr (statx_to_stat os stx)
         | Inl (FsError e) \<Rightarrow>
             if e = ENOSYS \<or> e = EINVAL then fstatat os dirfd c_name flags w
             else Inl (FsError e)))"

definition direct_fstat :: "'w os \<Rightarrow> int \<Rightarrow> bytes \<Rightarrow> 32 word \<Rightarrow> 'w \<Rightarrow> stat fs_result" where
  "direct_fstat os fd path msk w =
     (case statx_call os fd [] (AT_STATX_DONT_SYNC OR AT_EMPTY_PATH) msk w of
        Inr stx \<Rightarrow> Inr (statx_to_stat os stx)
      | Inl (FsError e) \<Rightarrow>
          if e = ENOSYS \<or> e = EINVAL then fstat os fd w else Inl (FsError e))"

definition direct_opendir :: "'w os \<Rightarrow> direct_access \<Rightarrow> bytes \<Rightarrow> 'w \<Rightarrow> dir_entry list fs_result" where
  "direct_opendir os da path w =
     (case safe_openat os (direct_raw_fd da) path (O_DIRECTORY OR O_NOFOLLOW) 0 w of
        (Inl e, w') \<Rightarrow> Inl e
      | (Inr fd, w') \<Rightarrow> dir_stream_from_fd os fd w')"

definition direct_openat ::
  "'w os \<Rightarrow> direct_access \<Rightarrow> bytes \<Rightarrow> oflags \<Rightarrow> mode_t \<Rightarrow> 'w \<Rightarrow> int fs_result \<times> 'w" where
  "direct_openat os da path flags mode = safe_openat os (direct_raw_fd da) path flags mode"

definition direct_listxattr :: "'w os \<Rightarrow> direct_access \<Rightarrow> bytes \<Rightarrow> nat \<Rightarrow> 'w \<Rightarrow> bytes fs_result" where
  "direct_listxattr os da path n =
     at_parent os da path (\<lambda>dirfd basename. llistxattr os (proc_fd_path dirfd basename) n)"

definition direct_getxattr :: "'w os \<Rightarrow> direct_access \<Rightarrow> bytes \<Rightarrow> bytes \<Rightarrow> nat \<Rightarrow> 'w \<Rightarrow> bytes fs_result" where
  "direct_getxattr os da path name n =
     at_parent os da path (\<lambda>dirfd basename. lgetxattr os (proc_fd_path dirfd basename) name n)"

definition direct_readlinkat :: "'w os \<Rightarrow> direct_access \<Rightarrow> bytes \<Rightarrow> 'w \<Rightarrow> bytes fs_result" where
  "direct_readlinkat os da path =
     at_parent os da path (\<lambda>dirfd basename w. with_cstr basename (\<lambda>c. readlinkat os dirfd c w))"

definition direct_get_nfs_filehandle :: "'w os \<Rightarrow> direct_access \<Rightarrow> bytes \<Rightarrow> 'w \<Rightarrow> 64 word" where
  "direct_get_nfs_filehandle os da path w =
     (if da_nfs_fh da \<noteq> 1 \<or> da_fh_size da = 0 then 0
      else case at_parent os da path (\<lambda>dirfd basename. name_to_handle_at os dirfd basename 0) w of
          Inr fh \<Rightarrow> fnv1a_hash (handle fh)
        | Inl _ \<Rightarrow> 0)"

definition direct_ds :: "'w os \<Rightarrow> direct_access \<Rightarrow> 'w data_source" where
  "direct_ds os da =
     \<lparr>ds_file_exists = direct_file_exists os da, ds_statat = direct_statat os da,
      ds_fstat = direct_fstat os, ds_opendir = direct_opendir os da,
      ds_openat = direct_openat os da, ds_listxattr = direct_listxattr os da,
      ds_getxattr = direct_getxattr os da, ds_readlinkat = direct_readlinkat os da,
      ds_get_nfs_filehandle = direct_get_nfs_filehandle os da,
      ds_root_fd = direct_raw_fd da, ds_st_dev = da_dev da,
      ds_stat_override_mode = da_stat_override da, ds_nfs_filehandles = da_nfs_fh da\<rparr>"

definition set_stat_override :: "stat_override_mode \<Rightarrow> direct_access \<Rightarrow> direct_access" where
  "set_stat_override mode da = da\<lparr>da_stat_override := mode\<rparr>"

section \<open>Layers\<close>

datatype layer_error =
    LoadUpper bytes fs_error
  | LoadLower bytes fs_error
  | XinoUpper
  | XinoLower bytes
  | NoLayers

definition from_datasource :: "'w data_source \<Rightarrow> bool \<Rightarrow> 'w ovl_layer" where
  "from_datasource ds low = \<lparr>ly_ds = ds, ly_low = low\<rparr>"

definition init_upper ::
  "'w os \<Rightarrow> bytes option \<Rightarrow> int \<Rightarrow> int \<Rightarrow> ('w, layer_error + 'w ovl_layer list) prog" where
  "init_upper os upper nfs_config xattr_perm =
     (case upper of
        None \<Rightarrow> ret (Inr [])
      | Some u \<Rightarrow>
          bindS (load_data_source os direct_new u) (\<lambda>r. case r of
            Inl e \<Rightarrow> ret (Inl (LoadUpper u e))
          | Inr da \<Rightarrow>
              let da' = (if da_stat_override da = SomNone then
                           (if xattr_perm = 1 then set_stat_override SomPrivileged da
                            else if xattr_perm = 2 then set_stat_override SomContainers da
                            else da)
                         else da) in
              if nfs_config = 2 \<and> da_nfs_fh da' \<noteq> 1 then ret (Inl XinoUpper)
              else ret (Inr [from_datasource (direct_ds os da') False])))"

fun init_lowers ::
  "'w os \<Rightarrow> int \<Rightarrow> bytes list \<Rightarrow> 'w ovl_layer list \<Rightarrow> ('w, layer_error + 'w ovl_layer list) prog" where
  "init_lowers os nfs_config [] layers = ret (Inr layers)"
| "init_lowers os nfs_config (dir # dirs) layers =
     (if parse_plugin_path dir \<noteq> None then init_lowers os nfs_config dirs layers
      else bindS (load_data_source os direct_new dir) (\<lambda>r. case r of
          Inl e \<Rightarrow> ret (Inl (LoadLower dir e))
        | Inr da \<Rightarrow>
            if nfs_config = 2 \<and> da_nfs_fh da \<noteq> 1 then ret (Inl (XinoLower dir))
            else init_lowers os nfs_config dirs (layers @ [from_datasource (direct_ds os da) True])))"

definition init_layers ::
  "'w os \<Rightarrow> bytes \<Rightarrow> bytes option \<Rightarrow> int \<Rightarrow> int \<Rightarrow> ('w, layer_error + 'w ovl_layer list) prog" where
  "init_layers os lower upper nfs_config xattr_perm =
     bindE (init_upper os upper nfs_config xattr_perm) (\<lambda>layers.
     bindE (init_lowers os nfs_config (parse_lowerdir lower) layers) (\<lambda>layers.
       if layers = [] then ret (Inl NoLayers) else ret (Inr layers)))"

definition all_same_device :: "'w ovl_layer list \<Rightarrow> bool" where
  "all_same_device layers =
     (case layers of [] \<Rightarrow> True
      | l # _ \<Rightarrow> list_all (\<lambda>x. ds_st_dev (ly_ds x) = ds_st_dev (ly_ds l)) layers)"

section \<open>Properties of the stack\<close>

text \<open>Only the first layer may be writable.\<close>

definition layers_ok :: "'w ovl_layer list \<Rightarrow> bool" where
  "layers_ok layers \<longleftrightarrow> layers \<noteq> [] \<and> list_all ly_low (tl layers)"

lemma init_lowers_appends:
  "init_lowers os nfs dirs acc w = (Inr ls, w') \<Longrightarrow>
   \<exists>new. ls = acc @ new \<and> list_all ly_low new \<and>
         (nfs = 2 \<longrightarrow> list_all (\<lambda>l. ds_nfs_filehandles (ly_ds l) = 1) new)"
proof (induction os nfs dirs acc arbitrary: w rule: init_lowers.induct)
  case (1 os nfs acc)
  then show ?case by (auto simp: ret_def)
next
  case (2 os nfs dir dirs acc)
  show ?case
  proof (cases "parse_plugin_path dir = None")
    case False
    with 2 show ?thesis by auto
  next
    case True
    then obtain da w1 where da: "load_data_source os direct_new dir w = (Inr da, w1)"
        "\<not> (nfs = 2 \<and> da_nfs_fh da \<noteq> 1)"
        "init_lowers os nfs dirs (acc @ [from_datasource (direct_ds os da) True]) w1 = (Inr ls, w')"
      using "2.prems"
      by (auto simp: bindS_def ret_def split: prod.splits sum.splits if_splits)
    from "2.IH"(2)[OF _ da(2,3)] True obtain new where new:
        "ls = (acc @ [from_datasource (direct_ds os da) True]) @ new" "list_all ly_low new"
        "nfs = 2 \<longrightarrow> list_all (\<lambda>l. ds_nfs_filehandles (ly_ds l) = 1) new" by blast
    then show ?thesis using da(2)
      by (intro exI[of _ "from_datasource (direct_ds os da) True # new"])
        (auto simp: from_datasource_def direct_ds_def)
  qed
qed

lemma init_upper_shape:
  "init_upper os upper nfs xp w = (Inr ls, w') \<Longrightarrow>
   (case upper of None \<Rightarrow> ls = [] | Some _ \<Rightarrow> \<exists>l. ls = [l] \<and> \<not> ly_low l) \<and>
   (nfs = 2 \<longrightarrow> list_all (\<lambda>l. ds_nfs_filehandles (ly_ds l) = 1) ls)"
  by (auto simp: init_upper_def bindS_def ret_def from_datasource_def direct_ds_def Let_def
      split: option.splits prod.splits sum.splits if_splits)

lemma init_layers_shape:
  assumes "init_layers os lower upper nfs xp w = (Inr layers, w')"
  shows "layers_ok layers" "ly_low (hd layers) \<longleftrightarrow> upper = None"
    "nfs = 2 \<Longrightarrow> list_all (\<lambda>l. ds_nfs_filehandles (ly_ds l) = 1) layers"
proof -
  from assms obtain us w1 where u: "init_upper os upper nfs xp w = (Inr us, w1)"
    and l: "init_lowers os nfs (parse_lowerdir lower) us w1 = (Inr layers, w')" and ne: "layers \<noteq> []"
    by (auto simp: init_layers_def prog_defs split: prod.splits sum.splits if_splits)
  from init_lowers_appends[OF l] obtain new where new: "layers = us @ new" "list_all ly_low new"
      "nfs = 2 \<longrightarrow> list_all (\<lambda>l. ds_nfs_filehandles (ly_ds l) = 1) new" by blast
  with init_upper_shape[OF u] ne show "layers_ok layers" "ly_low (hd layers) \<longleftrightarrow> upper = None"
    "nfs = 2 \<Longrightarrow> list_all (\<lambda>l. ds_nfs_filehandles (ly_ds l) = 1) layers"
    by (cases new; auto simp: layers_ok_def split: option.splits)+
qed

text \<open>A kernel on which every directory opens; one upper and one lower directory.\<close>

definition opening_os :: "unit os" where
  "opening_os = refusing_os\<lparr>k_realpath := \<lambda>p w. Inr p, k_open := \<lambda>_ _ _ w. (Inr 3, w),
     k_fstat := \<lambda>_ w. Inr zeroed_stat\<rparr>"

lemma opening_init_layers: "\<exists>layers. init_layers opening_os ''/l'' (Some ''/u'') 0 0 () = (Inr layers, ())"
  and opening_init_lower: "\<exists>layers. init_layers opening_os ''/l'' None 0 0 () = (Inr layers, ())"
proof -
  have "parse_lowerdir ''/l'' = [''/l'']" "parse_plugin_path ''/l'' = None"
    by (simp_all add: parse_lowerdir_def parse_plugin_path_def strip_prefix_def starts_with_def)
  then show "\<exists>layers. init_layers opening_os ''/l'' (Some ''/u'') 0 0 () = (Inr layers, ())"
    "\<exists>layers. init_layers opening_os ''/l'' None 0 0 () = (Inr layers, ())"
    by (simp_all add: init_layers_def init_upper_def load_data_source_def cstr_def cstr_bytes_def
        prog_defs realpath_def opening_os_def open_trusted_def with_cstrP_def lift_eff_def lift_obs_def
        fstat_def probe_nfs_handles_def name_to_handle_at_def with_cstr_def refusing_os_def
        detect_stat_override_def fgetxattr_def direct_new_def Let_def)
qed

end
