(* ===== verification/Attr.thy ===== *)
theory Attr
  imports Layer
begin

text \<open>
  \<^verbatim>\<open>src/overlay.rs\<close>, the free functions: conversion of a \<^verbatim>\<open>stat\<close> to the attributes sent to the
  kernel, and the ownership overrides \<open>uid:gid:mode[:type]\<close> kept in extended attributes for
  rootless use. Shown: what the writer in \<^verbatim>\<open>setattr\<close> stores, both readers recover.
\<close>

section \<open>File attributes\<close>

datatype file_type =
    Directory | RegularFile | Symlink | BlockDevice | CharDevice | NamedPipe | Socket

text \<open>
  \<open>UNIX_EPOCH + Duration::new(secs, nsec)\<close> panics when the seconds, cast to \<^verbatim>\<open>u64\<close>, leave the range of
  \<^verbatim>\<open>SystemTime\<close>, that is, for times before 1970; \<open>None\<close> stands for the panic. (Nanoseconds of a
  \<^verbatim>\<open>stat\<close> are below one second.)
\<close>

type_synonym systime = "(64 word \<times> 32 word) option"

definition epoch_plus :: "64 word \<Rightarrow> 64 word \<Rightarrow> systime" where
  "epoch_plus secs nsec = (if sint secs < 0 then None else Some (secs, ucast nsec))"

record file_attr =
  fa_ino :: "64 word"
  fa_size :: "64 word"
  fa_blocks :: "64 word"
  fa_atime :: systime
  fa_mtime :: systime
  fa_ctime :: systime
  fa_kind :: file_type
  fa_perm :: "16 word"
  fa_nlink :: "32 word"
  fa_uid :: "32 word"
  fa_gid :: "32 word"
  fa_rdev :: "32 word"
  fa_blksize :: "32 word"

definition mode_to_filetype :: "mode_t \<Rightarrow> file_type" where
  "mode_to_filetype mode =
     (let t = mode AND S_IFMT in
      if t = S_IFDIR then Directory
      else if t = S_IFREG then RegularFile
      else if t = S_IFLNK then Symlink
      else if t = S_IFBLK then BlockDevice
      else if t = S_IFCHR then CharDevice
      else if t = S_IFIFO then NamedPipe
      else if t = S_IFSOCK then Socket
      else RegularFile)"

definition stat_to_attr :: "stat \<Rightarrow> file_attr" where
  "stat_to_attr st =
     \<lparr>fa_ino = st_ino st, fa_size = st_size st, fa_blocks = st_blocks st,
      fa_atime = epoch_plus (st_atime st) (st_atime_nsec st),
      fa_mtime = epoch_plus (st_mtime st) (st_mtime_nsec st),
      fa_ctime = epoch_plus (st_ctime st) (st_ctime_nsec st),
      fa_kind = mode_to_filetype (st_mode st), fa_perm = ucast (st_mode st AND 0xFFF),
      fa_nlink = ucast (st_nlink st), fa_uid = st_uid st, fa_gid = st_gid st,
      fa_rdev = ucast (st_rdev st), fa_blksize = ucast (st_blksize st)\<rparr>"

definition attr_panics :: "file_attr \<Rightarrow> bool" where
  "attr_panics a \<longleftrightarrow> fa_atime a = None \<or> fa_mtime a = None \<or> fa_ctime a = None"

section \<open>Ownership overrides\<close>

definition format_override :: "32 word \<Rightarrow> 32 word \<Rightarrow> 32 word \<Rightarrow> bytes" where
  "format_override uid gid mode =
     show_nat (unat uid) @ '':'' @ show_nat (unat gid) @ '':'' @ show_octal (unat mode)"

definition parse_override_fields :: "bytes \<Rightarrow> stat \<Rightarrow> 32 word \<times> 32 word \<times> 32 word" where
  "parse_override_fields s st =
     (let parts = splitn_on 4 (CHR '':'') s in
      if length parts < 3 then (st_uid st, st_gid st, st_mode st AND 0xFFF)
      else
        (case parse_u32 (parts ! 0) of Some u \<Rightarrow> u | None \<Rightarrow> st_uid st,
         case parse_u32 (parts ! 1) of Some g \<Rightarrow> g | None \<Rightarrow> st_gid st,
         case parse_u32_radix 8 (parts ! 2) of Some m \<Rightarrow> m | None \<Rightarrow> st_mode st AND 0xFFF))"

definition parse_device :: "'w os \<Rightarrow> bytes \<Rightarrow> 64 word option" where
  "parse_device os s =
     (let parts = splitn_on 2 (CHR '':'') s in
      if length parts \<noteq> 2 then None
      else case parse_u32 (parts ! 0) of
          None \<Rightarrow> None
        | Some major \<Rightarrow>
            (case parse_u32 (parts ! 1) of
               None \<Rightarrow> None
             | Some minor \<Rightarrow> Some (libc_makedev os major minor)))"

text \<open>The type suffix gives the file type bits and possibly a device number.\<close>

definition override_type ::
  "'w os \<Rightarrow> bytes \<Rightarrow> mode_t \<Rightarrow> stat \<Rightarrow> (mode_t \<times> stat) fs_result" where
  "override_type os type_str mode st =
     (if starts_with type_str ''dir'' then Inr (mode OR S_IFDIR, st)
      else if starts_with type_str ''file'' then Inr (mode OR S_IFREG, st)
      else if starts_with type_str ''symlink'' then Inr (mode OR S_IFLNK, st)
      else if starts_with type_str ''pipe'' then Inr (mode OR S_IFIFO, st)
      else if starts_with type_str ''socket'' then Inr (mode OR S_IFSOCK, st)
      else case strip_prefix type_str ''block'' of
          Some rest \<Rightarrow>
            Inr (mode OR S_IFBLK,
                 case parse_device os rest of Some dev \<Rightarrow> st\<lparr>st_rdev := dev\<rparr> | None \<Rightarrow> st)
        | None \<Rightarrow>
            (case strip_prefix type_str ''char'' of
               Some rest \<Rightarrow>
                 Inr (mode OR S_IFCHR,
                      case parse_device os rest of Some dev \<Rightarrow> st\<lparr>st_rdev := dev\<rparr> | None \<Rightarrow> st)
             | None \<Rightarrow> Inl (FsError EINVAL)))"

definition parse_and_apply_override :: "'w os \<Rightarrow> bytes \<Rightarrow> stat \<Rightarrow> stat fs_result" where
  "parse_and_apply_override os s st =
     (let parts = splitn_on 4 (CHR '':'') s in
      if length parts < 3 then Inl (FsError EINVAL)
      else case parse_u32 (parts ! 0) of
          None \<Rightarrow> Inl (FsError EINVAL)
        | Some uid \<Rightarrow>
      (case parse_u32 (parts ! 1) of
          None \<Rightarrow> Inl (FsError EINVAL)
        | Some gid \<Rightarrow>
      (case parse_u32_radix 8 (parts ! 2) of
          None \<Rightarrow> Inl (FsError EINVAL)
        | Some mode \<Rightarrow>
      (case (if length parts = 4 then override_type os (parts ! 3) mode st
             else Inr (mode OR (st_mode st AND S_IFMT), st)) of
          Inl e \<Rightarrow> Inl e
        | Inr (final_mode, st') \<Rightarrow>
            Inr (st'\<lparr>st_uid := uid, st_gid := gid, st_mode := final_mode\<rparr>)))))"

definition override_xattr_name :: "stat_override_mode \<Rightarrow> bytes option" where
  "override_xattr_name som =
     (case som of
        SomNone \<Rightarrow> None
      | SomUser \<Rightarrow> Some XATTR_OVERRIDE_CONTAINERS_STAT
      | SomContainers \<Rightarrow> Some XATTR_OVERRIDE_CONTAINERS_STAT
      | SomPrivileged \<Rightarrow> Some XATTR_PRIVILEGED_OVERRIDE_STAT)"

text \<open>\<^verbatim>\<open>override_mode\<close> changes the \<^verbatim>\<open>stat\<close> in place; an error leaves it as it was.\<close>

definition override_mode ::
  "'w os \<Rightarrow> 'w ovl_layer \<Rightarrow> int \<Rightarrow> bytes \<Rightarrow> stat \<Rightarrow> 'w \<Rightarrow> stat fs_result" where
  "override_mode os layer fd path st w =
     (let file_type = st_mode st AND S_IFMT in
      if file_type \<noteq> S_IFDIR \<and> file_type \<noteq> S_IFREG then Inr st
      else case override_xattr_name (ds_stat_override_mode (ly_ds layer)) of
          None \<Rightarrow> Inr st
        | Some xattr_name \<Rightarrow>
            (case (if 0 \<le> fd then fgetxattr os fd xattr_name 64 w
                   else ds_getxattr (ly_ds layer) path xattr_name 64 w) of
               Inl (FsError e) \<Rightarrow>
                 if e = ENODATA \<or> e = ENOTSUP then Inr st else Inl (FsError e)
             | Inr buf \<Rightarrow>
                 (case from_utf8 buf of
                    None \<Rightarrow> Inl (FsError EINVAL)
                  | Some s \<Rightarrow> parse_and_apply_override os s st)))"

section \<open>Properties\<close>

lemma splitn_on_override:
  assumes "CHR '':'' \<notin> set a" "CHR '':'' \<notin> set b" "CHR '':'' \<notin> set c"
  shows "splitn_on 4 (CHR '':'') (a @ '':'' @ b @ '':'' @ c) = [a, b, c]"
  using assms by (simp add: eval_nat_numeral split_once_append split_once_None_iff[THEN iffD2])

lemma splitn_format_override:
  "splitn_on 4 (CHR '':'') (format_override u g m) =
     [show_nat (unat u), show_nat (unat g), show_octal (unat m)]"
  unfolding format_override_def
  by (rule splitn_on_override; (rule show_nat_no_char | rule show_octal_no_char); simp)

lemma parse_override_fields_format: "parse_override_fields (format_override u g m) st = (u, g, m)"
  by (simp add: parse_override_fields_def splitn_format_override parse_u32_show parse_u32_octal_show)

text \<open>The override value that \<^verbatim>\<open>setattr\<close> writes is a text format both readers understand.\<close>

interpretation override_text:
  codec "\<lambda>(u, g, m). format_override u g m" "\<lambda>s. Some (parse_override_fields s zeroed_stat)" "\<lambda>_. True"
  by unfold_locales (auto simp: parse_override_fields_format)

text \<open>C36: Ownership overrides survive the round trip: the value \<^verbatim>\<open>uid:gid:mode\<close> written by
  \<^verbatim>\<open>setattr\<close> (decimal, decimal, octal) is read back exactly by the reader \<^verbatim>\<open>setattr\<close> uses to
  merge later changes, and applied to a \<^verbatim>\<open>stat\<close> it sets the owner, the group and the permission bits
  while it keeps the file type.\<close>

theorem override_roundtrip:
  "parse_override_fields (format_override u g m) st = (u, g, m) \<and>
   parse_and_apply_override os (format_override u g m) st =
     Inr (st\<lparr>st_uid := u, st_gid := g, st_mode := m OR (st_mode st AND S_IFMT)\<rparr>)"
  by (simp add: parse_override_fields_format parse_and_apply_override_def splitn_format_override
      parse_u32_show parse_u32_octal_show)

text \<open>A layer that is in user override mode (its root carries
  \<^verbatim>\<open>user.fuseoverlayfs.override_stat\<close>) never has that attribute consulted for a file: whatever its
  value, \<^verbatim>\<open>override_mode\<close> asks only for \<^verbatim>\<open>user.containers.override_stat\<close>, and when the files do not
  carry that one the ownership stays the one on disk.\<close>

lemma user_override_not_read:
  assumes "ds_stat_override_mode (ly_ds layer) = SomUser"
    and "ds_getxattr (ly_ds layer) path XATTR_OVERRIDE_CONTAINERS_STAT 64 w = Inl (FsError ENODATA)"
  shows "override_mode os layer (-1) path st w = Inr st"
  using assms by (simp add: override_mode_def override_xattr_name_def Let_def)


end
