(* ===== verification/Node.thy ===== *)
theory Node
  imports Sys
begin

text \<open>
  \<^verbatim>\<open>src/node.rs\<close>, first part: the nodes of the overlay tree, the arena that owns them, and the path
  of a node. Node ids and the id counter are naturals (a 64-bit counter that is only ever
  incremented). The global counter \<^verbatim>\<open>STAT_NODES\<close> is a field of the arena. Shown: the contract of
  the arena (ids are never reused), that its statistics count the nodes, and that \<^verbatim>\<open>compute_path\<close>
  returns the path of every node whose parent chain ends.
\<close>

section \<open>Data\<close>

type_synonym node_id = nat

datatype dir_state =
    NotADir
  | Dir (children_of: "(bytes \<times> node_id) list") (whiteouts_of: "bytes list") (loaded_of: bool)

record ovl_node =
  nd_parent :: "node_id option"
  nd_dir_state :: dir_state
  nd_layer_idx :: nat
  nd_last_layer_idx :: nat
  nd_tmp_ino :: "64 word"
  nd_tmp_dev :: "64 word"
  nd_name :: bytes
  nd_hidden_path :: "bytes option"
  nd_hidden_dirfd :: int
  nd_name_hash :: "64 word"
  nd_n_links :: nat
  nd_mode :: mode_t
  nd_do_unlink :: bool
  nd_do_rmdir :: bool
  nd_hidden :: bool

record node_arena =
  ar_map :: "node_id \<rightharpoonup> ovl_node"
  ar_next_id :: node_id
  ar_stat_nodes :: "64 word"

section \<open>The arena\<close>

definition arena_new :: node_arena where
  "arena_new = \<lparr>ar_map = Map.empty, ar_next_id = 1, ar_stat_nodes = 0\<rparr>"

definition arena_insert :: "ovl_node \<Rightarrow> node_arena \<Rightarrow> node_id \<times> node_arena" where
  "arena_insert node a =
     (ar_next_id a,
      a\<lparr>ar_map := (ar_map a)(ar_next_id a \<mapsto> node), ar_next_id := ar_next_id a + 1,
        ar_stat_nodes := ar_stat_nodes a + 1\<rparr>)"

definition arena_get :: "node_arena \<Rightarrow> node_id \<Rightarrow> ovl_node option" where
  "arena_get a i = ar_map a i"

text \<open>\<^verbatim>\<open>if let Some(n) = arena.get_mut(&id) { f(n) }\<close>.\<close>

definition arena_update :: "node_id \<Rightarrow> (ovl_node \<Rightarrow> ovl_node) \<Rightarrow> node_arena \<Rightarrow> node_arena" where
  "arena_update i f a =
     (case ar_map a i of None \<Rightarrow> a | Some n \<Rightarrow> a\<lparr>ar_map := (ar_map a)(i \<mapsto> f n)\<rparr>)"

definition arena_remove :: "node_id \<Rightarrow> node_arena \<Rightarrow> ovl_node option \<times> node_arena" where
  "arena_remove i a =
     (case ar_map a i of
        None \<Rightarrow> (None, a)
      | Some n \<Rightarrow>
          (Some n, a\<lparr>ar_map := (ar_map a)(i := None), ar_stat_nodes := ar_stat_nodes a - 1\<rparr>))"

definition arena_contains :: "node_arena \<Rightarrow> node_id \<Rightarrow> bool" where
  "arena_contains a i \<longleftrightarrow> ar_map a i \<noteq> None"

section \<open>Nodes\<close>

definition fnv1a_name_hash :: "bytes \<Rightarrow> 64 word" where
  "fnv1a_name_hash name = fnv1a_go 0xcbf29ce484222325 name"

definition node_new :: "bytes \<Rightarrow> nat \<Rightarrow> 64 word \<Rightarrow> 64 word \<Rightarrow> bool \<Rightarrow> ovl_node" where
  "node_new name layer_idx ino dev is_directory =
     \<lparr>nd_parent = None,
      nd_dir_state = (if is_directory then Dir [] [] False else NotADir),
      nd_layer_idx = layer_idx, nd_last_layer_idx = layer_idx,
      nd_tmp_ino = ino, nd_tmp_dev = dev, nd_name = name,
      nd_hidden_path = None, nd_hidden_dirfd = -1, nd_name_hash = fnv1a_name_hash name,
      nd_n_links = 0, nd_mode = (if is_directory then S_IFDIR else 0),
      nd_do_unlink = False, nd_do_rmdir = False, nd_hidden = False\<rparr>"

definition is_dir :: "ovl_node \<Rightarrow> bool" where
  "is_dir n = (case nd_dir_state n of Dir _ _ _ \<Rightarrow> True | NotADir \<Rightarrow> False)"

definition is_loaded :: "ovl_node \<Rightarrow> bool" where
  "is_loaded n = (case nd_dir_state n of Dir _ _ l \<Rightarrow> l | NotADir \<Rightarrow> False)"

definition set_loaded :: "bool \<Rightarrow> ovl_node \<Rightarrow> ovl_node" where
  "set_loaded b n =
     (case nd_dir_state n of Dir ch wh _ \<Rightarrow> n\<lparr>nd_dir_state := Dir ch wh b\<rparr> | NotADir \<Rightarrow> n)"

definition mark_loaded :: "ovl_node \<Rightarrow> ovl_node" where
  "mark_loaded n = set_loaded True n"

definition mark_unloaded :: "ovl_node \<Rightarrow> ovl_node" where
  "mark_unloaded n = set_loaded False n"

definition get_child :: "ovl_node \<Rightarrow> bytes \<Rightarrow> node_id option" where
  "get_child n name = (case nd_dir_state n of Dir ch _ _ \<Rightarrow> map_of ch name | NotADir \<Rightarrow> None)"

definition children :: "ovl_node \<Rightarrow> (bytes \<times> node_id) list option" where
  "children n = (case nd_dir_state n of Dir ch _ _ \<Rightarrow> Some ch | NotADir \<Rightarrow> None)"

definition insert_child :: "bytes \<Rightarrow> node_id \<Rightarrow> ovl_node \<Rightarrow> ovl_node" where
  "insert_child name child_id n =
     (case nd_dir_state n of
        Dir ch wh l \<Rightarrow> n\<lparr>nd_dir_state := Dir (AList.update name child_id ch) (removeAll name wh) l\<rparr>
      | NotADir \<Rightarrow> n)"

definition remove_child :: "bytes \<Rightarrow> ovl_node \<Rightarrow> ovl_node" where
  "remove_child name n =
     (case nd_dir_state n of
        Dir ch wh l \<Rightarrow> n\<lparr>nd_dir_state := Dir (AList.delete name ch) wh l\<rparr>
      | NotADir \<Rightarrow> n)"

definition is_whiteout :: "ovl_node \<Rightarrow> bytes \<Rightarrow> bool" where
  "is_whiteout n name = (case nd_dir_state n of Dir _ wh _ \<Rightarrow> name \<in> set wh | NotADir \<Rightarrow> False)"

definition insert_whiteout :: "bytes \<Rightarrow> ovl_node \<Rightarrow> ovl_node" where
  "insert_whiteout name n =
     (case nd_dir_state n of
        Dir ch wh l \<Rightarrow> n\<lparr>nd_dir_state := Dir ch (List.insert name wh) l\<rparr>
      | NotADir \<Rightarrow> n)"

definition clear_children :: "ovl_node \<Rightarrow> ovl_node" where
  "clear_children n =
     (case nd_dir_state n of Dir _ _ l \<Rightarrow> n\<lparr>nd_dir_state := Dir [] [] l\<rparr> | NotADir \<Rightarrow> n)"

text \<open>\<^verbatim>\<open>Drop\<close>: what happens to the world when a node leaves the arena for good.\<close>

definition node_drop :: "'w os \<Rightarrow> ovl_node \<Rightarrow> ('w, unit) prog" where
  "node_drop os n =
     (case nd_hidden_path n of
        None \<Rightarrow> ret ()
      | Some path \<Rightarrow>
          (case cstr_bytes path of
             Inl _ \<Rightarrow> ret ()
           | Inr c_path \<Rightarrow>
               doS (if nd_do_unlink n then doS (unlinkat os (nd_hidden_dirfd n) c_path 0) (ret ())
                    else ret ())
                   (if nd_do_rmdir n
                    then doS (unlinkat os (nd_hidden_dirfd n) c_path AT_REMOVEDIR) (ret ())
                    else ret ())))"

section \<open>Paths\<close>

text \<open>
  The loop of \<^verbatim>\<open>compute_path\<close> follows parent pointers and would not end on a cyclic arena. The
  fuel is the number of ids ever given plus one, which is enough for every chain that ends
  (\<open>compute_path_ends\<close>); a chain that does not end has no path and gives the empty one.
\<close>

fun path_walk :: "nat \<Rightarrow> node_arena \<Rightarrow> node_id \<Rightarrow> bytes list \<Rightarrow> bytes option" where
  "path_walk 0 a current parts = None"
| "path_walk (Suc k) a current parts =
     (case arena_get a current of
        None \<Rightarrow> Some (join_with ''/'' parts)
      | Some n \<Rightarrow>
          (case nd_parent n of
             None \<Rightarrow> Some (if parts = [] then ''.'' else join_with ''/'' parts)
           | Some p \<Rightarrow> path_walk k a p (nd_name n # parts)))"

lemma path_walk_pos:
  "0 < k \<Longrightarrow> path_walk k a current parts =
     (case arena_get a current of
        None \<Rightarrow> Some (join_with ''/'' parts)
      | Some n \<Rightarrow>
          (case nd_parent n of
             None \<Rightarrow> Some (if parts = [] then ''.'' else join_with ''/'' parts)
           | Some p \<Rightarrow> path_walk (k - 1) a p (nd_name n # parts)))"
  by (cases k) (simp_all split: option.split)

definition compute_path :: "node_arena \<Rightarrow> node_id \<Rightarrow> bytes" where
  "compute_path a i = (case path_walk (Suc (ar_next_id a)) a i [] of Some p \<Rightarrow> p | None \<Rightarrow> [])"

text \<open>\<^verbatim>\<open>OverlayInner::child_path\<close>.\<close>

definition child_path :: "bytes \<Rightarrow> bytes \<Rightarrow> bytes" where
  "child_path parent_path name = (if parent_path = ''.'' then name else parent_path @ ''/'' @ name)"

section \<open>The contract of the arena\<close>

definition arena_wf :: "node_arena \<Rightarrow> bool" where
  "arena_wf a \<longleftrightarrow> dom (ar_map a) \<subseteq> {1..<ar_next_id a} \<and> 1 \<le> ar_next_id a \<and>
     ar_stat_nodes a = of_nat (card (dom (ar_map a)))"

lemma arena_wf_finite: "arena_wf a \<Longrightarrow> finite (dom (ar_map a))"
  unfolding arena_wf_def by (meson finite_atLeastLessThan finite_subset)

lemma arena_wf_new [simp]: "arena_wf arena_new"
  by (simp add: arena_wf_def arena_new_def)

lemma arena_wf_fresh: "arena_wf a \<Longrightarrow> ar_map a (ar_next_id a) = None"
  by (force simp: arena_wf_def)

lemma arena_wf_insert:
  assumes "arena_wf a"
  shows "arena_wf (snd (arena_insert n a))"
  using assms arena_wf_finite[OF assms] arena_wf_fresh[OF assms]
  by (auto simp: arena_wf_def arena_insert_def card_insert_if domIff)

lemma arena_update_map:
  "ar_map (arena_update i f a) = (ar_map a)(i := map_option f (ar_map a i))"
  by (auto simp: arena_update_def fun_eq_iff split: option.splits)

lemma arena_update_simps [simp]:
  "ar_next_id (arena_update i f a) = ar_next_id a"
  "ar_stat_nodes (arena_update i f a) = ar_stat_nodes a"
  "dom (ar_map (arena_update i f a)) = dom (ar_map a)"
  by (auto simp: arena_update_def split: option.splits)

lemma arena_wf_update [simp]: "arena_wf (arena_update i f a) \<longleftrightarrow> arena_wf a"
  by (simp add: arena_wf_def)

lemma arena_wf_remove:
  assumes "arena_wf a"
  shows "arena_wf (snd (arena_remove i a))"
proof (cases "ar_map a i")
  case (Some n)
  then have "i \<in> dom (ar_map a)" by blast
  then have "card (dom (ar_map a)) = Suc (card (dom (ar_map a) - {i}))"
    using arena_wf_finite[OF assms] by (meson card.remove)
  then show ?thesis using assms Some by (auto simp: arena_wf_def arena_remove_def)
qed (use assms in \<open>simp add: arena_remove_def\<close>)

lemma arena_get_insert:
  "arena_get (snd (arena_insert n a)) i = (if i = ar_next_id a then Some n else arena_get a i)"
  by (simp add: arena_insert_def arena_get_def)

lemma arena_get_update:
  "arena_get (arena_update i f a) j = (if j = i then map_option f (arena_get a i) else arena_get a j)"
  by (simp add: arena_get_def arena_update_map)

lemma arena_get_remove:
  "arena_get (snd (arena_remove i a)) j = (if j = i then None else arena_get a j)"
  by (auto simp: arena_remove_def arena_get_def split: option.splits)

lemma arena_next_id_insert [simp]: "ar_next_id (snd (arena_insert n a)) = Suc (ar_next_id a)"
  by (simp add: arena_insert_def)

lemma fst_arena_insert [simp]: "fst (arena_insert n a) = ar_next_id a"
  by (simp add: arena_insert_def)

lemma arena_next_id_remove [simp]: "ar_next_id (snd (arena_remove i a)) = ar_next_id a"
  by (auto simp: arena_remove_def split: option.splits)

lemma arena_contains_get: "arena_contains a i \<longleftrightarrow> arena_get a i \<noteq> None"
  by (simp add: arena_contains_def arena_get_def)

lemma arena_live_bound: "arena_wf a \<Longrightarrow> arena_get a i = Some n \<Longrightarrow> i < ar_next_id a"
  by (force simp: arena_get_def arena_wf_def)

lemmas arena_get_simps = arena_get_insert arena_get_update arena_get_remove

text \<open>
  What the tree code relies on: an allocated id is new, reads see the last write, other ids are
  left alone, and ids are given in increasing order, so that an id that was
  removed is never given to another node.
\<close>

locale id_store =
  fixes inv :: "'s \<Rightarrow> bool"
    and lookup :: "'s \<Rightarrow> nat \<Rightarrow> 'n option"
    and alloc :: "'n \<Rightarrow> 's \<Rightarrow> nat \<times> 's"
    and modify :: "nat \<Rightarrow> ('n \<Rightarrow> 'n) \<Rightarrow> 's \<Rightarrow> 's"
    and discard :: "nat \<Rightarrow> 's \<Rightarrow> 's"
    and bound :: "'s \<Rightarrow> nat"
  assumes alloc_inv: "inv s \<Longrightarrow> inv (snd (alloc n s))"
    and modify_inv: "inv s \<Longrightarrow> inv (modify i f s)"
    and discard_inv: "inv s \<Longrightarrow> inv (discard i s)"
    and live_bound: "inv s \<Longrightarrow> lookup s i \<noteq> None \<Longrightarrow> i < bound s"
    and alloc_id: "inv s \<Longrightarrow> bound s \<le> fst (alloc n s)"
    and alloc_bound: "inv s \<Longrightarrow> fst (alloc n s) < bound (snd (alloc n s))"
    and modify_bound: "bound (modify i f s) = bound s"
    and discard_bound: "bound (discard i s) = bound s"
    and lookup_alloc: "inv s \<Longrightarrow>
          lookup (snd (alloc n s)) i = (if i = fst (alloc n s) then Some n else lookup s i)"
    and lookup_modify: "lookup (modify i f s) j = (if j = i then map_option f (lookup s i) else lookup s j)"
    and lookup_discard: "lookup (discard i s) j = (if j = i then None else lookup s j)"
begin

lemma alloc_fresh: "inv s \<Longrightarrow> lookup s (fst (alloc n s)) = None"
  using alloc_id live_bound by (metis leD)

lemma alloc_read: "inv s \<Longrightarrow> lookup (snd (alloc n s)) (fst (alloc n s)) = Some n"
  by (simp add: lookup_alloc)

lemma alloc_live: "inv s \<Longrightarrow> lookup s i = Some m \<Longrightarrow> lookup (snd (alloc n s)) i = Some m"
  using alloc_fresh by (force simp: lookup_alloc)

text \<open>A discarded id is not given by any later allocation.\<close>

lemma no_reuse:
  assumes "inv s" "lookup s i \<noteq> None"
  shows "fst (alloc n (discard i s)) \<noteq> i"
  using assms alloc_id[OF discard_inv] discard_bound live_bound by (metis leD)

end

interpretation arena: id_store arena_wf arena_get arena_insert arena_update
  "\<lambda>i a. snd (arena_remove i a)" ar_next_id
  by unfold_locales
    (auto simp: arena_wf_insert arena_wf_remove arena_get_simps arena_live_bound)

section \<open>Paths are computed\<close>

text \<open>
  \<open>chain a i n\<close>: the parent chain from \<open>i\<close> ends after \<open>n\<close> nodes. The length is unique and the
  nodes on the chain are distinct, so it is at most the number of nodes.
\<close>

inductive chain :: "node_arena \<Rightarrow> node_id \<Rightarrow> nat \<Rightarrow> bool" for a where
  chain_missing: "arena_get a i = None \<Longrightarrow> chain a i 0"
| chain_root: "arena_get a i = Some n \<Longrightarrow> nd_parent n = None \<Longrightarrow> chain a i (Suc 0)"
| chain_step: "arena_get a i = Some n \<Longrightarrow> nd_parent n = Some p \<Longrightarrow> chain a p k \<Longrightarrow> chain a i (Suc k)"

lemma chain_missing_iff: "arena_get a i = None \<Longrightarrow> chain a i n \<longleftrightarrow> n = 0"
  by (auto elim: chain.cases intro: chain.chain_missing)

lemma chain_root_iff: "arena_get a i = Some nd \<Longrightarrow> nd_parent nd = None \<Longrightarrow> chain a i n \<longleftrightarrow> n = Suc 0"
  by (auto elim: chain.cases intro: chain.chain_root)

lemma chain_stepD:
  "chain a i n \<Longrightarrow> arena_get a i = Some nd \<Longrightarrow> nd_parent nd = Some p \<Longrightarrow> \<exists>k. n = Suc k \<and> chain a p k"
  by (erule chain.cases) simp_all

lemma chain_unique: "chain a i m \<Longrightarrow> chain a i n \<Longrightarrow> m = n"
proof (induction arbitrary: n rule: chain.induct)
  case (chain_step i nd p k)
  then show ?case using chain_stepD by blast
qed (simp_all add: chain_missing_iff chain_root_iff)

lemma chain_nodes:
  "chain a i n \<Longrightarrow> \<exists>g. \<forall>j. 1 \<le> j \<and> j \<le> n \<longrightarrow> g j \<in> dom (ar_map a) \<and> chain a (g j) j"
proof (induction rule: chain.induct)
  case (chain_root i n)
  then show ?case by (intro exI[of _ "\<lambda>_. i"]) (auto simp: arena_get_def le_Suc_eq intro!: chain.chain_root)
next
  case (chain_step i n p k)
  then obtain g where g: "\<forall>j. 1 \<le> j \<and> j \<le> k \<longrightarrow> g j \<in> dom (ar_map a) \<and> chain a (g j) j" by blast
  then show ?case using chain_step.hyps
    by (intro exI[of _ "g(Suc k := i)"]) (auto simp: arena_get_def le_Suc_eq intro: chain.chain_step)
qed auto

lemma chain_le_card:
  assumes "arena_wf a" "chain a i n"
  shows "n \<le> card (dom (ar_map a))"
proof -
  obtain g where g: "\<forall>j. 1 \<le> j \<and> j \<le> n \<longrightarrow> g j \<in> dom (ar_map a) \<and> chain a (g j) j"
    using chain_nodes[OF assms(2)] by blast
  have "inj_on g {1..n}"
    using g chain_unique by (metis (no_types, lifting) atLeastAtMost_iff inj_onI)
  moreover have "g ` {1..n} \<subseteq> dom (ar_map a)" using g by auto
  ultimately show ?thesis
    using card_inj_on_le[of g "{1..n}"] arena_wf_finite[OF assms(1)] by simp
qed

lemma arena_card_less: "arena_wf a \<Longrightarrow> card (dom (ar_map a)) < ar_next_id a"
  using card_mono[of "{1..<ar_next_id a}" "dom (ar_map a)"] by (auto simp: arena_wf_def)

lemma path_walk_fuel:
  "chain a i n \<Longrightarrow> n < k \<Longrightarrow> \<exists>p. path_walk k a i parts = Some p"
proof (induction arbitrary: k parts rule: chain.induct)
  case (chain_step i n p m)
  then show ?case by (cases k) auto
qed (case_tac k; simp)+

lemma path_walk_mono:
  "path_walk k a i parts = Some p \<Longrightarrow> k \<le> m \<Longrightarrow> path_walk m a i parts = Some p"
proof (induction k a i parts arbitrary: m rule: path_walk.induct)
  case (2 k a current parts)
  then show ?case by (cases m) (auto split: option.splits)
qed simp

text \<open>The names on the chain, from the top; \<open>None\<close> when the chain ends at once in a root.\<close>

lemma path_walk_acc:
  "path_walk k a i parts = Some p \<Longrightarrow> parts \<noteq> [] \<Longrightarrow>
   \<exists>names. p = join_with ''/'' (names @ parts) \<and>
           (\<forall>parts'. names @ parts' \<noteq> [] \<longrightarrow> path_walk k a i parts' = Some (join_with ''/'' (names @ parts')))"
proof (induction k a i parts arbitrary: p rule: path_walk.induct)
  case (2 k a i parts)
  show ?case
  proof (cases "\<exists>n q. arena_get a i = Some n \<and> nd_parent n = Some q")
    case True
    then obtain n q where nq: "arena_get a i = Some n" "nd_parent n = Some q" by blast
    from "2.IH"[OF nq] "2.prems" nq obtain names where
      "p = join_with ''/'' (names @ nd_name n # parts)"
      "\<forall>parts'. names @ parts' \<noteq> [] \<longrightarrow> path_walk k a q parts' = Some (join_with ''/'' (names @ parts'))"
      by auto
    then show ?thesis using nq by (intro exI[of _ "names @ [nd_name n]"]) auto
  next
    case False
    then show ?thesis using "2.prems" by (intro exI[of _ "[]"]) (auto split: option.splits)
  qed
qed simp

lemma join_with_snoc:
  "ps \<noteq> [] \<Longrightarrow> join_with sep (ps @ [q]) = join_with sep ps @ sep @ q"
  by (induction sep ps rule: join_with.induct) auto

text \<open>A parent order: no node is its own ancestor.\<close>

definition acyclic_tree :: "node_arena \<Rightarrow> bool" where
  "acyclic_tree a \<longleftrightarrow> (\<forall>i. \<exists>n. chain a i n)"

lemma compute_path_Some:
  assumes "arena_wf a" "chain a i n"
  shows "path_walk (Suc (ar_next_id a)) a i [] = Some (compute_path a i)"
proof -
  have "n < Suc (ar_next_id a)"
    using chain_le_card[OF assms] arena_card_less[OF assms(1)] by simp
  from path_walk_fuel[OF assms(2) this] obtain p where
    "path_walk (Suc (ar_next_id a)) a i [] = Some p" by blast
  then show ?thesis by (simp only: compute_path_def option.case)
qed

lemma compute_path_child:
  assumes wf: "arena_wf a" and ch: "chain a p n"
    and c: "arena_get a i = Some c" "nd_parent c = Some p" and p: "arena_get a p = Some pn"
  shows "compute_path a i =
    (if nd_parent pn = None then nd_name c else compute_path a p @ ''/'' @ nd_name c)"
proof -
  have "path_walk (Suc (ar_next_id a)) a i [] = Some (compute_path a i)"
    by (rule compute_path_Some[OF wf chain_step[OF c ch]])
  with c have walk: "path_walk (ar_next_id a) a p [nd_name c] = Some (compute_path a i)" by simp
  from path_walk_acc[OF path_walk_mono[OF walk, of "Suc (ar_next_id a)"]] obtain names where
    i: "compute_path a i = join_with ''/'' (names @ [nd_name c])" and
    all: "names @ parts \<noteq> [] \<Longrightarrow>
      path_walk (Suc (ar_next_id a)) a p parts = Some (join_with ''/'' (names @ parts))" for parts
    by auto
  show ?thesis
  proof (cases "nd_parent pn")
    case None
    with all[of "[x]" for x] p have "join_with ''/'' (names @ [x]) = x" for x by simp
    with i None show ?thesis by simp
  next
    case (Some q)
    have "names \<noteq> []"
    proof
      assume "names = []"
      with all[of "[x]" for x] p Some
      have "path_walk (ar_next_id a) a q [nd_name pn, x] = Some x" for x by simp
      from path_walk_acc[OF this[of "[]"]] obtain ns where
        "[] = join_with ''/'' (ns @ [nd_name pn, []])" by auto
      then show False by (induction ns) (auto simp: join_with_Cons)
    qed
    with all[of "[]"] compute_path_Some[OF wf ch] i Some show ?thesis by (simp add: join_with_snoc)
  qed
qed

text \<open>C33: The path of a node is the path its parent has, extended by the name of the
  node: the walk over parent pointers in \<^verbatim>\<open>compute_path\<close> agrees with \<^verbatim>\<open>OverlayInner::child_path\<close>,
  which every creation and lookup uses to name the file on a layer. It holds in every arena
  in which the chain of the parent ends, as long as no directory below the root is called \<open>.\<close>.\<close>

theorem compute_path_child_path:
  assumes "arena_wf a" "chain a p n"
    and "arena_get a i = Some c" "nd_parent c = Some p" "arena_get a p = Some pn"
    and "compute_path a p = ''.'' \<Longrightarrow> nd_parent pn = None"
  shows "compute_path a i = child_path (compute_path a p) (nd_name c)"
proof -
  have "compute_path a p = ''.''" if "nd_parent pn = None"
    using that assms(5) by (simp add: compute_path_def)
  with compute_path_child[OF assms(1-5)] assms(6) show ?thesis
    by (auto simp: child_path_def)
qed

text \<open>Witness: a file \<open>f\<close> in a directory \<open>d\<close> below the root.\<close>

definition sample_arena :: node_arena where
  "sample_arena =
     snd (arena_insert ((node_new ''f'' 0 12 1 False)\<lparr>nd_parent := Some 2\<rparr>)
       (snd (arena_insert ((node_new ''d'' 0 11 1 True)\<lparr>nd_parent := Some (Suc 0),
               nd_dir_state := Dir [(''f'', 3)] [] True\<rparr>)
         (snd (arena_insert ((node_new [] 0 0 0 True)\<lparr>nd_dir_state := Dir [(''d'', 2)] [] True\<rparr>)
            arena_new)))))"

lemma sample_arena_wf: "arena_wf sample_arena"
  by (simp add: sample_arena_def arena_wf_insert)

lemma sample_arena_get:
  "arena_get sample_arena (Suc 0) = Some ((node_new [] 0 0 0 True)\<lparr>nd_dir_state := Dir [(''d'', 2)] [] True\<rparr>)"
  "arena_get sample_arena 2 =
     Some ((node_new ''d'' 0 11 1 True)\<lparr>nd_parent := Some (Suc 0), nd_dir_state := Dir [(''f'', 3)] [] True\<rparr>)"
  "arena_get sample_arena 3 = Some ((node_new ''f'' 0 12 1 False)\<lparr>nd_parent := Some 2\<rparr>)"
  by (simp_all add: sample_arena_def arena_insert_def arena_new_def arena_get_def)

lemma sample_arena_chain: "chain sample_arena 2 (Suc (Suc 0))"
  by (rule chain_step[OF sample_arena_get(2) _ chain_root[OF sample_arena_get(1)]])
    (simp_all add: node_new_def)

lemma sample_arena_next [simp]: "ar_next_id sample_arena = 4"
  by (simp add: sample_arena_def arena_new_def)

lemma sample_arena_path: "compute_path sample_arena 2 = ''d''"
  by (simp add: compute_path_def path_walk_pos sample_arena_get node_new_def del: path_walk.simps)

theorem compute_path_child_path_witness: "compute_path sample_arena 3 = ''d/f''"
  using compute_path_child_path[OF sample_arena_wf sample_arena_chain sample_arena_get(3) _
      sample_arena_get(2)] sample_arena_path
  by (simp add: node_new_def child_path_def)

text \<open>Operations that keep the parent pointers of the nodes, or only cut nodes off, keep the
  tree acyclic.\<close>

lemma acyclic_tree_cong:
  assumes "\<And>i. map_option nd_parent (arena_get b i) = map_option nd_parent (arena_get a i)"
    and "acyclic_tree a"
  shows "acyclic_tree b"
proof -
  have "chain a i n \<Longrightarrow> chain b i n" for i n
  proof (induction rule: chain.induct)
    case (chain_missing i)
    then show ?case using assms(1)[of i] by (intro chain.chain_missing) simp
  next
    case (chain_root i n)
    then show ?case using assms(1)[of i] by (auto simp: map_option_case split: option.splits intro: chain.chain_root)
  next
    case (chain_step i n p k)
    then show ?case using assms(1)[of i] by (auto simp: map_option_case split: option.splits intro: chain.chain_step)
  qed
  with assms(2) show ?thesis unfolding acyclic_tree_def by blast
qed

end
