(* ===== verification/Inode_Table.thy ===== *)
theory Inode_Table
  imports Node "HOL-Library.Monad_Syntax"
begin

text \<open>
  \<^verbatim>\<open>src/node.rs\<close>, second part: the inode table, which gives every pair (inode, device) of the
  underlying file systems a FUSE inode number and counts the lookups the kernel holds. The
  hash set \<^verbatim>\<open>nodes\<close> of an entry is a list without duplicates; \<^verbatim>\<open>STAT_INODES\<close> is a field of the table.
  Shown: the numbering is a bijection on the live entries that avoids the reserved numbers 0 and
  1, every operation keeps it, the search for a free number ends, and \<^verbatim>\<open>forget\<close> frees an entry
  exactly when the kernel holds no more references.
\<close>

section \<open>Data\<close>

datatype inode_key = InodeKey (ik_ino: "64 word") (ik_dev: "64 word")

record ovl_ino =
  oi_nodes :: "node_id list"
  oi_lookups :: "64 word"
  oi_mode :: mode_t
  oi_fuse_ino :: "64 word"

record inode_table =
  it_table :: "inode_key \<rightharpoonup> ovl_ino"
  it_fuse_map :: "64 word \<rightharpoonup> inode_key"
  it_same_device :: bool
  it_next_fallback :: "64 word"
  it_stat_inodes :: "64 word"

section \<open>Operations\<close>

definition compute_fuse_ino :: "64 word \<Rightarrow> 64 word \<Rightarrow> bool \<Rightarrow> 64 word" where
  "compute_fuse_ino ino dev same_device =
     (if same_device then (if ino \<le> 1 then ino + 2 else ino)
      else
        let h = ino XOR (dev * 0x9e3779b97f4a7c15);
            h = h * 0x517cc1b727220a95;
            h = h XOR (drop_bit 32 h)
        in if h \<le> 1 then h + 2 else h)"

definition table_new :: inode_table where
  "table_new = \<lparr>it_table = Map.empty, it_fuse_map = Map.empty, it_same_device = True,
     it_next_fallback = 0x8000000000000000, it_stat_inodes = 0\<rparr>"

definition set_same_device :: "bool \<Rightarrow> inode_table \<Rightarrow> inode_table" where
  "set_same_device same t = t\<lparr>it_same_device := same\<rparr>"

definition fuse_to_ino :: "inode_table \<Rightarrow> 64 word \<Rightarrow> ovl_ino option" where
  "fuse_to_ino t fuse_ino =
     (case it_fuse_map t fuse_ino of None \<Rightarrow> None | Some key \<Rightarrow> it_table t key)"

definition get_by_key :: "inode_table \<Rightarrow> inode_key \<Rightarrow> ovl_ino option" where
  "get_by_key t key = it_table t key"

text \<open>
  The loop of \<^verbatim>\<open>register\<close> that looks for an unused number. It would run forever if all numbers
  from 2 on were taken; \<open>None\<close> stands for that (\<open>free_fuse_ino_ends\<close>).
\<close>

definition bump_fallback :: "64 word \<Rightarrow> 64 word" where
  "bump_fallback nf = (if nf + 1 \<le> 1 then 2 else nf + 1)"

partial_function (option) free_fuse_ino ::
  "(64 word \<rightharpoonup> inode_key) \<Rightarrow> 64 word \<Rightarrow> 64 word \<Rightarrow> (64 word \<times> 64 word) option" where
  "free_fuse_ino m fuse_ino next_fallback =
     (if m fuse_ino \<noteq> None \<or> fuse_ino \<le> 1
      then free_fuse_ino m next_fallback (bump_fallback next_fallback)
      else Some (fuse_ino, next_fallback))"

definition register_new ::
  "node_id \<Rightarrow> inode_key \<Rightarrow> mode_t \<Rightarrow> inode_table \<Rightarrow> 64 word option \<times> inode_table" where
  "register_new node_id key mode t =
     (case free_fuse_ino (it_fuse_map t) (compute_fuse_ino (ik_ino key) (ik_dev key) (it_same_device t))
             (it_next_fallback t) of
        None \<Rightarrow> (None, t)
      | Some (fuse_ino, nf) \<Rightarrow>
          (Some fuse_ino,
           t\<lparr>it_fuse_map := (it_fuse_map t)(fuse_ino \<mapsto> key),
             it_table := (it_table t)(key \<mapsto>
               \<lparr>oi_nodes = [node_id], oi_lookups = 0, oi_mode = mode, oi_fuse_ino = fuse_ino\<rparr>),
             it_next_fallback := nf,
             it_stat_inodes := it_stat_inodes t + 1\<rparr>))"

definition register ::
  "node_arena \<Rightarrow> node_id \<Rightarrow> 64 word \<Rightarrow> 64 word \<Rightarrow> mode_t \<Rightarrow> inode_table \<Rightarrow> 64 word option \<times> inode_table" where
  "register a node_id ino dev mode t =
     (let key = InodeKey ino dev in
      case it_table t key of
        None \<Rightarrow> register_new node_id key mode t
      | Some existing \<Rightarrow>
          let live = filter (arena_contains a) (oi_nodes existing) in
          if live \<noteq> [] then
            let new_path = compute_path a node_id in
            if list_ex (\<lambda>i. case arena_get a i of
                   Some n \<Rightarrow> is_dir n \<or> compute_path a i = new_path | None \<Rightarrow> False) live
            then (Some (oi_fuse_ino existing),
                  t\<lparr>it_table := (it_table t)(key \<mapsto> existing\<lparr>oi_nodes := live\<rparr>)\<rparr>)
            else (Some (oi_fuse_ino existing),
                  t\<lparr>it_table := (it_table t)(key \<mapsto>
                     existing\<lparr>oi_nodes := List.insert node_id live, oi_mode := mode\<rparr>)\<rparr>)
          else
            register_new node_id key mode
              (t\<lparr>it_table := (it_table t)(key := None), it_stat_inodes := it_stat_inodes t - 1\<rparr>))"

definition key_to_fuse_ino :: "inode_table \<Rightarrow> inode_key \<Rightarrow> 64 word option" where
  "key_to_fuse_ino t key = map_option oi_fuse_ino (it_table t key)"

definition remove_node_id :: "inode_key \<Rightarrow> node_id \<Rightarrow> inode_table \<Rightarrow> inode_table" where
  "remove_node_id key node_id t =
     (case it_table t key of
        None \<Rightarrow> t
      | Some e \<Rightarrow>
          t\<lparr>it_table := (it_table t)(key \<mapsto> e\<lparr>oi_nodes := removeAll node_id (oi_nodes e)\<rparr>)\<rparr>)"

definition inc_lookup :: "inode_key \<Rightarrow> inode_table \<Rightarrow> inode_table" where
  "inc_lookup key t =
     (case it_table t key of
        None \<Rightarrow> t
      | Some e \<Rightarrow> t\<lparr>it_table := (it_table t)(key \<mapsto> e\<lparr>oi_lookups := oi_lookups e + 1\<rparr>)\<rparr>)"

text \<open>\<^verbatim>\<open>lookups\<close> is an \<^verbatim>\<open>AtomicI64\<close>: its subtraction wraps and the comparison with 0 is signed.\<close>

definition forget :: "64 word \<Rightarrow> 64 word \<Rightarrow> inode_table \<Rightarrow> bool \<times> inode_table" where
  "forget fuse_ino nlookup t =
     (if fuse_ino = 1 \<or> fuse_ino = 0 then (False, t)
      else case it_fuse_map t fuse_ino of
        None \<Rightarrow> (False, t)
      | Some key \<Rightarrow>
          (case it_table t key of
             Some e \<Rightarrow>
               if oi_fuse_ino e \<noteq> fuse_ino
               then (True, t\<lparr>it_fuse_map := (it_fuse_map t)(fuse_ino := None)\<rparr>)
               else
                 let left = oi_lookups e - nlookup in
                 if sint left \<le> 0
                 then (True, t\<lparr>it_fuse_map := (it_fuse_map t)(fuse_ino := None),
                               it_table := (it_table t)(key := None),
                               it_stat_inodes := it_stat_inodes t - 1\<rparr>)
                 else (True, t\<lparr>it_table := (it_table t)(key \<mapsto> e\<lparr>oi_lookups := left\<rparr>)\<rparr>)
           | None \<Rightarrow> (True, t\<lparr>it_fuse_map := (it_fuse_map t)(fuse_ino := None)\<rparr>)))"

section \<open>The search for a free number\<close>

lemma word_ge_2_iff: "(2::64 word) \<le> x \<longleftrightarrow> \<not> x \<le> 1"
  unfolding word_le_nat_alt by auto

lemma compute_fuse_ino_ge_2: "2 \<le> compute_fuse_ino ino dev same"
proof -
  have "2 \<le> x + 2" if "x \<le> 1" for x :: "64 word"
  proof -
    from that have "unat x = 0 \<or> unat x = 1" by (auto simp: word_le_nat_alt)
    then have "x = 0 \<or> x = 1" by (metis unat_0 unat_1 unsigned_word_eqI)
    then show ?thesis by auto
  qed
  then show ?thesis by (auto simp: compute_fuse_ino_def Let_def word_ge_2_iff)
qed

lemma free_fuse_ino_free:
  assumes "free_fuse_ino m ino nf = Some (r, nf')"
  shows "m r = None \<and> 2 \<le> r \<and> (2 \<le> nf \<longrightarrow> 2 \<le> nf')"
proof -
  have "case (r, nf') of (r, nf') \<Rightarrow> m r = None \<and> 2 \<le> r \<and> (2 \<le> nf \<longrightarrow> 2 \<le> nf')"
  proof (rule free_fuse_ino.raw_induct[where P = "\<lambda>m ino nf res. case res of (r, nf') \<Rightarrow>
          m r = None \<and> 2 \<le> r \<and> (2 \<le> nf \<longrightarrow> 2 \<le> nf')", OF _ assms])
    fix f m ino nf and y :: "64 word \<times> 64 word"
    assume IH: "\<And>m ino nf y. f m ino nf = Some y \<Longrightarrow>
        case y of (r, nf') \<Rightarrow> m r = None \<and> 2 \<le> r \<and> (2 \<le> nf \<longrightarrow> 2 \<le> nf')"
      and step: "(if m ino \<noteq> None \<or> ino \<le> 1 then f m nf (bump_fallback nf) else Some (ino, nf)) = Some y"
    have "2 \<le> bump_fallback nf" by (auto simp: bump_fallback_def word_ge_2_iff)
    with step IH[of m nf "bump_fallback nf" y]
    show "case y of (r, nf') \<Rightarrow> m r = None \<and> 2 \<le> r \<and> (2 \<le> nf \<longrightarrow> 2 \<le> nf')"
      by (auto simp: word_ge_2_iff split: if_splits)
  qed
  then show ?thesis by simp
qed

text \<open>How far the fallback counter is from \<open>v\<close>, counting upwards and past the end to 2.\<close>

definition fallback_dist :: "64 word \<Rightarrow> 64 word \<Rightarrow> nat" where
  "fallback_dist v nf =
     (if nf \<le> v then unat v - unat nf else (2 ^ 64 - unat nf) + (unat v - 2))"

lemma fallback_dist_bump:
  assumes "2 \<le> nf" "2 \<le> v" "nf \<noteq> v"
  shows "fallback_dist v (bump_fallback nf) < fallback_dist v nf" "2 \<le> bump_fallback nf"
proof -
  have v: "2 \<le> unat v" "unat v < 2 ^ 64" and nf: "2 \<le> unat nf" "unat nf < 2 ^ 64" "unat nf \<noteq> unat v"
    using assms unsigned_less[of v, where ?'a = nat] unsigned_less[of nf, where ?'a = nat]
    by (auto simp: word_le_nat_alt unsigned_word_eqI)
  have sucnf: "unat (nf + 1) = (if unat nf + 1 = 2 ^ 64 then 0 else unat nf + 1)"
    using nf(2) by (auto simp: unat_word_ariths)
  then show "fallback_dist v (bump_fallback nf) < fallback_dist v nf"
    using v nf by (auto simp: fallback_dist_def bump_fallback_def word_le_nat_alt)
  show "2 \<le> bump_fallback nf" by (auto simp: bump_fallback_def word_ge_2_iff)
qed

lemma free_fuse_ino_ends_from:
  "2 \<le> nf \<Longrightarrow> 2 \<le> v \<Longrightarrow> m v = None \<Longrightarrow> \<exists>r. free_fuse_ino m nf (bump_fallback nf) = Some r"
proof (induction "fallback_dist v nf" arbitrary: nf rule: less_induct)
  case less
  show ?case
  proof (cases "m nf = None")
    case True
    then show ?thesis using less.prems by (subst free_fuse_ino.simps) (simp add: word_ge_2_iff)
  next
    case False
    with less.prems have "nf \<noteq> v" by auto
    from less.hyps[OF fallback_dist_bump[OF less.prems(1,2) this] less.prems(2,3)] False
    show ?thesis by (subst free_fuse_ino.simps) simp
  qed
qed

lemma free_fuse_ino_ends:
  assumes "2 \<le> nf" "2 \<le> v" "m v = None"
  shows "\<exists>r. free_fuse_ino m ino nf = Some r"
  using free_fuse_ino_ends_from[of nf v m] assms
  by (subst free_fuse_ino.simps) (simp add: word_ge_2_iff)

section \<open>The numbering\<close>

text \<open>
  The invariant of the table: every entry is found under its own number, no number is 0 or 1 (the
  root), and the statistics count the entries. The map from numbers may also hold numbers of former
  entries (the tombstones of \<^verbatim>\<open>register\<close>).
\<close>

definition table_wf :: "inode_table \<Rightarrow> bool" where
  "table_wf t \<longleftrightarrow>
     (\<forall>k e. it_table t k = Some e \<longrightarrow> it_fuse_map t (oi_fuse_ino e) = Some k) \<and>
     (\<forall>f \<in> dom (it_fuse_map t). 2 \<le> f) \<and>
     2 \<le> it_next_fallback t \<and> finite (dom (it_table t)) \<and>
     it_stat_inodes t = of_nat (card (dom (it_table t)))"

lemma table_wfI:
  assumes "\<And>k e. it_table t k = Some e \<Longrightarrow> it_fuse_map t (oi_fuse_ino e) = Some k"
    and "\<And>f. it_fuse_map t f \<noteq> None \<Longrightarrow> 2 \<le> f"
    and "2 \<le> it_next_fallback t" "finite (dom (it_table t))"
    and "it_stat_inodes t = of_nat (card (dom (it_table t)))"
  shows "table_wf t"
  using assms by (auto simp: table_wf_def domIff)

lemma table_wfD:
  assumes "table_wf t"
  shows "it_table t k = Some e \<Longrightarrow> it_fuse_map t (oi_fuse_ino e) = Some k"
    and "it_fuse_map t f \<noteq> None \<Longrightarrow> 2 \<le> f"
    and "2 \<le> it_next_fallback t" "finite (dom (it_table t))"
    and "it_stat_inodes t = of_nat (card (dom (it_table t)))"
  using assms by (auto simp: table_wf_def)

lemma table_wf_new [simp]: "table_wf table_new" "table_wf (set_same_device b t) \<longleftrightarrow> table_wf t"
  by (auto simp: table_wf_def table_new_def set_same_device_def)

text \<open>An entry may be replaced by one with the same number.\<close>

lemma table_wf_update_entry:
  assumes "table_wf t" "it_table t k = Some e" "oi_fuse_ino e' = oi_fuse_ino e"
  shows "table_wf (t\<lparr>it_table := (it_table t)(k \<mapsto> e')\<rparr>)"
proof -
  from assms(2) have "insert k (dom (it_table t)) = dom (it_table t)" by blast
  with assms show ?thesis by (auto simp: table_wf_def)
qed

lemma card_dom_delete:
  assumes "finite (dom m)" "m k = Some e"
  shows "card (dom m) = Suc (card (dom m - {k}))"
  using assms by (meson card.remove domI)

lemma table_wf_drop_entry:
  assumes "table_wf t" "it_table t k = Some e"
  shows "table_wf (t\<lparr>it_table := (it_table t)(k := None), it_stat_inodes := it_stat_inodes t - 1\<rparr>)"
  using assms card_dom_delete[OF table_wfD(4)[OF assms(1)] assms(2)] by (auto simp: table_wf_def)

lemma table_wf_drop_number:
  assumes "table_wf t" "\<And>k e. it_table t k = Some e \<Longrightarrow> oi_fuse_ino e \<noteq> f"
  shows "table_wf (t\<lparr>it_fuse_map := (it_fuse_map t)(f := None)\<rparr>)"
  using assms by (auto simp: table_wf_def)

lemma table_wf_register_new:
  assumes wf: "table_wf t" and free: "it_table t key = None"
  shows "table_wf (snd (register_new i key mode t))"
proof (cases "free_fuse_ino (it_fuse_map t)
    (compute_fuse_ino (ik_ino key) (ik_dev key) (it_same_device t)) (it_next_fallback t)")
  case (Some r)
  then obtain f nf where r: "free_fuse_ino (it_fuse_map t)
      (compute_fuse_ino (ik_ino key) (ik_dev key) (it_same_device t)) (it_next_fallback t) = Some (f, nf)"
    by (cases r) auto
  from free_fuse_ino_free[OF r] table_wfD(3)[OF wf]
  have f: "it_fuse_map t f = None" "2 \<le> f" "2 \<le> nf" by auto
  have "card (insert key (dom (it_table t))) = Suc (card (dom (it_table t)))"
    using free table_wfD(4)[OF wf] by (simp add: card_insert_if domIff)
  then show ?thesis
    using r f table_wfD(1,2)[OF wf] table_wfD(3-5)[OF wf] 
    by (auto simp: register_new_def intro!: table_wfI split: if_splits)
qed (simp add: register_new_def wf)

lemma table_wf_register:
  assumes wf: "table_wf t"
  shows "table_wf (snd (register a i ino dev mode t))"
proof (cases "it_table t (InodeKey ino dev)")
  case None
  with wf show ?thesis by (simp add: register_def table_wf_register_new)
next
  case (Some e)
  from wf table_wf_drop_entry[OF wf Some] table_wf_update_entry[OF wf Some] Some show ?thesis
    by (auto simp: register_def Let_def intro!: table_wf_register_new)
qed

lemma table_wf_remove_node_id: "table_wf t \<Longrightarrow> table_wf (remove_node_id k i t)"
  by (auto simp: remove_node_id_def intro: table_wf_update_entry split: option.splits)

lemma table_wf_inc_lookup: "table_wf t \<Longrightarrow> table_wf (inc_lookup k t)"
  by (auto simp: inc_lookup_def intro: table_wf_update_entry split: option.splits)

lemma table_wf_forget:
  assumes wf: "table_wf t"
  shows "table_wf (snd (forget f n t))"
proof (cases "it_fuse_map t f")
  case (Some key)
  show ?thesis
  proof (cases "it_table t key")
    case None
    have "table_wf (t\<lparr>it_fuse_map := (it_fuse_map t)(f := None)\<rparr>)"
      by (rule table_wf_drop_number[OF wf]) (use Some None table_wfD(1)[OF wf] in force)
    with Some None wf show ?thesis by (simp add: forget_def)
  next
    case (Some e)
    note e = Some
    have "table_wf (t\<lparr>it_fuse_map := (it_fuse_map t)(f := None)\<rparr>)" if "oi_fuse_ino e \<noteq> f"
      by (rule table_wf_drop_number[OF wf])
        (use \<open>it_fuse_map t f = Some key\<close> e that table_wfD(1)[OF wf] in force)
    moreover have "table_wf (t\<lparr>it_fuse_map := (it_fuse_map t)(f := None),
        it_table := (it_table t)(key := None), it_stat_inodes := it_stat_inodes t - 1\<rparr>)"
    proof -
      let ?u = "t\<lparr>it_table := (it_table t)(key := None), it_stat_inodes := it_stat_inodes t - 1\<rparr>"
      have "table_wf (?u\<lparr>it_fuse_map := (it_fuse_map ?u)(f := None)\<rparr>)"
        by (rule table_wf_drop_number[OF table_wf_drop_entry[OF wf e]])
          (use \<open>it_fuse_map t f = Some key\<close> table_wfD(1)[OF wf] in \<open>auto split: if_splits\<close>)
      moreover have "?u\<lparr>it_fuse_map := (it_fuse_map ?u)(f := None)\<rparr> =
        t\<lparr>it_fuse_map := (it_fuse_map t)(f := None),
          it_table := (it_table t)(key := None), it_stat_inodes := it_stat_inodes t - 1\<rparr>"
        by (cases t) simp
      ultimately show ?thesis by metis
    qed
    ultimately show ?thesis
      using wf e \<open>it_fuse_map t f = Some key\<close> table_wf_update_entry[OF wf e]
      by (simp add: forget_def Let_def)
  qed
qed (simp add: forget_def wf)

lemmas table_wf_ops = table_wf_register table_wf_remove_node_id table_wf_inc_lookup table_wf_forget

text \<open>
  The contract the file system relies on: a numbering of keys from which a number leads back to
  its key, and which never uses a reserved number.
\<close>

locale numbering =
  fixes inv :: "'t \<Rightarrow> bool"
    and number :: "'t \<Rightarrow> 'k \<Rightarrow> 'f option"
    and resolve :: "'t \<Rightarrow> 'f \<Rightarrow> 'k option"
    and reserved :: "'f set"
  assumes resolve_number: "inv t \<Longrightarrow> number t k = Some f \<Longrightarrow> resolve t f = Some k"
    and number_free: "inv t \<Longrightarrow> number t k = Some f \<Longrightarrow> f \<notin> reserved"
begin

lemma number_inj: "inv t \<Longrightarrow> number t k = Some f \<Longrightarrow> number t k' = Some f \<Longrightarrow> k = k'"
  using resolve_number by (metis option.inject)

lemma number_inj_on: "inv t \<Longrightarrow> inj_on (number t) (dom (number t))"
  by (auto intro!: inj_onI dest: number_inj)

end

interpretation inode_numbers: numbering table_wf key_to_fuse_ino it_fuse_map "{0, 1}"
proof
  fix t k f
  assume wf: "table_wf t" and k: "key_to_fuse_ino t k = Some f"
  then show r: "it_fuse_map t f = Some k"
    by (auto simp: key_to_fuse_ino_def dest: table_wfD(1))
  show "f \<notin> {0, 1}" using table_wfD(2)[OF wf, of f] r by (auto simp: word_ge_2_iff)
qed

lemma register_new_other: "k \<noteq> key \<Longrightarrow> it_table (snd (register_new i key mode t)) k = it_table t k"
  by (auto simp: register_new_def split: option.splits prod.splits)

lemma register_other: "k \<noteq> InodeKey ino dev \<Longrightarrow> it_table (snd (register a i ino dev mode t)) k = it_table t k"
  by (auto simp: register_def Let_def register_new_other split: option.splits)

lemma register_new_Some:
  "register_new i key mode t = (Some f, t') \<Longrightarrow> key_to_fuse_ino t' key = Some f"
  by (auto simp: register_new_def key_to_fuse_ino_def split: option.splits prod.splits)

lemma register_Some:
  "register a i ino dev mode t = (Some f, t') \<Longrightarrow> key_to_fuse_ino t' (InodeKey ino dev) = Some f"
  by (auto simp: register_def Let_def register_new_Some split: option.splits if_splits)
    (auto simp: key_to_fuse_ino_def)

lemma register_fuse_map_grows:
  assumes "it_fuse_map t f = Some k"
  shows "it_fuse_map (snd (register a i ino dev mode t)) f = Some k"
proof -
  have new: "it_fuse_map (snd (register_new i key mode u)) f = Some k"
    if "it_fuse_map u f = Some k" for u key
    using that free_fuse_ino_free[of "it_fuse_map u"]
    by (fastforce simp: register_new_def split: option.splits prod.splits)
  show ?thesis using assms by (auto simp: register_def Let_def new split: option.splits)
qed

lemma fuse_to_ino_number:
  "it_fuse_map t f = Some k \<Longrightarrow> key_to_fuse_ino t k = Some f \<Longrightarrow>
   map_option oi_fuse_ino (fuse_to_ino t f) = Some f"
  by (simp add: fuse_to_ino_def key_to_fuse_ino_def)

text \<open>C18: What registration promises: the returned FUSE number is not 0 or 1, leads back to the
  registered (inode, device) pair and to the entry of that pair, no other pair has it, every
  other pair keeps its entry, every number known before still leads to the same pair, and the
  invariant of the table holds again.\<close>

theorem register_number:
  assumes "table_wf t" and "register a i ino dev mode t = (Some f, t')"
  shows "table_wf t' \<and> f \<notin> {0, 1} \<and>
    it_fuse_map t' f = Some (InodeKey ino dev) \<and>
    map_option oi_fuse_ino (fuse_to_ino t' f) = Some f \<and>
    (\<forall>k. key_to_fuse_ino t' k = Some f \<longrightarrow> k = InodeKey ino dev) \<and>
    (\<forall>k. k \<noteq> InodeKey ino dev \<longrightarrow> it_table t' k = it_table t k) \<and>
    it_fuse_map t \<subseteq>\<^sub>m it_fuse_map t'"
proof -
  from assms have wf': "table_wf t'" using table_wf_register by (metis snd_conv)
  from assms(2) have num: "key_to_fuse_ino t' (InodeKey ino dev) = Some f" by (rule register_Some)
  note facts = inode_numbers.resolve_number[OF wf' num] inode_numbers.number_free[OF wf' num]
  have "it_fuse_map t \<subseteq>\<^sub>m it_fuse_map t'"
    using register_fuse_map_grows[of t _ _ a i ino dev mode] assms(2) by (auto simp: map_le_def)
  moreover have "k \<noteq> InodeKey ino dev \<Longrightarrow> it_table t' k = it_table t k" for k
    using register_other[of k ino dev a i mode t] assms(2) by simp
  ultimately show ?thesis
    using wf' facts num inode_numbers.number_inj[OF wf' num] fuse_to_ino_number[OF facts(1) num]
    by blast
qed

text \<open>Witness: inode 1 of device 5 becomes number 3, because numbers below 2 are reserved.\<close>

lemma free_fuse_ino_now: "m ino = None \<Longrightarrow> 2 \<le> ino \<Longrightarrow> free_fuse_ino m ino nf = Some (ino, nf)"
  by (subst free_fuse_ino.simps) (simp add: word_ge_2_iff)

definition sample_table :: inode_table where
  "sample_table = snd (register arena_new 7 1 5 S_IFREG table_new)"

lemma sample_register:
  "register arena_new 7 1 5 S_IFREG table_new = (Some 3, sample_table)"
  by (simp add: sample_table_def register_def register_new_def table_new_def compute_fuse_ino_def
      free_fuse_ino_now Let_def)

lemma sample_table_fields:
  "it_table sample_table = [InodeKey 1 5 \<mapsto>
     \<lparr>oi_nodes = [7], oi_lookups = 0, oi_mode = S_IFREG, oi_fuse_ino = 3\<rparr>]"
  "it_fuse_map sample_table = [3 \<mapsto> InodeKey 1 5]"
  "it_same_device sample_table" "it_next_fallback sample_table = 0x8000000000000000"
  by (simp_all add: sample_table_def register_def register_new_def table_new_def
      compute_fuse_ino_def free_fuse_ino_now Let_def)

theorem register_number_witness:
  "register arena_new 7 1 5 S_IFREG table_new = (Some 3, sample_table) \<and> table_wf sample_table \<and>
   it_fuse_map sample_table 3 = Some (InodeKey 1 5)"
  using register_number[OF table_wf_new(1) sample_register] sample_register by blast

text \<open>C35: Registration ends: the loop that skips taken and reserved numbers reaches a free one
  whenever there is any number from 2 on that the table does not use, whatever the fallback
  counter is (it wraps past the largest number to 2), so \<^verbatim>\<open>register\<close> returns a number.\<close>

theorem register_returns:
  assumes "table_wf t" "2 \<le> v" "it_fuse_map t v = None"
  shows "\<exists>f t'. register a i ino dev mode t = (Some f, t')"
proof -
  have new: "\<exists>f t'. register_new i key mode u = (Some f, t')"
    if "it_fuse_map u = it_fuse_map t" "it_next_fallback u = it_next_fallback t" for u key
    using free_fuse_ino_ends[of "it_next_fallback t" v "it_fuse_map t"] table_wfD(3)[OF assms(1)]
      assms(2,3) that
    by (force simp: register_new_def split: option.splits)
  show ?thesis by (auto simp: register_def Let_def intro!: new split: option.splits)
qed

text \<open>Witness: the fallback counter starts at the largest number, the number wanted is taken.\<close>

theorem register_returns_witness:
  "\<exists>f t'. register arena_new 8 3 9 S_IFREG (sample_table\<lparr>it_next_fallback := -1\<rparr>) = (Some f, t')"
proof -
  have "table_wf sample_table"
    using table_wf_register[OF table_wf_new(1)] by (simp add: sample_table_def)
  then have "table_wf (sample_table\<lparr>it_next_fallback := -1\<rparr>)" by (simp add: table_wf_def)
  from register_returns[OF this, of 2] show ?thesis by (simp add: sample_table_fields)
qed

text \<open>C19: \<^verbatim>\<open>forget\<close> counts references: an entry the kernel has looked up \<open>l\<close> times survives
  giving back \<open>n < l\<close> of them with the count \<open>l - n\<close>, and giving back at least \<open>l\<close> removes the entry
  and its number; no other entry and no other number changes.\<close>

theorem forget_counts:
  assumes "table_wf t" "it_table t key = Some e" "oi_lookups e = of_nat l"
    and "l < 2 ^ 63" "n < 2 ^ 63"
  shows "\<exists>t'. forget (oi_fuse_ino e) (of_nat n) t = (True, t') \<and>
    (n < l \<longrightarrow> it_table t' = (it_table t)(key \<mapsto> e\<lparr>oi_lookups := of_nat (l - n)\<rparr>) \<and>
               it_fuse_map t' = it_fuse_map t) \<and>
    (l \<le> n \<longrightarrow> it_table t' = (it_table t)(key := None) \<and>
               it_fuse_map t' = (it_fuse_map t)(oi_fuse_ino e := None))"
proof -
  have num: "it_fuse_map t (oi_fuse_ino e) = Some key" using assms(1,2) by (rule table_wfD(1))
  then have ge: "oi_fuse_ino e \<noteq> 0" "oi_fuse_ino e \<noteq> 1"
    using table_wfD(2)[OF assms(1), of "oi_fuse_ino e"] by (auto simp: word_ge_2_iff)
  have "sint (of_nat l - of_nat n :: 64 word) = int l - int n"
  proof -
    have "(of_nat l - of_nat n :: 64 word) = word_of_int (int l - int n)" by simp
    also have "sint \<dots> = signed_take_bit 63 (int l - int n)"
      by (subst signed_of_int) simp
    also have "\<dots> = int l - int n"
      using assms(4,5) by (intro signed_take_bit_int_eq_self) auto
    finally show ?thesis .
  qed
  moreover have "of_nat l - of_nat n = (of_nat (l - n) :: 64 word)" if "n < l"
    using that by simp
  ultimately show ?thesis
    using num ge assms(2,3) by (auto simp: forget_def Let_def)
qed

theorem forget_counts_witness:
  "\<exists>t'. forget 3 1 (inc_lookup (InodeKey 1 5) sample_table) = (True, t') \<and>
     it_table t' (InodeKey 1 5) = None"
proof -
  let ?t = "inc_lookup (InodeKey 1 5) sample_table"
  let ?e = "\<lparr>oi_nodes = [7], oi_lookups = 1, oi_mode = S_IFREG, oi_fuse_ino = 3\<rparr> :: ovl_ino"
  have "table_wf ?t"
    using table_wf_register[OF table_wf_new(1)] by (simp add: sample_table_def table_wf_inc_lookup)
  moreover have "it_table ?t (InodeKey 1 5) = Some ?e"
    by (simp add: inc_lookup_def sample_table_fields)
  ultimately show ?thesis using forget_counts[of ?t "InodeKey 1 5" ?e 1 1] by auto
qed

text \<open>C40: Recycled inodes: when the file system reuses a (inode, device) pair whose nodes are all
  gone, registration gives the new file a number different from the old one, as the comment in
  the source asks; the old number, however, stays in the map and now resolves to the
  entry of the new file, until the kernel forgets it.\<close>

theorem register_recycled:
  assumes "table_wf t" "it_table t (InodeKey ino dev) = Some e"
    and "\<forall>j \<in> set (oi_nodes e). \<not> arena_contains a j"
    and "register a i ino dev mode t = (Some f, t')"
  shows "f \<noteq> oi_fuse_ino e \<and> fuse_to_ino t' (oi_fuse_ino e) = fuse_to_ino t' f \<and>
    fuse_to_ino t' f = Some \<lparr>oi_nodes = [i], oi_lookups = 0, oi_mode = mode, oi_fuse_ino = f\<rparr>"
proof -
  let ?u = "t\<lparr>it_table := (it_table t)(InodeKey ino dev := None), it_stat_inodes := it_stat_inodes t - 1\<rparr>"
  have "filter (arena_contains a) (oi_nodes e) = []" using assms(3) by (simp add: filter_empty_conv)
  with assms(2,4) have r: "register_new i (InodeKey ino dev) mode ?u = (Some f, t')"
    by (simp add: register_def Let_def)
  have old: "it_fuse_map t (oi_fuse_ino e) = Some (InodeKey ino dev)"
    using assms(1,2) by (rule table_wfD(1))
  from r obtain nf where nf: "free_fuse_ino (it_fuse_map t)
      (compute_fuse_ino ino dev (it_same_device t)) (it_next_fallback t) = Some (f, nf)"
    by (auto simp: register_new_def split: option.splits prod.splits)
  from free_fuse_ino_free[OF nf] old have "f \<noteq> oi_fuse_ino e" by auto
  with r nf old show ?thesis by (auto simp: register_new_def fuse_to_ino_def)
qed

theorem register_recycled_witness:
  "\<exists>f t'. register arena_new 8 1 5 S_IFREG sample_table = (Some f, t') \<and> f \<noteq> 3 \<and>
     fuse_to_ino t' 3 = fuse_to_ino t' f"
proof -
  have wf: "table_wf sample_table"
    using table_wf_register[OF table_wf_new(1)] by (simp add: sample_table_def)
  have e: "it_table sample_table (InodeKey 1 5) =
      Some \<lparr>oi_nodes = [7], oi_lookups = 0, oi_mode = S_IFREG, oi_fuse_ino = 3\<rparr>"
    by (simp add: sample_table_fields)
  obtain f t' where r: "register arena_new 8 1 5 S_IFREG sample_table = (Some f, t')"
    by (auto simp: register_def register_new_def sample_table_fields compute_fuse_ino_def
        arena_contains_def arena_new_def free_fuse_ino.simps[of _ 3] free_fuse_ino_now Let_def)
  from register_recycled[OF wf e _ r] show ?thesis
    using r by (auto simp: arena_contains_def arena_new_def)
qed

end
