(* ===== verification/State.thy ===== *)
theory State
  imports Attr Inode_Table
begin

text \<open>
  The state of the mounted file system (\<^verbatim>\<open>OverlayFs\<close>, \<^verbatim>\<open>OverlayInner\<close> and the static variables of
  \<^verbatim>\<open>src/overlay.rs\<close> and \<^verbatim>\<open>src/whiteout.rs\<close>) as one record, the primitive state changes from which the
  operations are composed, and the invariant they keep.

  A section of the source that holds the \<^verbatim>\<open>inner\<close> lock is one program over the state. Handles and
  counters are naturals. \<open>fs_hung\<close> is set by a call that does not return (a loop that never ends); a
  program run from there on has no meaning. A file handle holds the number of its descriptor.
\<close>

declare ret_iff [simp]

section \<open>The state\<close>

record dirent =
  dn_name :: bytes
  dn_ino :: "64 word"
  dn_mode :: mode_t
  dn_attr :: "file_attr option"
  dn_node_id :: "node_id option"

record 'w fs =
  fs_config :: overlay_config
  fs_layers :: "'w ovl_layer list"
  fs_inodes :: inode_table
  fs_nodes :: node_arena
  fs_root_id :: node_id
  fs_workdir_fd :: int
  fs_ino_passthrough :: bool
  fs_overflow :: overflow_ids
  fs_wd_counter :: nat
  fs_can_mknod :: bool
  fs_open_files :: "nat \<rightharpoonup> int"
  fs_next_fh :: nat
  fs_open_dirs :: "nat \<rightharpoonup> dirent list"
  fs_next_dh :: nat
  fs_inode_backings :: "64 word \<rightharpoonup> nat \<times> nat"
  fs_fh_to_ino :: "nat \<rightharpoonup> 64 word"
  fs_passthrough_enabled :: bool
  fs_notifier :: bool
  fs_notified :: "(64 word) list"
  fs_CAN_MKNOD :: bool
  fs_STAT_PASSTHROUGH :: bool
  fs_hung :: bool
  fs_world :: 'w

text \<open>\<^verbatim>\<open>OverlayFs::new\<close>; \<open>overflow\<close> is what \<^verbatim>\<open>OverflowIds::read\<close> returns and \<open>disable_wh\<close> whether
  \<^verbatim>\<open>FUSE_OVERLAYFS_DISABLE_OVL_WHITEOUT\<close> is set.\<close>

definition overlay_new ::
  "overlay_config \<Rightarrow> 'w ovl_layer list \<Rightarrow> int \<Rightarrow> overflow_ids \<Rightarrow> bool \<Rightarrow> 'w \<Rightarrow> 'w fs" where
  "overlay_new config layers workdir_fd overflow disable_wh w =
     (let same = all_same_device layers;
          (root, nodes) = arena_insert (node_new [] 0 0 0 True) arena_new
      in \<lparr>fs_config = config, fs_layers = layers,
          fs_inodes = set_same_device same table_new, fs_nodes = nodes, fs_root_id = root,
          fs_workdir_fd = workdir_fd, fs_ino_passthrough = same, fs_overflow = overflow,
          fs_wd_counter = 1, fs_can_mknod = \<not> disable_wh,
          fs_open_files = Map.empty, fs_next_fh = 1, fs_open_dirs = Map.empty, fs_next_dh = 1,
          fs_inode_backings = Map.empty, fs_fh_to_ino = Map.empty,
          fs_passthrough_enabled = False, fs_notifier = False, fs_notified = [],
          fs_CAN_MKNOD = True, fs_STAT_PASSTHROUGH = False, fs_hung = False, fs_world = w\<rparr>)"

section \<open>Replies\<close>

text \<open>\<open>RPanic\<close>: the thread that handles the request panics and sends no reply.\<close>

datatype reply =
    RError int
  | RPanic
  | ROk
  | RNone
  | REntry f64 file_attr
  | RAttr f64 file_attr
  | RData bytes
  | ROpened nat "32 word"
  | ROpenedPassthrough nat nat
  | RWritten nat
  | RCreated f64 file_attr nat "32 word"
  | RCreatedPassthrough f64 file_attr nat nat
  | RStatfs "64 word" "64 word" "64 word" "64 word" "64 word" "32 word" "32 word" "32 word"
  | RSize nat
  | RDir "(64 word \<times> nat \<times> file_type \<times> bytes) list"
  | RDirPlus "(64 word \<times> nat \<times> bytes \<times> f64 \<times> file_attr) list"
  | ROffset "64 word"
  | RIoctl int bytes

definition bindR ::
  "('s, 'a fs_result) prog \<Rightarrow> ('a \<Rightarrow> ('s, reply) prog) \<Rightarrow> ('s, reply) prog" where
  "bindR m k = bindS m (\<lambda>r. case r of Inl e \<Rightarrow> ret (RError (errno_of e)) | Inr x \<Rightarrow> k x)"

text \<open>\<^verbatim>\<open>self.timeout()\<close> followed by the reply; both it and the conversion of the times may panic.\<close>

definition with_ttl :: "overlay_config \<Rightarrow> file_attr \<Rightarrow> (f64 \<Rightarrow> reply) \<Rightarrow> reply" where
  "with_ttl cfg attr r =
     (case duration_from_secs_f64 (timeout cfg) of
        None \<Rightarrow> RPanic
      | Some ttl \<Rightarrow> if attr_panics attr then RPanic else r ttl)"

definition reply_entry :: "overlay_config \<Rightarrow> file_attr \<Rightarrow> reply" where
  "reply_entry cfg attr = with_ttl cfg attr (\<lambda>ttl. REntry ttl attr)"

definition reply_attr :: "overlay_config \<Rightarrow> file_attr \<Rightarrow> reply" where
  "reply_attr cfg attr = with_ttl cfg attr (\<lambda>ttl. RAttr ttl attr)"

section \<open>Primitive state changes\<close>

definition world :: "('w, 'a) prog \<Rightarrow> ('w fs, 'a) prog" where
  "world m = (\<lambda>s. case m (fs_world s) of (r, w) \<Rightarrow> (r, s\<lparr>fs_world := w\<rparr>))"

definition update_node :: "node_id \<Rightarrow> (ovl_node \<Rightarrow> ovl_node) \<Rightarrow> ('w fs, unit) prog" where
  "update_node i f = modS (\<lambda>s. s\<lparr>fs_nodes := arena_update i f (fs_nodes s)\<rparr>)"

definition insert_node :: "ovl_node \<Rightarrow> ('w fs, node_id) prog" where
  "insert_node n =
     (\<lambda>s. case arena_insert n (fs_nodes s) of (i, a) \<Rightarrow> (i, s\<lparr>fs_nodes := a\<rparr>))"

text \<open>The removed node is dropped at once.\<close>

definition remove_node :: "'w os \<Rightarrow> node_id \<Rightarrow> ('w fs, unit) prog" where
  "remove_node os i =
     (\<lambda>s. case arena_remove i (fs_nodes s) of
            (None, a) \<Rightarrow> ((), s\<lparr>fs_nodes := a\<rparr>)
          | (Some n, a) \<Rightarrow> world (node_drop os n) (s\<lparr>fs_nodes := a\<rparr>))"

definition register_node ::
  "node_id \<Rightarrow> 64 word \<Rightarrow> 64 word \<Rightarrow> mode_t \<Rightarrow> ('w fs, 64 word option) prog" where
  "register_node i ino dev mode =
     (\<lambda>s. case register (fs_nodes s) i ino dev mode (fs_inodes s) of
            (r, t) \<Rightarrow> (r, s\<lparr>fs_inodes := t\<rparr>))"

definition mod_inodes :: "(inode_table \<Rightarrow> inode_table) \<Rightarrow> ('w fs, unit) prog" where
  "mod_inodes f = modS (\<lambda>s. s\<lparr>fs_inodes := f (fs_inodes s)\<rparr>)"

definition next_wd_counter :: "('w fs, nat) prog" where
  "next_wd_counter = (\<lambda>s. (fs_wd_counter s, s\<lparr>fs_wd_counter := fs_wd_counter s + 1\<rparr>))"

definition hang :: "('w fs, unit) prog" where
  "hang = modS (\<lambda>s. s\<lparr>fs_hung := True\<rparr>)"

section \<open>The world inside the state\<close>

text \<open>
  A part of a larger state that programs of its own run on: what they do can be lifted, lifting
  respects sequencing, and everything that does not look at the part is left alone.
\<close>

locale state_part =
  fixes get :: "'s \<Rightarrow> 'p" and put :: "'p \<Rightarrow> 's \<Rightarrow> 's"
    and lifted :: "('p, 'a) prog \<Rightarrow> ('s, 'a) prog"
  assumes get_put: "get (put p s) = p"
    and put_put: "put p (put q s) = put p s"
    and put_get: "put (get s) s = s"
    and lifted_def': "lifted m s = (fst (m (get s)), put (snd (m (get s))) s)"
begin

lemma lifted_ret: "lifted (ret x) = ret x"
  by (simp add: fun_eq_iff lifted_def' ret_def put_get)

lemma lifted_bind: "lifted (bindS m k) = bindS (lifted m) (\<lambda>x. lifted (k x))"
  by (simp add: fun_eq_iff lifted_def' bindS_def split_beta get_put put_put)

lemma lifted_frame: "(\<And>p s. f (put p s) = f s) \<Longrightarrow> frames f (lifted m)"
  by (simp add: frames_def lifted_def')

lemma lifted_keeps: "(\<And>p s. I s \<Longrightarrow> I (put p s)) \<Longrightarrow> keeps I (lifted m)"
  by (simp add: keeps_def lifted_def')

end

interpretation fs_world: state_part fs_world "\<lambda>w s. s\<lparr>fs_world := w\<rparr>" world
  by unfold_locales (simp_all add: world_def split_beta)

lemmas frames_world = fs_world.lifted_frame
lemmas keeps_world = fs_world.lifted_keeps

section \<open>The invariant\<close>

text \<open>
  \<open>node_ok L r i n\<close>: a node lies on one of the \<open>L\<close> layers, the names of its children are distinct and
  the root \<open>r\<close> is not among them; the root is a directory without a parent whose last layer is
  recorded as 0.
\<close>

definition node_ok :: "nat \<Rightarrow> node_id \<Rightarrow> node_id \<Rightarrow> ovl_node \<Rightarrow> bool" where
  "node_ok L r i n \<longleftrightarrow>
     nd_layer_idx n < L \<and>
     (case children n of None \<Rightarrow> True | Some ch \<Rightarrow> distinct (map fst ch) \<and> r \<notin> snd ` set ch) \<and>
     (i = r \<longrightarrow> is_dir n \<and> nd_parent n = None \<and> nd_last_layer_idx n = 0)"

definition fs_ok :: "nat \<Rightarrow> node_id \<Rightarrow> 'w fs \<Rightarrow> bool" where
  "fs_ok L r s \<longleftrightarrow>
     length (fs_layers s) = L \<and> fs_root_id s = r \<and>
     arena_wf (fs_nodes s) \<and> table_wf (fs_inodes s) \<and>
     arena_get (fs_nodes s) r \<noteq> None \<and>
     (\<forall>i n. arena_get (fs_nodes s) i = Some n \<longrightarrow> node_ok L r i n)"

lemma fs_okD:
  assumes "fs_ok L r s"
  shows "length (fs_layers s) = L" "fs_root_id s = r" "arena_wf (fs_nodes s)"
    "table_wf (fs_inodes s)" "arena_get (fs_nodes s) r \<noteq> None"
    "arena_get (fs_nodes s) i = Some n \<Longrightarrow> node_ok L r i n"
  using assms by (auto simp: fs_ok_def)

lemma fs_ok_same:
  assumes "fs_ok L r s" "fs_layers s' = fs_layers s" "fs_root_id s' = fs_root_id s"
    "fs_nodes s' = fs_nodes s" "fs_inodes s' = fs_inodes s"
  shows "fs_ok L r s'"
  using assms by (simp add: fs_ok_def)

lemma keeps_ok_world [keeps_intro]: "keeps (fs_ok L r) (world m)"
  by (rule keeps_world) (erule fs_ok_same, simp_all)

lemma keeps_ok_hang [keeps_intro]: "keeps (fs_ok L r) hang"
  unfolding hang_def by (rule keeps_modS) (erule fs_ok_same, simp_all)

lemma keeps_ok_next_wd [keeps_intro]: "keeps (fs_ok L r) next_wd_counter"
  by (auto simp: keeps_def next_wd_counter_def intro: fs_ok_same)

text \<open>A node may be changed in any way that keeps it well formed.\<close>

lemma keeps_ok_update_node:
  assumes "\<And>n. node_ok L r i n \<Longrightarrow> node_ok L r i (f n)"
  shows "keeps (fs_ok L r) (update_node i f)"
  using assms by (auto simp: keeps_def update_node_def modS_def fs_ok_def arena_get_update)

lemma fs_ok_insert:
  fixes s :: "'w fs"
  assumes "fs_ok L r s" "\<And>i. i \<noteq> r \<Longrightarrow> node_ok L r i n"
  shows "ar_next_id (fs_nodes s) \<noteq> r"
    and "fs_ok L r (s\<lparr>fs_nodes := snd (arena_insert n (fs_nodes s))\<rparr>)"
proof -
  show ne: "ar_next_id (fs_nodes s) \<noteq> r"
    using fs_okD(3,5)[OF assms(1)] arena_wf_fresh[of "fs_nodes s"] by (auto simp: arena_get_def)
  show "fs_ok L r (s\<lparr>fs_nodes := snd (arena_insert n (fs_nodes s))\<rparr>)"
    using assms ne by (auto simp: fs_ok_def arena_wf_insert arena_get_insert)
qed

lemma yields_insert_node:
  assumes "\<And>i. i \<noteq> r \<Longrightarrow> node_ok L r i n"
  shows "yields (fs_ok L r) (insert_node n) (\<lambda>i. i \<noteq> r)"
  unfolding yields_def
proof (intro allI impI conjI)
  fix s :: "'a fs"
  assume ok: "fs_ok L r s"
  show "fs_ok L r (snd (insert_node n s))" "fst (insert_node n s) \<noteq> r"
    using fs_ok_insert[OF ok assms] by (simp_all add: insert_node_def split_beta)
qed

lemma keeps_ok_remove_node:
  assumes "i \<noteq> r"
  shows "keeps (fs_ok L r) (remove_node os i)"
  unfolding keeps_def
proof (intro allI impI)
  fix s :: "'a fs"
  assume "fs_ok L r s"
  with assms have ok: "fs_ok L r (s\<lparr>fs_nodes := snd (arena_remove i (fs_nodes s))\<rparr>)"
    by (auto simp: fs_ok_def arena_wf_remove arena_get_remove split: if_splits)
  with keeps_snd[OF keeps_ok_world ok] show "fs_ok L r (snd (remove_node os i s))"
    by (auto simp: remove_node_def split_beta split: option.splits)
qed

lemma keeps_ok_register_node [keeps_intro]: "keeps (fs_ok L r) (register_node i ino dev mode)"
  using table_wf_register by (fastforce simp: keeps_def register_node_def fs_ok_def split_beta)

lemma keeps_ok_mod_inodes:
  "(\<And>t. table_wf t \<Longrightarrow> table_wf (f t)) \<Longrightarrow> keeps (fs_ok L r) (mod_inodes f)"
  by (auto simp: keeps_def mod_inodes_def modS_def fs_ok_def)

lemma keeps_bindR [keeps_intro]: "keeps I m \<Longrightarrow> (\<And>x. keeps I (k x)) \<Longrightarrow> keeps I (bindR m k)"
  unfolding bindR_def by (rule keeps_bindS) (auto intro: keeps_ret split: sum.splits)

lemma keeps_bindR_val:
  "yields I m (\<lambda>r. \<forall>x. r = Inr x \<longrightarrow> Q x) \<Longrightarrow> (\<And>x. Q x \<Longrightarrow> keeps I (k x)) \<Longrightarrow> keeps I (bindR m k)"
  unfolding bindR_def by (erule keeps_bindS_val) (auto intro: keeps_ret split: sum.splits)

lemma frames_bindR [frames_intro]: "frames f m \<Longrightarrow> (\<And>x. frames f (k x)) \<Longrightarrow> frames f (bindR m k)"
  unfolding bindR_def by (rule frames_bindS) (auto intro: frames_ret split: sum.splits)

text \<open>How the changes of a node's directory part bear on \<open>node_ok\<close>.\<close>

lemma node_ok_ops [simp]:
  "node_ok L r i (mark_loaded n) \<longleftrightarrow> node_ok L r i n"
  "node_ok L r i (mark_unloaded n) \<longleftrightarrow> node_ok L r i n"
  "node_ok L r i (insert_whiteout name n) \<longleftrightarrow> node_ok L r i n"
  by (auto simp: node_ok_def mark_loaded_def mark_unloaded_def set_loaded_def insert_whiteout_def
      children_def is_dir_def split: dir_state.splits)

lemma set_AList_update: "set (AList.update k v xs) \<subseteq> insert (k, v) (set xs)"
  by (induction xs) auto

lemma set_AList_delete: "set (AList.delete k xs) \<subseteq> set xs"
  by (auto simp: AList.delete_eq)

lemma node_ok_insert_child: "node_ok L r i n \<Longrightarrow> c \<noteq> r \<Longrightarrow> node_ok L r i (insert_child name c n)"
  using set_AList_update[of name c]
  by (fastforce simp: node_ok_def insert_child_def children_def is_dir_def distinct_keys_update
      split: dir_state.splits)

lemma node_ok_remove_child: "node_ok L r i n \<Longrightarrow> node_ok L r i (remove_child name n)"
  using set_AList_delete[of name]
  by (fastforce simp: node_ok_def remove_child_def children_def is_dir_def distinct_keys_delete
      split: dir_state.splits)

lemma node_ok_clear: "node_ok L r i n \<Longrightarrow> node_ok L r i (clear_children n)"
  by (auto simp: node_ok_def clear_children_def children_def is_dir_def split: dir_state.splits)

lemma node_ok_new: "l < L \<Longrightarrow> i \<noteq> r \<Longrightarrow> node_ok L r i (node_new name l ino dev d)"
  by (auto simp: node_ok_def node_new_def children_def)

lemma node_ok_child: "node_ok L r i n \<Longrightarrow> get_child n name = Some c \<Longrightarrow> c \<noteq> r"
  by (force simp: node_ok_def get_child_def children_def split: dir_state.splits dest!: map_of_SomeD)

lemma fs_ok_new:
  assumes "layers \<noteq> []"
  shows "fs_ok (length layers) 1 (overlay_new config layers wfd ov dis w)"
  using assms
  by (auto simp: fs_ok_def overlay_new_def Let_def arena_insert_def arena_new_def arena_get_def
      arena_wf_def node_ok_def node_new_def children_def is_dir_def split: if_splits)

end
