(* ===== verification/Whiteout.thy ===== *)
theory Whiteout
  imports State
begin

text \<open>
  \<^verbatim>\<open>src/whiteout.rs\<close>: marks that hide the entries of lower layers. A whiteout is a character
  device 0:0 under the name itself or a file \<^verbatim>\<open>.wh.<name>\<close>; an opaque directory carries an extended
  attribute or holds the file \<^verbatim>\<open>.wh..wh..opq\<close>. Shown: when a directory counts as opaque, and that
  every whiteout call that succeeds has really placed one of the two marks, with the
  device as the first choice.
\<close>

section \<open>Operations\<close>

definition is_directory_opaque :: "'w data_source \<Rightarrow> bytes \<Rightarrow> 'w \<Rightarrow> bool fs_result" where
  "is_directory_opaque ds path w =
     (if list_ex (\<lambda>attr. case ds_getxattr ds path attr 16 w of
            Inr (c # _) \<Rightarrow> c = CHR ''y'' | _ \<Rightarrow> False)
          [PRIVILEGED_OPAQUE_XATTR, UNPRIVILEGED_OPAQUE_XATTR, OPAQUE_XATTR]
      then Inr True
      else case ds_file_exists ds (path @ ''/'' @ OPAQUE_WHITEOUT) w of
          Inr b \<Rightarrow> Inr b
        | Inl (FsError e) \<Rightarrow> if e = ENOENT then Inr False else Inl (FsError e))"

definition set_fd_opaque :: "'w os \<Rightarrow> int \<Rightarrow> ('w, unit fs_result) prog" where
  "set_fd_opaque os fd =
     bindE (bindS (fsetxattr os fd PRIVILEGED_OPAQUE_XATTR ''y'' 0) (\<lambda>r. case r of
         Inr _ \<Rightarrow> ok True
       | Inl (FsError e) \<Rightarrow>
           if e = ENOTSUP then ok False
           else if e = EPERM then
             bindS (fsetxattr os fd UNPRIVILEGED_OPAQUE_XATTR ''y'' 0) (\<lambda>r. case r of
                 Inr _ \<Rightarrow> ok True
               | Inl (FsError e) \<Rightarrow> if e = ENOTSUP then ok False else fail e)
           else fail e)) (\<lambda>xattr_set.
     bindS (safe_openat os fd OPAQUE_WHITEOUT (O_CREAT OR O_WRONLY OR O_NONBLOCK) 0x1C0)
       (\<lambda>opq_result.
          if \<not> isl opq_result \<or> xattr_set then ok ()
          else ret (case opq_result of Inl e \<Rightarrow> Inl e | Inr _ \<Rightarrow> Inr ())))"

text \<open>The test \<^verbatim>\<open>is_chardev_whiteout\<close>, which the source repeats in this file.\<close>

definition is_chardev_whiteout :: "'w os \<Rightarrow> stat \<Rightarrow> bool" where
  "is_chardev_whiteout os st \<longleftrightarrow>
     st_mode st AND S_IFMT = S_IFCHR \<and> libc_major os (st_rdev st) = 0 \<and> libc_minor os (st_rdev st) = 0"

definition delete_whiteout ::
  "'w os \<Rightarrow> int \<Rightarrow> int option \<Rightarrow> bytes \<Rightarrow> bytes \<Rightarrow> ('w fs, unit fs_result) prog" where
  "delete_whiteout os upper_fd dirfd parent_path name =
     bindE (if dirfd = None \<and> parent_path \<noteq> ''.''
            then bindE (world (safe_openat os upper_fd parent_path
                          (O_DIRECTORY OR O_NOFOLLOW OR O_PATH) 0)) (\<lambda>f. ok (Some f))
            else ok None) (\<lambda>parent_safe.
     let dfd = (case dirfd of Some d \<Rightarrow> d
                | None \<Rightarrow> (case parent_safe of Some f \<Rightarrow> f | None \<Rightarrow> upper_fd)) in
     bindE (withS (\<lambda>s.
         if fs_CAN_MKNOD s then
           (case cstr_bytes name of
              Inl e \<Rightarrow> ret (Inl e)
            | Inr c_name \<Rightarrow>
                (case fstatat os dfd c_name AT_SYMLINK_NOFOLLOW (fs_world s) of
                   Inr st \<Rightarrow>
                     if is_chardev_whiteout os st then world (unlinkat os dfd c_name 0) else ok ()
                 | Inl _ \<Rightarrow> ok ()))
         else ok ())) (\<lambda>_.
     (case cstr_bytes (''.wh.'' @ name) of
        Inl e \<Rightarrow> ret (Inl e)
      | Inr c_wh \<Rightarrow>
          bindS (world (unlinkat os dfd c_wh 0)) (\<lambda>r. case r of
              Inr _ \<Rightarrow> ok ()
            | Inl (FsError e) \<Rightarrow> if e = ENOENT then ok () else fail e))))"

text \<open>The device attempt of \<^verbatim>\<open>create_whiteout\<close>: \<open>Inr True\<close> is \<^verbatim>\<open>return Ok(())\<close>, \<open>Inr False\<close> falls through to
  the \<^verbatim>\<open>.wh.\<close> file.\<close>

definition try_device_whiteout :: "'w os \<Rightarrow> int \<Rightarrow> bytes \<Rightarrow> ('w fs, bool fs_result) prog" where
  "try_device_whiteout os pfd name =
     (case cstr_bytes name of
        Inl e \<Rightarrow> ret (Inl e)
      | Inr c_name \<Rightarrow>
          bindS (world (mknodat os pfd c_name (S_IFCHR OR 0x1C0) (libc_makedev os 0 0)))
            (\<lambda>r. case r of
               Inr _ \<Rightarrow> ok True
             | Inl (FsError e) \<Rightarrow>
                 if e = EEXIST then
                   withS (\<lambda>s.
                     case fstatat os pfd c_name AT_SYMLINK_NOFOLLOW (fs_world s) of
                       Inr st \<Rightarrow> if is_chardev_whiteout os st then ok True else fail EEXIST
                     | Inl _ \<Rightarrow> fail EEXIST)
                 else if e = EPERM \<or> e = ENOTSUP then
                   doS (modS (\<lambda>s. s\<lparr>fs_CAN_MKNOD := False\<rparr>)) (ok False)
                 else fail e))"

definition create_whiteout ::
  "'w os \<Rightarrow> int \<Rightarrow> bytes \<Rightarrow> bytes \<Rightarrow> bool \<Rightarrow> ('w fs, unit fs_result) prog" where
  "create_whiteout os dirfd parent_path name can_mknod =
     bindE (if parent_path \<noteq> ''.''
            then bindE (world (safe_openat os dirfd parent_path
                          (O_DIRECTORY OR O_NOFOLLOW OR O_PATH) 0)) (\<lambda>f. ok (Some f))
            else ok None) (\<lambda>parent_fd.
     let pfd = (case parent_fd of Some f \<Rightarrow> f | None \<Rightarrow> dirfd) in
     bindE (if can_mknod then try_device_whiteout os pfd name else ok False) (\<lambda>done.
     if done then ok ()
     else bindE (world (safe_openat os pfd (''.wh.'' @ name)
                          (O_CREAT OR O_WRONLY OR O_NONBLOCK) 0x1C0)) (\<lambda>_. ok ())))"

section \<open>Frames\<close>

lemma keeps_ok_CAN_MKNOD [keeps_intro]: "keeps (fs_ok L r) (modS (\<lambda>s. s\<lparr>fs_CAN_MKNOD := b\<rparr>))"
  by (rule keeps_modS) (erule fs_ok_same, simp_all)

lemma keeps_case_fs_error [keeps_intro]:
  "(\<And>e. keeps I (f e)) \<Longrightarrow> keeps I (case x of FsError e \<Rightarrow> f e)"
  by (cases x) auto

lemma frames_case_fs_error [frames_intro]:
  "(\<And>e. frames h (f e)) \<Longrightarrow> frames h (case x of FsError e \<Rightarrow> f e)"
  by (cases x) auto

lemma keeps_ok_delete_whiteout [keeps_intro]:
  "keeps (fs_ok L r) (delete_whiteout os fd dfd p name)"
  unfolding delete_whiteout_def by (intro keeps_intro)

lemma keeps_ok_create_whiteout [keeps_intro]:
  "keeps (fs_ok L r) (create_whiteout os fd p name b)"
  unfolding create_whiteout_def try_device_whiteout_def by (intro keeps_intro)

text \<open>Whiteouts do not touch the tree: only the world and the flag \<^verbatim>\<open>CAN_MKNOD\<close> change.\<close>

lemma frames_delete_whiteout:
  assumes "\<And>s w. f (s\<lparr>fs_world := w\<rparr>) = f s"
  shows "frames f (delete_whiteout os fd dfd p name)"
  unfolding delete_whiteout_def by (intro frames_intro frames_world assms)

lemma frames_create_whiteout:
  assumes "\<And>s w. f (s\<lparr>fs_world := w\<rparr>) = f s" "\<And>s b. f (s\<lparr>fs_CAN_MKNOD := b\<rparr>) = f s"
  shows "frames f (create_whiteout os fd p name b)"
  unfolding create_whiteout_def try_device_whiteout_def by (intro frames_intro frames_world frames_modS assms)

section \<open>A whiteout is placed\<close>

text \<open>The calls that leave a mark for \<open>name\<close> in the directory \<open>pfd\<close>, ending in the world \<open>w'\<close>.\<close>

definition made_device :: "'w os \<Rightarrow> int \<Rightarrow> bytes \<Rightarrow> 'w \<Rightarrow> bool" where
  "made_device os pfd name w' \<longleftrightarrow>
     (\<exists>w. k_mknodat os pfd name (S_IFCHR OR 0x1C0) (libc_makedev os 0 0) w = (Inr (), w'))"

definition found_device :: "'w os \<Rightarrow> int \<Rightarrow> bytes \<Rightarrow> 'w \<Rightarrow> bool" where
  "found_device os pfd name w' \<longleftrightarrow>
     (\<exists>st. k_fstatat os pfd name AT_SYMLINK_NOFOLLOW w' = Inr st \<and> is_chardev_whiteout os st)"

definition made_wh_file :: "'w os \<Rightarrow> int \<Rightarrow> bytes \<Rightarrow> 'w \<Rightarrow> bool" where
  "made_wh_file os pfd name w' \<longleftrightarrow>
     (\<exists>w fd. safe_openat os pfd (''.wh.'' @ name) (O_CREAT OR O_WRONLY OR O_NONBLOCK) 0x1C0 w =
        (Inr fd, w'))"

lemma world_run: "world m s = (r, s') \<longleftrightarrow> m (fs_world s) = (r, fs_world s') \<and> s' = s\<lparr>fs_world := fs_world s'\<rparr>"
  by (auto simp: world_def split: prod.splits)

lemma world_mknodat_Inr:
  "world (mknodat os d n m v) s = (Inr x, s') \<longleftrightarrow>
   k_mknodat os d n m v (fs_world s) = (Inr x, fs_world s') \<and> s' = s\<lparr>fs_world := fs_world s'\<rparr>"
  by (simp add: world_run mknodat_def lift_eff_Inr)

lemma try_device_whiteout_Inr:
  assumes "try_device_whiteout os pfd name s = (Inr b, s')"
  shows "if b then made_device os pfd name (fs_world s') \<or> found_device os pfd name (fs_world s')
         else \<not> fs_CAN_MKNOD s'"
proof -
  from assms have n: "cstr_bytes name = Inr name"
    by (auto simp: try_device_whiteout_def cstr_bytes_def split: sum.splits if_splits)
  obtain r s1 where r: "world (mknodat os pfd name (S_IFCHR OR 0x1C0) (libc_makedev os 0 0)) s = (r, s1)"
    by (cases "world (mknodat os pfd name (S_IFCHR OR 0x1C0) (libc_makedev os 0 0)) s") blast
  show ?thesis
  proof (cases r)
    case (Inr u)
    with r assms n have "b" "s' = s1" by (auto simp: try_device_whiteout_def bindS_def)
    with r Inr show ?thesis by (auto simp: made_device_def world_mknodat_Inr)
  next
    case (Inl err)
    then obtain e where "r = Inl (FsError e)" by (cases err) auto
    with r assms n show ?thesis
      by (auto simp: try_device_whiteout_def bindS_def found_device_def withS_def fstatat_def doS_def
          modS_def split: if_splits sum.splits)
  qed
qed

text \<open>C17: A whiteout that is reported as created is there: after \<^verbatim>\<open>create_whiteout\<close> returns
  success, either the last call made the character device 0:0 under the name, or the name
  already was such a device, or the file \<^verbatim>\<open>.wh.<name>\<close> was opened with \<^verbatim>\<open>O_CREAT\<close>; the file is
  used only if devices were ruled out beforehand or \<^verbatim>\<open>mknod\<close> was refused, which is
  remembered in \<^verbatim>\<open>CAN_MKNOD\<close>. The tree is not touched.\<close>

theorem create_whiteout_marks:
  assumes "create_whiteout os dirfd parent_path name can_mknod s = (Inr (), s')"
  shows "\<exists>pfd. (parent_path = ''.'' \<longrightarrow> pfd = dirfd) \<and>
     (can_mknod \<and> made_device os pfd name (fs_world s') \<or>
      can_mknod \<and> found_device os pfd name (fs_world s') \<or>
      (can_mknod \<longrightarrow> \<not> fs_CAN_MKNOD s') \<and> made_wh_file os pfd name (fs_world s')) \<and>
     fs_nodes s' = fs_nodes s \<and> fs_inodes s' = fs_inodes s"
proof -
  from assms obtain pf s1 b s2 where
    first: "(if parent_path \<noteq> ''.''
       then bindE (world (safe_openat os dirfd parent_path (O_DIRECTORY OR O_NOFOLLOW OR O_PATH) 0))
              (\<lambda>f. ok (Some f))
       else ok None) s = (Inr pf, s1)"
    and att: "(if can_mknod then try_device_whiteout os (case pf of Some f \<Rightarrow> f | None \<Rightarrow> dirfd) name
               else ok False) s1 = (Inr b, s2)"
    and fin: "(if b then ok () else bindE (world (safe_openat os (case pf of Some f \<Rightarrow> f | None \<Rightarrow> dirfd)
        (''.wh.'' @ name) (O_CREAT OR O_WRONLY OR O_NONBLOCK) 0x1C0)) (\<lambda>_. ok ())) s2 = (Inr (), s')"
    unfolding create_whiteout_def Let_def bindE_Inr_iff by blast
  from first have pf: "parent_path = ''.'' \<longrightarrow> pf = None" by auto
  define pfd where "pfd = (case pf of Some f \<Rightarrow> f | None \<Rightarrow> dirfd)"
  have frame: "fs_nodes s' = fs_nodes s" "fs_inodes s' = fs_inodes s"
    by (rule framesD[OF frames_create_whiteout assms]; simp)+
  have "b \<Longrightarrow> s' = s2" using fin by simp
  moreover have "\<not> b \<Longrightarrow> made_wh_file os pfd name (fs_world s') \<and> fs_CAN_MKNOD s' = fs_CAN_MKNOD s2"
  proof -
    assume "\<not> b"
    with fin obtain fd where w: "world (safe_openat os pfd (''.wh.'' @ name)
        (O_CREAT OR O_WRONLY OR O_NONBLOCK) 0x1C0) s2 = (Inr fd, s')"
      unfolding pfd_def by (auto simp: bindE_Inr_iff)
    moreover have "fs_CAN_MKNOD s' = fs_CAN_MKNOD s2" by (rule framesD[OF frames_world w]) simp
    ultimately show ?thesis unfolding made_wh_file_def world_run by blast
  qed
  moreover have "can_mknod \<Longrightarrow> try_device_whiteout os pfd name s1 = (Inr b, s2)" "\<not> can_mknod \<Longrightarrow> \<not> b"
    using att by (simp_all add: pfd_def)
  ultimately have "can_mknod \<and> made_device os pfd name (fs_world s') \<or>
      can_mknod \<and> found_device os pfd name (fs_world s') \<or>
      (can_mknod \<longrightarrow> \<not> fs_CAN_MKNOD s') \<and> made_wh_file os pfd name (fs_world s')"
    using try_device_whiteout_Inr[of os pfd name s1 b s2] by (cases can_mknod; cases b) auto
  then show ?thesis using pf frame by (intro exI[of _ pfd]) (auto simp: pfd_def)
qed

text \<open>Witness: the first unlinked file of a lower layer on a kernel that refuses devices.\<close>

definition no_device_os :: "unit os" where
  "no_device_os = refusing_os\<lparr>k_mknodat := \<lambda>_ _ _ _ w. (Inl EPERM, w), k_openat2 := \<lambda>_ _ _ _ _ w. (Inr 9, w)\<rparr>"

definition sample_fs :: "'w os \<Rightarrow> 'w \<Rightarrow> 'w fs" where
  "sample_fs os w = overlay_new (config_default 0)
     [from_datasource (direct_ds os (direct_new\<lparr>da_fd := Some 3\<rparr>)) False,
      from_datasource (direct_ds os (direct_new\<lparr>da_fd := Some 4\<rparr>)) True] 5
     \<lparr>ov_uid = 65534, ov_gid = 65534\<rparr> False w"

theorem create_whiteout_marks_witness:
  "\<exists>s'. create_whiteout no_device_os 3 ''.'' ''f'' True (sample_fs no_device_os ()) = (Inr (), s') \<and>
     \<not> fs_CAN_MKNOD s' \<and> made_wh_file no_device_os 3 ''f'' (fs_world s')"
proof -
  obtain s' where r: "create_whiteout no_device_os 3 ''.'' ''f'' True (sample_fs no_device_os ()) = (Inr (), s')"
    and m: "\<not> made_device no_device_os 3 ''f'' (fs_world s')" "\<not> found_device no_device_os 3 ''f'' (fs_world s')"
    by (simp add: create_whiteout_def try_device_whiteout_def prog_defs cstr_bytes_def world_def
        mknodat_def lift_eff_def lift_obs_def no_device_os_def safe_openat_def with_cstrP_def
        syscall_openat2_def made_device_def found_device_def refusing_os_def)
  from create_whiteout_marks[OF r] m r show ?thesis by auto
qed

end
