(* ===== verification/Copy_Data.thy ===== *)
theory Copy_Data
  imports State
begin

text \<open>
  \<^verbatim>\<open>src/copyup.rs\<close>, the helpers that copy the content and the extended attributes of a file
  between two open descriptors. The three copy loops run as long as the kernel
  makes them, so they are partial functions (\<open>None\<close>: the loop does not end). Shown: on a kernel
  that honours the descriptions of \<^verbatim>\<open>read\<close>, \<^verbatim>\<open>write\<close>, \<^verbatim>\<open>sendfile\<close> and \<^verbatim>\<open>FICLONE\<close> in their manual
  pages the copy ends, and a copy that reports success is complete.
\<close>

section \<open>Operations\<close>

definition stat_times :: "stat \<Rightarrow> timespec \<times> timespec" where
  "stat_times st =
     (\<lparr>tv_sec = st_atime st, tv_nsec = st_atime_nsec st\<rparr>,
      \<lparr>tv_sec = st_mtime st, tv_nsec = st_mtime_nsec st\<rparr>)"

text \<open>The loop of \<^verbatim>\<open>copy_xattr\<close> over the names.\<close>

fun copy_xattr_go :: "'w os \<Rightarrow> int \<Rightarrow> int \<Rightarrow> bytes list \<Rightarrow> ('w, unit fs_result) prog" where
  "copy_xattr_go os sfd dfd [] = ok ()"
| "copy_xattr_go os sfd dfd (name # names) =
     (if starts_with name PRIVILEGED_XATTR_PREFIX \<or> starts_with name UNPRIVILEGED_XATTR_PREFIX \<or>
         starts_with name XATTR_PREFIX
      then copy_xattr_go os sfd dfd names
      else withS (\<lambda>w. case fgetxattr os sfd name 65536 w of
          Inl (FsError e) \<Rightarrow>
            if e = ENODATA then copy_xattr_go os sfd dfd names else fail e
        | Inr val \<Rightarrow>
            bindS (fsetxattr os dfd name val 0) (\<lambda>r. case r of
                Inr _ \<Rightarrow> copy_xattr_go os sfd dfd names
              | Inl (FsError e) \<Rightarrow>
                  if e = EPERM \<or> e = ENOTSUP then copy_xattr_go os sfd dfd names else fail e)))"

definition copy_xattr :: "'w os \<Rightarrow> int \<Rightarrow> int \<Rightarrow> ('w, unit fs_result) prog" where
  "copy_xattr os sfd dfd =
     withS (\<lambda>w. case flistxattr os sfd 65536 w of
         Inl (FsError e) \<Rightarrow> if e = ENOTSUP \<or> e = ENODATA then ok () else fail e
       | Inr buf \<Rightarrow>
           copy_xattr_go os sfd dfd
             (List.map_filter from_utf8 (filter (\<lambda>n. n \<noteq> []) (split_on (CHR 0x00) buf))))"

text \<open>The result of the \<^verbatim>\<open>sendfile\<close> loop is \<open>None\<close> at end of file and else the number of bytes copied.\<close>

partial_function (option) sendfile_loop ::
  "'w os \<Rightarrow> int \<Rightarrow> int \<Rightarrow> int \<Rightarrow> int \<Rightarrow> 'w \<Rightarrow> (int option \<times> 'w) option" where
  "sendfile_loop os dfd sfd fsize copied w =
     (if copied < fsize then
        (case sendfile os dfd sfd (nat (fsize - copied)) w of
           (Inl err, w') \<Rightarrow>
             if errno_of err = EINTR then sendfile_loop os dfd sfd fsize copied w'
             else Some (Some copied, w')
         | (Inr n, w') \<Rightarrow>
             if n = 0 then Some (None, w')
             else sendfile_loop os dfd sfd fsize (copied + int n) w')
      else Some (Some copied, w))"

partial_function (option) write_loop ::
  "'w os \<Rightarrow> int \<Rightarrow> bytes \<Rightarrow> 'w \<Rightarrow> (unit fs_result \<times> 'w) option" where
  "write_loop os dfd buf w =
     (if buf = [] then Some (Inr (), w)
      else case io_write os dfd buf w of
          (Inl e, w') \<Rightarrow> Some (Inl e, w')
        | (Inr n, w') \<Rightarrow> write_loop os dfd (drop n buf) w')"

partial_function (option) read_write_loop ::
  "'w os \<Rightarrow> int \<Rightarrow> int \<Rightarrow> 'w \<Rightarrow> (unit fs_result \<times> 'w) option" where
  "read_write_loop os sfd dfd w =
     (case io_read os sfd 1048576 w of
        (Inl e, w') \<Rightarrow> Some (Inl e, w')
      | (Inr buf, w') \<Rightarrow>
          if buf = [] then Some (Inr (), w')
          else Option.bind (write_loop os dfd buf w') (\<lambda>(r, w'').
            case r of Inl e \<Rightarrow> Some (Inl e, w'') | Inr _ \<Rightarrow> read_write_loop os sfd dfd w''))"

definition copy_data :: "'w os \<Rightarrow> int \<Rightarrow> int \<Rightarrow> 64 word \<Rightarrow> 'w \<Rightarrow> (unit fs_result \<times> 'w) option" where
  "copy_data os sfd dfd fsize w =
     (case ficlone os dfd sfd w of
        (Inr _, w') \<Rightarrow> Some (Inr (), w')
      | (Inl _, w') \<Rightarrow>
          Option.bind (sendfile_loop os dfd sfd (sint fsize) 0 w') (\<lambda>(r, w'').
            case r of
              None \<Rightarrow> Some (Inr (), w'')
            | Some copied \<Rightarrow>
                if copied \<ge> sint fsize then Some (Inr (), w'')
                else read_write_loop os sfd dfd w''))"

section \<open>What the kernel promises\<close>

text \<open>
  \<open>rest w\<close> are the bytes the source descriptor will still deliver, \<open>out w\<close> the bytes the
  destination holds up to its offset, \<open>irq w\<close> bounds the interruptions still to come. The laws are
  those of the manual pages: a call that transfers \<open>n\<close> bytes moves both offsets by \<open>n\<close>, a failed
  one moves none, zero bytes are delivered at the end of the source only, and a write of
  a non-empty buffer that succeeds writes at least one byte.
\<close>

definition transfers :: "('w \<Rightarrow> bytes) \<Rightarrow> ('w \<Rightarrow> bytes) \<Rightarrow> ('w \<Rightarrow> nat) \<Rightarrow> 'w os \<Rightarrow> int \<Rightarrow> int \<Rightarrow> bool" where
  "transfers rest out irq os sfd dfd \<longleftrightarrow>
     (\<forall>n w w' k. 0 < n \<longrightarrow> k_sendfile os dfd sfd n w = (Inr k, w') \<longrightarrow>
        out w' = out w @ take k (rest w) \<and> rest w' = drop k (rest w) \<and> k \<le> length (rest w) \<and>
        (k = 0 \<longrightarrow> rest w = []) \<and> irq w' \<le> irq w) \<and>
     (\<forall>n w w' e. k_sendfile os dfd sfd n w = (Inl e, w') \<longrightarrow>
        out w' = out w \<and> rest w' = rest w \<and> irq w' \<le> irq w \<and> (e = EINTR \<longrightarrow> irq w' < irq w)) \<and>
     (\<forall>n w w' b. 0 < n \<longrightarrow> k_read os sfd n w = (Inr b, w') \<longrightarrow>
        out w' = out w \<and> rest w = b @ rest w' \<and> (b = [] \<longrightarrow> rest w = [])) \<and>
     (\<forall>b w w' n. b \<noteq> [] \<longrightarrow> k_write os dfd b w = (Inr n, w') \<longrightarrow>
        out w' = out w @ take n b \<and> rest w' = rest w \<and> 0 < n) \<and>
     (\<forall>w w'. k_ficlone os dfd sfd w = (Inr (), w') \<longrightarrow> out w = [] \<longrightarrow> out w' = rest w) \<and>
     (\<forall>w w' e. k_ficlone os dfd sfd w = (Inl e, w') \<longrightarrow> out w' = out w \<and> rest w' = rest w)"

lemma lift_eff_cases:
  obtains e w' where "lift_eff f w = (Inl (FsError e), w')" "f w = (Inl e, w')"
  | x w' where "lift_eff f w = (Inr x, w')" "f w = (Inr x, w')"
  by (cases "f w", case_tac a) (auto simp: lift_eff_def lift_obs_def)

lemma transfers_sendfile:
  assumes "transfers rest out irq os sfd dfd" "0 < n" "k_sendfile os dfd sfd n w = (Inr k, w')"
  shows "out w' = out w @ take k (rest w)" "rest w' = drop k (rest w)" "k \<le> length (rest w)"
    "k = 0 \<longrightarrow> rest w = []" "irq w' \<le> irq w"
proof -
  from assms(1) have "\<forall>n w w' k. 0 < n \<longrightarrow> k_sendfile os dfd sfd n w = (Inr k, w') \<longrightarrow>
        out w' = out w @ take k (rest w) \<and> rest w' = drop k (rest w) \<and> k \<le> length (rest w) \<and>
        (k = 0 \<longrightarrow> rest w = []) \<and> irq w' \<le> irq w"
    unfolding transfers_def by (rule conjunct1)
  with assms(2,3) show "out w' = out w @ take k (rest w)" "rest w' = drop k (rest w)"
    "k \<le> length (rest w)" "k = 0 \<longrightarrow> rest w = []" "irq w' \<le> irq w"
    by simp_all
qed

lemma write_loop_writes:
  assumes T: "transfers rest out irq os sfd dfd"
  shows "\<exists>r w'. write_loop os dfd buf w = Some (r, w') \<and>
    (r = Inr () \<longrightarrow> out w' = out w @ buf \<and> rest w' = rest w)"
proof (induction "length buf" arbitrary: buf w rule: less_induct)
  case less
  show ?case
  proof (cases "buf = []")
    case True
    then show ?thesis by (subst write_loop.simps) simp
  next
    case False
    show ?thesis
    proof (cases rule: lift_eff_cases[of "k_write os dfd buf" w])
      case (1 e w')
      then show ?thesis using False by (subst write_loop.simps) (simp add: io_write_def)
    next
      case (2 n w')
      from T False 2(2) have n: "out w' = out w @ take n buf" "rest w' = rest w" "0 < n"
        unfolding transfers_def by blast+
      with False less[of "drop n buf" w'] obtain r w'' where
        "write_loop os dfd (drop n buf) w' = Some (r, w'')"
        "r = Inr () \<longrightarrow> out w'' = out w' @ drop n buf \<and> rest w'' = rest w'" by auto
      with False 2 n show ?thesis by (subst write_loop.simps) (simp add: io_write_def)
    qed
  qed
qed

lemma read_write_loop_copies:
  assumes T: "transfers rest out irq os sfd dfd"
  shows "\<exists>r w'. read_write_loop os sfd dfd w = Some (r, w') \<and> (r = Inr () \<longrightarrow> out w' = out w @ rest w)"
proof (induction "length (rest w)" arbitrary: w rule: less_induct)
  case less
  show ?case
  proof (cases rule: lift_eff_cases[of "k_read os sfd 1048576" w])
    case (1 e w')
    then show ?thesis by (subst read_write_loop.simps) (simp add: io_read_def)
  next
    case (2 b w')
    have b: "out w' = out w" "rest w = b @ rest w'" "b = [] \<longrightarrow> rest w = []"
      using T 2(2) unfolding transfers_def by (metis zero_less_numeral)+
    show ?thesis
    proof (cases "b = []")
      case True
      then show ?thesis using 2 b by (subst read_write_loop.simps) (simp add: io_read_def)
    next
      case False
      obtain r1 w1 where w1: "write_loop os dfd b w' = Some (r1, w1)"
        "r1 = Inr () \<longrightarrow> out w1 = out w' @ b \<and> rest w1 = rest w'"
        using write_loop_writes[OF T] by blast
      show ?thesis
      proof (cases r1)
        case (Inl e)
        then show ?thesis using 2 False w1 by (subst read_write_loop.simps) (simp add: io_read_def)
      next
        case (Inr u)
        with w1 b False have r: "out w1 = out w @ b" "rest w = b @ rest w1" by simp_all
        with False less[of w1] obtain r2 w2 where
          "read_write_loop os sfd dfd w1 = Some (r2, w2)" "r2 = Inr () \<longrightarrow> out w2 = out w1 @ rest w1"
          by auto
        then show ?thesis using 2 False w1 Inr r
          by (subst read_write_loop.simps) (simp add: io_read_def)
      qed
    qed
  qed
qed

lemma sendfile_loop_copies:
  assumes T: "transfers rest out irq os sfd dfd"
  shows "0 \<le> copied \<Longrightarrow> \<exists>r w'. sendfile_loop os dfd sfd fsize copied w = Some (r, w') \<and>
    out w' @ rest w' = out w @ rest w \<and>
    (r = None \<longrightarrow> rest w' = []) \<and>
    (\<forall>c. r = Some c \<longrightarrow> c = copied + (int (length (out w')) - int (length (out w))))"
proof (induction "length (rest w) + irq w" arbitrary: copied w rule: less_induct)
  case less
  show ?case
  proof (cases "copied < fsize")
    case False
    then show ?thesis by (subst sendfile_loop.simps) simp
  next
    case True
    then have pos: "0 < nat (fsize - copied)" by simp
    show ?thesis
    proof (cases rule: lift_eff_cases[of "k_sendfile os dfd sfd (nat (fsize - copied))" w])
      case (1 e w')
      from T 1(2) have e: "out w' = out w" "rest w' = rest w" "e = EINTR \<longrightarrow> irq w' < irq w"
        unfolding transfers_def by blast+
      show ?thesis
      proof (cases "e = EINTR")
        case True
        with e have "length (rest w') + irq w' < length (rest w) + irq w" by simp
        from less.hyps[OF this less.prems] obtain r w'' where
          run: "sendfile_loop os dfd sfd fsize copied w' = Some (r, w'')" and post:
          "out w'' @ rest w'' = out w' @ rest w'" "r = None \<longrightarrow> rest w'' = []"
          "\<forall>c. r = Some c \<longrightarrow> c = copied + (int (length (out w'')) - int (length (out w')))"
          by blast
        have "sendfile_loop os dfd sfd fsize copied w = sendfile_loop os dfd sfd fsize copied w'"
          using True 1(1) \<open>copied < fsize\<close>
          by (subst sendfile_loop.simps) (simp add: sendfile_def)
        with run post e show ?thesis by auto
      next
        case False
        with e 1 \<open>copied < fsize\<close> show ?thesis
          by (subst sendfile_loop.simps) (simp add: sendfile_def)
      qed
    next
      case (2 k w')
      note k = transfers_sendfile[OF T pos 2(2)]
      show ?thesis
      proof (cases "k = 0")
        case True
        with k 2 \<open>copied < fsize\<close> show ?thesis by (subst sendfile_loop.simps) (simp add: sendfile_def)
      next
        case False
        with k have "length (rest w') + irq w' < length (rest w) + irq w" by simp
        from less.hyps[OF this, of "copied + int k"] less.prems obtain r w'' where
          "sendfile_loop os dfd sfd fsize (copied + int k) w' = Some (r, w'')"
          "out w'' @ rest w'' = out w' @ rest w'" "r = None \<longrightarrow> rest w'' = []"
          "\<forall>c. r = Some c \<longrightarrow> c = copied + int k + (int (length (out w'')) - int (length (out w')))"
          by auto
        with False k 2 \<open>copied < fsize\<close> show ?thesis
          by (subst sendfile_loop.simps) (simp add: sendfile_def)
      qed
    qed
  qed
qed

text \<open>C15: Copying the content of a file up is complete: on a kernel that obeys the manual pages,
  for a fresh (empty) destination and a source that is not longer than the size reported by
  \<^verbatim>\<open>stat\<close>, \<^verbatim>\<open>copy_data\<close> returns, and if it reports success the destination holds exactly
  the bytes of the source, no matter how \<^verbatim>\<open>FICLONE\<close>, \<^verbatim>\<open>sendfile\<close> (interrupted or cut short at any
  point) and the read/write fallback share the work.\<close>

theorem copy_data_complete:
  assumes T: "transfers rest out irq os sfd dfd"
    and "out w = []" and "int (length (rest w)) \<le> sint fsize"
  shows "\<exists>r w'. copy_data os sfd dfd fsize w = Some (r, w') \<and> (r = Inr () \<longrightarrow> out w' = rest w)"
proof (cases rule: lift_eff_cases[of "k_ficlone os dfd sfd" w])
  case (2 u w')
  then show ?thesis using T assms(2) by (auto simp: copy_data_def ficlone_def transfers_def)
next
  case (1 e w1)
  with T have w1: "out w1 = []" "rest w1 = rest w" using assms(2) unfolding transfers_def by metis+
  obtain r w2 where r: "sendfile_loop os dfd sfd (sint fsize) 0 w1 = Some (r, w2)"
    "out w2 @ rest w2 = rest w" "r = None \<longrightarrow> rest w2 = []"
    "\<And>c. r = Some c \<Longrightarrow> c = int (length (out w2))"
    using sendfile_loop_copies[OF T, of 0 "sint fsize" w1] w1 by auto
  show ?thesis
  proof (cases r)
    case None
    with 1 r show ?thesis by (simp add: copy_data_def ficlone_def)
  next
    case (Some c)
    show ?thesis
    proof (cases "c \<ge> sint fsize")
      case True
      with Some r(2,4) assms(3) have "length (rest w) \<le> length (out w2)" by auto
      with r(2) have "out w2 = rest w" by (metis append_eq_conv_conj length_append order_antisym
            le_add1 take_all)
      with 1 r Some True show ?thesis by (simp add: copy_data_def ficlone_def)
    next
      case False
      with 1 r Some read_write_loop_copies[OF T, of w2] show ?thesis
        by (auto simp: copy_data_def ficlone_def)
    qed
  qed
qed

text \<open>Witness: a kernel whose \<^verbatim>\<open>sendfile\<close> moves one byte and is then refused, so that the fallback copies
  the rest; the world is the pair of what is left and what is written.\<close>

definition byte_os :: "(bytes \<times> bytes) os" where
  "byte_os = refusing_os\<lparr>
     k_sendfile := \<lambda>_ _ _ (r, d). if r = [] then (Inr 0, (r, d))
        else if d = [] then (Inr 1, (tl r, [hd r])) else (Inl EINVAL, (r, d)),
     k_read := \<lambda>_ n (r, d). (Inr (take n r), (drop n r, d)),
     k_write := \<lambda>_ b (r, d). (Inr (length b), (r, d @ b))\<rparr>"

lemma byte_os_transfers: "transfers fst snd (\<lambda>_. 0) byte_os 3 4"
  by (auto simp: transfers_def byte_os_def refusing_os_def neq_Nil_conv split: if_splits)

lemma byte_os_success: "map_option fst (copy_data byte_os 3 4 3 (''abc'', [])) = Some (Inr ())"
proof -
  have calls: "k_ficlone byte_os d s w = (Inl ENOSYS, w)"
    "k_sendfile byte_os d s n (a # r, []) = (Inr 1, (r, [a]))"
    "k_sendfile byte_os d s n (a # r, b # o') = (Inl EINVAL, (a # r, b # o'))"
    "k_read byte_os s n (r, o') = (Inr (take n r), (drop n r, o'))"
    "k_write byte_os d c (r, o') = (Inr (length c), (r, o' @ c))" for d s w n a r b c o'
    by (simp_all add: byte_os_def refusing_os_def)
  have send: "sendfile_loop byte_os 4 3 3 0 (''abc'', []) = Some (Some 1, (''bc'', ''a''))"
    by (simp add: sendfile_loop.simps sendfile_def lift_eff_def lift_obs_def calls)
  have wr: "write_loop byte_os 4 ''bc'' ([], ''a'') = Some (Inr (), ([], ''abc''))"
    by (simp add: write_loop.simps io_write_def lift_eff_def lift_obs_def calls)
  show ?thesis
    by (simp add: copy_data_def ficlone_def lift_eff_def lift_obs_def calls send read_write_loop.simps
        io_read_def wr)
qed

theorem copy_data_complete_witness:
  "\<exists>w'. copy_data byte_os 3 4 3 (''abc'', []) = Some (Inr (), w') \<and> snd w' = ''abc''"
  using copy_data_complete[OF byte_os_transfers, of "(''abc'', [])" 3] byte_os_success by auto

end
