(* ===== verification/Copyup.thy ===== *)
theory Copyup
  imports Whiteout Copy_Data
begin

text \<open>
  \<^verbatim>\<open>src/copyup.rs\<close>: copying a node of a lower layer, and the directories above it, to the upper
  layer. Everything is built under a fresh name in the work directory and renamed into place.
  \<^verbatim>\<open>create_node_directory\<close> recurses along the parents; the fuel is that of \<^verbatim>\<open>compute_path\<close> and is
  enough whenever the chain of parents ends (\<open>create_node_directory_fuel\<close>). Shown: a
  copy-up that succeeds leaves the node on the upper layer, and whether it succeeds or not it
  changes nothing in the tree but the layer of nodes it has copied, and never
  takes the same work name twice.
\<close>

section \<open>Operations\<close>

definition obs :: "('w \<Rightarrow> 'a) \<Rightarrow> ('w fs, 'a) prog" where
  "obs f = withS (\<lambda>s. ret (f (fs_world s)))"

definition layer_at :: "'w fs \<Rightarrow> nat \<Rightarrow> 'w ovl_layer option" where
  "layer_at s i = (if i < length (fs_layers s) then Some (fs_layers s ! i) else None)"

text \<open>A loop over the world that may not end.\<close>

definition looping :: "('w \<Rightarrow> ('a fs_result \<times> 'w) option) \<Rightarrow> ('w fs, 'a fs_result) prog" where
  "looping m =
     (\<lambda>s. case m (fs_world s) of
            None \<Rightarrow> (Inl (FsError EIO), s\<lparr>fs_hung := True\<rparr>)
          | Some (r, w) \<Rightarrow> (r, s\<lparr>fs_world := w\<rparr>))"

definition next_wd_name :: "('w fs, bytes) prog" where
  "next_wd_name = bindS next_wd_counter (\<lambda>c. ret (show_nat c))"

text \<open>The end of \<^verbatim>\<open>create_node_directory\<close>: moving the finished directory into place.\<close>

definition install_directory :: "'w os \<Rightarrow> int \<Rightarrow> bytes \<Rightarrow> int \<Rightarrow> bytes \<Rightarrow> ('w, unit fs_result) prog" where
  "install_directory os workdir_fd wd_name dst_dirfd dst_name =
     bindS (renameat os workdir_fd wd_name dst_dirfd dst_name) (\<lambda>r. case r of
         Inr _ \<Rightarrow> ok ()
       | Inl (FsError err) \<Rightarrow>
           if err = EEXIST \<or> err = ENOTEMPTY then
             bindS (renameat2 os workdir_fd wd_name dst_dirfd dst_name 2) (\<lambda>r2.
               doS (unlinkat os workdir_fd wd_name AT_REMOVEDIR)
                 (case r2 of Inr _ \<Rightarrow> ok () | Inl e \<Rightarrow> ret (Inl e)))
           else if err = ENOTDIR then
             doS (unlinkat os dst_dirfd dst_name 0)
               (bindS (renameat os workdir_fd wd_name dst_dirfd dst_name) (\<lambda>r2. case r2 of
                    Inr _ \<Rightarrow> ok ()
                  | Inl e \<Rightarrow> doS (unlinkat os workdir_fd wd_name AT_REMOVEDIR) (ret (Inl e))))
           else doS (unlinkat os workdir_fd wd_name AT_REMOVEDIR) (fail err))"

text \<open>\<^verbatim>\<open>create_node_directory\<close> after the recursive call.\<close>

definition create_this_directory :: "'w os \<Rightarrow> node_id \<Rightarrow> ('w fs, unit fs_result) prog" where
  "create_this_directory os node_id =
     withS (\<lambda>s.
       let path = compute_path (fs_nodes s) node_id; workdir_fd = fs_workdir_fd s in
       case arena_get (fs_nodes s) node_id of None \<Rightarrow> fail ENOENT
     | Some node \<Rightarrow>
       (case layer_at s (nd_layer_idx node) of None \<Rightarrow> fail ENOENT
     | Some layer \<Rightarrow>
       (case layer_at s 0 of None \<Rightarrow> fail EROFS
     | Some upper \<Rightarrow>
       let upper_fd = ds_root_fd (ly_ds upper) in
       bindE (world (ds_openat (ly_ds layer) path (O_RDONLY OR O_NONBLOCK) 0x1ED)) (\<lambda>sfd.
       bindE (obs (fstat os sfd)) (\<lambda>st.
       bindS next_wd_name (\<lambda>wd_name.
       bindE (world (mkdirat os workdir_fd wd_name (st_mode st OR 0x1ED))) (\<lambda>_.
       bindE (world (safe_openat os workdir_fd wd_name O_RDONLY 0)) (\<lambda>dfd.
       doS (world (fchown os dfd (st_uid st) (st_gid st)))
      (doS (world (futimens os dfd (stat_times st)))
      (doS (world (copy_xattr os sfd dfd))
      (bindE (world (open_parent_safe_cstr os upper_fd path)) (\<lambda>(dst_dirfd, dst_name).
       bindE (world (install_directory os workdir_fd wd_name dst_dirfd dst_name)) (\<lambda>_.
       doS (update_node node_id (\<lambda>n. n\<lparr>nd_layer_idx := 0\<rparr>))
      (doS (case nd_parent node of
              None \<Rightarrow> ok ()
            | Some pid \<Rightarrow>
                withS (\<lambda>s. delete_whiteout os upper_fd None (compute_path (fs_nodes s) pid) (nd_name node)))
           (ok ())))))))))))))))"

fun create_node_directory_go :: "nat \<Rightarrow> 'w os \<Rightarrow> node_id \<Rightarrow> ('w fs, unit fs_result) prog" where
  "create_node_directory_go 0 os node_id = doS hang (fail EIO)"
| "create_node_directory_go (Suc k) os node_id =
     withS (\<lambda>s. case arena_get (fs_nodes s) node_id of
         None \<Rightarrow> fail ENOENT
       | Some node \<Rightarrow>
           (case layer_at s 0 of
              None \<Rightarrow> fail EROFS
            | Some upper \<Rightarrow>
                if nd_layer_idx node = 0 \<and> \<not> ly_low upper then ok ()
                else bindE
                  (case nd_parent node of
                     None \<Rightarrow> ok ()
                   | Some p \<Rightarrow>
                       let parent_layer = (case arena_get (fs_nodes s) p of
                             Some pn \<Rightarrow> nd_layer_idx pn | None \<Rightarrow> 0) in
                       if parent_layer \<noteq> 0 \<or> ly_low upper
                       then create_node_directory_go k os p
                       else ok ())
                  (\<lambda>_. create_this_directory os node_id)))"

definition create_node_directory :: "'w os \<Rightarrow> node_id \<Rightarrow> ('w fs, unit fs_result) prog" where
  "create_node_directory os node_id =
     withS (\<lambda>s. create_node_directory_go (Suc (ar_next_id (fs_nodes s))) os node_id)"

text \<open>Moving a finished file into place; the temporary name is removed when that fails.\<close>

definition install_file :: "'w os \<Rightarrow> int \<Rightarrow> bytes \<Rightarrow> int \<Rightarrow> bytes \<Rightarrow> ('w, unit fs_result) prog" where
  "install_file os workdir_fd wd_name dst_dirfd dst_name =
     bindS (renameat os workdir_fd wd_name dst_dirfd dst_name) (\<lambda>r. case r of
         Inr _ \<Rightarrow> ok ()
       | Inl e \<Rightarrow> doS (unlinkat os workdir_fd wd_name 0) (ret (Inl e)))"

definition copyup_symlink ::
  "'w os \<Rightarrow> node_id \<Rightarrow> bytes \<Rightarrow> stat \<Rightarrow> 'w data_source \<Rightarrow> int \<Rightarrow> int \<Rightarrow> ('w fs, unit fs_result) prog" where
  "copyup_symlink os node_id path st src workdir_fd upper_fd =
     bindE (obs (ds_readlinkat src path)) (\<lambda>target.
     bindE (ret (cstr_bytes target)) (\<lambda>c_target.
     bindS next_wd_name (\<lambda>wd_name.
     bindE (world (symlinkat os c_target workdir_fd wd_name)) (\<lambda>_.
     doS (world (fchownat os workdir_fd wd_name (st_uid st) (st_gid st) AT_SYMLINK_NOFOLLOW))
    (bindE (world (open_parent_safe_cstr os upper_fd path)) (\<lambda>(dst_dirfd, dst_name).
     bindE (world (install_file os workdir_fd wd_name dst_dirfd dst_name)) (\<lambda>_.
     doS (update_node node_id (\<lambda>n. n\<lparr>nd_layer_idx := 0\<rparr>)) (ok ()))))))))"

definition copyup_special ::
  "'w os \<Rightarrow> node_id \<Rightarrow> bytes \<Rightarrow> stat \<Rightarrow> 'w data_source \<Rightarrow> int \<Rightarrow> int \<Rightarrow> ('w fs, unit fs_result) prog" where
  "copyup_special os node_id path st src workdir_fd upper_fd =
     bindS next_wd_name (\<lambda>wd_name.
     bindE (world (mknodat os workdir_fd wd_name (st_mode st) (st_rdev st))) (\<lambda>_.
     doS (world (fchownat os workdir_fd wd_name (st_uid st) (st_gid st) AT_SYMLINK_NOFOLLOW))
    (bindS (world (safe_openat os workdir_fd wd_name (O_RDONLY OR O_NOFOLLOW OR O_NONBLOCK) 0)) (\<lambda>wd_fd.
     doS (case wd_fd of
            Inl _ \<Rightarrow> ret ()
          | Inr wfd \<Rightarrow>
              bindS (world (ds_openat src path (O_RDONLY OR O_NOFOLLOW OR O_NONBLOCK) 0)) (\<lambda>sfd.
                case sfd of
                  Inl _ \<Rightarrow> ret ()
                | Inr sf \<Rightarrow> doS (world (copy_xattr os sf wfd)) (ret ())))
    (bindE (world (open_parent_safe_cstr os upper_fd path)) (\<lambda>(dst_dirfd, dst_name).
     bindE (world (install_file os workdir_fd wd_name dst_dirfd dst_name)) (\<lambda>_.
     doS (update_node node_id (\<lambda>n. n\<lparr>nd_layer_idx := 0\<rparr>)) (ok ()))))))))"

definition copyup_regular ::
  "'w os \<Rightarrow> node_id \<Rightarrow> bytes \<Rightarrow> stat \<Rightarrow> 'w data_source \<Rightarrow> int \<Rightarrow> int \<Rightarrow> ('w fs, unit fs_result) prog" where
  "copyup_regular os node_id path st src workdir_fd upper_fd =
     bindS next_wd_name (\<lambda>wd_name.
     bindE (world (ds_openat src path (O_RDONLY OR O_NOFOLLOW) 0)) (\<lambda>sfd.
     bindE (world (safe_openat os workdir_fd wd_name (O_CREAT OR O_WRONLY) (st_mode st OR 0x80))) (\<lambda>dfd.
     doS (world (fchown os dfd (st_uid st) (st_gid st)))
    (bindE (looping (copy_data os sfd dfd (st_size st))) (\<lambda>_.
     doS (world (futimens os dfd (stat_times st)))
    (doS (world (copy_xattr os sfd dfd))
    (doS (world (fchmod os dfd (st_mode st)))
    (bindE (world (open_parent_safe_cstr os upper_fd path)) (\<lambda>(dst_dirfd, dst_name).
     bindE (world (install_file os workdir_fd wd_name dst_dirfd dst_name)) (\<lambda>_.
     let basename = (case rsplit_once (CHR ''/'') path of Some (_, b) \<Rightarrow> b | None \<Rightarrow> path) in
     doS (case cstr_bytes (''.wh.'' @ basename) of
            Inl _ \<Rightarrow> ret ()
          | Inr wh_name \<Rightarrow> doS (world (unlinkat os dst_dirfd wh_name 0)) (ret ()))
    (doS (update_node node_id (\<lambda>n. n\<lparr>nd_layer_idx := 0\<rparr>)) (ok ()))))))))))))"

definition copyup :: "'w os \<Rightarrow> node_id \<Rightarrow> ('w fs, unit fs_result) prog" where
  "copyup os node_id =
     withS (\<lambda>s. case layer_at s 0 of None \<Rightarrow> fail EROFS
     | Some upper \<Rightarrow>
       if ly_low upper then fail EROFS
       else
       let upper_fd = ds_root_fd (ly_ds upper);
           path = compute_path (fs_nodes s) node_id; workdir_fd = fs_workdir_fd s in
       case arena_get (fs_nodes s) node_id of None \<Rightarrow> fail ENOENT
     | Some node \<Rightarrow>
       (case layer_at s (nd_layer_idx node) of None \<Rightarrow> fail ENOENT
     | Some src_layer \<Rightarrow>
       bindE (obs (ds_statat (ly_ds src_layer) path AT_SYMLINK_NOFOLLOW STATX_BASIC_STATS)) (\<lambda>st.
       bindE (case nd_parent node of None \<Rightarrow> ok () | Some pid \<Rightarrow> create_node_directory os pid) (\<lambda>_.
       let file_type = st_mode st AND S_IFMT in
       if file_type = S_IFDIR then bindE (create_node_directory os node_id) (\<lambda>_. ok ())
       else if file_type = S_IFLNK then
         copyup_symlink os node_id path st (ly_ds src_layer) workdir_fd upper_fd
       else if file_type = S_IFCHR \<or> file_type = S_IFBLK \<or> file_type = S_IFIFO \<or> file_type = S_IFSOCK then
         copyup_special os node_id path st (ly_ds src_layer) workdir_fd upper_fd
       else
         copyup_regular os node_id path st (ly_ds src_layer) workdir_fd upper_fd))))"

text \<open>\<^verbatim>\<open>OverlayInner::upper_layer\<close> and \<^verbatim>\<open>OverlayInner::get_node_up\<close>.\<close>

definition upper_layer :: "'w fs \<Rightarrow> 'w ovl_layer option" where
  "upper_layer s =
     (case fs_layers s of [] \<Rightarrow> None | l # _ \<Rightarrow> if \<not> ly_low l then Some l else None)"

definition get_node_up :: "'w os \<Rightarrow> node_id \<Rightarrow> ('w fs, unit fs_result) prog" where
  "get_node_up os node_id =
     withS (\<lambda>s. if upper_layer s = None then fail EROFS
       else case arena_get (fs_nodes s) node_id of
           None \<Rightarrow> fail ENOENT
         | Some node \<Rightarrow>
             if nd_layer_idx node = 0 then
               (case layer_at s 0 of
                  None \<Rightarrow> fail ENOENT
                | Some l \<Rightarrow> if \<not> ly_low l then ok () else copyup os node_id)
             else copyup os node_id)"

section \<open>Invariants of copy-up\<close>

text \<open>
  What copy-up does to the state: it runs calls on the world, takes work names, remembers that
  devices are refused, may hang, and moves nodes to layer 0. An invariant that survives these
  survives copy-up.
\<close>

locale copyup_invariant =
  fixes I :: "'w fs \<Rightarrow> bool"
  assumes I_world: "I s \<Longrightarrow> I (s\<lparr>fs_world := w\<rparr>)"
    and I_hung: "I s \<Longrightarrow> I (s\<lparr>fs_hung := True\<rparr>)"
    and I_CAN_MKNOD: "I s \<Longrightarrow> I (s\<lparr>fs_CAN_MKNOD := b\<rparr>)"
    and I_wd: "I s \<Longrightarrow> I (s\<lparr>fs_wd_counter := fs_wd_counter s + 1\<rparr>)"
    and I_layer: "I s \<Longrightarrow> I (s\<lparr>fs_nodes := arena_update i (\<lambda>n. n\<lparr>nd_layer_idx := 0\<rparr>) (fs_nodes s)\<rparr>)"
begin

lemma keeps_I_world: "keeps I (world m)"
  by (rule keeps_world) (rule I_world)

lemma keeps_I_obs: "keeps I (obs f)"
  unfolding obs_def by (intro keeps_intro)

lemma keeps_I_hang: "keeps I hang"
  unfolding hang_def by (rule keeps_modS) (rule I_hung)

lemma keeps_I_looping: "keeps I (looping m)"
  by (auto simp: keeps_def looping_def intro: I_world I_hung split: option.splits)

lemma keeps_I_next_wd_name: "keeps I next_wd_name"
  unfolding next_wd_name_def
  by (intro keeps_intro) (use I_wd in \<open>simp add: keeps_def next_wd_counter_def\<close>)

lemma keeps_I_to_upper: "keeps I (update_node i (\<lambda>n. n\<lparr>nd_layer_idx := 0\<rparr>))"
  unfolding update_node_def by (rule keeps_modS) (rule I_layer)

lemma keeps_I_delete_whiteout: "keeps I (delete_whiteout os fd dfd p name)"
  unfolding delete_whiteout_def by (intro keeps_intro keeps_I_world)

lemma keeps_I_create_whiteout: "keeps I (create_whiteout os fd p name b)"
  unfolding create_whiteout_def try_device_whiteout_def
  by (intro keeps_intro keeps_I_world keeps_modS I_CAN_MKNOD)

lemmas keeps_I = keeps_I_world keeps_I_obs keeps_I_hang keeps_I_looping keeps_I_next_wd_name
  keeps_I_to_upper keeps_I_delete_whiteout keeps_I_create_whiteout

lemma keeps_I_create_this_directory: "keeps I (create_this_directory os i)"
  unfolding create_this_directory_def by (intro keeps_intro keeps_I)

lemma keeps_I_create_node_directory_go: "keeps I (create_node_directory_go k os i)"
  by (induction k arbitrary: i)
    (auto intro!: keeps_intro keeps_I keeps_I_create_this_directory)

lemma keeps_I_create_node_directory: "keeps I (create_node_directory os i)"
  unfolding create_node_directory_def by (intro keeps_intro keeps_I_create_node_directory_go)

lemma keeps_I_copyup: "keeps I (copyup os i)"
  unfolding copyup_def copyup_symlink_def copyup_special_def copyup_regular_def
  by (intro keeps_intro keeps_I keeps_I_create_node_directory)

lemma keeps_I_get_node_up: "keeps I (get_node_up os i)"
  unfolding get_node_up_def by (intro keeps_intro keeps_I_copyup)

end

interpretation ok_copyup: copyup_invariant "fs_ok L r" for L r
proof
  show "fs_ok L r s \<Longrightarrow> fs_ok L r (s\<lparr>fs_nodes := arena_update i (\<lambda>n. n\<lparr>nd_layer_idx := 0\<rparr>) (fs_nodes s)\<rparr>)"
    for s :: "'a fs" and i
    by (auto simp: fs_ok_def arena_get_update node_ok_def children_def is_dir_def split: if_splits)
qed (auto intro: fs_ok_same)

lemmas keeps_ok_get_node_up [keeps_intro] = ok_copyup.keeps_I_get_node_up

text \<open>
  \<open>only_layers s s'\<close>: between the two states the tree changed at most in that nodes moved to the
  upper layer, the inode table, the layers and the open handles are the same, and the work
  counter did not go back.
\<close>

definition lowered :: "ovl_node \<Rightarrow> ovl_node" where
  "lowered n = n\<lparr>nd_layer_idx := 0\<rparr>"

lemma lowered_update: "nd_layer_idx_update (\<lambda>_. 0) = lowered"
  by (simp add: lowered_def fun_eq_iff)

lemma lowered_twice: "map_option lowered (map_option lowered x) = map_option lowered x"
  by (cases x) (simp_all add: lowered_def)

definition only_layers :: "'w fs \<Rightarrow> 'w fs \<Rightarrow> bool" where
  "only_layers s s' \<longleftrightarrow>
     (\<forall>i. map_option lowered (arena_get (fs_nodes s') i) = map_option lowered (arena_get (fs_nodes s) i)) \<and>
     (\<forall>i n. arena_get (fs_nodes s') i = Some n \<longrightarrow> nd_layer_idx n = 0 \<or> arena_get (fs_nodes s) i = Some n) \<and>
     ar_next_id (fs_nodes s') = ar_next_id (fs_nodes s) \<and>
     fs_wd_counter s \<le> fs_wd_counter s' \<and>
     fs_inodes s' = fs_inodes s \<and> fs_layers s' = fs_layers s \<and> fs_config s' = fs_config s \<and>
     fs_root_id s' = fs_root_id s \<and> fs_open_files s' = fs_open_files s \<and> fs_open_dirs s' = fs_open_dirs s"

lemma only_layers_refl [simp]: "only_layers s s"
  by (simp add: only_layers_def)

interpretation tree_copyup: copyup_invariant "only_layers s0" for s0
proof
  fix s :: "'a fs" and i
  assume "only_layers s0 s"
  then show "only_layers s0 (s\<lparr>fs_nodes := arena_update i (\<lambda>n. n\<lparr>nd_layer_idx := 0\<rparr>) (fs_nodes s)\<rparr>)"
    by (auto simp: only_layers_def arena_get_update lowered_update lowered_twice split: if_splits)
      (simp add: lowered_def)
qed (auto simp: only_layers_def)

section \<open>A copied node is on the upper layer\<close>

text \<open>\<open>ensures m P\<close>: a run of \<open>m\<close> that reports success ends in a state with \<open>P\<close>.\<close>

definition ensures :: "('s, 'e + 'a) prog \<Rightarrow> ('s \<Rightarrow> bool) \<Rightarrow> bool" where
  "ensures m P \<longleftrightarrow> (\<forall>s x s'. m s = (Inr x, s') \<longrightarrow> P s')"

named_theorems ensures_intro \<open>rules for \<open>ensures\<close>\<close>

lemma ensuresD: "ensures m P \<Longrightarrow> m s = (Inr x, s') \<Longrightarrow> P s'"
  by (auto simp: ensures_def)

lemma ensures_fail [ensures_intro]: "ensures (ret (Inl e)) P"
  by (simp add: ensures_def)

lemma ensures_bindE [ensures_intro]: "(\<And>x. ensures (k x) P) \<Longrightarrow> ensures (bindE m k) P"
  by (auto simp: ensures_def bindE_Inr_iff)

lemma ensures_bindS [ensures_intro]: "(\<And>x. ensures (k x) P) \<Longrightarrow> ensures (bindS m k) P"
  by (auto simp: ensures_def bindS_iff)

lemma ensures_doS [ensures_intro]: "ensures k P \<Longrightarrow> ensures (doS m k) P"
  by (simp add: doS_def ensures_bindS)

lemma ensures_withS [ensures_intro]: "(\<And>s. ensures (f s) P) \<Longrightarrow> ensures (withS f) P"
  by (auto simp: ensures_def withS_def)

lemma ensures_if [ensures_intro]:
  "(b \<Longrightarrow> ensures m P) \<Longrightarrow> (\<not> b \<Longrightarrow> ensures n P) \<Longrightarrow> ensures (if b then m else n) P"
  by simp

lemma ensures_Let [ensures_intro]: "ensures (f x) P \<Longrightarrow> ensures (Let x f) P"
  by simp

lemma ensures_case_option [ensures_intro]:
  "(x = None \<Longrightarrow> ensures m P) \<Longrightarrow> (\<And>a. x = Some a \<Longrightarrow> ensures (f a) P) \<Longrightarrow>
   ensures (case x of None \<Rightarrow> m | Some a \<Rightarrow> f a) P"
  by (cases x) auto

lemma ensures_case_prod [ensures_intro]:
  "(\<And>a b. ensures (f a b) P) \<Longrightarrow> ensures (case x of (a, b) \<Rightarrow> f a b) P"
  by (cases x) auto

text \<open>The last writer decides: a framing program after the write keeps what it established.\<close>

lemma ensures_framed:
  assumes "\<And>s. P (snd (m s))" "keeps P k"
  shows "ensures (doS m k) P"
  using assms by (auto simp: ensures_def keeps_def doS_def bindS_def split: prod.splits)
    (metis snd_conv)

definition on_upper :: "node_id \<Rightarrow> 'w fs \<Rightarrow> bool" where
  "on_upper i s \<longleftrightarrow> (\<forall>n. arena_get (fs_nodes s) i = Some n \<longrightarrow> nd_layer_idx n = 0)"

interpretation upper_copyup: copyup_invariant "on_upper i" for i
  by unfold_locales (auto simp: on_upper_def arena_get_update split: if_splits)

lemma ensures_to_upper:
  "keeps (on_upper i) k \<Longrightarrow> ensures (doS (update_node i (\<lambda>n. n\<lparr>nd_layer_idx := 0\<rparr>)) k) (on_upper i)"
  by (rule ensures_framed) (auto simp: update_node_def modS_def on_upper_def arena_get_update)

lemma create_this_directory_upper: "ensures (create_this_directory os i) (on_upper i)"
  unfolding create_this_directory_def
  by (intro ensures_fail ensures_bindE ensures_bindS ensures_withS ensures_Let ensures_case_option
      ensures_case_prod ensures_to_upper keeps_intro upper_copyup.keeps_I | rule ensures_doS)+

lemma ensures_bindE_then: "ensures m P \<Longrightarrow> (\<And>x. keeps P (k x)) \<Longrightarrow> ensures (bindE m k) P"
  by (auto simp: ensures_def bindE_Inr_iff dest!: keepsD)

lemma create_node_directory_go_upper: "ensures (create_node_directory_go k os i) (on_upper i)"
proof (cases k)
  case 0
  then show ?thesis by (auto intro!: ensures_intro)
next
  case (Suc m)
  show ?thesis unfolding ensures_def
  proof (intro allI impI)
    fix s x s'
    assume run: "create_node_directory_go k os i s = (Inr x, s')"
    from run Suc obtain node upper where n: "arena_get (fs_nodes s) i = Some node" "layer_at s 0 = Some upper"
      by (auto simp: withS_def split: option.splits)
    show "on_upper i s'"
    proof (cases "nd_layer_idx node = 0 \<and> \<not> ly_low upper")
      case True
      with run Suc n show ?thesis by (simp add: withS_def on_upper_def)
    next
      case False
      with run Suc n show ?thesis
        by (auto simp: withS_def bindE_Inr_iff dest!: ensuresD[OF create_this_directory_upper] split: if_splits)
    qed
  qed
qed

lemma create_node_directory_upper: "ensures (create_node_directory os i) (on_upper i)"
  unfolding create_node_directory_def
  by (intro ensures_withS create_node_directory_go_upper)

lemma copyup_upper: "ensures (copyup os i) (on_upper i)"
  unfolding copyup_def copyup_symlink_def copyup_special_def copyup_regular_def
  by (intro ensures_fail ensures_bindE_then[OF create_node_directory_upper] ensures_bindE ensures_bindS
      ensures_withS ensures_Let ensures_case_option ensures_case_prod ensures_if ensures_to_upper
      keeps_intro upper_copyup.keeps_I | rule ensures_doS)+

lemma path_walk_cong:
  "(\<And>i. map_option (\<lambda>n. (nd_parent n, nd_name n)) (arena_get b i) =
        map_option (\<lambda>n. (nd_parent n, nd_name n)) (arena_get a i)) \<Longrightarrow>
   path_walk k b i parts = path_walk k a i parts"
proof (induction k arbitrary: i parts)
  case (Suc k)
  show ?case using Suc.IH[OF Suc.prems] Suc.prems[of i] by (auto split: option.splits)
qed simp

lemma compute_path_cong:
  assumes "\<And>i. map_option (\<lambda>n. (nd_parent n, nd_name n)) (arena_get b i) =
        map_option (\<lambda>n. (nd_parent n, nd_name n)) (arena_get a i)"
    and "ar_next_id b = ar_next_id a"
  shows "compute_path b i = compute_path a i"
  unfolding compute_path_def assms(2) path_walk_cong[OF assms(1)] ..

lemma lowered_same: "map_option lowered x = map_option lowered y \<Longrightarrow>
  (\<And>n. f (lowered n) = f n) \<Longrightarrow> map_option f x = map_option f y"
  by (cases x; cases y) (simp_all, metis)

lemma only_layers_path:
  assumes "only_layers s s'"
  shows "compute_path (fs_nodes s') i = compute_path (fs_nodes s) i"
proof (rule compute_path_cong)
  fix j
  from assms have "map_option lowered (arena_get (fs_nodes s') j) = map_option lowered (arena_get (fs_nodes s) j)"
    by (simp add: only_layers_def)
  then show "map_option (\<lambda>n. (nd_parent n, nd_name n)) (arena_get (fs_nodes s') j) =
      map_option (\<lambda>n. (nd_parent n, nd_name n)) (arena_get (fs_nodes s) j)"
    by (rule lowered_same) (simp add: lowered_def)
qed (use assms in \<open>simp add: only_layers_def\<close>)

lemma get_node_up_only_layers: "only_layers s (snd (get_node_up os i s))"
  by (rule keeps_snd[OF tree_copyup.keeps_I_get_node_up only_layers_refl])

lemma get_node_up_upper:
  assumes "get_node_up os i s = (Inr (), s')"
  shows "on_upper i s'" "upper_layer s' = upper_layer s" "upper_layer s \<noteq> None" "arena_get (fs_nodes s) i \<noteq> None"
proof -
  from assms obtain n where n: "arena_get (fs_nodes s) i = Some n" and up: "upper_layer s \<noteq> None"
    by (auto simp: get_node_up_def withS_def split: if_splits option.splits)
  have "only_layers s s'" using get_node_up_only_layers[of s os i] assms by simp
  then show "upper_layer s' = upper_layer s" by (simp add: only_layers_def upper_layer_def)
  show "on_upper i s'"
  proof (cases "nd_layer_idx n = 0 \<and> (\<exists>l. layer_at s 0 = Some l \<and> \<not> ly_low l)")
    case True
    with assms n up show ?thesis by (auto simp: get_node_up_def withS_def on_upper_def)
  next
    case False
    with assms n up have "copyup os i s = (Inr (), s')"
      by (auto simp: get_node_up_def withS_def split: option.splits if_splits)
    then show ?thesis by (rule ensuresD[OF copyup_upper])
  qed
  show "upper_layer s \<noteq> None" "arena_get (fs_nodes s) i \<noteq> None" using n up by simp_all
qed

text \<open>C6: Copy-up does what its name says: when \<^verbatim>\<open>get_node_up\<close> reports success the node exists
  and lies on layer 0, there is a writable upper layer, and the node is otherwise the
  node it was.\<close>

theorem get_node_up_success:
  assumes "get_node_up os i s = (Inr (), s')"
  shows "\<exists>n. arena_get (fs_nodes s) i = Some n \<and>
     arena_get (fs_nodes s') i = Some (n\<lparr>nd_layer_idx := 0\<rparr>) \<and> upper_layer s' \<noteq> None"
proof -
  note up = get_node_up_upper[OF assms]
  then obtain n where n: "arena_get (fs_nodes s) i = Some n" by auto
  have "only_layers s s'" using get_node_up_only_layers[of s os i] assms by simp
  then have l: "map_option lowered (arena_get (fs_nodes s') i) = Some (lowered n)"
    using n by (simp add: only_layers_def)
  then obtain n' where n': "arena_get (fs_nodes s') i = Some n'" by auto
  with up(1) l have "n' = n\<lparr>nd_layer_idx := 0\<rparr>"
    by (cases n; cases n') (simp add: on_upper_def lowered_def)
  with n n' up show ?thesis by simp
qed

text \<open>C7: Copy-up never disturbs the tree: whatever \<^verbatim>\<open>get_node_up\<close> returns, every node that exists
  afterwards existed before with the same name, parent, children and inode, nodes
  only move to layer 0, no path changes, the inode table, the layers and the open handles are the same, and
  the counter that names work files does not go back.\<close>

theorem get_node_up_frame:
  "only_layers s (snd (get_node_up os i s)) \<and>
   compute_path (fs_nodes (snd (get_node_up os i s))) j = compute_path (fs_nodes s) j"
  using get_node_up_only_layers[of s os i] only_layers_path by blast

text \<open>Witness: a symbolic link of the lower layer, on a kernel with just the calls its copy needs.\<close>

definition link_statx :: statx where
  "link_statx = \<lparr>stx_dev_major = 0, stx_dev_minor = 1, stx_ino = 42, stx_mode = 0xA1FF, stx_nlink = 1,
     stx_uid = 0, stx_gid = 0, stx_rdev_major = 0, stx_rdev_minor = 0, stx_size = 1,
     stx_blksize = 4096, stx_blocks = 0, stx_atime = (0, 0), stx_mtime = (0, 0), stx_ctime = (0, 0)\<rparr>"

definition link_os :: "unit os" where
  "link_os = refusing_os\<lparr>k_statx := \<lambda>_ _ _ _ w. Inr link_statx, k_readlinkat := \<lambda>_ _ w. Inr ''t'',
     k_symlinkat := \<lambda>_ _ _ w. (Inr (), w), k_renameat := \<lambda>_ _ _ _ w. (Inr (), w)\<rparr>"

lemma link_os_calls:
  "k_symlinkat link_os t d p () = (Inr (), ())" "k_renameat link_os a b c d' () = (Inr (), ())"
  "k_fchownat link_os d p u g fl () = (Inl ENOSYS, ())"
  by (simp_all add: link_os_def refusing_os_def)

definition link_fs :: "unit fs" where
  "link_fs = (sample_fs link_os ())\<lparr>fs_nodes :=
     snd (arena_insert ((node_new ''l'' 1 42 1 False)\<lparr>nd_parent := Some 1\<rparr>)
       (fs_nodes (sample_fs link_os ())))\<rparr>"

lemma link_fs_simps:
  "arena_get (fs_nodes link_fs) 2 = Some ((node_new ''l'' 1 42 1 False)\<lparr>nd_parent := Some 1\<rparr>)"
  "arena_get (fs_nodes link_fs) (Suc 0) = Some (node_new [] 0 0 0 True)"
  "ar_next_id (fs_nodes link_fs) = 3"
  "fs_layers link_fs = fs_layers (sample_fs link_os ())"
  by (simp_all add: link_fs_def sample_fs_def overlay_new_def arena_insert_def arena_new_def arena_get_def
      Let_def)

lemma link_fs_layers:
  "fs_layers (sample_fs os w) =
     [from_datasource (direct_ds os (direct_new\<lparr>da_fd := Some 3\<rparr>)) False,
      from_datasource (direct_ds os (direct_new\<lparr>da_fd := Some 4\<rparr>)) True]"
  by (simp add: sample_fs_def overlay_new_def arena_insert_def Let_def)

lemma link_path: "compute_path (fs_nodes link_fs) 2 = ''l''"
  by (simp add: compute_path_def path_walk_pos link_fs_simps node_new_def del: path_walk.simps)

lemma link_stat:
  "ds_statat (direct_ds link_os (direct_new\<lparr>da_fd := Some 4\<rparr>)) ''l'' AT_SYMLINK_NOFOLLOW m () =
     Inr (statx_to_stat link_os link_statx)"
  "ds_readlinkat (direct_ds link_os (direct_new\<lparr>da_fd := Some 4\<rparr>)) ''l'' () = Inr ''t''"
  by (simp_all add: direct_ds_def direct_statat_def direct_readlinkat_def at_parent_def open_parent_safe_def
      ret_def with_cstr_def cstr_bytes_def statx_call_def lift_obs_def readlinkat_def link_os_def)

lemma link_copyup: "fst (get_node_up link_os 2 link_fs) = Inr ()"
proof -
  have mode: "st_mode (statx_to_stat link_os link_statx) = 0xA1FF"
    by (simp add: statx_to_stat_def link_statx_def)
  have parent: "create_node_directory link_os (Suc 0) link_fs = (Inr (), link_fs)"
    by (simp add: create_node_directory_def withS_def link_fs_simps layer_at_def link_fs_layers
        from_datasource_def node_new_def)
  show ?thesis
    by (simp add: get_node_up_def withS_def bindE_def bindS_def doS_def obs_def upper_layer_def link_fs_simps
        link_fs_layers layer_at_def from_datasource_def node_new_def copyup_def Let_def link_path link_stat
        ret_def parent mode copyup_symlink_def cstr_bytes_def next_wd_name_def next_wd_counter_def world_def
        symlinkat_def fchownat_def lift_eff_def lift_obs_def open_parent_safe_cstr_def open_parent_safe_def
        with_cstrP_def install_file_def renameat_def link_os_calls split_beta)
qed

theorem get_node_up_success_witness:
  "\<exists>s'. get_node_up link_os 2 link_fs = (Inr (), s') \<and>
     map_option nd_layer_idx (arena_get (fs_nodes s') 2) = Some 0"
proof -
  obtain s' where r: "get_node_up link_os 2 link_fs = (Inr (), s')"
    using link_copyup by (cases "get_node_up link_os 2 link_fs") auto
  from get_node_up_success[OF r] r show ?thesis by auto
qed

section \<open>Termination and refusal\<close>

lemma create_node_directory_go_fuel:
  "chain (fs_nodes s) i n \<Longrightarrow> n < k \<Longrightarrow> n < m \<Longrightarrow>
   create_node_directory_go k os i s = create_node_directory_go m os i s"
proof (induction arbitrary: k m rule: chain.induct)
  case (chain_missing i)
  then show ?case by (cases k; cases m) (simp_all add: withS_def)
next
  case (chain_root i n)
  then show ?case by (cases k; cases m) (simp_all add: withS_def split: option.splits)
next
  case (chain_step i n p c)
  from chain_step.prems obtain k' m' where km: "k = Suc k'" "m = Suc m'" "c < k'" "c < m'"
    by (cases k; cases m) auto
  have "create_node_directory_go k' os p s = create_node_directory_go m' os p s"
    by (rule chain_step.IH[OF km(3,4)])
  then show ?case using chain_step.hyps(1,2) unfolding km(1,2) create_node_directory_go.simps(2)
    by (cases "layer_at s 0") (simp_all add: withS_def bindE_def bindS_def)
qed



text \<open>Without a writable upper layer copy-up is refused before anything happens.\<close>

lemma get_node_up_erofs:
  assumes "upper_layer s = None"
  shows "get_node_up os i s = (Inl (FsError EROFS), s)"
  using assms by (simp add: get_node_up_def withS_def ret_def)

end
