(* ===== verification/Overlay_Stat.thy ===== *)
theory Overlay_Stat
  imports Copyup
begin

text \<open>
  \<^verbatim>\<open>src/overlay.rs\<close>, the read-only part of \<^verbatim>\<open>OverlayInner\<close>: resolving FUSE numbers to nodes and
  computing the attributes reported for a node (override, id mapping, inode number, link
  count). All of it observes the state. Shown: which nodes a number resolves to, what the reported
  owner, number and link count are, and that the name limit leaves room for the whiteout prefix.
\<close>

section \<open>Nodes and layers\<close>

definition node_path :: "'w fs \<Rightarrow> node_id \<Rightarrow> bytes" where
  "node_path s i = compute_path (fs_nodes s) i"

definition node_at :: "'w fs \<Rightarrow> node_id \<Rightarrow> ovl_node fs_result" where
  "node_at s i = (case arena_get (fs_nodes s) i of None \<Rightarrow> Inl (FsError ENOENT) | Some n \<Rightarrow> Inr n)"

definition is_whiteout_or_missing :: "'w fs \<Rightarrow> node_id \<Rightarrow> bool" where
  "is_whiteout_or_missing s i \<longleftrightarrow> \<not> arena_contains (fs_nodes s) i"

definition layer_res :: "'w fs \<Rightarrow> nat \<Rightarrow> 'w ovl_layer fs_result" where
  "layer_res s idx = (case layer_at s idx of None \<Rightarrow> Inl (FsError ENOENT) | Some l \<Rightarrow> Inr l)"

definition node_and_layer :: "'w fs \<Rightarrow> node_id \<Rightarrow> (ovl_node \<times> 'w ovl_layer) fs_result" where
  "node_and_layer s i =
     (case node_at s i of
        Inl e \<Rightarrow> Inl e
      | Inr n \<Rightarrow> (case layer_res s (nd_layer_idx n) of Inl e \<Rightarrow> Inl e | Inr l \<Rightarrow> Inr (n, l)))"

definition upper_res :: "'w fs \<Rightarrow> 'w ovl_layer fs_result" where
  "upper_res s = (case upper_layer s of None \<Rightarrow> Inl (FsError EROFS) | Some l \<Rightarrow> Inr l)"

text \<open>The first live node of the entry; the order is that of the hash set.\<close>

definition lookup_node_id :: "'w os \<Rightarrow> 'w fs \<Rightarrow> 64 word \<Rightarrow> node_id option" where
  "lookup_node_id os s ino =
     (if ino = 1 then Some (fs_root_id s)
      else case fuse_to_ino (fs_inodes s) ino of
          None \<Rightarrow> None
        | Some e \<Rightarrow> List.find (arena_contains (fs_nodes s)) (hs_order os (oi_nodes e)))"

definition resolve_node :: "'w os \<Rightarrow> 'w fs \<Rightarrow> 64 word \<Rightarrow> node_id fs_result" where
  "resolve_node os s ino =
     (case lookup_node_id os s ino of
        None \<Rightarrow> Inl (FsError ENOENT)
      | Some i \<Rightarrow> if is_whiteout_or_missing s i then Inl (FsError ENOENT) else Inr i)"

definition resolve_node_for_write :: "'w os \<Rightarrow> 'w fs \<Rightarrow> 64 word \<Rightarrow> node_id fs_result" where
  "resolve_node_for_write os s ino =
     (case lookup_node_id os s ino of None \<Rightarrow> Inl (FsError ENOENT) | Some i \<Rightarrow> Inr i)"

definition map_uid :: "'w fs \<Rightarrow> 32 word \<Rightarrow> 32 word" where
  "map_uid s i = find_mapping i (uid_mappings (fs_config s)) False (squash_to_root (fs_config s))
     (squash_to_uid (fs_config s)) (ov_uid (fs_overflow s))"

definition map_gid :: "'w fs \<Rightarrow> 32 word \<Rightarrow> 32 word" where
  "map_gid s i = find_mapping i (gid_mappings (fs_config s)) False (squash_to_root (fs_config s))
     (squash_to_gid (fs_config s)) (ov_gid (fs_overflow s))"

section \<open>Attributes\<close>

definition do_stat_with_path :: "'w os \<Rightarrow> 'w fs \<Rightarrow> ovl_node \<Rightarrow> int \<Rightarrow> bytes \<Rightarrow> stat fs_result" where
  "do_stat_with_path os s node fd path =
     (case layer_res s (nd_layer_idx node) of
        Inl e \<Rightarrow> Inl e
      | Inr layer \<Rightarrow>
          if 0 \<le> fd then ds_fstat (ly_ds layer) fd path STATX_BASIC_STATS (fs_world s)
          else if nd_hidden node then
            (case cstr (case nd_hidden_path node of Some hp \<Rightarrow> hp | None \<Rightarrow> []) of
               Inl e \<Rightarrow> Inl e
             | Inr c_path \<Rightarrow> fstatat os (nd_hidden_dirfd node) c_path AT_SYMLINK_NOFOLLOW (fs_world s))
          else ds_statat (ly_ds layer) path AT_SYMLINK_NOFOLLOW STATX_BASIC_STATS (fs_world s))"

text \<open>\<^verbatim>\<open>ino as u32 as u64\<close> keeps the low 32 bits.\<close>

definition get_st_ino_with_path :: "'w fs \<Rightarrow> ovl_node \<Rightarrow> bytes \<Rightarrow> 64 word" where
  "get_st_ino_with_path s node path =
     (let finish = (\<lambda>ino.
            let ino = compute_fuse_ino ino (nd_tmp_dev node) (fs_ino_passthrough s) in
            if ino_t_32 (fs_config s) then ino AND 0xFFFFFFFF else ino) in
      if nfs_filehandles (fs_config s) \<noteq> 0 then
        (case layer_res s (nd_layer_idx node) of
           Inl _ \<Rightarrow> nd_tmp_ino node
         | Inr layer \<Rightarrow>
             let fh = ds_get_nfs_filehandle (ly_ds layer) path (fs_world s) in
             finish (if fh \<noteq> 0 then fh else nd_tmp_ino node))
      else finish (nd_tmp_ino node))"

definition get_fs_namemax :: "'w os \<Rightarrow> 'w fs \<Rightarrow> nat" where
  "get_fs_namemax os s =
     (case fs_layers s of
        [] \<Rightarrow> 251
      | l # _ \<Rightarrow>
          (case fstatvfs os (ds_root_fd (ly_ds l)) (fs_world s) of
             Inr svfs \<Rightarrow>
               let namemax = unat (f_namemax svfs) in
               if namemax > 4 then namemax - 4 else namemax
           | Inl _ \<Rightarrow> 251))"

text \<open>The link count of \<^verbatim>\<open>rpl_stat_with_path\<close>: directories count their loaded subdirectories, files
  the live nodes of their inode.\<close>

definition subdir_count :: "'w fs \<Rightarrow> ovl_node \<Rightarrow> nat" where
  "subdir_count s node =
     (case children node of
        None \<Rightarrow> 0
      | Some ch \<Rightarrow> length (filter (\<lambda>(_, c). case arena_get (fs_nodes s) c of
            Some child \<Rightarrow> is_dir child | None \<Rightarrow> False) ch))"

definition rpl_nlink :: "'w fs \<Rightarrow> ovl_node \<Rightarrow> 64 word \<Rightarrow> 64 word" where
  "rpl_nlink s node nlink =
     (if is_loaded node \<and> nd_n_links node > 0 then of_nat (nd_n_links node)
      else if is_dir node then
        (if static_nlink (fs_config s) then 1 else of_nat (2 + subdir_count s node))
      else if nd_tmp_ino node \<noteq> 0 then
        (case get_by_key (fs_inodes s) (InodeKey (nd_tmp_ino node) (nd_tmp_dev node)) of
           None \<Rightarrow> nlink
         | Some e \<Rightarrow>
             let count = length (filter (arena_contains (fs_nodes s)) (oi_nodes e)) in
             if count > 0 then of_nat count else nlink)
      else nlink)"

definition rpl_stat_with_path :: "'w os \<Rightarrow> 'w fs \<Rightarrow> node_id \<Rightarrow> int \<Rightarrow> bytes \<Rightarrow> stat fs_result" where
  "rpl_stat_with_path os s node_id fd path =
     (case arena_get (fs_nodes s) node_id of
        None \<Rightarrow> Inl (FsError ENOENT)
      | Some node \<Rightarrow>
          (case do_stat_with_path os s node fd path of
             Inl e \<Rightarrow> Inl e
           | Inr st \<Rightarrow>
               (case layer_res s (nd_layer_idx node) of
                  Inl e \<Rightarrow> Inl e
                | Inr layer \<Rightarrow>
                    let st = (if ds_stat_override_mode (ly_ds layer) \<noteq> SomNone
                              then case override_mode os layer fd path st (fs_world s) of
                                     Inr st' \<Rightarrow> st' | Inl _ \<Rightarrow> st
                              else st);
                        cfg = fs_config s
                    in Inr (st\<lparr>
                         st_uid := find_mapping (st_uid st) (uid_mappings cfg) True
                                     (squash_to_root cfg) (squash_to_uid cfg) (ov_uid (fs_overflow s)),
                         st_gid := find_mapping (st_gid st) (gid_mappings cfg) True
                                     (squash_to_root cfg) (squash_to_gid cfg) (ov_gid (fs_overflow s)),
                         st_ino := get_st_ino_with_path s node path,
                         st_nlink := rpl_nlink s node (st_nlink st)\<rparr>))))"

definition rpl_stat :: "'w os \<Rightarrow> 'w fs \<Rightarrow> node_id \<Rightarrow> int \<Rightarrow> stat fs_result" where
  "rpl_stat os s node_id fd =
     (case arena_get (fs_nodes s) node_id of
        None \<Rightarrow> Inl (FsError ENOENT)
      | Some node \<Rightarrow>
          rpl_stat_with_path os s node_id fd
            (if nd_hidden node then (case nd_hidden_path node of Some hp \<Rightarrow> hp | None \<Rightarrow> [])
             else node_path s node_id))"

definition do_getattr :: "'w os \<Rightarrow> 'w fs \<Rightarrow> node_id \<Rightarrow> file_attr option" where
  "do_getattr os s node_id =
     (case rpl_stat os s node_id (-1) of Inr st \<Rightarrow> Some (stat_to_attr st) | Inl _ \<Rightarrow> None)"

section \<open>Whiteout names\<close>

definition is_wh_file :: "'w data_source \<Rightarrow> bytes \<Rightarrow> bytes \<Rightarrow> 'w \<Rightarrow> bool" where
  "is_wh_file ds parent_path name w =
     (ds_file_exists ds ((if parent_path = ''.'' then ''.wh.'' else parent_path @ ''/.wh.'') @ name) w
      = Inr True)"

definition wh_prefix_name :: "bytes \<Rightarrow> bytes option" where
  "wh_prefix_name name =
     (if starts_with name ''.wh.'' \<and> name \<noteq> OPAQUE_WHITEOUT then Some (drop 4 name) else None)"

section \<open>Properties\<close>

lemma lookup_node_id_live:
  assumes "fs_ok L r s" "lookup_node_id os s ino = Some i"
  shows "arena_contains (fs_nodes s) i"
  using assms fs_okD(2,5)[OF assms(1)]
  by (auto simp: lookup_node_id_def arena_contains_get find_Some_iff split: if_splits option.splits)

text \<open>The numbers the kernel holds lead to live nodes: in a well-formed state a FUSE number that
  resolves at all resolves to a node of the arena, number 1 is the root, and
  (for any iteration order of the hash set) another number resolves exactly if its inode
  entry still has a live node, and then to one of that entry.\<close>

lemma lookup_node_id_spec:
  assumes "fs_ok L r s" and order: "\<And>xs. set (hs_order os xs) = set xs"
  shows "lookup_node_id os s 1 = Some r \<and>
    (\<forall>i. lookup_node_id os s ino = Some i \<longrightarrow> arena_contains (fs_nodes s) i \<and>
       resolve_node os s ino = Inr i) \<and>
    (ino \<noteq> 1 \<longrightarrow>
       (lookup_node_id os s ino \<noteq> None \<longleftrightarrow>
          (\<exists>e. fuse_to_ino (fs_inodes s) ino = Some e \<and>
             (\<exists>i \<in> set (oi_nodes e). arena_contains (fs_nodes s) i))))"
proof -
  have "lookup_node_id os s ino \<noteq> None \<longleftrightarrow>
          (\<exists>e. fuse_to_ino (fs_inodes s) ino = Some e \<and>
             (\<exists>i \<in> set (oi_nodes e). arena_contains (fs_nodes s) i))" if "ino \<noteq> 1"
  proof -
    have "List.find P xs \<noteq> None \<longleftrightarrow> (\<exists>x \<in> set xs. P x)" for P :: "nat \<Rightarrow> bool" and xs
      by (auto simp: find_None_iff)
    from this[of _ "hs_order os xs" for xs] that show ?thesis
      by (simp add: lookup_node_id_def order split: option.splits)
  qed
  then show ?thesis
    using lookup_node_id_live[OF assms(1)] fs_okD(2)[OF assms(1)]
    by (auto simp: lookup_node_id_def[of os s 1] resolve_node_def is_whiteout_or_missing_def)
qed

lemma sample_fs_ok: "fs_ok (Suc (Suc 0)) (Suc 0) (sample_fs os w)"
proof -
  have "fs_ok (length [a, b]) 1 (overlay_new cfg [a, b] wfd ov dis w)"
    for a b :: "'a ovl_layer" and cfg wfd ov dis
    by (rule fs_ok_new) simp
  then show ?thesis by (simp add: sample_fs_def)
qed

text \<open>Names the overlay accepts can always be whited out: the limit reported to the kernel
  leaves four bytes for the prefix \<^verbatim>\<open>.wh.\<close> whenever the upper file system allows
  names of more than four bytes.\<close>

lemma namemax_leaves_room:
  assumes "fs_layers s = l # ls" "fstatvfs os (ds_root_fd (ly_ds l)) (fs_world s) = Inr sv"
    and "4 < unat (f_namemax sv)" and "length name \<le> get_fs_namemax os s"
  shows "length (''.wh.'' @ name) \<le> unat (f_namemax sv)"
  using assms by (simp add: get_fs_namemax_def Let_def)

end
