(* ===== verification/Overlay_Load.thy ===== *)
theory Overlay_Load
  imports Overlay_Stat
begin

text \<open>
  \<^verbatim>\<open>src/overlay.rs\<close>, the merge: loading a directory from all layers, looking a single name up lazily,
  and building a directory listing. The hash map of children is iterated only to build the
  listing, which sorts it. Shown: loading and lookup keep the invariant of the state and change
  nothing but the nodes (and, for a lookup, the inode table); what they compute is the
  subject of the theory \<open>Merge\<close>.
\<close>

section \<open>Loading a directory\<close>

definition insert_child_node :: "node_id \<Rightarrow> ovl_node \<Rightarrow> ('w fs, node_id) prog" where
  "insert_child_node parent_id child =
     bindS (insert_node child) (\<lambda>child_id.
     doS (update_node parent_id (insert_child (nd_name child) child_id))
         (ret child_id))"

text \<open>The child of a normal entry: inode, device and mode come from the layer unless
  \<^verbatim>\<open>fast_ino_check\<close> is set or the file cannot be examined.\<close>

definition entry_node :: "overlay_config \<Rightarrow> 'w data_source \<Rightarrow> bytes \<Rightarrow> nat \<Rightarrow> node_id \<Rightarrow> dir_entry \<Rightarrow> 'w \<Rightarrow> ovl_node" where
  "entry_node config ds path layer_idx parent_id entry w =
     (let is_directory = (de_dtype entry = DT_DIR);
          from_dirent = (de_ino entry, 0, if is_directory then S_IFDIR else 0);
          (ino, dev, mode) =
            (if fast_ino_check config then from_dirent
             else case ds_statat ds (child_path path (de_name entry)) AT_SYMLINK_NOFOLLOW
                         (STATX_TYPE OR STATX_MODE OR STATX_INO) w of
                 Inr st \<Rightarrow> (st_ino st, st_dev st, st_mode st)
               | Inl _ \<Rightarrow> from_dirent);
          actual_is_dir = (mode AND S_IFMT = S_IFDIR \<or> is_directory)
      in (node_new (de_name entry) layer_idx ino dev actual_is_dir)
           \<lparr>nd_mode := mode, nd_last_layer_idx := layer_idx, nd_parent := Some parent_id\<rparr>)"

text \<open>The body of the loop over the entries of one layer.\<close>

definition load_entry ::
  "'w os \<Rightarrow> overlay_config \<Rightarrow> 'w data_source \<Rightarrow> bytes \<Rightarrow> nat \<Rightarrow> node_id \<Rightarrow> dir_entry \<Rightarrow> ('w fs, unit) prog" where
  "load_entry os config ds path layer_idx parent_id entry =
     (let name = de_name entry in
      if name = ''.'' \<or> name = ''..'' \<or> name = OPAQUE_WHITEOUT then ret ()
      else withS (\<lambda>s.
        let parent = arena_get (fs_nodes s) parent_id in
        case Option.bind parent (\<lambda>p. get_child p name) of
          Some existing_id \<Rightarrow> update_node existing_id (\<lambda>n. n\<lparr>nd_last_layer_idx := layer_idx\<rparr>)
        | None \<Rightarrow>
            if (case parent of Some p \<Rightarrow> is_whiteout p name | None \<Rightarrow> False) then ret ()
            else if is_wh_file ds path name (fs_world s)
            then update_node parent_id (insert_whiteout name)
            else (case wh_prefix_name name of
                Some whited_name \<Rightarrow>
                  if Option.bind parent (\<lambda>p. get_child p whited_name) \<noteq> None then ret ()
                  else update_node parent_id (insert_whiteout whited_name)
              | None \<Rightarrow>
                  if (de_dtype entry = DT_CHR \<or> de_dtype entry = DT_UNKNOWN) \<and>
                     (case ds_statat ds (child_path path name) AT_SYMLINK_NOFOLLOW STATX_TYPE (fs_world s) of
                        Inr st \<Rightarrow> is_chardev_whiteout os st | Inl _ \<Rightarrow> False)
                  then update_node parent_id (insert_whiteout name)
                  else doS (insert_child_node parent_id
                              (entry_node config ds path layer_idx parent_id entry (fs_world s)))
                           (ret ()))))"

fun load_entries ::
  "'w os \<Rightarrow> overlay_config \<Rightarrow> 'w data_source \<Rightarrow> bytes \<Rightarrow> nat \<Rightarrow> node_id \<Rightarrow> dir_entry list \<Rightarrow> ('w fs, unit) prog" where
  "load_entries os config ds path layer_idx parent_id [] = ret ()"
| "load_entries os config ds path layer_idx parent_id (e # es) =
     doS (load_entry os config ds path layer_idx parent_id e)
         (load_entries os config ds path layer_idx parent_id es)"

text \<open>The loop over the layers, \<open>idx\<close> being the index of the first layer of the list.\<close>

fun load_layers ::
  "'w os \<Rightarrow> overlay_config \<Rightarrow> bytes \<Rightarrow> nat option \<Rightarrow> node_id \<Rightarrow> bool \<Rightarrow> nat \<Rightarrow> 'w ovl_layer list \<Rightarrow>
     ('w fs, unit) prog" where
  "load_layers os config path last_layer_stop parent_id stop_lookup idx [] = ret ()"
| "load_layers os config path last_layer_stop parent_id stop_lookup idx (layer # layers) =
     (if stop_lookup then ret ()
      else
        let stop = (last_layer_stop = Some idx \<and> idx > 0); ds = ly_ds layer in
        withS (\<lambda>s. case ds_statat ds path AT_SYMLINK_NOFOLLOW STATX_TYPE (fs_world s) of
            Inl (FsError e) \<Rightarrow>
              if e = ENOENT \<or> e = ENOTDIR
              then load_layers os config path last_layer_stop parent_id stop (Suc idx) layers
              else ret ()
          | Inr st \<Rightarrow>
              if st_mode st AND S_IFMT \<noteq> S_IFDIR then ret ()
              else (case ds_opendir ds path (fs_world s) of
                  Inl _ \<Rightarrow> load_layers os config path last_layer_stop parent_id stop (Suc idx) layers
                | Inr entries \<Rightarrow>
                    doS (load_entries os config ds path idx parent_id entries)
                   (withS (\<lambda>s.
                      load_layers os config path last_layer_stop parent_id
                        (stop \<or> is_directory_opaque ds path (fs_world s) = Inr True)
                        (Suc idx) layers)))))"

definition load_dir_impl :: "'w os \<Rightarrow> node_id \<Rightarrow> bytes \<Rightarrow> nat option \<Rightarrow> ('w fs, unit) prog" where
  "load_dir_impl os parent_id path last_layer_stop =
     withS (\<lambda>s.
       doS (load_layers os (fs_config s) path last_layer_stop parent_id False 0 (fs_layers s))
           (update_node parent_id mark_loaded))"

definition load_dir_entries :: "'w os \<Rightarrow> node_id \<Rightarrow> bytes \<Rightarrow> ('w fs, unit) prog" where
  "load_dir_entries os parent_id path = load_dir_impl os parent_id path None"

definition ensure_root_loaded :: "'w os \<Rightarrow> ('w fs, unit) prog" where
  "ensure_root_loaded os =
     withS (\<lambda>s.
       if (case arena_get (fs_nodes s) (fs_root_id s) of Some n \<Rightarrow> is_loaded n | None \<Rightarrow> True) then ret ()
       else load_dir_entries os (fs_root_id s) ''.'')"

definition reload_dir :: "'w os \<Rightarrow> node_id \<Rightarrow> ('w fs, bool) prog" where
  "reload_dir os node_id =
     withS (\<lambda>s. case arena_get (fs_nodes s) node_id of
         None \<Rightarrow> ret True
       | Some n \<Rightarrow>
           if is_loaded n then ret True
           else doS (load_dir_impl os node_id (node_path s node_id) (Some (nd_last_layer_idx n))) (ret True))"

section \<open>Lazy lookup\<close>

text \<open>
  One pass over the layers: \<open>Inl whiteouts\<close> is the early return with the names to record as whited out
  in the parent, \<open>Inr found\<close> the node found, if any, after the last layer.
\<close>

fun lazy_layers ::
  "'w os \<Rightarrow> node_id \<Rightarrow> bytes \<Rightarrow> bytes \<Rightarrow> nat \<Rightarrow> 'w \<Rightarrow> ovl_node option \<Rightarrow> bool \<Rightarrow> nat \<Rightarrow> 'w ovl_layer list \<Rightarrow>
     bytes list + ovl_node option" where
  "lazy_layers os parent_id parent_path name last_layer w found stop_lookup idx [] = Inr found"
| "lazy_layers os parent_id parent_path name last_layer w found stop_lookup idx (layer # layers) =
     (if stop_lookup then Inr found
      else
        let stop = (last_layer = idx \<and> idx > 0); ds = ly_ds layer; path = child_path parent_path name in
        case ds_statat ds path AT_SYMLINK_NOFOLLOW (STATX_TYPE OR STATX_MODE OR STATX_INO) w of
          Inl (FsError e) \<Rightarrow>
            if e = ENOENT \<or> e = ENOTDIR \<or> e = EACCES then
              if found \<noteq> None then lazy_layers os parent_id parent_path name last_layer w found stop (Suc idx) layers
              else if is_wh_file ds parent_path name w then Inl [name]
              else lazy_layers os parent_id parent_path name last_layer w found stop (Suc idx) layers
            else Inl []
        | Inr st \<Rightarrow>
            (case found of
               Some existing \<Rightarrow>
                 lazy_layers os parent_id parent_path name last_layer w
                   (Some (existing\<lparr>nd_tmp_ino := st_ino st, nd_tmp_dev := st_dev st,
                                   nd_last_layer_idx := idx\<rparr>))
                   stop (Suc idx) layers
             | None \<Rightarrow>
                 if is_wh_file ds parent_path name w then Inl [name]
                 else (case wh_prefix_name name of
                     Some whited \<Rightarrow> Inl [whited]
                   | None \<Rightarrow>
                       if is_chardev_whiteout os st then Inl [name]
                       else
                         let is_directory = (st_mode st AND S_IFMT = S_IFDIR);
                             child = (node_new name idx (st_ino st) (st_dev st) is_directory)
                               \<lparr>nd_mode := st_mode st, nd_last_layer_idx := idx, nd_parent := Some parent_id\<rparr>
                         in lazy_layers os parent_id parent_path name last_layer w (Some child)
                              (stop \<or> (is_directory \<and> is_directory_opaque ds path w = Inr True))
                              (Suc idx) layers)))"

definition do_lazy_lookup :: "'w os \<Rightarrow> node_id \<Rightarrow> bytes \<Rightarrow> ('w fs, node_id option) prog" where
  "do_lazy_lookup os parent_id name =
     withS (\<lambda>s. case arena_get (fs_nodes s) parent_id of
         None \<Rightarrow> ret None
       | Some parent \<Rightarrow>
           (case lazy_layers os parent_id (node_path s parent_id) name (nd_last_layer_idx parent)
                   (fs_world s) None False 0 (fs_layers s) of
              Inl [] \<Rightarrow> ret None
            | Inl (wh # _) \<Rightarrow> doS (update_node parent_id (insert_whiteout wh)) (ret None)
            | Inr None \<Rightarrow> ret None
            | Inr (Some child) \<Rightarrow>
                bindS (insert_node child) (\<lambda>child_id.
                doS (if nd_tmp_ino child \<noteq> 0
                     then doS (register_node child_id (nd_tmp_ino child) (nd_tmp_dev child) (nd_mode child))
                              (ret ())
                     else ret ())
               (withS (\<lambda>s. if arena_get (fs_nodes s) parent_id = None then ret None
                  else doS (update_node parent_id (insert_child (nd_name child) child_id))
                           (ret (Some child_id)))))))"

definition do_lookup_file :: "'w os \<Rightarrow> 64 word \<Rightarrow> bytes option \<Rightarrow> ('w fs, node_id option) prog" where
  "do_lookup_file os parent_ino name =
     withS (\<lambda>s. case lookup_node_id os s parent_ino of
         None \<Rightarrow> ret None
       | Some parent_id \<Rightarrow>
           (case name of
              None \<Rightarrow> ret (Some parent_id)
            | Some n \<Rightarrow>
                let parent = arena_get (fs_nodes s) parent_id in
                (case Option.bind parent (\<lambda>p. get_child p n) of
                   Some child_id \<Rightarrow> ret (Some child_id)
                 | None \<Rightarrow>
                     if (case parent of Some p \<Rightarrow> is_whiteout p n | None \<Rightarrow> False) then ret None
                     else if \<not> (case parent of Some p \<Rightarrow> is_loaded p | None \<Rightarrow> True)
                     then do_lazy_lookup os parent_id n
                     else ret None)))"

section \<open>Directory listings\<close>

text \<open>\<open>rpl_stat_with_path(..).ok().map(stat_to_attr)\<close>.\<close>

definition attr_at :: "'w os \<Rightarrow> 'w fs \<Rightarrow> node_id \<Rightarrow> bytes \<Rightarrow> file_attr option" where
  "attr_at os s i path =
     (case rpl_stat_with_path os s i (-1) path of Inr st \<Rightarrow> Some (stat_to_attr st) | Inl _ \<Rightarrow> None)"

definition child_dirent :: "'w os \<Rightarrow> 'w fs \<Rightarrow> bytes \<Rightarrow> bytes \<times> node_id \<Rightarrow> dirent list" where
  "child_dirent os s dir_path = (\<lambda>(child_name, child_id).
     case arena_get (fs_nodes s) child_id of
       None \<Rightarrow> []
     | Some child \<Rightarrow>
         if nd_hidden child then []
         else let path = (if dir_path \<noteq> ''.'' then dir_path @ ''/'' @ nd_name child else nd_name child) in
              [\<lparr>dn_name = child_name, dn_ino = get_st_ino_with_path s child path, dn_mode = nd_mode child,
                dn_attr = attr_at os s child_id path, dn_node_id = Some child_id\<rparr>])"

definition list_dir_entries :: "'w os \<Rightarrow> 'w fs \<Rightarrow> node_id \<Rightarrow> dirent list" where
  "list_dir_entries os s node_id =
     (case arena_get (fs_nodes s) node_id of
        None \<Rightarrow> []
      | Some node \<Rightarrow>
          let dir_path = node_path s node_id;
              self_ino = get_st_ino_with_path s node dir_path;
              self_attr = attr_at os s node_id dir_path;
              (parent_ino, parent_attr) =
                (case nd_parent node of
                   None \<Rightarrow> (self_ino, self_attr)
                 | Some pid \<Rightarrow>
                     (case arena_get (fs_nodes s) pid of
                        None \<Rightarrow> (self_ino, self_attr)
                      | Some parent \<Rightarrow>
                          let parent_path = node_path s pid in
                          (get_st_ino_with_path s parent parent_path, attr_at os s pid parent_path)));
              child_ids = sort_key fst (case children node of None \<Rightarrow> [] | Some ch \<Rightarrow> ch)
          in [\<lparr>dn_name = ''.'', dn_ino = self_ino, dn_mode = S_IFDIR, dn_attr = self_attr,
                dn_node_id = Some node_id\<rparr>,
              \<lparr>dn_name = ''..'', dn_ino = parent_ino, dn_mode = S_IFDIR, dn_attr = parent_attr,
                dn_node_id = nd_parent node\<rparr>] @
             concat (map (child_dirent os s dir_path) child_ids))"

definition build_dir_entries :: "'w os \<Rightarrow> node_id \<Rightarrow> ('w fs, dirent list) prog" where
  "build_dir_entries os node_id =
     doS (reload_dir os node_id) (withS (\<lambda>s. ret (list_dir_entries os s node_id)))"

section \<open>The invariant\<close>

lemma node_ok_field_updates [simp]:
  "node_ok L r i (n\<lparr>nd_mode := m\<rparr>) \<longleftrightarrow> node_ok L r i n"
  "node_ok L r i (n\<lparr>nd_tmp_ino := a\<rparr>) \<longleftrightarrow> node_ok L r i n"
  "node_ok L r i (n\<lparr>nd_tmp_dev := a\<rparr>) \<longleftrightarrow> node_ok L r i n"
  by (simp_all add: node_ok_def children_def is_dir_def)

lemma node_ok_parent:
  "i \<noteq> r \<Longrightarrow> node_ok L r i (n\<lparr>nd_parent := p\<rparr>) \<longleftrightarrow> node_ok L r i n"
  "i \<noteq> r \<Longrightarrow> node_ok L r i (n\<lparr>nd_last_layer_idx := x\<rparr>) \<longleftrightarrow> node_ok L r i n"
  by (simp_all add: node_ok_def children_def is_dir_def)

lemma node_ok_entry_node:
  "idx < L \<Longrightarrow> i \<noteq> r \<Longrightarrow> node_ok L r i (entry_node config ds path idx p e w)"
  by (simp add: entry_node_def Let_def node_ok_parent node_ok_new split: prod.splits)

lemma keeps_ok_insert_child:
  "c \<noteq> r \<Longrightarrow> keeps (fs_ok L r) (update_node i (insert_child name c))"
  by (rule keeps_ok_update_node) (rule node_ok_insert_child)

lemma keeps_ok_update_simple [keeps_intro]:
  "keeps (fs_ok L r) (update_node i (insert_whiteout name))"
  "keeps (fs_ok L r) (update_node i mark_loaded)"
  "keeps (fs_ok L r) (update_node i mark_unloaded)"
  "keeps (fs_ok L r) (update_node i clear_children)"
  "keeps (fs_ok L r) (update_node i (remove_child name))"
  by (rule keeps_ok_update_node; simp add: node_ok_clear node_ok_remove_child)+

lemma keeps_ok_update_last_layer:
  "i \<noteq> r \<Longrightarrow> keeps (fs_ok L r) (update_node i (\<lambda>n. n\<lparr>nd_last_layer_idx := x\<rparr>))"
  by (rule keeps_ok_update_node) (simp add: node_ok_parent)

lemma fs_ok_child_not_root:
  "fs_ok L r s \<Longrightarrow> Option.bind (arena_get (fs_nodes s) p) (\<lambda>n. get_child n name) = Some c \<Longrightarrow> c \<noteq> r"
  by (auto simp: bind_eq_Some_conv dest: node_ok_child[OF fs_okD(6)])

lemma keeps_ok_insert_child_node:
  assumes "\<And>i. i \<noteq> r \<Longrightarrow> node_ok L r i n"
  shows "yields (fs_ok L r) (insert_child_node p n) (\<lambda>i. i \<noteq> r)"
  unfolding insert_child_node_def
  by (rule yields_bindS_val[OF yields_insert_node[OF assms]])
    (auto intro!: yields_intro keeps_ok_insert_child)

lemma keeps_ok_load_entry:
  "idx < L \<Longrightarrow> keeps (fs_ok L r) (load_entry os config ds path idx p e)"
  unfolding load_entry_def
  by (intro keeps_intro yields_keeps[OF keeps_ok_insert_child_node] node_ok_entry_node
      keeps_ok_update_last_layer) (auto dest: fs_ok_child_not_root)

lemma keeps_ok_load_entries:
  "idx < L \<Longrightarrow> keeps (fs_ok L r) (load_entries os config ds path idx p es)"
  by (induction es) (auto intro!: keeps_intro keeps_ok_load_entry)

lemma keeps_ok_load_layers:
  "idx + length layers \<le> L \<Longrightarrow> keeps (fs_ok L r) (load_layers os config path lst p stop idx layers)"
proof (induction layers arbitrary: idx stop)
  case (Cons layer layers)
  then have "idx < L" "Suc idx + length layers \<le> L" by simp_all
  then show ?case
    unfolding load_layers.simps by (intro keeps_intro keeps_ok_load_entries Cons.IH)
qed (simp add: keeps_ret)

lemma keeps_ok_load_dir_impl [keeps_intro]: "keeps (fs_ok L r) (load_dir_impl os p path lst)"
  unfolding load_dir_impl_def
  by (intro keeps_intro keeps_ok_load_layers) (simp add: fs_okD(1))

lemma keeps_ok_load_dir_entries [keeps_intro]: "keeps (fs_ok L r) (load_dir_entries os p path)"
  unfolding load_dir_entries_def by (intro keeps_intro)

lemma keeps_ok_ensure_root_loaded [keeps_intro]: "keeps (fs_ok L r) (ensure_root_loaded os)"
  unfolding ensure_root_loaded_def by (intro keeps_intro)

lemma keeps_ok_reload_dir [keeps_intro]: "keeps (fs_ok L r) (reload_dir os i)"
  unfolding reload_dir_def by (intro keeps_intro)

lemma keeps_ok_build_dir_entries [keeps_intro]: "keeps (fs_ok L r) (build_dir_entries os i)"
  unfolding build_dir_entries_def by (intro keeps_intro)

text \<open>A node found by the lazy lookup lies on one of the layers searched.\<close>

lemma lazy_layers_ok:
  assumes "\<And>n i. found = Some n \<Longrightarrow> i \<noteq> r \<Longrightarrow> node_ok L r i n" "idx + length layers \<le> L"
    "lazy_layers os p pp name lst w found stop idx layers = Inr (Some n)" "i \<noteq> r"
  shows "node_ok L r i n"
  using assms
proof (induction layers arbitrary: found stop idx)
  case (Cons layer layers)
  have idx: "idx < L" "Suc idx + length layers \<le> L" using Cons.prems(2) by simp_all
  note IH = Cons.IH[OF _ idx(2) _ Cons.prems(4)]
  show ?case
  proof (cases "stop")
    case True
    with Cons.prems show ?thesis by simp
  next
    case False
    note run = Cons.prems(3)[simplified lazy_layers.simps Let_def, simplified False if_False]
    show ?thesis
    proof (cases "ds_statat (ly_ds layer) (child_path pp name) AT_SYMLINK_NOFOLLOW
        (STATX_TYPE OR STATX_MODE OR STATX_INO) w")
      case (Inl err)
      obtain e where "err = FsError e" by (cases err)
      with Inl run IH[OF Cons.prems(1)] show ?thesis by (auto split: if_splits)
    next
      case (Inr st)
      show ?thesis
      proof (cases found)
        case None
        let ?c = "(node_new name idx (st_ino st) (st_dev st) (st_mode st AND S_IFMT = S_IFDIR))
            \<lparr>nd_mode := st_mode st, nd_last_layer_idx := idx, nd_parent := Some p\<rparr>"
        from None Inr run obtain stop' where
          run': "lazy_layers os p pp name lst w (Some ?c) stop' (Suc idx) layers = Inr (Some n)"
          by (auto split: if_splits option.splits)
        have "node_ok L r i' ?c" if "i' \<noteq> r" for i'
          using that idx(1) by (simp add: node_ok_parent node_ok_new)
        then show ?thesis by (intro IH[OF _ run']) auto
      next
        case (Some ex)
        with Cons.prems(1) have "node_ok L r i' ex" if "i' \<noteq> r" for i' using that by blast
        moreover from Some Inr run have run': "lazy_layers os p pp name lst w
            (Some (ex\<lparr>nd_tmp_ino := st_ino st, nd_tmp_dev := st_dev st, nd_last_layer_idx := idx\<rparr>))
            (lst = idx \<and> 0 < idx) (Suc idx) layers = Inr (Some n)" by simp
        ultimately show ?thesis by (intro IH[OF _ run']) (auto simp: node_ok_parent)
      qed
    qed
  qed
qed simp

lemma yields_do_lazy_lookup:
  "yields (fs_ok L r) (do_lazy_lookup os p name) (\<lambda>x. \<forall>i. x = Some i \<longrightarrow> i \<noteq> r)"
  unfolding do_lazy_lookup_def
proof (intro yields_withS yields_case_option yields_case_sum)
  fix s x b a
  assume ok: "fs_ok L r s" and b: "lazy_layers os p (node_path s p) name (nd_last_layer_idx x)
      (fs_world s) None False 0 (fs_layers s) = Inr b" "b = Some a"
  have "node_ok L r i a" if "i \<noteq> r" for i
    by (rule lazy_layers_ok[OF _ _ b(1)[unfolded b(2)] that]) (simp_all add: fs_okD(1)[OF ok])
  then show "yields (fs_ok L r) (bindS (insert_node a) (\<lambda>child_id.
       doS (if nd_tmp_ino a \<noteq> 0
            then doS (register_node child_id (nd_tmp_ino a) (nd_tmp_dev a) (nd_mode a)) (ret ())
            else ret ())
        (withS (\<lambda>s. if arena_get (fs_nodes s) p = None then ret None
           else doS (update_node p (insert_child (nd_name a) child_id)) (ret (Some child_id))))))
     (\<lambda>x. \<forall>i. x = Some i \<longrightarrow> i \<noteq> r)"
    by (intro yields_bindS_val[OF yields_insert_node] yields_intro keeps_intro keeps_ok_insert_child)
      simp_all
qed (auto intro!: yields_intro keeps_intro split: list.splits)

lemma yields_do_lookup_file:
  "yields (fs_ok L r) (do_lookup_file os ino (Some name)) (\<lambda>x. \<forall>i. x = Some i \<longrightarrow> i \<noteq> r)"
  unfolding do_lookup_file_def
  by (auto intro!: yields_intro yields_do_lazy_lookup dest: fs_ok_child_not_root)

lemma keeps_ok_do_lookup_file [keeps_intro]: "keeps (fs_ok L r) (do_lookup_file os ino name)"
proof (cases name)
  case None
  then show ?thesis unfolding do_lookup_file_def by (auto intro!: keeps_intro)
next
  case (Some n)
  then show ?thesis using yields_do_lookup_file yields_keeps by blast
qed

section \<open>Loading only observes\<close>

text \<open>Whatever does not look at the nodes is untouched by loading; a lookup may also register an inode.\<close>

lemma frames_update_node: "(\<And>s a. f (s\<lparr>fs_nodes := a\<rparr>) = f s) \<Longrightarrow> frames f (update_node i g)"
  unfolding update_node_def by (rule frames_modS)

lemma frames_insert_node: "(\<And>s a. f (s\<lparr>fs_nodes := a\<rparr>) = f s) \<Longrightarrow> frames f (insert_node n)"
  by (simp add: frames_def insert_node_def split_beta)

lemma frames_register_node: "(\<And>s a. f (s\<lparr>fs_inodes := a\<rparr>) = f s) \<Longrightarrow> frames f (register_node i ino dev m)"
  by (simp add: frames_def register_node_def split_beta)

lemmas frames_nodes = frames_update_node frames_insert_node

lemma frames_load_entry:
  "(\<And>s a. f (s\<lparr>fs_nodes := a\<rparr>) = f s) \<Longrightarrow> frames f (load_entry os config ds path idx p e)"
  unfolding load_entry_def insert_child_node_def by (intro frames_intro frames_nodes)

lemma frames_load_entries:
  "(\<And>s a. f (s\<lparr>fs_nodes := a\<rparr>) = f s) \<Longrightarrow> frames f (load_entries os config ds path idx p es)"
  by (induction es) (auto intro!: frames_intro frames_load_entry)

lemma frames_load_layers:
  "(\<And>s a. f (s\<lparr>fs_nodes := a\<rparr>) = f s) \<Longrightarrow> frames f (load_layers os config path lst p stop idx layers)"
proof (induction layers arbitrary: idx stop)
  case (Cons layer layers)
  show ?case unfolding load_layers.simps
    by (intro frames_intro frames_load_entries Cons.IH Cons.prems)
qed (simp add: frames_ret)

lemma frames_load_dir_impl:
  "(\<And>s a. f (s\<lparr>fs_nodes := a\<rparr>) = f s) \<Longrightarrow> frames f (load_dir_impl os p path lst)"
  unfolding load_dir_impl_def by (intro frames_intro frames_load_layers frames_nodes)

lemma frames_reload_dir:
  "(\<And>s a. f (s\<lparr>fs_nodes := a\<rparr>) = f s) \<Longrightarrow> frames f (reload_dir os i)"
  unfolding reload_dir_def by (intro frames_intro frames_load_dir_impl)

lemma frames_do_lookup_file:
  assumes "\<And>s a. f (s\<lparr>fs_nodes := a\<rparr>) = f s" "\<And>s a. f (s\<lparr>fs_inodes := a\<rparr>) = f s"
  shows "frames f (do_lookup_file os ino name)"
  unfolding do_lookup_file_def do_lazy_lookup_def
  by (intro frames_intro frames_nodes frames_register_node assms)
    (auto intro!: frames_intro frames_nodes assms split: list.splits)

end
