(* ===== verification/Merge.thy ===== *)
theory Merge
  imports Overlay_Load
begin

text \<open>
  The specification of the overlay: what the merge of the layers of a directory is, abstractly, and
  that \<^verbatim>\<open>load_dir_impl\<close> implements it. The view of a directory is the set of names it shows and the
  set of names it knows to be hidden; a layer contributes a list of verdicts on names. Shown:
  loading refines the fold of the verdicts over the view, and in the fold
  the topmost mention of a name decides whether it is shown.
\<close>

section \<open>The abstract merge\<close>

text \<open>
  What a layer says about the names of a directory. An entry is ignored, hides its own name (a
  \<^verbatim>\<open>.wh.\<close> file beside it, or a device 0:0), hides the name after its \<^verbatim>\<open>.wh.\<close> prefix, or is shown.
\<close>

datatype verdict = Ignored | HidesSelf | HidesOther bytes | Shown

definition classify :: "'w os \<Rightarrow> 'w data_source \<Rightarrow> bytes \<Rightarrow> 'w \<Rightarrow> dir_entry \<Rightarrow> verdict" where
  "classify os ds path w e =
     (let name = de_name e in
      if name = ''.'' \<or> name = ''..'' \<or> name = OPAQUE_WHITEOUT then Ignored
      else if is_wh_file ds path name w then HidesSelf
      else case wh_prefix_name name of
          Some t \<Rightarrow> HidesOther t
        | None \<Rightarrow>
            if (de_dtype e = DT_CHR \<or> de_dtype e = DT_UNKNOWN) \<and>
               (case ds_statat ds (child_path path name) AT_SYMLINK_NOFOLLOW STATX_TYPE w of
                  Inr st \<Rightarrow> is_chardev_whiteout os st | Inl _ \<Rightarrow> False)
            then HidesSelf else Shown)"

text \<open>The view of a directory: the names it shows and the names known to be hidden.\<close>

type_synonym view = "bytes set \<times> bytes set"

fun merge_entry :: "bytes \<times> verdict \<Rightarrow> view \<Rightarrow> view" where
  "merge_entry (n, v) (C, W) =
     (if v = Ignored \<or> n \<in> C \<or> n \<in> W then (C, W)
      else case v of
          HidesOther t \<Rightarrow> if t \<in> C then (C, W) else (C, insert t W)
        | Shown \<Rightarrow> (insert n C, W)
        | _ \<Rightarrow> (C, insert n W))"

text \<open>The entries of the layers that are visited, from the top: a layer without the directory is
  skipped, one that has a file there ends the search, and so do an opaque directory and the last
  layer the directory is known to exist in.\<close>

fun scan :: "'w os \<Rightarrow> bytes \<Rightarrow> nat option \<Rightarrow> 'w \<Rightarrow> bool \<Rightarrow> nat \<Rightarrow> 'w ovl_layer list \<Rightarrow> (bytes \<times> verdict) list" where
  "scan os path lst w stop idx [] = []"
| "scan os path lst w stop idx (layer # layers) =
     (if stop then []
      else
        let stop' = (lst = Some idx \<and> idx > 0); ds = ly_ds layer in
        case ds_statat ds path AT_SYMLINK_NOFOLLOW STATX_TYPE w of
          Inl err \<Rightarrow>
            if errno_of err = ENOENT \<or> errno_of err = ENOTDIR then scan os path lst w stop' (Suc idx) layers
            else []
        | Inr st \<Rightarrow>
            if st_mode st AND S_IFMT \<noteq> S_IFDIR then []
            else (case ds_opendir ds path w of
                Inl _ \<Rightarrow> scan os path lst w stop' (Suc idx) layers
              | Inr es \<Rightarrow>
                  map (\<lambda>e. (de_name e, classify os ds path w e)) es @
                  scan os path lst w (stop' \<or> is_directory_opaque ds path w = Inr True) (Suc idx) layers))"

definition layer_verdicts :: "'w os \<Rightarrow> 'w fs \<Rightarrow> bytes \<Rightarrow> nat option \<Rightarrow> (bytes \<times> verdict) list" where
  "layer_verdicts os s path lst = scan os path lst (fs_world s) False 0 (fs_layers s)"

definition node_view :: "ovl_node \<Rightarrow> view" where
  "node_view n = (case nd_dir_state n of NotADir \<Rightarrow> ({}, {}) | Dir ch wh _ \<Rightarrow> (fst ` set ch, set wh))"

definition dir_view :: "'w fs \<Rightarrow> node_id \<Rightarrow> view" where
  "dir_view s p = (case arena_get (fs_nodes s) p of None \<Rightarrow> ({}, {}) | Some n \<Rightarrow> node_view n)"

definition dir_here :: "node_id \<Rightarrow> 'w fs \<Rightarrow> bool" where
  "dir_here p s \<longleftrightarrow> arena_wf (fs_nodes s) \<and> (\<exists>n. arena_get (fs_nodes s) p = Some n \<and> is_dir n)"

lemma get_child_view: "get_child n name = None \<longleftrightarrow> name \<notin> fst (node_view n)"
  by (simp add: get_child_def node_view_def map_of_eq_None_iff split: dir_state.splits)

lemma is_whiteout_view: "is_whiteout n name \<longleftrightarrow> name \<in> snd (node_view n)"
  by (simp add: is_whiteout_def node_view_def split: dir_state.splits)

lemma node_view_insert_whiteout:
  "is_dir n \<Longrightarrow> node_view (insert_whiteout name n) = (fst (node_view n), insert name (snd (node_view n)))"
  by (simp add: node_view_def insert_whiteout_def is_dir_def split: dir_state.splits)

lemma fst_set_AList_update: "fst ` set (AList.update k v xs) = insert k (fst ` set xs)"
  by (simp add: AList.dom_update)

lemma node_view_insert_child:
  "is_dir n \<Longrightarrow> name \<notin> snd (node_view n) \<Longrightarrow>
   node_view (insert_child name c n) = (insert name (fst (node_view n)), snd (node_view n))"
  by (auto simp: node_view_def insert_child_def is_dir_def fst_set_AList_update split: dir_state.splits)

lemma node_view_simps [simp]:
  "node_view (n\<lparr>nd_last_layer_idx := x\<rparr>) = node_view n" "node_view (mark_loaded n) = node_view n"
  by (simp_all add: node_view_def mark_loaded_def set_loaded_def split: dir_state.splits)

lemma is_dir_simps [simp]:
  "is_dir (insert_whiteout name n) = is_dir n" "is_dir (insert_child name c n) = is_dir n"
  "is_dir (mark_loaded n) = is_dir n" "is_dir (n\<lparr>nd_last_layer_idx := x\<rparr>) = is_dir n"
  by (simp_all add: is_dir_def insert_whiteout_def insert_child_def mark_loaded_def set_loaded_def
      split: dir_state.splits)

section \<open>Loading implements the merge\<close>

lemma dir_here_parts:
  assumes "dir_here p s"
  obtains n where "arena_get (fs_nodes s) p = Some n" "is_dir n" "dir_view s p = node_view n"
  using assms by (auto simp: dir_here_def dir_view_def)

lemma update_view:
  assumes "dir_here p s" "\<And>n. is_dir n \<Longrightarrow> is_dir (f n)"
  shows "dir_here p (snd (update_node i f s))"
    and "i = p \<Longrightarrow> arena_get (fs_nodes s) p = Some n \<Longrightarrow> dir_view (snd (update_node i f s)) p = node_view (f n)"
    and "(\<And>n. node_view (f n) = node_view n) \<Longrightarrow> dir_view (snd (update_node i f s)) p = dir_view s p"
  using assms
  by (auto simp: dir_here_def dir_view_def update_node_def modS_def arena_get_update split: option.splits)

lemma load_entry_merges:
  assumes "dir_here p s"
  shows "dir_here p (snd (load_entry os config ds path idx p e s)) \<and>
    dir_view (snd (load_entry os config ds path idx p e s)) p =
      merge_entry (de_name e, classify os ds path (fs_world s) e) (dir_view s p)"
proof -
  obtain n where n: "arena_get (fs_nodes s) p = Some n" "is_dir n" "dir_view s p = node_view n"
    using assms by (rule dir_here_parts)
  obtain C W where CW: "node_view n = (C, W)" by (cases "node_view n")
  have child: "get_child n x = None \<longleftrightarrow> x \<notin> C" and wh: "is_whiteout n x \<longleftrightarrow> x \<in> W" for x
    using get_child_view[of n x] is_whiteout_view[of n x] CW by simp_all
  have inC: "x \<in> C \<longleftrightarrow> get_child n x \<noteq> None" for x using child[of x] by argo
  have hide: "dir_here p (snd (update_node p (insert_whiteout x) s)) \<and>
      dir_view (snd (update_node p (insert_whiteout x) s)) p = (C, insert x W)" for x
    using update_view[OF assms] n CW by (simp add: node_view_insert_whiteout)
  have fresh: "ar_next_id (fs_nodes s) \<noteq> p" and wf: "arena_wf (fs_nodes s)"
    using assms n arena_wf_fresh[of "fs_nodes s"] by (auto simp: dir_here_def arena_get_def)
  have show_: "dir_here p (snd (insert_child_node p c s)) \<and>
      dir_view (snd (insert_child_node p c s)) p = (insert (nd_name c) C, W)" if "nd_name c \<notin> W" for c
    using n CW fresh wf that arena_wf_insert[OF wf, of c] node_view_insert_child[OF n(2), of "nd_name c"]
    by (simp add: insert_child_node_def insert_node_def update_node_def prog_defs split_beta dir_here_def
        dir_view_def arena_get_update arena_get_insert)
  have name: "nd_name (entry_node config ds path idx p e w) = de_name e" for w
    by (simp add: entry_node_def node_new_def Let_def split_beta)
  have keep: "dir_here p (snd (update_node i (\<lambda>n. n\<lparr>nd_last_layer_idx := idx\<rparr>) s)) \<and>
      dir_view (snd (update_node i (\<lambda>n. n\<lparr>nd_last_layer_idx := idx\<rparr>) s)) p = (C, W)" for i
    using update_view(1,3)[OF assms, of "\<lambda>n. n\<lparr>nd_last_layer_idx := idx\<rparr>" i] n(3) CW by simp
  show ?thesis
  proof (cases "get_child n (de_name e)")
    case (Some c)
    then have "de_name e \<in> C" using child by force
    with Some n CW keep[of c] assms show ?thesis
      by (auto simp: load_entry_def Let_def withS_def ret_def)
  next
    case None
    then have "de_name e \<notin> C" using child by blast
    let ?special = "de_name e = ''.'' \<or> de_name e = ''..'' \<or> de_name e = OPAQUE_WHITEOUT"
    let ?device = "(de_dtype e = DT_CHR \<or> de_dtype e = DT_UNKNOWN) \<and>
      (case ds_statat ds (child_path path (de_name e)) AT_SYMLINK_NOFOLLOW STATX_TYPE (fs_world s) of
         Inr st \<Rightarrow> is_chardev_whiteout os st | Inl _ \<Rightarrow> False)"
    let ?node = "entry_node config ds path idx p e (fs_world s)"
    have run: "snd (load_entry os config ds path idx p e s) =
       (if ?special \<or> de_name e \<in> W then s
        else if is_wh_file ds path (de_name e) (fs_world s)
        then snd (update_node p (insert_whiteout (de_name e)) s)
        else case wh_prefix_name (de_name e) of
            Some t \<Rightarrow> if t \<in> C then s else snd (update_node p (insert_whiteout t) s)
          | None \<Rightarrow> if ?device then snd (update_node p (insert_whiteout (de_name e)) s)
                     else snd (insert_child_node p ?node s))"
      using None n(1) wh[of "de_name e"]
      by (cases "wh_prefix_name (de_name e)")
        (simp_all add: load_entry_def Let_def withS_def ret_def doS_def bindS_def split_beta inC)
    show ?thesis
    proof (cases "?special \<or> de_name e \<in> W \<or> is_wh_file ds path (de_name e) (fs_world s)")
      case True
      then show ?thesis
        using run assms n(3) CW hide \<open>de_name e \<notin> C\<close> by (auto simp: classify_def Let_def)
    next
      case False
      then show ?thesis
        using run assms n(3) CW hide \<open>de_name e \<notin> C\<close> show_[of ?node] name
        by (cases "wh_prefix_name (de_name e)") (simp_all add: classify_def)
    qed
  qed
qed

lemma load_entry_world: "fs_world (snd (load_entry os config ds path idx p e s)) = fs_world s"
  by (rule frames_snd[OF frames_load_entry]) simp

lemma load_entries_merges:
  assumes "dir_here p s"
  shows "dir_here p (snd (load_entries os config ds path idx p es s)) \<and>
    dir_view (snd (load_entries os config ds path idx p es s)) p =
      fold merge_entry (map (\<lambda>e. (de_name e, classify os ds path (fs_world s) e)) es) (dir_view s p)"
  using assms
proof (induction es arbitrary: s)
  case (Cons e es)
  let ?s = "snd (load_entry os config ds path idx p e s)"
  have "snd (load_entries os config ds path idx p (e # es) s) =
      snd (load_entries os config ds path idx p es ?s)"
    by (simp add: doS_def bindS_def split_beta)
  then show ?case
    using load_entry_merges[OF Cons.prems, of os config ds path idx e] Cons.IH[of ?s]
    by (simp add: load_entry_world)
qed (simp add: ret_def)

lemma load_layers_merges:
  assumes "dir_here p s"
  shows "dir_here p (snd (load_layers os config path lst p stop idx layers s)) \<and>
    dir_view (snd (load_layers os config path lst p stop idx layers s)) p =
      fold merge_entry (scan os path lst (fs_world s) stop idx layers) (dir_view s p)"
  using assms
proof (induction layers arbitrary: idx stop s)
  case (Cons layer layers)
  show ?case
  proof (cases "stop")
    case True
    with Cons.prems show ?thesis by (simp add: ret_def)
  next
    case False
    let ?ds = "ly_ds layer"
    show ?thesis
    proof (cases "ds_statat ?ds path AT_SYMLINK_NOFOLLOW STATX_TYPE (fs_world s)")
      case (Inl err)
      obtain e where "err = FsError e" by (cases err)
      with False Inl Cons show ?thesis by (simp add: withS_def Let_def ret_def)
    next
      case (Inr st)
      show ?thesis
      proof (cases "st_mode st AND S_IFMT = S_IFDIR \<and> \<not> isl (ds_opendir ?ds path (fs_world s))")
        case False
        with \<open>\<not> stop\<close> Inr Cons show ?thesis
          by (auto simp: withS_def Let_def ret_def split: sum.splits)
      next
        case True
        then obtain es where es: "ds_opendir ?ds path (fs_world s) = Inr es"
          by (cases "ds_opendir ?ds path (fs_world s)") auto
        let ?s = "snd (load_entries os config ?ds path idx p es s)"
        have w: "fs_world ?s = fs_world s" by (rule frames_snd[OF frames_load_entries]) simp
        note m = load_entries_merges[OF Cons.prems, of os config ?ds path idx es]
        with \<open>\<not> stop\<close> Inr True es w Cons.IH[of ?s] show ?thesis
          by (simp add: withS_def Let_def doS_def bindS_def split_beta)
      qed
    qed
  qed
qed (simp add: ret_def)

lemma load_dir_impl_run:
  "snd (load_dir_impl os p path lst s) =
   snd (update_node p mark_loaded (snd (load_layers os (fs_config s) path lst p False 0 (fs_layers s) s)))"
  by (simp add: load_dir_impl_def withS_def doS_def bindS_def split_beta)

lemma load_dir_merge_view:
  assumes "dir_here p s"
  shows "dir_view (snd (load_dir_impl os p path lst s)) p =
      fold merge_entry (scan os path lst (fs_world s) False 0 (fs_layers s)) (dir_view s p)"
proof -
  note m = load_layers_merges[OF assms, of os "fs_config s" path lst False 0 "fs_layers s"]
  have "dir_view (snd (load_dir_impl os p path lst s)) p =
      dir_view (snd (load_layers os (fs_config s) path lst p False 0 (fs_layers s) s)) p"
    unfolding load_dir_impl_run by (rule update_view(3)) (use m in simp_all)
  with m show ?thesis by simp
qed

text \<open>C5: Loading a directory implements the merge of the layers: the names it shows and the names it
  knows to be hidden afterwards are those before, updated by the verdicts of the visited layers
  from the top to the bottom; the directory is then marked as loaded, and neither the
  file systems below nor the inode table are touched.\<close>

theorem load_dir_impl_merges:
  assumes "dir_here p s"
  shows "dir_view (snd (load_dir_impl os p path lst s)) p =
      fold merge_entry (scan os path lst (fs_world s) False 0 (fs_layers s)) (dir_view s p) \<and>
    map_option is_loaded (arena_get (fs_nodes (snd (load_dir_impl os p path lst s))) p) = Some True \<and>
    fs_world (snd (load_dir_impl os p path lst s)) = fs_world s \<and>
    fs_inodes (snd (load_dir_impl os p path lst s)) = fs_inodes s"
proof -
  let ?s = "snd (load_layers os (fs_config s) path lst p False 0 (fs_layers s) s)"
  have "dir_here p ?s" using load_layers_merges[OF assms] by blast
  then obtain n where "arena_get (fs_nodes ?s) p = Some n" "is_dir n" by (auto simp: dir_here_def)
  then have "map_option is_loaded (arena_get (fs_nodes (snd (update_node p mark_loaded ?s))) p) = Some True"
    by (auto simp: update_node_def modS_def arena_get_update is_loaded_def mark_loaded_def set_loaded_def
        is_dir_def split: dir_state.splits)
  moreover have "fs_world (snd (load_dir_impl os p path lst s)) = fs_world s"
    "fs_inodes (snd (load_dir_impl os p path lst s)) = fs_inodes s"
    by (rule frames_snd[OF frames_load_dir_impl]; simp)+
  ultimately show ?thesis using load_dir_merge_view[OF assms] by (simp add: load_dir_impl_run)
qed

section \<open>The topmost mention decides\<close>

definition mentions :: "bytes \<Rightarrow> bytes \<times> verdict \<Rightarrow> bool" where
  "mentions n = (\<lambda>(m, v). case v of Ignored \<Rightarrow> False | HidesOther t \<Rightarrow> t = n | _ \<Rightarrow> m = n)"

text \<open>The names of the \<^verbatim>\<open>.wh.\<close> files themselves are not names a layer shows or hides.\<close>

definition marks_apart :: "view \<Rightarrow> (bytes \<times> verdict) list \<Rightarrow> bool" where
  "marks_apart = (\<lambda>(C, W) es. \<forall>m t. (m, HidesOther t) \<in> set es \<longrightarrow>
     m \<notin> C \<and> m \<notin> W \<and> (\<forall>e \<in> set es. \<not> mentions m e))"

lemma merge_entry_mono: "fst V \<subseteq> fst (merge_entry e V)" "snd V \<subseteq> snd (merge_entry e V)"
  by (cases e; cases V; auto split: verdict.splits)+

lemma merge_entry_unmentioned:
  "\<not> mentions n e \<Longrightarrow>
   (n \<in> fst (merge_entry e V) \<longleftrightarrow> n \<in> fst V) \<and> (n \<in> snd (merge_entry e V) \<longleftrightarrow> n \<in> snd V)"
  by (cases e; cases V) (auto simp: mentions_def split: verdict.splits)

lemma merge_entry_hidden: "n \<notin> fst V \<Longrightarrow> n \<in> snd V \<Longrightarrow> n \<notin> fst (merge_entry e V)"
  by (cases e; cases V) (auto split: verdict.splits)

lemma fold_merge_hidden: "n \<notin> fst V \<Longrightarrow> n \<in> snd V \<Longrightarrow> n \<notin> fst (fold merge_entry es V)"
proof (induction es arbitrary: V)
  case (Cons e es)
  show ?case
    using Cons.IH[OF merge_entry_hidden[OF Cons.prems] subsetD[OF merge_entry_mono(2) Cons.prems(2)]]
    by simp
qed simp

lemma fold_merge_shown: "n \<in> fst V \<Longrightarrow> n \<in> fst (fold merge_entry es V)"
proof (induction es arbitrary: V)
  case (Cons e es)
  show ?case using Cons.IH[OF subsetD[OF merge_entry_mono(1) Cons.prems]] by simp
qed simp

lemma marks_apart_step:
  assumes "marks_apart V (e # es)"
  shows "marks_apart (merge_entry e V) es"
  unfolding marks_apart_def split_beta
proof (intro allI impI)
  fix m t
  assume "(m, HidesOther t) \<in> set es"
  with assms have "m \<notin> fst V" "m \<notin> snd V" "\<forall>x \<in> set (e # es). \<not> mentions m x"
    unfolding marks_apart_def split_beta by (meson list.set_intros(2))+
  with merge_entry_unmentioned[of m e V]
  show "m \<notin> fst (merge_entry e V) \<and> m \<notin> snd (merge_entry e V) \<and> (\<forall>x \<in> set es. \<not> mentions m x)"
    by simp
qed

lemma merge_shown_iff:
  "marks_apart V es \<Longrightarrow>
   n \<in> fst (fold merge_entry es V) \<longleftrightarrow>
     n \<in> fst V \<or> n \<notin> snd V \<and> (\<exists>m. List.find (mentions n) es = Some (m, Shown))"
proof (induction es arbitrary: V)
  case (Cons e es)
  have IH: "n \<in> fst (fold merge_entry es (merge_entry e V)) \<longleftrightarrow>
      n \<in> fst (merge_entry e V) \<or> n \<notin> snd (merge_entry e V) \<and>
        (\<exists>m. List.find (mentions n) es = Some (m, Shown))"
    by (rule Cons.IH[OF marks_apart_step[OF Cons.prems]])
  show ?case
  proof (cases "n \<in> fst V \<or> n \<in> snd V \<or> \<not> mentions n e")
    case True
    then show ?thesis
      using IH merge_entry_unmentioned[of n e V] fold_merge_hidden[of n V "e # es"]
        fold_merge_shown[of n V "e # es"] by auto
  next
    case False
    obtain m v where e: "e = (m, v)" by (cases e)
    have "v = HidesOther t \<Longrightarrow> m \<notin> fst V \<and> m \<notin> snd V" for t
      using Cons.prems e by (cases V) (auto simp: marks_apart_def)
    then have "merge_entry e V = (if v = Shown then (insert n (fst V), snd V) else (fst V, insert n (snd V)))"
      using False e by (cases V) (auto simp: mentions_def split: verdict.splits)
    then show ?thesis using IH False e by (auto split: if_splits)
  qed
qed simp


text \<open>Witness: the upper layer holds \<open>a\<close> and the whiteout of \<open>b\<close>, the lower one \<open>a\<close>, \<open>b\<close> and \<open>c\<close>.\<close>

definition listing_ds :: "int \<Rightarrow> bytes list \<Rightarrow> unit data_source" where
  "listing_ds fd names =
     \<lparr>ds_file_exists = \<lambda>p w. Inr (p \<in> set names),
      ds_statat = \<lambda>p fl m w. if p = ''.'' then Inr (zeroed_stat\<lparr>st_mode := S_IFDIR\<rparr>)
        else if p \<in> set names then Inr (zeroed_stat\<lparr>st_mode := S_IFREG\<rparr>) else Inl (FsError ENOENT),
      ds_fstat = \<lambda>f p m w. Inl (FsError ENOSYS),
      ds_opendir = \<lambda>p w. Inr (map (\<lambda>n. \<lparr>de_name = n, de_ino = 7, de_dtype = 8\<rparr>) names),
      ds_openat = \<lambda>p fl m w. (Inl (FsError ENOSYS), w),
      ds_listxattr = \<lambda>p n w. Inl (FsError ENODATA),
      ds_getxattr = \<lambda>p a n w. Inl (FsError ENODATA),
      ds_readlinkat = \<lambda>p w. Inl (FsError EINVAL),
      ds_get_nfs_filehandle = \<lambda>p w. 0,
      ds_root_fd = fd, ds_st_dev = 1, ds_stat_override_mode = SomNone, ds_nfs_filehandles = 0\<rparr>"

definition two_layers :: "unit ovl_layer list" where
  "two_layers = [from_datasource (listing_ds 3 [''.wh.b'', ''a'']) False,
                 from_datasource (listing_ds 4 [''a'', ''b'', ''c'']) True]"

definition two_layer_fs :: "unit fs" where
  "two_layer_fs = overlay_new (config_default 0) two_layers 5 \<lparr>ov_uid = 65534, ov_gid = 65534\<rparr> False ()"

lemma two_layer_scan:
  "scan refusing_os ''.'' None () False 0 two_layers =
     [(''.wh.b'', HidesOther ''b''), (''a'', Shown), (''a'', Shown), (''b'', Shown), (''c'', Shown)]"
  by (simp add: two_layers_def from_datasource_def listing_ds_def classify_def is_wh_file_def
      wh_prefix_name_def starts_with_def OPAQUE_WHITEOUT_def is_directory_opaque_def zeroed_stat_def)

lemma two_layer_fs_simps:
  "fs_layers two_layer_fs = two_layers" "fs_world two_layer_fs = ()"
  "arena_get (fs_nodes two_layer_fs) 1 = Some (node_new [] 0 0 0 True)"
  "arena_wf (fs_nodes two_layer_fs)"
  by (simp_all add: two_layer_fs_def overlay_new_def arena_insert_def arena_new_def arena_get_def
      arena_wf_def Let_def)


theorem load_dir_impl_merges_witness:
  "dir_view (snd (load_dir_impl refusing_os 1 ''.'' None two_layer_fs)) 1 = ({''a'', ''c''}, {''b''})"
proof -
  have here: "dir_here 1 two_layer_fs" "dir_view two_layer_fs 1 = ({}, {})"
    using two_layer_fs_simps by (simp_all add: dir_here_def dir_view_def node_view_def node_new_def is_dir_def)
  have "fold merge_entry (scan refusing_os ''.'' None () False 0 two_layers) ({}, {}) =
      ({''a'', ''c''}, {''b''})"
    by (simp add: two_layer_scan insert_commute)
  with load_dir_impl_merges[OF here(1), of refusing_os "''.''" None] here(2) show ?thesis
    by (simp add: two_layer_fs_simps)
qed

end
