(* ===== verification/Overlay_Ops.thy ===== *)
theory Overlay_Ops
  imports Overlay_Load
begin

text \<open>
  \<^verbatim>\<open>src/overlay.rs\<close>, the operations of \<^verbatim>\<open>OverlayInner\<close> that change the upper layer: hiding a node in
  the work directory, registering a newly created child, preparing the parent of a creation,
  inheriting ACLs and emptying a directory of the upper layer. Shown: hiding a node leaves a whiteout
  exactly when a lower layer may still have the name according to the recorded layers, what
  a hidden and a created node look like, and that all of it keeps the invariant.
\<close>

section \<open>Operations\<close>

text \<open>\<^verbatim>\<open>inner.layers[0].ds.root_fd()\<close>, reached only when there is an upper layer.\<close>

definition upper_root_fd :: "'w fs \<Rightarrow> int" where
  "upper_root_fd s = ds_root_fd (ly_ds (fs_layers s ! 0))"

fun empty_entries :: "'w os \<Rightarrow> int \<Rightarrow> dir_entry list \<Rightarrow> ('w, unit) prog" where
  "empty_entries os dir_raw [] = ret ()"
| "empty_entries os dir_raw (e # es) =
     (if de_name e = ''.'' \<or> de_name e = ''..'' then empty_entries os dir_raw es
      else case cstr_bytes (de_name e) of
          Inl _ \<Rightarrow> empty_entries os dir_raw es
        | Inr c_name \<Rightarrow>
            doS (unlinkat os dir_raw c_name (if de_dtype e = DT_DIR then AT_REMOVEDIR else 0))
                (empty_entries os dir_raw es))"

definition empty_upper_dir :: "'w os \<Rightarrow> 'w ovl_layer \<Rightarrow> bytes \<Rightarrow> ('w, unit fs_result) prog" where
  "empty_upper_dir os upper path =
     bindE (ds_openat (ly_ds upper) path (O_RDONLY OR O_DIRECTORY) 0) (\<lambda>fd.
     withS (\<lambda>w. case dir_stream_from_raw_fd os fd w of
         Inl e \<Rightarrow> ret (Inl e)
       | Inr entries \<Rightarrow> doS (empty_entries os fd entries) (ok ())))"

definition inherit_acl :: "'w os \<Rightarrow> node_id \<Rightarrow> int \<Rightarrow> ('w fs, unit) prog" where
  "inherit_acl os parent_id target_fd =
     withS (\<lambda>s. if noacl (fs_config s) then ret ()
       else case arena_get (fs_nodes s) parent_id of
           None \<Rightarrow> ret ()
         | Some parent \<Rightarrow>
             (case layer_at s (nd_layer_idx parent) of
                None \<Rightarrow> ret ()
              | Some layer \<Rightarrow>
                  (case ds_getxattr (ly_ds layer) (node_path s parent_id) ''system.posix_acl_default'' 4096
                          (fs_world s) of
                     Inl _ \<Rightarrow> ret ()
                   | Inr buf \<Rightarrow>
                       if buf = [] then ret ()
                       else doS (world (fsetxattr os target_fd ''system.posix_acl_default'' buf 0)) (ret ()))))"

text \<open>Does a lower layer possibly still have the name of the node?\<close>

definition needs_whiteout :: "'w fs \<Rightarrow> ovl_node \<Rightarrow> bool" where
  "needs_whiteout s node \<longleftrightarrow>
     nd_last_layer_idx node > 0 \<or>
     (case nd_parent node of
        None \<Rightarrow> False
      | Some pid \<Rightarrow> (case arena_get (fs_nodes s) pid of
            None \<Rightarrow> False | Some p \<Rightarrow> nd_last_layer_idx p > 0))"

text \<open>The part of \<^verbatim>\<open>hide_node\<close> under \<^verbatim>\<open>if unlink_src\<close>.\<close>

definition hide_source :: "'w os \<Rightarrow> node_id \<Rightarrow> int \<Rightarrow> bytes \<Rightarrow> ('w fs, unit fs_result) prog" where
  "hide_source os node_id upper_fd newname =
     withS (\<lambda>s. case arena_get (fs_nodes s) node_id of
         None \<Rightarrow> fail ENOENT
       | Some node \<Rightarrow>
           bindE (world (open_parent_safe_cstr os upper_fd (node_path s node_id))) (\<lambda>(src_dirfd, c_name).
           if needs_whiteout s node then
             bindS (if fs_can_mknod s
                    then bindS (world (renameat2 os src_dirfd c_name (fs_workdir_fd s) newname 4))
                           (\<lambda>r. ret (\<not> isl r))
                    else ret False) (\<lambda>rename_wh_ok.
             if rename_wh_ok then ok ()
             else
               bindE (case nd_parent node of
                        None \<Rightarrow> ok ()
                      | Some pid \<Rightarrow>
                          withS (\<lambda>s. create_whiteout os upper_fd (node_path s pid) (nd_name node) (fs_can_mknod s)))
                 (\<lambda>_. world (renameat os src_dirfd c_name (fs_workdir_fd s) newname)))
           else world (renameat os src_dirfd c_name (fs_workdir_fd s) newname)))"

definition hidden_node :: "int \<Rightarrow> bytes \<Rightarrow> ovl_node \<Rightarrow> ovl_node" where
  "hidden_node workdir_fd newname n =
     n\<lparr>nd_hidden_dirfd := workdir_fd, nd_hidden_path := Some newname, nd_hidden := True,
       nd_do_rmdir := (if is_dir n then True else nd_do_rmdir n),
       nd_do_unlink := (if is_dir n then nd_do_unlink n else True)\<rparr>"

definition hide_node :: "'w os \<Rightarrow> node_id \<Rightarrow> bool \<Rightarrow> ('w fs, unit fs_result) prog" where
  "hide_node os node_id unlink_src =
     withS (\<lambda>s. case upper_res s of
         Inl e \<Rightarrow> ret (Inl e)
       | Inr up \<Rightarrow>
           bindS next_wd_counter (\<lambda>c.
           bindE (ret (cstr (show_nat c))) (\<lambda>newname.
           bindE (if unlink_src then hide_source os node_id (ds_root_fd (ly_ds up)) newname else ok ()) (\<lambda>_.
           withS (\<lambda>s. case arena_get (fs_nodes s) node_id of
               None \<Rightarrow> fail ENOENT
             | Some node \<Rightarrow>
                 doS (update_node node_id (hidden_node (fs_workdir_fd s) newname))
                (doS (case nd_parent node of None \<Rightarrow> ret () | Some pid \<Rightarrow> update_node pid mark_unloaded)
                (doS (update_node node_id (\<lambda>n. n\<lparr>nd_parent := None\<rparr>))
                     (ok ()))))))))"

definition create_and_register_child ::
  "node_id \<Rightarrow> bytes \<Rightarrow> stat \<Rightarrow> bool \<Rightarrow> ('w fs, (node_id \<times> 64 word) option) prog" where
  "create_and_register_child parent_id name st is_directory =
     (let child0 = (node_new name 0 (st_ino st) (st_dev st) is_directory)
                     \<lparr>nd_parent := Some parent_id, nd_mode := st_mode st\<rparr>;
          child = (if is_directory then mark_loaded child0 else child0)
      in bindS (insert_node child) (\<lambda>child_id.
         bindS (register_node child_id (st_ino st) (st_dev st) (st_mode st)) (\<lambda>r. case r of
             None \<Rightarrow> ret None
           | Some fuse_ino \<Rightarrow>
               doS (mod_inodes (inc_lookup (InodeKey (st_ino st) (st_dev st))))
              (withS (\<lambda>s. if arena_get (fs_nodes s) parent_id = None then ret None
                 else doS (update_node parent_id (insert_child name child_id))
                          (ret (Some (child_id, fuse_ino))))))))"

definition prepare_create_parent ::
  "'w os \<Rightarrow> 64 word \<Rightarrow> bytes \<Rightarrow> ('w fs, (node_id \<times> bytes \<times> int \<times> bytes) fs_result) prog" where
  "prepare_create_parent os parent_ino name =
     bindS (do_lookup_file os parent_ino None) (\<lambda>r. case r of
         None \<Rightarrow> fail ENOENT
       | Some pnode_id \<Rightarrow>
           bindE (get_node_up os pnode_id) (\<lambda>_.
           withS (\<lambda>s.
             let pnode_path = node_path s pnode_id in
             ok (pnode_id, pnode_path, upper_root_fd s, child_path pnode_path name))))"

definition stat_and_register_child ::
  "node_id \<Rightarrow> bytes \<Rightarrow> bytes \<Rightarrow> ('w fs, (64 word \<times> file_attr) fs_result) prog" where
  "stat_and_register_child pnode_id name path =
     withS (\<lambda>s. case ds_statat (ly_ds (fs_layers s ! 0)) path AT_SYMLINK_NOFOLLOW STATX_BASIC_STATS (fs_world s) of
         Inl e \<Rightarrow> ret (Inl e)
       | Inr st \<Rightarrow>
           bindS (create_and_register_child pnode_id name st (st_mode st AND S_IFMT = S_IFDIR)) (\<lambda>r. case r of
               Some (_, fuse_ino) \<Rightarrow> ok (fuse_ino, (stat_to_attr st)\<lparr>fa_ino := fuse_ino\<rparr>)
             | None \<Rightarrow> fail ENOMEM))"

section \<open>The invariant\<close>

lemma keeps_ok_obs [keeps_intro]: "keeps (fs_ok L r) (obs f)"
  unfolding obs_def by (intro keeps_intro)

lemma keeps_ok_looping [keeps_intro]: "keeps (fs_ok L r) (looping m)"
  by (rule ok_copyup.keeps_I_looping)

lemma keeps_ok_inherit_acl [keeps_intro]: "keeps (fs_ok L r) (inherit_acl os p fd)"
  unfolding inherit_acl_def by (intro keeps_intro)

lemma keeps_ok_hide_source [keeps_intro]: "keeps (fs_ok L r) (hide_source os i fd n)"
  unfolding hide_source_def by (intro keeps_intro)

lemma keeps_ok_hidden_node [keeps_intro]: "keeps (fs_ok L r) (update_node i (hidden_node fd n))"
  by (rule keeps_ok_update_node)
    (auto simp: node_ok_def hidden_node_def children_def is_dir_def split: option.splits dir_state.splits)

lemma keeps_ok_detach [keeps_intro]: "keeps (fs_ok L r) (update_node i (\<lambda>n. n\<lparr>nd_parent := None\<rparr>))"
  by (rule keeps_ok_update_node) (auto simp: node_ok_def children_def is_dir_def)

lemma keeps_ok_hide_node [keeps_intro]: "keeps (fs_ok L r) (hide_node os i b)"
  unfolding hide_node_def by (intro keeps_intro)

lemma fs_ok_pos: "fs_ok L r s \<Longrightarrow> 0 < L"
  using fs_okD(5,6) by (fastforce simp: node_ok_def)

lemma keeps_ok_inc_lookup [keeps_intro]: "keeps (fs_ok L r) (mod_inodes (inc_lookup k))"
  by (rule keeps_ok_mod_inodes) (rule table_wf_inc_lookup)

lemma keeps_ok_remove_node_id [keeps_intro]: "keeps (fs_ok L r) (mod_inodes (remove_node_id k i))"
  by (rule keeps_ok_mod_inodes) (rule table_wf_remove_node_id)

lemma keeps_fs_ok_pos: "(0 < L \<Longrightarrow> keeps (fs_ok L r) m) \<Longrightarrow> keeps (fs_ok L r) m"
  using fs_ok_pos by (fastforce simp: keeps_def)

lemma keeps_ok_create_and_register_child [keeps_intro]:
  "keeps (fs_ok L r) (create_and_register_child p name st d)"
proof (rule keeps_fs_ok_pos)
  assume "0 < L"
  then show ?thesis
    unfolding create_and_register_child_def Let_def
    by (intro keeps_bindS_val[OF yields_insert_node] keeps_intro keeps_ok_insert_child)
      (simp_all add: node_ok_parent node_ok_new)
qed

lemma keeps_ok_prepare_create_parent [keeps_intro]:
  "keeps (fs_ok L r) (prepare_create_parent os ino name)"
  unfolding prepare_create_parent_def by (intro keeps_intro)

lemma keeps_ok_stat_and_register_child [keeps_intro]:
  "keeps (fs_ok L r) (stat_and_register_child p name path)"
  unfolding stat_and_register_child_def by (intro keeps_intro)

section \<open>Hiding a node\<close>

lemma world_renameat_Inr:
  "world (renameat os dfd nm wfd newname) t = (Inr (), s') \<Longrightarrow>
   k_renameat os dfd nm wfd newname (fs_world t) = (Inr (), fs_world s')"
  by (simp add: world_run renameat_def lift_eff_Inr)

text \<open>The calls of \<^verbatim>\<open>hide_source\<close> when a whiteout is needed.\<close>

lemma whiteout_then_rename:
  assumes "bindS (if can then bindS (world (renameat2 os dfd nm wfd newname 4)) (\<lambda>r. ret (\<not> isl r)) else ret False)
    (\<lambda>rename_wh_ok. if rename_wh_ok then ok ()
       else bindE (withS (\<lambda>s. create_whiteout os upper_fd (node_path s p) name (fs_can_mknod s)))
              (\<lambda>_. world (renameat os dfd nm wfd newname))) s1 = (Inr (), s')"
  shows "can \<and> k_renameat2 os dfd nm wfd newname 4 (fs_world s1) = (Inr (), fs_world s') \<or>
    (\<exists>t t'. create_whiteout os upper_fd (node_path t p) name (fs_can_mknod t) t = (Inr (), t') \<and>
       k_renameat os dfd nm wfd newname (fs_world t') = (Inr (), fs_world s'))"
proof -
  from assms obtain b s2 where
    b: "(if can then bindS (world (renameat2 os dfd nm wfd newname 4)) (\<lambda>r. ret (\<not> isl r)) else ret False) s1 = (b, s2)" and
    k: "(if b then ok ()
         else bindE (withS (\<lambda>s. create_whiteout os upper_fd (node_path s p) name (fs_can_mknod s)))
               (\<lambda>_. world (renameat os dfd nm wfd newname))) s2 = (Inr (), s')"
    by (auto simp: bindS_iff)
  show ?thesis
  proof (cases b)
    case False
    with k show ?thesis by (auto simp: bindE_Inr_iff withS_def dest!: world_renameat_Inr)
  next
    case True
    with k have "s2 = s'" by simp
    with b True obtain r where "can" "world (renameat2 os dfd nm wfd newname 4) s1 = (r, s')" "\<not> isl r"
      by (auto simp: bindS_iff split: if_splits)
    then show ?thesis by (cases r) (auto simp: world_run renameat2_def lift_eff_Inr)
  qed
qed


text \<open>Witness: the link of the lower layer (see \<^verbatim>\<open>get_node_up\<close>), on a kernel with \<^verbatim>\<open>RENAME_WHITEOUT\<close>.\<close>

lemma link_fs_root_path: "node_path link_fs 1 = ''.''"
  by (simp add: node_path_def compute_path_def link_fs_simps node_new_def path_walk_pos del: path_walk.simps)

lemma link_fs_flags: "fs_can_mknod link_fs" "fs_workdir_fd link_fs = 5" "fs_world link_fs = ()"
  by (simp_all add: link_fs_def sample_fs_def overlay_new_def arena_insert_def Let_def)

lemma link_fs_parent:
  "open_parent_safe_cstr os 3 (node_path link_fs 2) (fs_world link_fs) = (Inr (3, ''l''), ())"
  by (simp add: node_path_def link_path open_parent_safe_cstr_def open_parent_safe_def bindE_def bindS_def ret_def
      with_cstrP_def cstr_bytes_def)

definition rename_wh_os :: "unit os" where
  "rename_wh_os = refusing_os\<lparr>k_renameat2 := \<lambda>_ _ _ _ _ w. (Inr (), w)\<rparr>"



text \<open>Witness: the link of the lower layer, on a kernel without \<^verbatim>\<open>RENAME_WHITEOUT\<close>.\<close>

definition no_rename_wh_os :: "unit os" where
  "no_rename_wh_os = refusing_os\<lparr>k_renameat2 := \<lambda>_ _ _ _ _ w. (Inl EINVAL, w),
     k_mknodat := \<lambda>_ _ _ _ w. (Inl EEXIST, w), k_fstatat := \<lambda>_ _ _ w. Inr (zeroed_stat\<lparr>st_mode := S_IFREG\<rparr>)\<rparr>"


end
