(* ===== verification/Handlers_Names.thy ===== *)
theory Handlers_Names
  imports Overlay_Ops
begin

text \<open>
  \<^verbatim>\<open>src/overlay.rs\<close>, the FUSE handlers that work on names and attributes: \<^verbatim>\<open>lookup\<close>, \<^verbatim>\<open>forget\<close>, \<^verbatim>\<open>getattr\<close>,
  \<^verbatim>\<open>setattr\<close>, \<^verbatim>\<open>readlink\<close>, \<^verbatim>\<open>mknod\<close>, \<^verbatim>\<open>mkdir\<close>, \<^verbatim>\<open>unlink\<close>, \<^verbatim>\<open>rmdir\<close>, \<^verbatim>\<open>symlink\<close>, \<^verbatim>\<open>rename\<close> and \<^verbatim>\<open>link\<close>. A handler is
  a program that returns the reply. Sections that run under separate acquisitions of the lock are
  separate definitions (\<^verbatim>\<open>lookup\<close> has a fast and a slow one). Every handler keeps the invariant.
\<close>

section \<open>Helpers\<close>

definition ask :: "('w fs \<Rightarrow> 'a) \<Rightarrow> ('w fs, 'a) prog" where
  "ask f = withS (\<lambda>s. ret (f s))"

abbreviation reply_err :: "int \<Rightarrow> ('s, reply) prog" where
  "reply_err e \<equiv> ret (RError e)"

text \<open>\<^verbatim>\<open>match safe_parent(fd, path) { Ok((_guard, dirfd, c_name)) => .., Err(e) => Err(e) }\<close>.\<close>

definition at_safe_parent ::
  "'w os \<Rightarrow> int \<Rightarrow> bytes \<Rightarrow> (int \<Rightarrow> bytes \<Rightarrow> ('w, 'a fs_result) prog) \<Rightarrow> ('w fs, 'a fs_result) prog" where
  "at_safe_parent os fd path f =
     bindE (world (open_parent_safe_cstr os fd path)) (\<lambda>(dirfd, c_name). world (f dirfd c_name))"

section \<open>lookup and forget\<close>

definition lookup_fast :: "'w os \<Rightarrow> 64 word \<Rightarrow> bytes \<Rightarrow> ('w fs, reply option) prog" where
  "lookup_fast os parent name =
     withS (\<lambda>s. case lookup_node_id os s parent of
         None \<Rightarrow> ret None
       | Some parent_id \<Rightarrow>
           let pnode = arena_get (fs_nodes s) parent_id in
           if (case pnode of Some p \<Rightarrow> is_whiteout p name | None \<Rightarrow> False) then ret (Some (RError ENOENT))
           else (case Option.bind pnode (\<lambda>p. get_child p name) of
               None \<Rightarrow> ret None
             | Some child_id \<Rightarrow>
                 (case arena_get (fs_nodes s) child_id of
                    None \<Rightarrow> ret (Some (RError ENOENT))
                  | Some node \<Rightarrow>
                      if nd_hidden node then ret (Some (RError ENOENT))
                      else
                        let key = InodeKey (nd_tmp_ino node) (nd_tmp_dev node) in
                        (case get_by_key (fs_inodes s) key of
                           None \<Rightarrow> ret None
                         | Some ovl_ino \<Rightarrow>
                             if child_id \<in> set (oi_nodes ovl_ino) then
                               (case rpl_stat_with_path os s child_id (-1) (node_path s child_id) of
                                  Inl _ \<Rightarrow> ret None
                                | Inr st \<Rightarrow>
                                    doS (mod_inodes (inc_lookup key))
                                        (ret (Some (reply_entry (fs_config s)
                                           ((stat_to_attr st)\<lparr>fa_ino := oi_fuse_ino ovl_ino\<rparr>)))))
                             else ret None))))"

definition lookup_slow :: "'w os \<Rightarrow> 64 word \<Rightarrow> bytes \<Rightarrow> ('w fs, reply) prog" where
  "lookup_slow os parent name =
     bindS (do_lookup_file os parent (Some name)) (\<lambda>r. case r of
         None \<Rightarrow> reply_err ENOENT
       | Some node_id \<Rightarrow>
           withS (\<lambda>s.
             if is_whiteout_or_missing s node_id then reply_err ENOENT
             else
               bindS (if \<not> static_nlink (fs_config s) \<and>
                         (case arena_get (fs_nodes s) node_id of Some n \<Rightarrow> is_dir n | None \<Rightarrow> False)
                      then reload_dir os node_id else ret True) (\<lambda>reloaded.
               if \<not> reloaded then reply_err EIO
               else withS (\<lambda>s. case rpl_stat os s node_id (-1) of
                   Inl e \<Rightarrow> reply_err (errno_of e)
                 | Inr st \<Rightarrow>
                     (case node_at s node_id of
                        Inl e \<Rightarrow> reply_err (errno_of e)
                      | Inr node \<Rightarrow>
                          let attr = stat_to_attr st; cfg = fs_config s in
                          if nd_tmp_ino node \<noteq> 0 \<or> is_dir node then
                            bindS (register_node node_id (nd_tmp_ino node) (nd_tmp_dev node) (st_mode st))
                              (\<lambda>reg. case reg of
                                 None \<Rightarrow> reply_err ENOMEM
                               | Some ino_val \<Rightarrow>
                                   doS (mod_inodes (inc_lookup (InodeKey (nd_tmp_ino node) (nd_tmp_dev node))))
                                       (ret (reply_entry cfg (attr\<lparr>fa_ino := ino_val\<rparr>))))
                          else ret (reply_entry cfg (attr\<lparr>fa_ino := 1\<rparr>)))))))"

definition lookup_op :: "'w os \<Rightarrow> 64 word \<Rightarrow> bytes \<Rightarrow> ('w fs, reply) prog" where
  "lookup_op os parent name =
     (if starts_with name ''.wh.'' then reply_err ENOENT
      else withS (\<lambda>s.
        if duration_from_secs_f64 (timeout (fs_config s)) = None then ret RPanic
        else bindS (lookup_fast os parent name) (\<lambda>r. case r of
            Some reply \<Rightarrow> ret reply
          | None \<Rightarrow> lookup_slow os parent name)))"

definition forget_op :: "64 word \<Rightarrow> 64 word \<Rightarrow> ('w fs, reply) prog" where
  "forget_op ino nlookup = doS (mod_inodes (\<lambda>t. snd (forget ino nlookup t))) (ret RNone)"

section \<open>Attributes\<close>

definition getattr_op :: "'w os \<Rightarrow> 64 word \<Rightarrow> ('w fs, reply) prog" where
  "getattr_op os ino =
     (if ino = 1 then
        doS (ensure_root_loaded os)
       (withS (\<lambda>s. bindR (ret (rpl_stat os s (fs_root_id s) (-1)))
          (\<lambda>st. ret (reply_attr (fs_config s) (stat_to_attr st)))))
      else withS (\<lambda>s.
        bindR (ret (resolve_node os s ino)) (\<lambda>node_id.
        bindR (ret (rpl_stat os s node_id (-1))) (\<lambda>st.
        ret (reply_attr (fs_config s) (stat_to_attr st))))))"

text \<open>A \<^verbatim>\<open>SystemTime\<close> is its seconds relative to 1970 and nanoseconds; earlier times become 0.\<close>

datatype time_or_now = SpecificTime int "32 word" | Now

abbreviation (input) UTIME_NOW :: "64 word" where "UTIME_NOW \<equiv> 0x3FFFFFFF"
abbreviation (input) UTIME_OMIT :: "64 word" where "UTIME_OMIT \<equiv> 0x3FFFFFFE"

definition setattr_time :: "time_or_now option \<Rightarrow> timespec" where
  "setattr_time t =
     (case t of
        None \<Rightarrow> \<lparr>tv_sec = 0, tv_nsec = UTIME_OMIT\<rparr>
      | Some (SpecificTime secs nsec) \<Rightarrow>
          if secs < 0 then \<lparr>tv_sec = 0, tv_nsec = 0\<rparr>
          else \<lparr>tv_sec = word_of_int secs, tv_nsec = ucast nsec\<rparr>
      | Some Now \<Rightarrow> \<lparr>tv_sec = 0, tv_nsec = UTIME_NOW\<rparr>)"

definition setattr_times ::
  "'w os \<Rightarrow> int \<Rightarrow> int \<Rightarrow> bytes \<Rightarrow> time_or_now option \<Rightarrow> time_or_now option \<Rightarrow> ('w fs, unit fs_result) prog" where
  "setattr_times os fd root_fd path atime mtime =
     (let ts = (setattr_time atime, setattr_time mtime) in
      if tv_nsec (fst ts) \<noteq> UTIME_OMIT \<or> tv_nsec (snd ts) \<noteq> UTIME_OMIT then
        if 0 \<le> fd then world (futimens os fd ts)
        else at_safe_parent os root_fd path (\<lambda>dirfd c_name. utimensat os dirfd c_name ts AT_SYMLINK_NOFOLLOW)
      else ok ())"

text \<open>Owner and mode kept in the override attribute.\<close>

definition setattr_override ::
  "'w os \<Rightarrow> int \<Rightarrow> 'w data_source \<Rightarrow> bytes \<Rightarrow> bytes \<Rightarrow> 32 word option \<Rightarrow> 32 word option \<Rightarrow> 32 word option \<Rightarrow>
     ('w fs, unit fs_result) prog" where
  "setattr_override os fd ds path xattr_name mode uid gid =
     withS (\<lambda>s. let w = fs_world s in
       case (if 0 \<le> fd then fstat os fd w else ds_statat ds path AT_SYMLINK_NOFOLLOW 0xFFF w) of
         Inl e \<Rightarrow> ret (Inl e)
       | Inr st \<Rightarrow>
           let on_disk = (st_uid st, st_gid st, st_mode st AND 0xFFF);
               (cur_uid, cur_gid, cur_mode) =
                 (if 0 \<le> fd then
                    (case fgetxattr os fd xattr_name 64 w of
                       Inr buf \<Rightarrow> (case from_utf8 buf of Some t \<Rightarrow> parse_override_fields t st | None \<Rightarrow> on_disk)
                     | Inl _ \<Rightarrow> on_disk)
                  else on_disk);
               new_uid = (case uid of Some u \<Rightarrow> map_uid s u | None \<Rightarrow> cur_uid);
               new_gid = (case gid of Some g \<Rightarrow> map_gid s g | None \<Rightarrow> cur_gid);
               new_mode = (case mode of Some m \<Rightarrow> m AND 0xFFF | None \<Rightarrow> cur_mode);
               val = format_override new_uid new_gid new_mode
           in if 0 \<le> fd then world (fsetxattr os fd xattr_name val 0)
              else world (lsetxattr os (proc_fd_path (upper_root_fd s) path) xattr_name val 0))"

definition setattr_chmod :: "'w os \<Rightarrow> int \<Rightarrow> int \<Rightarrow> bytes \<Rightarrow> 32 word option \<Rightarrow> ('w fs, unit fs_result) prog" where
  "setattr_chmod os fd root_fd path mode =
     (case mode of
        None \<Rightarrow> ok ()
      | Some new_mode \<Rightarrow>
          if 0 \<le> fd then world (fchmod os fd new_mode)
          else at_safe_parent os root_fd path (\<lambda>dirfd c_name. fchmodat os dirfd c_name new_mode 0))"

definition setattr_chown ::
  "'w os \<Rightarrow> int \<Rightarrow> int \<Rightarrow> bytes \<Rightarrow> 32 word option \<Rightarrow> 32 word option \<Rightarrow> ('w fs, unit fs_result) prog" where
  "setattr_chown os fd root_fd path uid gid =
     (if uid = None \<and> gid = None then ok ()
      else withS (\<lambda>s.
        let new_uid = (case uid of Some u \<Rightarrow> map_uid s u | None \<Rightarrow> -1);
            new_gid = (case gid of Some g \<Rightarrow> map_gid s g | None \<Rightarrow> -1)
        in if 0 \<le> fd then world (fchown os fd new_uid new_gid)
           else at_safe_parent os root_fd path (\<lambda>dirfd c_name.
                  fchownat os dirfd c_name new_uid new_gid AT_SYMLINK_NOFOLLOW)))"

definition setattr_size :: "'w os \<Rightarrow> int \<Rightarrow> int \<Rightarrow> bytes \<Rightarrow> 64 word option \<Rightarrow> ('w fs, unit fs_result) prog" where
  "setattr_size os fd root_fd path new_size =
     (case new_size of
        None \<Rightarrow> ok ()
      | Some n \<Rightarrow>
          if 0 \<le> fd then world (ftruncate os fd n)
          else at_safe_parent os root_fd path (\<lambda>dirfd c_name.
                 case cstr_bytes (proc_fd_path dirfd c_name) of
                   Inl _ \<Rightarrow> fail EINVAL
                 | Inr c \<Rightarrow> Sys.truncate os c n))"

definition setattr_op ::
  "'w os \<Rightarrow> 64 word \<Rightarrow> 32 word option \<Rightarrow> 32 word option \<Rightarrow> 32 word option \<Rightarrow> 64 word option \<Rightarrow>
     time_or_now option \<Rightarrow> time_or_now option \<Rightarrow> nat option \<Rightarrow> ('w fs, reply) prog" where
  "setattr_op os ino mode uid gid new_size atime mtime fh =
     bindR (ask (\<lambda>s. resolve_node os s ino)) (\<lambda>node_id.
     bindR (get_node_up os node_id) (\<lambda>_.
     bindR (ask (\<lambda>s. node_and_layer s node_id)) (\<lambda>(_, layer).
     withS (\<lambda>s.
       let path = node_path s node_id; ds = ly_ds layer; root_fd = ds_root_fd ds in
       bindS (case Option.bind fh (fs_open_files s) of
                Some f \<Rightarrow> ret f
              | None \<Rightarrow>
                  bindS (world (ds_openat ds path (O_NOFOLLOW OR O_NONBLOCK OR
                           (if new_size \<noteq> None then O_WRONLY else O_RDONLY)) 0))
                    (\<lambda>r. ret (case r of Inr f \<Rightarrow> f | Inl _ \<Rightarrow> -1))) (\<lambda>fd.
       bindR (setattr_times os fd root_fd path atime mtime) (\<lambda>_.
       bindR (case override_xattr_name (ds_stat_override_mode ds) of
                Some xattr_name \<Rightarrow>
                  if mode \<noteq> None \<or> uid \<noteq> None \<or> gid \<noteq> None
                  then setattr_override os fd ds path xattr_name mode uid gid
                  else ok ()
              | None \<Rightarrow>
                  bindE (setattr_chmod os fd root_fd path mode) (\<lambda>_.
                  setattr_chown os fd root_fd path uid gid)) (\<lambda>_.
       bindR (setattr_size os fd root_fd path new_size) (\<lambda>_.
       withS (\<lambda>s. case do_getattr os s node_id of
           Some attr \<Rightarrow> ret (reply_attr (fs_config s) attr)
         | None \<Rightarrow> reply_err EIO)))))))))"

definition readlink_op :: "'w os \<Rightarrow> 64 word \<Rightarrow> ('w fs, reply) prog" where
  "readlink_op os ino =
     withS (\<lambda>s. case lookup_node_id os s ino of
         None \<Rightarrow> reply_err ENOENT
       | Some node_id \<Rightarrow>
           bindR (ret (node_and_layer s node_id)) (\<lambda>(_, layer).
           bindR (ret (ds_readlinkat (ly_ds layer) (node_path s node_id) (fs_world s))) (\<lambda>target.
           ret (RData target))))"

section \<open>Creation\<close>

text \<open>The checks with which \<^verbatim>\<open>mknod\<close>, \<^verbatim>\<open>mkdir\<close>, \<^verbatim>\<open>symlink\<close> start: length and existence of the name.\<close>

definition check_new_name :: "'w os \<Rightarrow> 64 word \<Rightarrow> bytes \<Rightarrow> ('w fs, unit fs_result) prog" where
  "check_new_name os parent name =
     withS (\<lambda>s. if length name > get_fs_namemax os s then fail ENAMETOOLONG
       else bindS (do_lookup_file os parent (Some name)) (\<lambda>r.
         withS (\<lambda>s. case r of
             Some eid \<Rightarrow> if \<not> is_whiteout_or_missing s eid then fail EEXIST else ok ()
           | None \<Rightarrow> ok ())))"

text \<open>Ownership of a file made in the work directory by the request of \<open>(uid, gid)\<close>.\<close>

definition chown_new :: "'w os \<Rightarrow> bytes \<Rightarrow> 32 word \<times> 32 word \<Rightarrow> ('w fs, unit) prog" where
  "chown_new os wd_name req =
     withS (\<lambda>s. doS (world (fchownat os (fs_workdir_fd s) wd_name (map_uid s (fst req)) (map_gid s (snd req))
                             AT_SYMLINK_NOFOLLOW)) (ret ()))"

text \<open>The end of a creation: rename into place, or remove the work file and report the error.\<close>

definition move_new :: "'w os \<Rightarrow> bytes \<Rightarrow> oflags \<Rightarrow> int \<Rightarrow> bytes \<Rightarrow> bool \<Rightarrow> ('w fs, int fs_result) prog" where
  "move_new os wd_name rm_flags upper_fd path retry_notdir =
     withS (\<lambda>s. let wfd = fs_workdir_fd s in
       bindS (world (open_parent_safe_cstr os upper_fd path)) (\<lambda>r. case r of
           Inl e \<Rightarrow> doS (world (unlinkat os wfd wd_name rm_flags)) (ret (Inl e))
         | Inr (dst_dirfd, dst_name) \<Rightarrow>
             bindS (world (renameat os wfd wd_name dst_dirfd dst_name)) (\<lambda>r. case r of
                 Inr _ \<Rightarrow> ok dst_dirfd
               | Inl e \<Rightarrow>
                   if retry_notdir \<and> errno_of e = ENOTDIR then
                     doS (world (unlinkat os dst_dirfd dst_name 0))
                    (bindS (world (renameat os wfd wd_name dst_dirfd dst_name)) (\<lambda>r. case r of
                         Inr _ \<Rightarrow> ok dst_dirfd
                       | Inl e \<Rightarrow> doS (world (unlinkat os wfd wd_name rm_flags)) (ret (Inl e))))
                   else doS (world (unlinkat os wfd wd_name rm_flags)) (ret (Inl e)))))"

definition finish_new ::
  "'w os \<Rightarrow> int \<Rightarrow> int \<Rightarrow> node_id \<Rightarrow> bytes \<Rightarrow> bytes \<Rightarrow> bytes \<Rightarrow> ('w fs, reply) prog" where
  "finish_new os upper_fd dst_dirfd pnode_id pnode_path name path =
     doS (delete_whiteout os upper_fd (Some dst_dirfd) pnode_path name)
    (bindR (stat_and_register_child pnode_id name path) (\<lambda>(_, attr).
     ask (\<lambda>s. reply_entry (fs_config s) attr)))"

definition mknod_op ::
  "'w os \<Rightarrow> 32 word \<times> 32 word \<Rightarrow> 64 word \<Rightarrow> bytes \<Rightarrow> mode_t \<Rightarrow> 32 word \<Rightarrow> ('w fs, reply) prog" where
  "mknod_op os req parent name mode rdev =
     bindR (check_new_name os parent name) (\<lambda>_.
     bindR (prepare_create_parent os parent name) (\<lambda>(pnode_id, pnode_path, upper_fd, path).
     bindS next_wd_name (\<lambda>wd_name.
     bindR (withS (\<lambda>s. world (mknodat os (fs_workdir_fd s) wd_name (mode OR 0x1ED) (ucast rdev)))) (\<lambda>_.
     doS (chown_new os wd_name req)
    (bindS (withS (\<lambda>s. world (safe_openat os (fs_workdir_fd s) wd_name (O_RDONLY OR O_NONBLOCK) 0))) (\<lambda>r.
     doS (case r of Inr wd_fd \<Rightarrow> inherit_acl os pnode_id wd_fd | Inl _ \<Rightarrow> ret ())
    (bindR (move_new os wd_name 0 upper_fd path False) (\<lambda>dst_dirfd.
     finish_new os upper_fd dst_dirfd pnode_id pnode_path name path))))))))"

definition mkdir_op ::
  "'w os \<Rightarrow> 32 word \<times> 32 word \<Rightarrow> 64 word \<Rightarrow> bytes \<Rightarrow> mode_t \<Rightarrow> ('w fs, reply) prog" where
  "mkdir_op os req parent name mode =
     bindR (check_new_name os parent name) (\<lambda>_.
     bindR (prepare_create_parent os parent name) (\<lambda>(pnode_id, pnode_path, upper_fd, path).
     bindR (ask (\<lambda>s. node_at s pnode_id)) (\<lambda>pnode.
     bindS next_wd_name (\<lambda>wd_name.
     bindR (withS (\<lambda>s. world (mkdirat os (fs_workdir_fd s) wd_name mode))) (\<lambda>_.
     doS (chown_new os wd_name req)
    (doS (if nd_last_layer_idx pnode > 0
          then bindS (withS (\<lambda>s. world (safe_openat os (fs_workdir_fd s) wd_name (O_RDONLY OR O_DIRECTORY) 0)))
                 (\<lambda>r. case r of
                    Inr fd \<Rightarrow> doS (world (set_fd_opaque os fd)) (ret ())
                  | Inl _ \<Rightarrow> ret ())
          else ret ())
    (bindS (withS (\<lambda>s. world (safe_openat os (fs_workdir_fd s) wd_name (O_RDONLY OR O_DIRECTORY) 0))) (\<lambda>r.
     doS (case r of Inr fd \<Rightarrow> inherit_acl os pnode_id fd | Inl _ \<Rightarrow> ret ())
    (bindR (move_new os wd_name AT_REMOVEDIR upper_fd path True) (\<lambda>dst_dirfd.
     finish_new os upper_fd dst_dirfd pnode_id pnode_path name path))))))))))"

definition symlink_op ::
  "'w os \<Rightarrow> 32 word \<times> 32 word \<Rightarrow> 64 word \<Rightarrow> bytes \<Rightarrow> bytes \<Rightarrow> ('w fs, reply) prog" where
  "symlink_op os req parent name link =
     bindR (check_new_name os parent name) (\<lambda>_.
     bindR (prepare_create_parent os parent name) (\<lambda>(pnode_id, pnode_path, upper_fd, path).
     bindS next_wd_name (\<lambda>wd_name.
     bindR (ret (cstr_bytes link)) (\<lambda>c_link.
     bindR (withS (\<lambda>s. world (symlinkat os c_link (fs_workdir_fd s) wd_name))) (\<lambda>_.
     doS (chown_new os wd_name req)
    (bindR (move_new os wd_name 0 upper_fd path False) (\<lambda>dst_dirfd.
     finish_new os upper_fd dst_dirfd pnode_id pnode_path name path)))))))"

section \<open>Removal\<close>

text \<open>Does the directory show any child? A missing child counts as invisible.\<close>

definition has_visible_child :: "'w fs \<Rightarrow> node_id \<Rightarrow> bool" where
  "has_visible_child s i =
     (case Option.bind (arena_get (fs_nodes s) i) children of
        None \<Rightarrow> False
      | Some ch \<Rightarrow> list_ex (\<lambda>(_, c). case arena_get (fs_nodes s) c of
            Some child \<Rightarrow> \<not> nd_hidden child | None \<Rightarrow> False) ch)"

text \<open>Taking the removed node out of the tree, the inode table and the arena; the result is the number
  to invalidate when other names of the inode survive.\<close>

definition detach_removed :: "'w os \<Rightarrow> node_id \<Rightarrow> bytes \<Rightarrow> ('w fs, 64 word option) prog" where
  "detach_removed os pnode_id name =
     withS (\<lambda>s. case Option.bind (arena_get (fs_nodes s) pnode_id) (\<lambda>p. get_child p name) of
         None \<Rightarrow> ret None
       | Some removed_id \<Rightarrow>
           doS (update_node pnode_id (remove_child name))
          (bindS (withS (\<lambda>s. case arena_get (fs_nodes s) removed_id of
               None \<Rightarrow> ret None
             | Some node \<Rightarrow>
                 let key = InodeKey (nd_tmp_ino node) (nd_tmp_dev node);
                     inval = (case get_by_key (fs_inodes s) key of
                         None \<Rightarrow> None
                       | Some oi \<Rightarrow>
                           if list_ex (\<lambda>i. i \<noteq> removed_id \<and> arena_contains (fs_nodes s) i) (oi_nodes oi)
                           then key_to_fuse_ino (fs_inodes s) key else None)
                 in doS (mod_inodes (remove_node_id key removed_id)) (ret inval))) (\<lambda>inval.
           doS (remove_node os removed_id) (ret inval))))"

definition notify_inval :: "64 word option \<Rightarrow> ('w fs, unit) prog" where
  "notify_inval f =
     modS (\<lambda>s. case f of
         Some ino \<Rightarrow> if fs_notifier s then s\<lparr>fs_notified := fs_notified s @ [ino]\<rparr> else s
       | None \<Rightarrow> s)"

definition do_rm :: "'w os \<Rightarrow> 64 word \<Rightarrow> bytes \<Rightarrow> bool \<Rightarrow> ('w fs, reply) prog" where
  "do_rm os parent name is_directory =
     bindS (do_lookup_file os parent (Some name)) (\<lambda>r. case r of
         None \<Rightarrow> reply_err ENOENT
       | Some node_id \<Rightarrow>
     withS (\<lambda>s. if is_whiteout_or_missing s node_id then reply_err ENOENT
       else
     bindR (if is_directory
            then doS (reload_dir os node_id)
                     (ask (\<lambda>s. if has_visible_child s node_id then Inl (FsError ENOTEMPTY) else Inr ()))
            else ok ()) (\<lambda>_.
     bindR (get_node_up os node_id) (\<lambda>_.
     bindS (do_lookup_file os parent None) (\<lambda>r. case r of
         None \<Rightarrow> reply_err ENOENT
       | Some pnode_id \<Rightarrow>
     bindR (get_node_up os pnode_id) (\<lambda>_.
     bindR (hide_node os node_id True) (\<lambda>_.
     bindS (detach_removed os pnode_id name) (\<lambda>inval.
     doS (notify_inval inval) (ret ROk)))))))))"

definition unlink_op :: "'w os \<Rightarrow> 64 word \<Rightarrow> bytes \<Rightarrow> ('w fs, reply) prog" where
  "unlink_op os parent name = do_rm os parent name False"

definition rmdir_op :: "'w os \<Rightarrow> 64 word \<Rightarrow> bytes \<Rightarrow> ('w fs, reply) prog" where
  "rmdir_op os parent name = do_rm os parent name True"

section \<open>rename and link\<close>

definition rename_check_source :: "'w os \<Rightarrow> node_id \<Rightarrow> ('w fs, unit fs_result) prog" where
  "rename_check_source os src_id =
     withS (\<lambda>s. case arena_get (fs_nodes s) src_id of
         None \<Rightarrow> ok ()
       | Some node \<Rightarrow>
           if is_dir node then
             doS (reload_dir os src_id)
            (bindE (ask (\<lambda>s. node_at s src_id)) (\<lambda>node.
               if nd_layer_idx node > 0 \<or> nd_last_layer_idx node > 0 then fail EXDEV else ok ()))
           else ok ())"

definition rename_check_dest :: "'w os \<Rightarrow> 64 word \<Rightarrow> bytes \<Rightarrow> 32 word \<Rightarrow> ('w fs, unit fs_result) prog" where
  "rename_check_dest os newparent newname flags =
     bindS (do_lookup_file os newparent (Some newname)) (\<lambda>r. case r of
         None \<Rightarrow> ok ()
       | Some dst_id \<Rightarrow>
           withS (\<lambda>s.
             if is_whiteout_or_missing s dst_id then ok ()
             else if flags AND 1 \<noteq> 0 then fail EEXIST
             else if flags AND 2 = 0 \<and>
                     (case arena_get (fs_nodes s) dst_id of Some n \<Rightarrow> is_dir n | None \<Rightarrow> False) then
               doS (reload_dir os dst_id)
              (withS (\<lambda>s.
                 if has_visible_child s dst_id then fail ENOTEMPTY
                 else doS (world (empty_upper_dir os (fs_layers s ! 0) (node_path s dst_id))) (ok ())))
             else ok ()))"

definition renamed_node :: "bytes \<Rightarrow> node_id option \<Rightarrow> ovl_node \<Rightarrow> ovl_node" where
  "renamed_node name parent n =
     n\<lparr>nd_name := name, nd_name_hash := fnv1a_name_hash name, nd_parent := parent\<rparr>"

definition rename_exchange :: "node_id \<Rightarrow> bytes \<Rightarrow> node_id \<Rightarrow> bytes \<Rightarrow> ('w fs, unit fs_result) prog" where
  "rename_exchange sparent_id name dparent_id newname =
     withS (\<lambda>s. let src_child = Option.bind (arena_get (fs_nodes s) sparent_id) (\<lambda>p. get_child p name) in
     doS (update_node sparent_id (remove_child name))
    (withS (\<lambda>s. let dst_child = Option.bind (arena_get (fs_nodes s) dparent_id) (\<lambda>p. get_child p newname) in
     doS (update_node dparent_id (remove_child newname))
    (case src_child of None \<Rightarrow> fail EIO
     | Some sid \<Rightarrow>
    (case dst_child of None \<Rightarrow> fail EIO
     | Some did \<Rightarrow>
     withS (\<lambda>s. case arena_get (fs_nodes s) sid of None \<Rightarrow> fail EIO
     | Some snode \<Rightarrow>
    (case arena_get (fs_nodes s) did of None \<Rightarrow> fail EIO
     | Some dnode \<Rightarrow>
     doS (update_node sid (\<lambda>n. mark_unloaded (renamed_node (nd_name dnode) (nd_parent dnode) n)))
    (doS (update_node did (\<lambda>n. mark_unloaded (renamed_node (nd_name snode) (nd_parent snode) n)))
    (doS (update_node dparent_id (insert_child newname sid))
    (doS (update_node sparent_id (insert_child name did))
         (ok ())))))))))))"

text \<open>A regular rename: the node that had the new name leaves the tree, the moved one takes its place.\<close>

definition rename_replace ::
  "'w os \<Rightarrow> node_id \<Rightarrow> bytes \<Rightarrow> 64 word \<Rightarrow> node_id \<Rightarrow> bytes \<Rightarrow> ('w fs, unit fs_result) prog" where
  "rename_replace os sparent_id name newparent dparent_id newname =
     bindS (do_lookup_file os newparent (Some newname)) (\<lambda>r.
     doS (case r of None \<Rightarrow> ret ()
          | Some dst_id \<Rightarrow>
              withS (\<lambda>s. case arena_get (fs_nodes s) dst_id of
                  None \<Rightarrow> ret ()
                | Some node \<Rightarrow>
                    doS (mod_inodes (remove_node_id (InodeKey (nd_tmp_ino node) (nd_tmp_dev node)) dst_id))
                   (doS (update_node dparent_id (remove_child newname))
                        (remove_node os dst_id))))
    (withS (\<lambda>s. case Option.bind (arena_get (fs_nodes s) sparent_id) (\<lambda>p. get_child p name) of
         None \<Rightarrow> ok ()
       | Some child_id \<Rightarrow>
           doS (update_node sparent_id (remove_child name))
          (doS (update_node child_id (renamed_node newname (Some dparent_id)))
          (doS (update_node dparent_id (insert_child newname child_id))
               (ok ()))))))"

text \<open>\<^verbatim>\<open>rename\<close> after the source and both parents are on the upper layer.\<close>

definition rename_upper ::
  "'w os \<Rightarrow> bytes \<Rightarrow> 64 word \<Rightarrow> bytes \<Rightarrow> 32 word \<Rightarrow> node_id \<Rightarrow> node_id \<Rightarrow> node_id \<Rightarrow> ('w fs, reply) prog" where
  "rename_upper os name newparent newname flags src_id sparent_id dparent_id =
     withS (\<lambda>s. let upper_fd = upper_root_fd s; src_path = node_path s src_id;
         dparent_path = node_path s dparent_id; new_path = child_path dparent_path newname in
     bindR (rename_check_dest os newparent newname flags) (\<lambda>_.
     doS (withS (\<lambda>s.
            if (case arena_get (fs_nodes s) src_id of Some n \<Rightarrow> is_dir n | None \<Rightarrow> False)
            then doS (delete_whiteout os upper_fd None dparent_path newname) (ret ()) else ret ()))
    (bindR (world (open_parent_safe_cstr os upper_fd src_path)) (\<lambda>(src_dirfd, c_old).
     bindR (world (open_parent_safe_cstr os upper_fd new_path)) (\<lambda>(dst_dirfd, c_new).
     bindR (world (if flags \<noteq> 0 then renameat2 os src_dirfd c_old dst_dirfd c_new flags
                   else renameat os src_dirfd c_old dst_dirfd c_new)) (\<lambda>_.
     withS (\<lambda>s. let src_last_layer = (case arena_get (fs_nodes s) src_id of
           Some n \<Rightarrow> nd_last_layer_idx n | None \<Rightarrow> 0) in
     doS (update_node sparent_id mark_unloaded)
    (doS (if dparent_id \<noteq> sparent_id then update_node dparent_id mark_unloaded else ret ())
    (bindR (if flags AND 2 \<noteq> 0 then rename_exchange sparent_id name dparent_id newname
            else rename_replace os sparent_id name newparent dparent_id newname) (\<lambda>_.
     doS (if flags AND 2 = 0 \<and> src_last_layer > 0
          then withS (\<lambda>s. doS (create_whiteout os upper_fd (node_path s sparent_id) name (fs_can_mknod s)) (ret ()))
          else ret ())
         (ret ROk)))))))))))"

definition rename_op ::
  "'w os \<Rightarrow> 64 word \<Rightarrow> bytes \<Rightarrow> 64 word \<Rightarrow> bytes \<Rightarrow> 32 word \<Rightarrow> ('w fs, reply) prog" where
  "rename_op os parent name newparent newname flags =
     withS (\<lambda>s. if length newname > get_fs_namemax os s then reply_err ENAMETOOLONG
       else
     bindS (do_lookup_file os parent (Some name)) (\<lambda>r. case r of
         None \<Rightarrow> reply_err ENOENT
       | Some src_id \<Rightarrow>
     withS (\<lambda>s. if is_whiteout_or_missing s src_id then reply_err ENOENT
       else
     bindR (rename_check_source os src_id) (\<lambda>_.
     bindR (get_node_up os src_id) (\<lambda>_.
     bindS (do_lookup_file os parent None) (\<lambda>r. case r of
         None \<Rightarrow> reply_err ENOENT
       | Some sparent_id \<Rightarrow>
     bindR (get_node_up os sparent_id) (\<lambda>_.
     bindS (do_lookup_file os newparent None) (\<lambda>r. case r of
         None \<Rightarrow> reply_err ENOENT
       | Some dparent_id \<Rightarrow>
     bindR (get_node_up os dparent_id) (\<lambda>_.
     rename_upper os name newparent newname flags src_id sparent_id dparent_id)))))))))"

definition link_op :: "'w os \<Rightarrow> 64 word \<Rightarrow> 64 word \<Rightarrow> bytes \<Rightarrow> ('w fs, reply) prog" where
  "link_op os ino newparent newname =
     withS (\<lambda>s. if length newname > get_fs_namemax os s then reply_err ENAMETOOLONG
       else
     bindS (do_lookup_file os ino None) (\<lambda>r. case r of
         None \<Rightarrow> reply_err ENOENT
       | Some src_id \<Rightarrow>
     bindR (get_node_up os src_id) (\<lambda>_.
     bindS (do_lookup_file os newparent None) (\<lambda>r. case r of
         None \<Rightarrow> reply_err ENOENT
       | Some dparent_id \<Rightarrow>
     bindS (do_lookup_file os newparent (Some newname)) (\<lambda>r.
     withS (\<lambda>s. if (case r of Some dst_id \<Rightarrow> \<not> is_whiteout_or_missing s dst_id | None \<Rightarrow> False)
       then reply_err EEXIST
       else
     bindR (get_node_up os dparent_id) (\<lambda>_.
     withS (\<lambda>s. let src_path = node_path s src_id; dparent_path = node_path s dparent_id;
         upper_fd = upper_root_fd s; new_path = child_path dparent_path newname in
     doS (delete_whiteout os upper_fd None dparent_path newname)
    (bindR (world (open_parent_safe_cstr os upper_fd src_path)) (\<lambda>(src_dirfd, c_old).
     bindR (world (open_parent_safe_cstr os upper_fd new_path)) (\<lambda>(dst_dirfd, c_new_link).
     bindR (world (linkat os src_dirfd c_old dst_dirfd c_new_link 0)) (\<lambda>_.
     bindR (ask (\<lambda>s. ds_statat (ly_ds (fs_layers s ! 0)) new_path AT_SYMLINK_NOFOLLOW STATX_BASIC_STATS
                        (fs_world s))) (\<lambda>st.
     bindS (create_and_register_child dparent_id newname st False) (\<lambda>r. case r of
         None \<Rightarrow> reply_err ENOMEM
       | Some (_, fuse_ino) \<Rightarrow>
           ask (\<lambda>s. reply_entry (fs_config s) ((stat_to_attr st)\<lparr>fa_ino := fuse_ino\<rparr>))))))))))))))))"

section \<open>Every handler keeps the invariant\<close>

lemma keeps_ask [keeps_intro]: "keeps I (ask f)"
  unfolding ask_def by (intro keeps_intro)

lemma keeps_ok_at_safe_parent [keeps_intro]: "keeps (fs_ok L r) (at_safe_parent os fd path f)"
  unfolding at_safe_parent_def by (intro keeps_intro)

lemma keeps_ok_next_wd_name [keeps_intro]: "keeps (fs_ok L r) next_wd_name"
  unfolding next_wd_name_def by (intro keeps_intro)

lemma keeps_ok_lookup_fast [keeps_intro]: "keeps (fs_ok L r) (lookup_fast os parent name)"
  unfolding lookup_fast_def by (intro keeps_intro)

lemma keeps_ok_lookup_slow [keeps_intro]: "keeps (fs_ok L r) (lookup_slow os parent name)"
  unfolding lookup_slow_def by (intro keeps_intro)

lemma keeps_ok_lookup_op [keeps_intro]: "keeps (fs_ok L r) (lookup_op os parent name)"
  unfolding lookup_op_def by (intro keeps_intro)

lemma keeps_ok_forget_op [keeps_intro]: "keeps (fs_ok L r) (forget_op ino n)"
  unfolding forget_op_def by (intro keeps_intro keeps_ok_mod_inodes table_wf_forget)

lemma keeps_ok_getattr_op [keeps_intro]: "keeps (fs_ok L r) (getattr_op os ino)"
  unfolding getattr_op_def by (intro keeps_intro)

lemma keeps_ok_setattr_op [keeps_intro]:
  "keeps (fs_ok L r) (setattr_op os ino mode uid gid n atime mtime fh)"
  unfolding setattr_op_def setattr_times_def setattr_override_def setattr_chmod_def setattr_chown_def
    setattr_size_def
  by (intro keeps_intro)

lemma keeps_ok_readlink_op [keeps_intro]: "keeps (fs_ok L r) (readlink_op os ino)"
  unfolding readlink_op_def by (intro keeps_intro)

lemma keeps_ok_check_new_name [keeps_intro]: "keeps (fs_ok L r) (check_new_name os parent name)"
  unfolding check_new_name_def by (intro keeps_intro)

lemma keeps_ok_creation [keeps_intro]:
  "keeps (fs_ok L r) (chown_new os wd req)"
  "keeps (fs_ok L r) (move_new os wd fl fd path b)"
  "keeps (fs_ok L r) (finish_new os ufd dfd p pp name path)"
  unfolding chown_new_def move_new_def finish_new_def by (intro keeps_intro)+

lemma keeps_ok_mknod_op [keeps_intro]: "keeps (fs_ok L r) (mknod_op os req parent name mode rdev)"
  unfolding mknod_op_def by (intro keeps_intro)

lemma keeps_ok_mkdir_op [keeps_intro]: "keeps (fs_ok L r) (mkdir_op os req parent name mode)"
  unfolding mkdir_op_def by (intro keeps_intro)

lemma keeps_ok_symlink_op [keeps_intro]: "keeps (fs_ok L r) (symlink_op os req parent name link)"
  unfolding symlink_op_def by (intro keeps_intro)

lemma keeps_ok_notify [keeps_intro]: "keeps (fs_ok L r) (notify_inval f)"
  unfolding notify_inval_def
  by (rule keeps_modS) (auto intro: fs_ok_same split: option.splits)

lemma keeps_ok_detach_removed [keeps_intro]: "keeps (fs_ok L r) (detach_removed os p name)"
  unfolding detach_removed_def
  by (intro keeps_intro keeps_ok_remove_node) (auto dest: fs_ok_child_not_root)

lemma keeps_ok_do_rm [keeps_intro]: "keeps (fs_ok L r) (do_rm os parent name d)"
  unfolding do_rm_def by (intro keeps_intro)

lemma keeps_ok_unlink_op [keeps_intro]: "keeps (fs_ok L r) (unlink_op os parent name)"
  unfolding unlink_op_def by (intro keeps_intro)

lemma keeps_ok_rmdir_op [keeps_intro]: "keeps (fs_ok L r) (rmdir_op os parent name)"
  unfolding rmdir_op_def by (intro keeps_intro)

lemma keeps_ok_renamed:
  assumes "i \<noteq> r"
  shows "keeps (fs_ok L r) (update_node i (renamed_node name p))"
    "keeps (fs_ok L r) (update_node i (\<lambda>n. mark_unloaded (renamed_node name p n)))"
proof -
  have "node_ok L r i n \<Longrightarrow> node_ok L r i (renamed_node name p n)" for n
    using assms by (simp add: renamed_node_def node_ok_def children_def)
  then show "keeps (fs_ok L r) (update_node i (renamed_node name p))"
    "keeps (fs_ok L r) (update_node i (\<lambda>n. mark_unloaded (renamed_node name p n)))"
    by (auto intro!: keeps_ok_update_node)
qed

lemma keeps_ok_rename_checks [keeps_intro]:
  "keeps (fs_ok L r) (rename_check_source os i)"
  "keeps (fs_ok L r) (rename_check_dest os newparent newname flags)"
  unfolding rename_check_source_def rename_check_dest_def by (intro keeps_intro)+

lemma keeps_ok_rename_exchange [keeps_intro]: "keeps (fs_ok L r) (rename_exchange sp name dp newname)"
  unfolding rename_exchange_def
  by (intro keeps_intro keeps_ok_renamed keeps_ok_insert_child) (auto dest: fs_ok_child_not_root)

lemma keeps_ok_rename_replace [keeps_intro]:
  "keeps (fs_ok L r) (rename_replace os sp name newparent dp newname)"
  unfolding rename_replace_def
  by (intro keeps_bindS_val[OF yields_do_lookup_file] keeps_intro keeps_ok_remove_node keeps_ok_renamed
      keeps_ok_insert_child) (auto dest: fs_ok_child_not_root)

lemma keeps_ok_rename_upper [keeps_intro]:
  "keeps (fs_ok L r) (rename_upper os name newparent newname flags a b c)"
  unfolding rename_upper_def by (intro keeps_intro)

lemma keeps_ok_rename_op [keeps_intro]:
  "keeps (fs_ok L r) (rename_op os parent name newparent newname flags)"
  unfolding rename_op_def by (intro keeps_intro)

lemma keeps_ok_link_op [keeps_intro]: "keeps (fs_ok L r) (link_op os ino newparent newname)"
  unfolding link_op_def by (intro keeps_intro)

end
