(* ===== verification/Handles.thy ===== *)
theory Handles
  imports Handlers_Names
begin

text \<open>
  \<^verbatim>\<open>src/overlay.rs\<close>, the tables outside the \<^verbatim>\<open>inner\<close> lock: open files, open directories and the
  backing ids of FUSE passthrough, with the handlers that work on them alone (\<^verbatim>\<open>read\<close>, \<^verbatim>\<open>write\<close>,
  \<^verbatim>\<open>release\<close>, \<^verbatim>\<open>readdir\<close>, \<^verbatim>\<open>releasedir\<close>, \<^verbatim>\<open>fsync\<close>, \<^verbatim>\<open>fallocate\<close>, \<^verbatim>\<open>lseek\<close>, \<^verbatim>\<open>copy_file_range\<close>) and the replies of
  \<^verbatim>\<open>open\<close> and \<^verbatim>\<open>create\<close>. Shown: handles are fresh, a backing id lives exactly as long as handles need
  it, reading a directory in pages delivers every entry once, and the handlers that hold the lock do
  not touch these tables.
\<close>

section \<open>Tables\<close>

definition alloc_fh :: "int \<Rightarrow> ('w fs, nat) prog" where
  "alloc_fh fd =
     (\<lambda>s. (fs_next_fh s, s\<lparr>fs_next_fh := fs_next_fh s + 1,
                          fs_open_files := (fs_open_files s)(fs_next_fh s \<mapsto> fd)\<rparr>))"

definition alloc_dh :: "dirent list \<Rightarrow> ('w fs, nat) prog" where
  "alloc_dh entries =
     (\<lambda>s. (fs_next_dh s, s\<lparr>fs_next_dh := fs_next_dh s + 1,
                          fs_open_dirs := (fs_open_dirs s)(fs_next_dh s \<mapsto> entries)\<rparr>))"

definition get_file :: "'w fs \<Rightarrow> nat \<Rightarrow> int option" where
  "get_file s fh = fs_open_files s fh"

abbreviation (input) FOPEN_KEEP_CACHE :: "32 word" where "FOPEN_KEEP_CACHE \<equiv> 2"

definition keep_cache :: "'w fs \<Rightarrow> 32 word" where
  "keep_cache s = (if f64_pos (timeout (fs_config s)) then FOPEN_KEEP_CACHE else 0)"

section \<open>Passthrough\<close>

text \<open>A handle that shares the backing entry \<open>bc\<close> (id and count) of its inode.\<close>

definition alloc_backed :: "64 word \<Rightarrow> int \<Rightarrow> nat \<times> nat \<Rightarrow> ('w fs, nat) prog" where
  "alloc_backed ino fd bc =
     doS (modS (\<lambda>s. s\<lparr>fs_inode_backings := (fs_inode_backings s)(ino \<mapsto> bc)\<rparr>))
    (bindS (alloc_fh fd) (\<lambda>fh.
     doS (modS (\<lambda>s. s\<lparr>fs_fh_to_ino := (fs_fh_to_ino s)(fh \<mapsto> ino)\<rparr>)) (ret fh)))"

definition disable_passthrough :: "('w fs, unit) prog" where
  "disable_passthrough = modS (\<lambda>s. s\<lparr>fs_passthrough_enabled := False, fs_STAT_PASSTHROUGH := False\<rparr>)"

text \<open>The first section under the lock of the backings: reuse the id of a concurrent open.\<close>

definition open_reuse :: "64 word \<Rightarrow> int \<Rightarrow> ('w fs, reply option) prog" where
  "open_reuse ino fd =
     withS (\<lambda>s. case fs_inode_backings s ino of
         Some (b, count) \<Rightarrow>
           bindS (alloc_backed ino fd (b, count + 1)) (\<lambda>fh. ret (Some (ROpenedPassthrough fh b)))
       | None \<Rightarrow> ret None)"

text \<open>The second section, with the new id \<open>b\<close>; another thread may have registered one meanwhile.\<close>

definition open_register :: "64 word \<Rightarrow> int \<Rightarrow> nat \<Rightarrow> ('w fs, reply) prog" where
  "open_register ino fd b =
     withS (\<lambda>s. case fs_inode_backings s ino of
         Some (existing, count) \<Rightarrow>
           bindS (alloc_backed ino fd (existing, count + 1)) (\<lambda>fh. ret (ROpenedPassthrough fh existing))
       | None \<Rightarrow>
           bindS (alloc_backed ino fd (b, 1)) (\<lambda>fh. ret (ROpenedPassthrough fh b)))"

definition reply_open_maybe_passthrough :: "'w os \<Rightarrow> 64 word \<Rightarrow> int \<Rightarrow> ('w fs, reply) prog" where
  "reply_open_maybe_passthrough os ino fd =
     withS (\<lambda>s. let fuse_flags = keep_cache s;
         plain = bindS (alloc_fh fd) (\<lambda>fh. ret (ROpened fh fuse_flags)) in
       if fs_passthrough_enabled s then
         bindS (open_reuse ino fd) (\<lambda>r. case r of
             Some reply \<Rightarrow> ret reply
           | None \<Rightarrow>
               bindS (world (k_open_backing os fd)) (\<lambda>r. case r of
                   Inr b \<Rightarrow> open_register ino fd b
                 | Inl _ \<Rightarrow> doS disable_passthrough plain))
       else plain)"

text \<open>The reply of \<^verbatim>\<open>create\<close> for the new file; the conversion of the times comes first.\<close>

definition reply_created :: "'w os \<Rightarrow> 64 word \<Rightarrow> int \<Rightarrow> file_attr \<Rightarrow> ('w fs, reply) prog" where
  "reply_created os fuse_ino fd attr =
     withS (\<lambda>s. let cfg = fs_config s; fuse_flags = keep_cache s;
         plain = bindS (alloc_fh fd) (\<lambda>fh. ret (with_ttl cfg attr (\<lambda>ttl. RCreated ttl attr fh fuse_flags))) in
       if attr_panics attr then ret RPanic
       else if fs_passthrough_enabled s then
         bindS (world (k_open_backing os fd)) (\<lambda>r. case r of
             Inr b \<Rightarrow>
               bindS (alloc_backed fuse_ino fd (b, 1)) (\<lambda>fh.
               ret (with_ttl cfg attr (\<lambda>ttl. RCreatedPassthrough ttl attr fh b)))
           | Inl _ \<Rightarrow> doS disable_passthrough plain)
       else plain)"

text \<open>Counts are positive (shown below), so the decrement does not underflow.\<close>

definition release_op :: "nat \<Rightarrow> ('w fs, reply) prog" where
  "release_op fh =
     doS (withS (\<lambda>s. case fs_fh_to_ino s fh of
            None \<Rightarrow> ret ()
          | Some ino \<Rightarrow>
              doS (modS (\<lambda>s. s\<lparr>fs_fh_to_ino := (fs_fh_to_ino s)(fh := None)\<rparr>))
                  (modS (\<lambda>s. case fs_inode_backings s ino of
                     None \<Rightarrow> s
                   | Some (b, count) \<Rightarrow>
                       s\<lparr>fs_inode_backings := (fs_inode_backings s)
                          (ino := if count - 1 = 0 then None else Some (b, count - 1))\<rparr>))))
    (doS (modS (\<lambda>s. s\<lparr>fs_open_files := (fs_open_files s)(fh := None)\<rparr>))
         (ret ROk))"

section \<open>Handlers on an open file\<close>

definition with_file :: "nat \<Rightarrow> (int \<Rightarrow> ('w fs, reply) prog) \<Rightarrow> ('w fs, reply) prog" where
  "with_file fh k = withS (\<lambda>s. case get_file s fh of None \<Rightarrow> reply_err EBADF | Some fd \<Rightarrow> k fd)"

definition read_op :: "'w os \<Rightarrow> nat \<Rightarrow> 64 word \<Rightarrow> 32 word \<Rightarrow> ('w fs, reply) prog" where
  "read_op os fh offset n =
     with_file fh (\<lambda>fd.
       bindR (ask (\<lambda>s. pread os fd (min (unat n) (2 ^ 21)) offset (fs_world s))) (\<lambda>buf. ret (RData buf)))"

text \<open>\<open>write_cache\<close> is \<^verbatim>\<open>write_flags.contains(FUSE_WRITE_CACHE)\<close>.\<close>

definition write_op :: "'w os \<Rightarrow> nat \<Rightarrow> 64 word \<Rightarrow> bytes \<Rightarrow> bool \<Rightarrow> ('w fs, reply) prog" where
  "write_op os fh offset dat write_cache =
     with_file fh (\<lambda>fd. withS (\<lambda>s.
       let restore_mode =
         (if write_cache
          then case fstat os fd (fs_world s) of
                 Inr st \<Rightarrow> if st_mode st AND (S_ISUID OR S_ISGID) \<noteq> 0 then Some (st_mode st) else None
               | Inl _ \<Rightarrow> None
          else None)
       in bindR (world (pwrite os fd dat offset)) (\<lambda>n.
          doS (case restore_mode of Some mode \<Rightarrow> doS (world (fchmod os fd mode)) (ret ()) | None \<Rightarrow> ret ())
              (ret (RWritten (n mod 2 ^ 32))))))"

definition sync_fd :: "'w os \<Rightarrow> int \<Rightarrow> bool \<Rightarrow> ('w fs, reply) prog" where
  "sync_fd os fd datasync =
     bindR (world (if datasync then fdatasync os fd else fsync_call os fd)) (\<lambda>_. ret ROk)"

definition fsync_op :: "'w os \<Rightarrow> nat \<Rightarrow> bool \<Rightarrow> ('w fs, reply) prog" where
  "fsync_op os fh datasync =
     withS (\<lambda>s. if \<not> cfg_fsync (fs_config s) then reply_err ENOSYS
       else with_file fh (\<lambda>fd. sync_fd os fd datasync))"

definition fallocate_op ::
  "'w os \<Rightarrow> nat \<Rightarrow> 64 word \<Rightarrow> 64 word \<Rightarrow> 32 word \<Rightarrow> ('w fs, reply) prog" where
  "fallocate_op os fh offset len mode =
     with_file fh (\<lambda>fd. bindR (world (fallocate os fd mode offset len)) (\<lambda>_. ret ROk))"

definition lseek_op :: "'w os \<Rightarrow> nat \<Rightarrow> 64 word \<Rightarrow> 32 word \<Rightarrow> ('w fs, reply) prog" where
  "lseek_op os fh offset whence =
     with_file fh (\<lambda>fd. bindR (world (lseek_call os fd offset whence)) (\<lambda>pos. ret (ROffset pos)))"

definition copy_file_range_op ::
  "'w os \<Rightarrow> nat \<Rightarrow> 64 word \<Rightarrow> nat \<Rightarrow> 64 word \<Rightarrow> 64 word \<Rightarrow> ('w fs, reply) prog" where
  "copy_file_range_op os fh_in offset_in fh_out offset_out len =
     with_file fh_in (\<lambda>fd_in. with_file fh_out (\<lambda>fd_out.
       bindR (world (copy_file_range_call os fd_in offset_in fd_out offset_out (min (unat len) (2 ^ 32 - 1))))
         (\<lambda>n. ret (RWritten (min n (2 ^ 32 - 1))))))"

section \<open>Handlers on an open directory\<close>

text \<open>
  \<open>full added name\<close> stands for \<^verbatim>\<open>reply.add\<close> of the fuser crate, which is true when the entry does
  not fit any more behind those already added.
\<close>

fun fill_dir ::
  "(bytes list \<Rightarrow> bytes \<Rightarrow> bool) \<Rightarrow> bytes list \<Rightarrow> (nat \<times> dirent) list \<Rightarrow>
     (64 word \<times> nat \<times> file_type \<times> bytes) list" where
  "fill_dir full added [] = []"
| "fill_dir full added ((i, e) # es) =
     (if full added (dn_name e) then []
      else (dn_ino e, i + 1, mode_to_filetype (dn_mode e), dn_name e) #
           fill_dir full (added @ [dn_name e]) es)"

definition readdir_op ::
  "(bytes list \<Rightarrow> bytes \<Rightarrow> bool) \<Rightarrow> nat \<Rightarrow> nat \<Rightarrow> ('w fs, reply) prog" where
  "readdir_op full fh offset =
     withS (\<lambda>s. case fs_open_dirs s fh of
         None \<Rightarrow> reply_err EBADF
       | Some entries \<Rightarrow> ret (RDir (fill_dir full [] (drop offset (enumerate 0 entries)))))"

definition releasedir_op :: "nat \<Rightarrow> ('w fs, reply) prog" where
  "releasedir_op fh = doS (modS (\<lambda>s. s\<lparr>fs_open_dirs := (fs_open_dirs s)(fh := None)\<rparr>)) (ret ROk)"

section \<open>Handle tables\<close>

text \<open>
  What both tables promise: a new handle is the next number, opening and closing change the table at
  one handle, and numbers are never taken back.
\<close>

locale handle_table =
  fixes tab :: "'s \<Rightarrow> nat \<rightharpoonup> 'h" and nxt :: "'s \<Rightarrow> nat"
    and alloc :: "'h \<Rightarrow> ('s, nat) prog" and close :: "nat \<Rightarrow> ('s, 'r) prog"
  assumes alloc_handle: "fst (alloc h s) = nxt s"
    and alloc_tab: "tab (snd (alloc h s)) = (tab s)(nxt s \<mapsto> h)"
    and alloc_nxt: "nxt (snd (alloc h s)) = Suc (nxt s)"
    and close_tab: "tab (snd (close fh s)) = (tab s)(fh := None)"
    and close_nxt: "nxt (snd (close fh s)) = nxt s"
begin

lemma alloc_bounded: "dom (tab s) \<subseteq> {..<nxt s} \<Longrightarrow> dom (tab (snd (alloc h s))) \<subseteq> {..<nxt (snd (alloc h s))}"
  by (auto simp: alloc_tab alloc_nxt)

lemma close_bounded: "dom (tab s) \<subseteq> {..<nxt s} \<Longrightarrow> dom (tab (snd (close fh s))) \<subseteq> {..<nxt (snd (close fh s))}"
  by (auto simp: close_tab close_nxt)

lemma alloc_fresh: "dom (tab s) \<subseteq> {..<nxt s} \<Longrightarrow> tab s (fst (alloc h s)) = None"
  by (auto simp: alloc_handle)

lemma alloc_found: "tab (snd (alloc h s)) (fst (alloc h s)) = Some h"
  by (simp add: alloc_handle alloc_tab)

lemma alloc_others: "dom (tab s) \<subseteq> {..<nxt s} \<Longrightarrow> tab s fh = Some g \<Longrightarrow> tab (snd (alloc h s)) fh = Some g"
  by (auto simp: alloc_tab)

text \<open>A number that was given out and closed is never valid again.\<close>

lemma stale_alloc: "fh < nxt s \<Longrightarrow> tab s fh = None \<Longrightarrow>
    fh < nxt (snd (alloc h s)) \<and> tab (snd (alloc h s)) fh = None"
  by (simp add: alloc_tab alloc_nxt)

lemma stale_close: "fh < nxt s \<Longrightarrow> tab s fh = None \<Longrightarrow>
    fh < nxt (snd (close fh' s)) \<and> tab (snd (close fh' s)) fh = None"
  by (simp add: close_tab close_nxt)

end

lemma release_run:
  "snd (release_op fh s) =
     s\<lparr>fs_open_files := (fs_open_files s)(fh := None),
       fs_fh_to_ino := (fs_fh_to_ino s)(fh := None),
       fs_inode_backings := (case fs_fh_to_ino s fh of
           None \<Rightarrow> fs_inode_backings s
         | Some ino \<Rightarrow>
             (case fs_inode_backings s ino of
                None \<Rightarrow> fs_inode_backings s
              | Some (b, count) \<Rightarrow> (fs_inode_backings s)
                  (ino := if count - 1 = 0 then None else Some (b, count - 1))))\<rparr>"
  by (auto simp: release_op_def prog_defs fun_upd_idem split: option.splits prod.splits)

interpretation files: handle_table fs_open_files fs_next_fh alloc_fh release_op
  by unfold_locales (simp_all add: alloc_fh_def release_run)

interpretation dirs: handle_table fs_open_dirs fs_next_dh alloc_dh releasedir_op
  by unfold_locales (simp_all add: alloc_dh_def releasedir_op_def prog_defs)

section \<open>Backing ids are counted\<close>

definition handles_of :: "'w fs \<Rightarrow> 64 word \<Rightarrow> nat set" where
  "handles_of s ino = {fh. fs_fh_to_ino s fh = Some ino}"

definition backing_count :: "'w fs \<Rightarrow> 64 word \<Rightarrow> nat" where
  "backing_count s ino = (case fs_inode_backings s ino of None \<Rightarrow> 0 | Some (_, c) \<Rightarrow> c)"

text \<open>
  Handles are below the next number, passthrough handles are open files, no entry has count 0
  and no count exceeds the number of passthrough handles of its inode.
\<close>

definition handles_ok :: "'w fs \<Rightarrow> bool" where
  "handles_ok s \<longleftrightarrow>
     dom (fs_open_files s) \<subseteq> {..<fs_next_fh s} \<and> dom (fs_open_dirs s) \<subseteq> {..<fs_next_dh s} \<and>
     dom (fs_fh_to_ino s) \<subseteq> dom (fs_open_files s) \<and>
     (\<forall>ino b. fs_inode_backings s ino \<noteq> Some (b, 0)) \<and>
     (\<forall>ino. backing_count s ino \<le> card (handles_of s ino))"

lemma handles_ok_backed:
  assumes "handles_ok s" "fs_fh_to_ino s fh = Some ino"
  shows "fh < fs_next_fh s" "\<exists>fd. fs_open_files s fh = Some fd"
  using assms unfolding handles_ok_def by (blast dest: domI)+

lemma handles_finite: "handles_ok s \<Longrightarrow> finite (handles_of s ino)"
  by (rule finite_subset[of _ "{..<fs_next_fh s}"]) (auto simp: handles_of_def dest: handles_ok_backed)

lemma alloc_backed_run:
  "alloc_backed ino fd bc s = (fs_next_fh s,
     s\<lparr>fs_inode_backings := (fs_inode_backings s)(ino \<mapsto> bc), fs_next_fh := fs_next_fh s + 1,
       fs_open_files := (fs_open_files s)(fs_next_fh s \<mapsto> fd),
       fs_fh_to_ino := (fs_fh_to_ino s)(fs_next_fh s \<mapsto> ino)\<rparr>)"
  by (simp add: alloc_backed_def alloc_fh_def prog_defs)

lemma handles_of_fresh: "handles_ok s \<Longrightarrow> fs_next_fh s \<notin> handles_of s ino"
  using handles_ok_backed(1) by (fastforce simp: handles_of_def)

lemma alloc_backed_handles:
  assumes "handles_ok s"
  shows "card (handles_of (snd (alloc_backed ino fd bc s)) j) =
     (if j = ino then Suc (card (handles_of s j)) else card (handles_of s j))"
proof -
  have "handles_of (snd (alloc_backed ino fd bc s)) j =
      (if j = ino then insert (fs_next_fh s) (handles_of s j) else handles_of s j)"
    using handles_of_fresh[OF assms, of j] by (auto simp: handles_of_def alloc_backed_run)
  with handles_of_fresh[OF assms, of j] handles_finite[OF assms, of j] show ?thesis by (simp split: if_splits)
qed

lemma alloc_backed_count:
  "backing_count (snd (alloc_backed ino fd (b, c) s)) j = (if j = ino then c else backing_count s j)"
  by (simp add: backing_count_def alloc_backed_run)

lemma handles_ok_alloc_backed:
  assumes "handles_ok s" "0 < c" "c \<le> Suc (card (handles_of s ino))"
  shows "handles_ok (snd (alloc_backed ino fd (b, c) s))"
proof -
  have "backing_count (snd (alloc_backed ino fd (b, c) s)) j \<le>
      card (handles_of (snd (alloc_backed ino fd (b, c) s)) j)" for j
    unfolding alloc_backed_count alloc_backed_handles[OF assms(1)] using assms by (simp add: handles_ok_def)
  then show ?thesis
    using assms(1,2) by (auto simp: handles_ok_def alloc_backed_run)
qed

lemma handles_ok_same:
  assumes "handles_ok s" "fs_open_files s' = fs_open_files s" "fs_next_fh s' = fs_next_fh s"
    "fs_open_dirs s' = fs_open_dirs s" "fs_next_dh s' = fs_next_dh s"
    "fs_inode_backings s' = fs_inode_backings s" "fs_fh_to_ino s' = fs_fh_to_ino s"
  shows "handles_ok s'"
  using assms by (simp add: handles_ok_def handles_of_def backing_count_def)

lemma release_handles:
  assumes "handles_ok s"
  shows "card (handles_of (snd (release_op fh s)) j) =
     (if fs_fh_to_ino s fh = Some j then card (handles_of s j) - 1 else card (handles_of s j))"
proof -
  have "handles_of (snd (release_op fh s)) j = handles_of s j - {fh}"
    by (auto simp: handles_of_def release_run)
  then show ?thesis using handles_finite[OF assms, of j] by (auto simp: handles_of_def)
qed

lemma release_count:
  "backing_count (snd (release_op fh s)) j =
     (if fs_fh_to_ino s fh = Some j then backing_count s j - 1 else backing_count s j)"
  by (auto simp: backing_count_def release_run split: option.splits prod.splits)

lemma handles_ok_release: "keeps handles_ok (release_op fh)"
  unfolding keeps_def
proof (intro allI impI)
  fix s :: "'a fs"
  assume ok: "handles_ok s"
  then have cnt: "backing_count (snd (release_op fh s)) j \<le> card (handles_of (snd (release_op fh s)) j)" for j
    unfolding release_count release_handles[OF ok] by (simp add: handles_ok_def diff_le_mono)
  have zero: "fs_inode_backings (snd (release_op fh s)) j \<noteq> Some (b, 0)" for j b
    using ok by (auto simp: release_run handles_ok_def split: option.splits prod.splits if_splits)
  show "handles_ok (snd (release_op fh s))"
    unfolding handles_ok_def
  proof (intro conjI allI cnt zero)
    show "dom (fs_open_files (snd (release_op fh s))) \<subseteq> {..<fs_next_fh (snd (release_op fh s))}"
      using ok by (intro files.close_bounded) (simp add: handles_ok_def)
    show "dom (fs_fh_to_ino (snd (release_op fh s))) \<subseteq> dom (fs_open_files (snd (release_op fh s)))"
      using handles_ok_backed(2)[OF ok] by (auto simp: release_run split: if_splits)
  qed (use ok in \<open>simp add: release_run handles_ok_def\<close>)
qed

definition backings_exact :: "'w fs \<Rightarrow> bool" where
  "backings_exact s \<longleftrightarrow> handles_ok s \<and> (\<forall>ino. backing_count s ino = card (handles_of s ino))"

lemma keeps_handles_world [keeps_intro]: "keeps handles_ok (world m)" "keeps backings_exact (world m)"
  by (rule keeps_world; auto simp: backings_exact_def backing_count_def handles_of_def intro: handles_ok_same)+

lemma keeps_handles_disable [keeps_intro]:
  "keeps handles_ok disable_passthrough" "keeps backings_exact disable_passthrough"
  unfolding disable_passthrough_def
  by (rule keeps_modS; auto simp: backings_exact_def backing_count_def handles_of_def intro: handles_ok_same)+

lemma handles_ok_alloc_fh: "handles_ok s \<Longrightarrow> handles_ok (snd (alloc_fh fd s))"
  using files.alloc_bounded[of s fd]
  by (auto simp: handles_ok_def) (auto simp: alloc_fh_def handles_of_def backing_count_def)

lemma keeps_handles_alloc_fh [keeps_intro]: "keeps handles_ok (alloc_fh fd)" "keeps backings_exact (alloc_fh fd)"
  by (auto simp: keeps_def backings_exact_def handles_ok_alloc_fh)
    (simp add: alloc_fh_def handles_of_def backing_count_def)

lemma keeps_handles_alloc_dh [keeps_intro]: "keeps handles_ok (alloc_dh es)"
  using dirs.alloc_bounded[of _ es]
  by (fastforce simp: keeps_def handles_ok_def alloc_dh_def handles_of_def backing_count_def)

lemma keeps_handles_releasedir [keeps_intro]: "keeps handles_ok (releasedir_op fh)"
  by (auto simp: keeps_def handles_ok_def releasedir_op_def prog_defs handles_of_def backing_count_def)

text \<open>One more sharer of an entry with the right count, or the first one.\<close>

lemma backings_exact_alloc_backed:
  assumes "backings_exact s" "c = Suc (backing_count s ino)"
  shows "backings_exact (snd (alloc_backed ino fd (b, c) s))"
  using assms handles_ok_alloc_backed[of s c ino fd b]
  by (simp add: backings_exact_def alloc_backed_count alloc_backed_handles)

lemma handles_ok_share:
  assumes "handles_ok s" "c = Suc (backing_count s ino)"
  shows "handles_ok (snd (alloc_backed ino fd (b, c) s))"
  using assms by (intro handles_ok_alloc_backed) (simp_all add: handles_ok_def)

lemma keeps_handles_open_sections [keeps_intro]:
  "keeps handles_ok (open_reuse ino fd)" "keeps handles_ok (open_register ino fd b)"
  "keeps backings_exact (open_reuse ino fd)" "keeps backings_exact (open_register ino fd b)"
  by (auto simp: keeps_def open_reuse_def open_register_def withS_def bindS_def ret_def split_beta
      backing_count_def intro!: handles_ok_share backings_exact_alloc_backed split: option.splits)

lemma keeps_handles_open [keeps_intro]:
  "keeps handles_ok (reply_open_maybe_passthrough os ino fd)"
  "keeps backings_exact (reply_open_maybe_passthrough os ino fd)"
  unfolding reply_open_maybe_passthrough_def by (intro keeps_intro)+

lemma keeps_handles_first [keeps_intro]: "keeps handles_ok (alloc_backed ino fd (b, 1))"
  unfolding keeps_def by (intro allI impI handles_ok_alloc_backed) simp_all

lemma keeps_handles_created [keeps_intro]: "keeps handles_ok (reply_created os ino fd attr)"
  unfolding reply_created_def by (intro keeps_intro)

lemma keeps_exact_release: "keeps backings_exact (release_op fh)"
  using handles_ok_release[of fh]
  by (auto simp: keeps_def backings_exact_def release_count release_handles)

text \<open>C20: Backing ids are counted exactly: if every count equals the number of open passthrough handles of
  its inode, it still does after an open (in each of its branches, a lost race
  included) and after a release; so an inode has a backing entry exactly while one of its passthrough
  handles is open, and all of them share it.\<close>

theorem backing_counts_exact:
  assumes "backings_exact s"
  shows "backings_exact (snd (reply_open_maybe_passthrough os ino fd s)) \<and>
    backings_exact (snd (open_register ino fd b s)) \<and>
    backings_exact (snd (release_op fh s)) \<and>
    (fs_inode_backings s j \<noteq> None \<longleftrightarrow> handles_of s j \<noteq> {})"
proof -
  have "fs_inode_backings s j \<noteq> None \<longleftrightarrow> backing_count s j \<noteq> 0"
    using assms by (fastforce simp: backings_exact_def handles_ok_def backing_count_def split: option.splits)
  also have "\<dots> \<longleftrightarrow> handles_of s j \<noteq> {}"
    using assms handles_finite[of s j] by (simp add: backings_exact_def)
  finally show ?thesis
    using keeps_snd[OF keeps_handles_open(2) assms] keeps_snd[OF keeps_exact_release assms]
      keeps_snd[OF keeps_handles_open_sections(4) assms] by blast
qed

lemma backings_exact_new: "backings_exact (overlay_new config layers wfd ov dis w)"
  by (simp add: backings_exact_def handles_ok_def handles_of_def backing_count_def overlay_new_def Let_def
      split: prod.splits)

theorem backing_counts_exact_witness:
  "backings_exact (snd (open_register 7 4 9 (sample_fs refusing_os ())))"
  using backing_counts_exact[of "sample_fs refusing_os ()" refusing_os 7 4 9]
  by (simp add: sample_fs_def backings_exact_new)

text \<open>C21: An open always gets a handle of its own: the number in the reply was not valid before, it is
  bound to the descriptor afterwards and all other handles are untouched. If passthrough
  is on and the inode already has a backing id, the reply carries that id.\<close>

theorem open_handle_fresh:
  assumes "handles_ok s" "reply_open_maybe_passthrough os ino fd s = (r, s')"
  shows "\<exists>fh. get_file s fh = None \<and> fs_open_files s' = (fs_open_files s)(fh \<mapsto> fd) \<and>
    (r = ROpened fh (keep_cache s) \<or> (\<exists>b. r = ROpenedPassthrough fh b)) \<and>
    (\<forall>b c. fs_passthrough_enabled s \<and> fs_inode_backings s ino = Some (b, c) \<longrightarrow>
       r = ROpenedPassthrough fh b)"
proof -
  have "get_file s (fs_next_fh s) = None"
    using assms(1) files.alloc_fresh[of s fd] by (simp add: get_file_def handles_ok_def alloc_fh_def)
  with assms(2) show ?thesis
    by (auto simp: reply_open_maybe_passthrough_def open_reuse_def open_register_def alloc_backed_run
        alloc_fh_def disable_passthrough_def world_def prog_defs Let_def
        split: if_splits option.splits prod.splits sum.splits)
qed

lemma sample_backings: "backings_exact (sample_fs os w)"
  unfolding sample_fs_def by (rule backings_exact_new)

lemma sample_handles_ok: "handles_ok (sample_fs os w)"
  using sample_backings[of os w] by (simp add: backings_exact_def)

theorem open_handle_fresh_witness:
  "\<exists>fh. get_file (sample_fs refusing_os ()) fh = None \<and>
     get_file (snd (reply_open_maybe_passthrough refusing_os 7 4 (sample_fs refusing_os ()))) fh = Some 4"
  using open_handle_fresh[OF sample_handles_ok[of refusing_os "()"], of refusing_os 7 4]
  by (cases "reply_open_maybe_passthrough refusing_os 7 4 (sample_fs refusing_os ())") (auto simp: get_file_def)

section \<open>Reading a directory in pages\<close>

text \<open>What a reply has of one entry, and the client that asks again behind the last entry it got.\<close>

definition dir_row :: "nat \<times> dirent \<Rightarrow> 64 word \<times> nat \<times> file_type \<times> bytes" where
  "dir_row = (\<lambda>(i, e). (dn_ino e, i + 1, mode_to_filetype (dn_mode e), dn_name e))"

fun read_pages ::
  "nat \<Rightarrow> (bytes list \<Rightarrow> bytes \<Rightarrow> bool) \<Rightarrow> nat \<Rightarrow> nat \<Rightarrow> 'w fs \<Rightarrow> (64 word \<times> nat \<times> file_type \<times> bytes) list" where
  "read_pages 0 full fh offset s = []"
| "read_pages (Suc k) full fh offset s =
     (case fst (readdir_op full fh offset s) of
        RDir es \<Rightarrow> if es = [] then [] else es @ read_pages k full fh (fst (snd (last es))) s
      | _ \<Rightarrow> [])"

lemma fill_dir_prefix: "\<exists>n \<le> length es. fill_dir full added es = map dir_row (take n es)"
proof (induction es arbitrary: added)
  case (Cons p es)
  obtain i e where p: "p = (i, e)" by (cases p)
  show ?case
  proof (cases "full added (dn_name e)")
    case True
    then show ?thesis by (intro exI[of _ 0]) (simp add: p)
  next
    case False
    moreover from Cons.IH obtain n where "n \<le> length es"
      "fill_dir full (added @ [dn_name e]) es = map dir_row (take n es)" by blast
    ultimately show ?thesis by (intro exI[of _ "Suc n"]) (simp add: p dir_row_def)
  qed
qed simp

lemma fill_dir_nonempty:
  assumes "\<And>name. \<not> full [] name" "es \<noteq> []"
  obtains n where "0 < n" "n \<le> length es" "fill_dir full [] es = map dir_row (take n es)"
proof -
  from fill_dir_prefix[of es full "[]"] obtain n where n: "n \<le> length es"
    "fill_dir full [] es = map dir_row (take n es)" by blast
  moreover have "fill_dir full [] es \<noteq> []"
    using assms by (cases es) auto
  ultimately show ?thesis using that by (cases n) auto
qed

lemma read_pages_from:
  assumes dir: "fs_open_dirs s fh = Some entries" and fits: "\<And>name. \<not> full [] name"
  shows "length entries < off + k \<Longrightarrow> read_pages k full fh off s = map dir_row (drop off (enumerate 0 entries))"
proof (induction k arbitrary: off)
  case (Suc k)
  let ?rest = "drop off (enumerate 0 entries)"
  have run: "fst (readdir_op full fh off s) = RDir (fill_dir full [] ?rest)"
    by (simp add: readdir_op_def withS_def ret_def dir)
  show ?case
  proof (cases "?rest = []")
    case True
    with run show ?thesis by simp
  next
    case False
    obtain n where n: "0 < n" "n \<le> length ?rest" "fill_dir full [] ?rest = map dir_row (take n ?rest)"
      by (rule fill_dir_nonempty[of full ?rest]) (use fits False in auto)
    have "last (map dir_row (take n ?rest)) = dir_row (?rest ! (n - 1))"
      using n by (subst last_map) (auto simp: last_conv_nth)
    then have "fst (snd (last (map dir_row (take n ?rest)))) = off + n"
      using n by (simp add: dir_row_def nth_enumerate_eq)
    moreover have "map dir_row ?rest = map dir_row (take n ?rest) @ map dir_row (drop (off + n) (enumerate 0 entries))"
      by (subst append_take_drop_id[of n ?rest, symmetric], subst map_append, subst drop_drop)
        (simp only: add.commute)
    moreover have "length entries < (off + n) + k" using n Suc.prems by simp
    ultimately show ?thesis
      using run n Suc.IH[of "off + n"] False by simp
  qed
qed simp

text \<open>C22: Reading a directory in pages is complete: if an empty reply buffer always has
  room for one entry, a client that asks again behind the last entry it got receives every entry
  of the handle exactly once, in order, whatever the sizes of the pages.\<close>

theorem readdir_pages_complete:
  assumes "fs_open_dirs s fh = Some entries" "\<And>name. \<not> full [] name"
  shows "read_pages (Suc (length entries)) full fh 0 s = map dir_row (enumerate 0 entries)"
  using read_pages_from[of s fh entries full 0 "Suc (length entries)"] assms by simp

definition two_dirents :: "dirent list" where
  "two_dirents = map (\<lambda>n. \<lparr>dn_name = n, dn_ino = 5, dn_mode = S_IFDIR, dn_attr = None, dn_node_id = None\<rparr>)
     [''.'', ''..'']"

theorem readdir_pages_complete_witness:
  "read_pages 3 (\<lambda>added _. added \<noteq> []) 1 0 ((sample_fs refusing_os ())\<lparr>fs_open_dirs := [1 \<mapsto> two_dirents]\<rparr>)
   = map dir_row (enumerate 0 two_dirents)"
  using readdir_pages_complete[of "(sample_fs refusing_os ())\<lparr>fs_open_dirs := [1 \<mapsto> two_dirents]\<rparr>" 1 two_dirents
      "\<lambda>added _. added \<noteq> []"]
  by (simp add: two_dirents_def eval_nat_numeral)

section \<open>What the lock protects\<close>

text \<open>
  An observation that looks at nothing the handlers change under the \<^verbatim>\<open>inner\<close> lock or through
  system calls. Every handler on names and attributes leaves it alone.
\<close>

locale inner_observation =
  fixes f :: "'w fs \<Rightarrow> 'x"
  assumes f_nodes: "f (s\<lparr>fs_nodes := a\<rparr>) = f s"
    and f_inodes: "f (s\<lparr>fs_inodes := t\<rparr>) = f s"
    and f_world: "f (s\<lparr>fs_world := w\<rparr>) = f s"
    and f_hung: "f (s\<lparr>fs_hung := b\<rparr>) = f s"
    and f_CAN_MKNOD: "f (s\<lparr>fs_CAN_MKNOD := b\<rparr>) = f s"
    and f_wd: "f (s\<lparr>fs_wd_counter := k\<rparr>) = f s"
    and f_notified: "f (s\<lparr>fs_notified := ns\<rparr>) = f s"

lemma frames_from_keeps: "(\<And>v. keeps (\<lambda>s. f s = v) m) \<Longrightarrow> frames f m"
  by (simp add: keeps_def frames_def)

sublocale inner_observation \<subseteq> copied: copyup_invariant "\<lambda>s. f s = v" for v
  by unfold_locales (simp_all add: f_nodes f_world f_hung f_CAN_MKNOD f_wd)

context inner_observation
begin

lemma frames_primitives [frames_intro]:
  "frames f (update_node i g)" "frames f (insert_node n)" "frames f (register_node i ino dev m)"
  "frames f (mod_inodes h)" "frames f (world p)" "frames f hang" "frames f next_wd_counter"
  by (simp_all add: frames_def update_node_def insert_node_def register_node_def mod_inodes_def world_def
      hang_def next_wd_counter_def modS_def f_nodes f_inodes f_world f_hung f_wd split_beta)

lemma frames_remove_node [frames_intro]: "frames f (remove_node os i)"
  by (simp add: frames_def remove_node_def world_def f_nodes f_world split: prod.splits option.splits)

lemma frames_copyup [frames_intro]:
  "frames f (get_node_up os i)" "frames f (delete_whiteout os fd dfd p name)"
  "frames f (create_whiteout os fd p name b)" "frames f next_wd_name"
  by (rule frames_from_keeps, rule copied.keeps_I_get_node_up copied.keeps_I)+

lemma frames_loading [frames_intro]:
  "frames f (do_lookup_file os ino name)" "frames f (reload_dir os i)" "frames f (load_dir_impl os i path lst)"
  by (intro frames_do_lookup_file frames_reload_dir frames_load_dir_impl f_nodes f_inodes)+

lemma frames_root_loaded [frames_intro]: "frames f (ensure_root_loaded os)" "frames f (build_dir_entries os i)"
  unfolding ensure_root_loaded_def load_dir_entries_def build_dir_entries_def by (intro frames_intro)+

lemma frames_small [frames_intro]:
  "frames f (ask g)" "frames f (at_safe_parent os fd path h)" "frames f (inherit_acl os i fd)"
  "frames f (hide_source os i fd nm)" "frames f (chown_new os wd req)" "frames f (notify_inval ino)"
  unfolding ask_def at_safe_parent_def inherit_acl_def hide_source_def chown_new_def notify_inval_def
  by (intro frames_intro frames_modS; simp add: f_notified split: option.splits)+

lemma frames_node_ops [frames_intro]:
  "frames f (hide_node os i b)" "frames f (create_and_register_child p name st d)"
  "frames f (prepare_create_parent os ino name)"
  unfolding hide_node_def create_and_register_child_def prepare_create_parent_def by (intro frames_intro)+

lemma frames_creation [frames_intro]:
  "frames f (stat_and_register_child p name path)" "frames f (check_new_name os ino name)"
  "frames f (move_new os wd fl fd path b)"
  unfolding stat_and_register_child_def check_new_name_def move_new_def by (intro frames_intro)+

lemma frames_finish_new [frames_intro]: "frames f (finish_new os ufd dfd p pp name path)"
  unfolding finish_new_def by (intro frames_intro)

lemma frames_lookup_op [frames_intro]: "frames f (lookup_op os parent name)"
  unfolding lookup_op_def lookup_fast_def lookup_slow_def by (intro frames_intro)

lemma frames_attributes [frames_intro]:
  "frames f (forget_op ino n)" "frames f (getattr_op os ino)" "frames f (readlink_op os ino)"
  unfolding forget_op_def getattr_op_def readlink_op_def by (intro frames_intro)+

lemma frames_setattr_op [frames_intro]: "frames f (setattr_op os ino mode uid gid n at mt fh)"
  unfolding setattr_op_def setattr_times_def setattr_override_def setattr_chmod_def setattr_chown_def
    setattr_size_def by (intro frames_intro)

lemma frames_new_files [frames_intro]:
  "frames f (mknod_op os req parent name mode rdev)" "frames f (mkdir_op os req parent name mode)"
  "frames f (symlink_op os req parent name link)"
  unfolding mknod_op_def mkdir_op_def symlink_op_def by (intro frames_intro)+

lemma frames_removal [frames_intro]:
  "frames f (unlink_op os parent name)" "frames f (rmdir_op os parent name)"
  unfolding unlink_op_def rmdir_op_def do_rm_def detach_removed_def by (intro frames_intro)+

lemma frames_rename_op [frames_intro]: "frames f (rename_op os parent name newparent newname flags)"
  unfolding rename_op_def rename_upper_def rename_check_source_def rename_check_dest_def
    rename_exchange_def rename_replace_def by (intro frames_intro)

lemma frames_link_op [frames_intro]: "frames f (link_op os ino newparent newname)"
  unfolding link_op_def by (intro frames_intro)

end

text \<open>Two such observations: the handle tables, and what is fixed at mount time.\<close>

definition handle_tables ::
  "'w fs \<Rightarrow> (nat \<rightharpoonup> int) \<times> nat \<times> (nat \<rightharpoonup> dirent list) \<times> nat \<times> (64 word \<rightharpoonup> nat \<times> nat) \<times> (nat \<rightharpoonup> 64 word)" where
  "handle_tables s = (fs_open_files s, fs_next_fh s, fs_open_dirs s, fs_next_dh s,
     fs_inode_backings s, fs_fh_to_ino s)"

definition mount_view :: "'w fs \<Rightarrow> overlay_config \<times> 'w ovl_layer list \<times> node_id \<times> int \<times> bool \<times> overflow_ids \<times> bool" where
  "mount_view s = (fs_config s, fs_layers s, fs_root_id s, fs_workdir_fd s, fs_ino_passthrough s,
     fs_overflow s, fs_can_mknod s)"

interpretation tables: inner_observation handle_tables
  by unfold_locales (simp_all add: handle_tables_def)

interpretation mount: inner_observation mount_view
  by unfold_locales (simp_all add: mount_view_def)

lemma handles_ok_tables: "handles_ok s \<Longrightarrow> handle_tables s' = handle_tables s \<Longrightarrow> handles_ok s'"
  by (erule handles_ok_same) (simp_all add: handle_tables_def)

lemma keeps_handles_tables: "frames handle_tables m \<Longrightarrow> keeps handles_ok m"
  by (auto simp: keeps_def frames_def intro: handles_ok_tables)

end
