(* ===== verification/Handlers_Files.thy ===== *)
theory Handlers_Files
  imports Handles
begin

text \<open>
  \<^verbatim>\<open>src/overlay.rs\<close>, the remaining FUSE handlers: \<^verbatim>\<open>init\<close>, \<^verbatim>\<open>open\<close>, \<^verbatim>\<open>create\<close>, \<^verbatim>\<open>statfs\<close>, the handlers on extended
  attributes, \<^verbatim>\<open>opendir\<close>, \<^verbatim>\<open>readdirplus\<close>, \<^verbatim>\<open>fsyncdir\<close> and \<^verbatim>\<open>ioctl\<close>. Shown: every handler keeps the invariants of
  the tree, the inode table and the handles. What single handlers achieve is in the theory \<open>Effects\<close>.
\<close>

section \<open>init\<close>

datatype init_flag =
    FUSE_DONT_MASK | FUSE_SPLICE_READ | FUSE_SPLICE_WRITE | FUSE_SPLICE_MOVE | FUSE_PARALLEL_DIROPS
  | FUSE_HANDLE_KILLPRIV | FUSE_CACHE_SYMLINKS | FUSE_DO_READDIRPLUS | FUSE_READDIRPLUS_AUTO
  | FUSE_PASSTHROUGH | FUSE_WRITEBACK_CACHE | FUSE_POSIX_ACL | FUSE_NO_EXPORT_SUPPORT

text \<open>
  The result is the list of capabilities asked for. \<open>no_passthrough\<close> is whether the environment
  variable \<^verbatim>\<open>FUSE_OVERLAYFS_NO_PASSTHROUGH\<close> is set, \<open>kernel_has\<close> the answer of
  \<^verbatim>\<open>config.capabilities().contains(FUSE_PASSTHROUGH)\<close> of the fuser crate.
\<close>

definition init_op :: "bool \<Rightarrow> bool \<Rightarrow> ('w fs, init_flag list) prog" where
  "init_op no_passthrough kernel_has =
     withS (\<lambda>s. let cfg = fs_config s;
         asked = \<not> no_passthrough \<and> cfg_fsync cfg;
         passthrough = asked \<and> kernel_has in
       doS (modS (\<lambda>s. s\<lparr>fs_passthrough_enabled := passthrough, fs_STAT_PASSTHROUGH := passthrough\<rparr>))
      (ret ([FUSE_DONT_MASK, FUSE_SPLICE_READ, FUSE_SPLICE_WRITE, FUSE_SPLICE_MOVE, FUSE_PARALLEL_DIROPS,
             FUSE_HANDLE_KILLPRIV, FUSE_CACHE_SYMLINKS, FUSE_DO_READDIRPLUS, FUSE_READDIRPLUS_AUTO] @
            (if asked then [FUSE_PASSTHROUGH] else []) @
            (if \<not> passthrough \<and> writeback cfg then [FUSE_WRITEBACK_CACHE] else []) @
            (if \<not> noacl cfg then [FUSE_POSIX_ACL] else []) @
            (if \<not> fs_ino_passthrough s \<and> nfs_filehandles cfg = 0 then [FUSE_NO_EXPORT_SUPPORT] else []))))"

section \<open>open and create\<close>

text \<open>With the writeback cache the kernel reads before it writes and handles appending itself.\<close>

definition host_open_flags :: "overlay_config \<Rightarrow> oflags \<Rightarrow> oflags" where
  "host_open_flags cfg flags =
     (let fl = (flags OR O_NOFOLLOW) AND NOT O_DIRECT in
      if writeback cfg then
        (if fl AND O_ACCMODE = O_WRONLY then (fl AND NOT O_ACCMODE) OR O_RDWR else fl) AND NOT O_APPEND
      else fl)"

definition open_op :: "'w os \<Rightarrow> 64 word \<Rightarrow> oflags \<Rightarrow> ('w fs, reply) prog" where
  "open_op os ino flags =
     withS (\<lambda>s.
       let open_flags = host_open_flags (fs_config s) flags;
           needs_write = (flags AND (O_APPEND OR O_RDWR OR O_WRONLY OR O_CREAT OR O_TRUNC) \<noteq> 0) in
       bindR (ret (resolve_node os s ino)) (\<lambda>node_id.
       bindR (ret (node_at s node_id)) (\<lambda>node.
       let is_low = (case layer_at s (nd_layer_idx node) of Some l \<Rightarrow> ly_low l | None \<Rightarrow> False) in
       if \<not> needs_write \<or> \<not> is_low then
         bindR (ret (layer_res s (nd_layer_idx node))) (\<lambda>layer.
         bindR (world (ds_openat (ly_ds layer) (node_path s node_id) open_flags 0x1C0)) (\<lambda>fd.
         reply_open_maybe_passthrough os ino fd))
       else
         bindR (ask (\<lambda>s. resolve_node os s ino)) (\<lambda>node_id.
         bindR (get_node_up os node_id) (\<lambda>_.
         withS (\<lambda>s.
           bindR (ret (node_and_layer s node_id)) (\<lambda>(_, layer).
           bindR (world (ds_openat (ly_ds layer) (node_path s node_id) open_flags 0x1C0)) (\<lambda>fd.
           reply_open_maybe_passthrough os ino fd)))))))) "

text \<open>
  The start of \<^verbatim>\<open>create\<close>: the name must be free; the result says whether a whiteout is in its place.
\<close>

definition create_check_name :: "'w os \<Rightarrow> 64 word \<Rightarrow> bytes \<Rightarrow> ('w fs, bool fs_result) prog" where
  "create_check_name os parent name =
     withS (\<lambda>s. if length name > get_fs_namemax os s then fail ENAMETOOLONG
       else bindS (do_lookup_file os parent (Some name)) (\<lambda>r.
         withS (\<lambda>s. case r of
             Some eid \<Rightarrow> if \<not> is_whiteout_or_missing s eid then fail EEXIST else ok True
           | None \<Rightarrow>
               ok (case lookup_node_id os s parent of
                     None \<Rightarrow> False
                   | Some pid \<Rightarrow>
                       (case arena_get (fs_nodes s) pid of Some p \<Rightarrow> is_whiteout p name | None \<Rightarrow> False)))))"

text \<open>Creation over a whiteout: make the file in the work directory, rename it into place, open it there.\<close>

definition create_over_whiteout ::
  "'w os \<Rightarrow> int \<Rightarrow> bytes \<Rightarrow> bytes \<Rightarrow> bytes \<Rightarrow> oflags \<Rightarrow> mode_t \<Rightarrow> ('w fs, int fs_result) prog" where
  "create_over_whiteout os upper_fd pnode_path name path open_flags mode =
     bindS next_wd_name (\<lambda>wd_name.
     bindE (withS (\<lambda>s. world (safe_openat os (fs_workdir_fd s) wd_name open_flags mode))) (\<lambda>_.
     bindE (move_new os wd_name 0 upper_fd path False) (\<lambda>dst_dirfd.
     doS (delete_whiteout os upper_fd (Some dst_dirfd) pnode_path name)
    (withS (\<lambda>s. world (ds_openat (ly_ds (fs_layers s ! 0)) path
       ((open_flags AND NOT O_CREAT) OR O_RDWR) mode))))))"

definition create_op ::
  "'w os \<Rightarrow> 32 word \<times> 32 word \<Rightarrow> 64 word \<Rightarrow> bytes \<Rightarrow> mode_t \<Rightarrow> oflags \<Rightarrow> ('w fs, reply) prog" where
  "create_op os req parent name mode flags =
     bindR (create_check_name os parent name) (\<lambda>over_whiteout.
     bindR (prepare_create_parent os parent name) (\<lambda>(pnode_id, pnode_path, upper_fd, path).
     withS (\<lambda>s. let open_flags = host_open_flags (fs_config s) (flags OR O_CREAT) in
     bindR (if \<not> over_whiteout then world (ds_openat (ly_ds (fs_layers s ! 0)) path open_flags mode)
            else create_over_whiteout os upper_fd pnode_path name path open_flags mode) (\<lambda>fd.
     doS (withS (\<lambda>s. world (fchown os fd (map_uid s (fst req)) (map_gid s (snd req)))))
    (doS (inherit_acl os pnode_id fd)
    (bindR (ask (\<lambda>s. ds_fstat (ly_ds (fs_layers s ! 0)) fd path STATX_BASIC_STATS (fs_world s))) (\<lambda>st.
     bindS (create_and_register_child pnode_id name st False) (\<lambda>r. case r of
         None \<Rightarrow> reply_err ENOMEM
       | Some (_, fuse_ino) \<Rightarrow>
           reply_created os fuse_ino fd ((stat_to_attr st)\<lparr>fa_ino := fuse_ino\<rparr>))))))))) "

section \<open>statfs and access\<close>

definition statfs_op :: "'w os \<Rightarrow> ('w fs, reply) prog" where
  "statfs_op os =
     withS (\<lambda>s. case fs_layers s of
         [] \<Rightarrow> reply_err ENOSYS
       | l # _ \<Rightarrow>
           bindR (ret (fstatvfs os (ds_root_fd (ly_ds l)) (fs_world s))) (\<lambda>svfs.
           let name_max = (if f_namemax svfs > 4 then f_namemax svfs - 4 else f_namemax svfs) in
           ret (RStatfs (f_blocks svfs) (f_bfree svfs) (f_bavail svfs) (f_files svfs) (f_ffree svfs)
                  (ucast (f_bsize svfs)) (ucast name_max) (ucast (f_frsize svfs)))))"

definition access_op :: "('w fs, reply) prog" where
  "access_op = ret ROk"

section \<open>Extended attributes\<close>

text \<open>The node of a writing handler, copied up, with its layer and path.\<close>

definition xattr_target ::
  "'w os \<Rightarrow> 64 word \<Rightarrow> ('w fs, ('w ovl_layer \<times> bytes) fs_result) prog" where
  "xattr_target os ino =
     bindE (ask (\<lambda>s. resolve_node_for_write os s ino)) (\<lambda>node_id.
     bindE (get_node_up os node_id) (\<lambda>_.
     bindE (ask (\<lambda>s. node_and_layer s node_id)) (\<lambda>(_, layer).
     withS (\<lambda>s. ok (layer, node_path s node_id)))))"

definition setxattr_op ::
  "'w os \<Rightarrow> 64 word \<Rightarrow> bytes \<Rightarrow> bytes \<Rightarrow> 32 word \<Rightarrow> ('w fs, reply) prog" where
  "setxattr_op os ino name val flags =
     (case from_utf8 name of None \<Rightarrow> reply_err EINVAL
      | Some name_str \<Rightarrow>
     withS (\<lambda>s. if disable_xattrs (fs_config s) then reply_err ENOSYS
       else
     bindR (xattr_target os ino) (\<lambda>(layer, path).
     case encode_xattr_name name_str (ds_stat_override_mode (ly_ds layer)) of
       None \<Rightarrow> reply_err EPERM
     | Some encoded \<Rightarrow>
         withS (\<lambda>s. bindR (world (lsetxattr os (proc_fd_path (upper_root_fd s) path) encoded val flags))
           (\<lambda>_. ret ROk)))))"

definition getxattr_op :: "'w os \<Rightarrow> 64 word \<Rightarrow> bytes \<Rightarrow> 32 word \<Rightarrow> ('w fs, reply) prog" where
  "getxattr_op os ino name n =
     (case from_utf8 name of None \<Rightarrow> reply_err EINVAL
      | Some name_str \<Rightarrow>
     withS (\<lambda>s. if disable_xattrs (fs_config s) then reply_err ENOTSUP
       else
     bindR (ret (resolve_node os s ino)) (\<lambda>node_id.
     bindR (ret (node_and_layer s node_id)) (\<lambda>(_, layer).
     let ds = ly_ds layer; path = node_path s node_id in
     case encode_xattr_name name_str (ds_stat_override_mode ds) of
       None \<Rightarrow> reply_err ENODATA
     | Some encoded \<Rightarrow>
         if n = 0 then
           bindR (ret (ds_getxattr ds path encoded 65536 (fs_world s))) (\<lambda>buf. ret (RSize (length buf)))
         else
           bindR (ret (ds_getxattr ds path encoded (min (unat n) 65536) (fs_world s))) (\<lambda>buf. ret (RData buf))))))"

definition listxattr_op :: "'w os \<Rightarrow> 64 word \<Rightarrow> 32 word \<Rightarrow> ('w fs, reply) prog" where
  "listxattr_op os ino n =
     withS (\<lambda>s. if disable_xattrs (fs_config s) then reply_err ENOTSUP
       else
     bindR (ret (resolve_node os s ino)) (\<lambda>node_id.
     bindR (ret (node_and_layer s node_id)) (\<lambda>(_, layer).
     bindR (ret (ds_listxattr (ly_ds layer) (node_path s node_id)
                   (if n = 0 then 65536 else min (unat n) 65536) (fs_world s))) (\<lambda>buf.
     let filtered = filter_xattr_list buf (ds_stat_override_mode (ly_ds layer)) in
     if n = 0 then ret (RSize (length filtered))
     else if length filtered > unat n then reply_err ERANGE
     else ret (RData filtered)))))"

definition removexattr_op :: "'w os \<Rightarrow> 64 word \<Rightarrow> bytes \<Rightarrow> ('w fs, reply) prog" where
  "removexattr_op os ino name =
     (case from_utf8 name of None \<Rightarrow> reply_err EINVAL
      | Some name_str \<Rightarrow>
     withS (\<lambda>s. if disable_xattrs (fs_config s) then reply_err ENOSYS
       else
     bindR (xattr_target os ino) (\<lambda>(layer, path).
     case encode_xattr_name name_str (ds_stat_override_mode (ly_ds layer)) of
       None \<Rightarrow> reply_err EPERM
     | Some encoded \<Rightarrow>
         withS (\<lambda>s. bindR (world (lremovexattr os (proc_fd_path (upper_root_fd s) path) encoded))
           (\<lambda>_. ret ROk)))))"

section \<open>Directories\<close>

text \<open>Listing converts the times of every entry and panics on one it cannot convert.\<close>

definition opendir_op :: "'w os \<Rightarrow> 64 word \<Rightarrow> ('w fs, reply) prog" where
  "opendir_op os ino =
     doS (if ino = 1 then ensure_root_loaded os else ret ())
    (withS (\<lambda>s. case lookup_node_id os s ino of
         None \<Rightarrow> reply_err ENOENT
       | Some node_id \<Rightarrow>
           let node = arena_get (fs_nodes s) node_id in
           if \<not> (case node of Some n \<Rightarrow> is_dir n | None \<Rightarrow> False) then reply_err ENOTDIR
           else
             doS (if \<not> (case node of Some n \<Rightarrow> is_loaded n | None \<Rightarrow> True)
                  then doS (reload_dir os node_id) (ret ()) else ret ())
            (bindS (build_dir_entries os node_id) (\<lambda>entries.
             if list_ex (\<lambda>e. case dn_attr e of Some a \<Rightarrow> attr_panics a | None \<Rightarrow> False) entries then ret RPanic
             else bindS (alloc_dh entries) (\<lambda>dh. ask (\<lambda>s. ROpened dh (keep_cache s)))))))"

definition plus_register :: "dirent \<Rightarrow> ('w fs, 64 word) prog" where
  "plus_register e =
     (case dn_node_id e of
        None \<Rightarrow> ret (dn_ino e)
      | Some nid \<Rightarrow>
          withS (\<lambda>s. case arena_get (fs_nodes s) nid of
              None \<Rightarrow> ret (dn_ino e)
            | Some node \<Rightarrow>
                bindS (register_node nid (nd_tmp_ino node) (nd_tmp_dev node) (nd_mode node)) (\<lambda>r. case r of
                    Some ino_val \<Rightarrow>
                      doS (mod_inodes (inc_lookup (InodeKey (nd_tmp_ino node) (nd_tmp_dev node)))) (ret ino_val)
                  | None \<Rightarrow> ret (dn_ino e))))"

definition plus_attr :: "dirent \<Rightarrow> 64 word \<Rightarrow> file_attr" where
  "plus_attr e fuse_ino =
     (case dn_attr e of
        Some a \<Rightarrow> a\<lparr>fa_ino := fuse_ino\<rparr>
      | None \<Rightarrow> \<lparr>fa_ino = fuse_ino, fa_size = 0, fa_blocks = 0, fa_atime = Some (0, 0),
          fa_mtime = Some (0, 0), fa_ctime = Some (0, 0), fa_kind = mode_to_filetype (dn_mode e),
          fa_perm = 0x1ED, fa_nlink = 1, fa_uid = 0, fa_gid = 0, fa_rdev = 0, fa_blksize = 4096\<rparr>)"

fun plus_fill ::
  "(bytes list \<Rightarrow> bytes \<Rightarrow> bool) \<Rightarrow> f64 \<Rightarrow> bytes list \<Rightarrow> (nat \<times> dirent) list \<Rightarrow>
     ('w fs, (64 word \<times> nat \<times> bytes \<times> f64 \<times> file_attr) list) prog" where
  "plus_fill full ttl added [] = ret []"
| "plus_fill full ttl added ((i, e) # es) =
     bindS (plus_register e) (\<lambda>fuse_ino.
     if full added (dn_name e) then ret []
     else bindS (plus_fill full ttl (added @ [dn_name e]) es) (\<lambda>rest.
          ret ((fuse_ino, i + 1, dn_name e, ttl, plus_attr e fuse_ino) # rest)))"

definition readdirplus_op ::
  "(bytes list \<Rightarrow> bytes \<Rightarrow> bool) \<Rightarrow> nat \<Rightarrow> nat \<Rightarrow> ('w fs, reply) prog" where
  "readdirplus_op full fh offset =
     withS (\<lambda>s. case fs_open_dirs s fh of
         None \<Rightarrow> reply_err EBADF
       | Some entries \<Rightarrow>
           (case duration_from_secs_f64 (timeout (fs_config s)) of
              None \<Rightarrow> ret RPanic
            | Some ttl \<Rightarrow>
                bindS (plus_fill full ttl [] (drop offset (enumerate 0 entries))) (\<lambda>rows. ret (RDirPlus rows))))"

definition fsyncdir_op :: "'w os \<Rightarrow> 64 word \<Rightarrow> bool \<Rightarrow> ('w fs, reply) prog" where
  "fsyncdir_op os ino datasync =
     withS (\<lambda>s. if \<not> cfg_fsync (fs_config s) then reply_err ENOSYS
       else
     bindR (ret (resolve_node os s ino)) (\<lambda>node_id.
     bindR (ret (node_at s node_id)) (\<lambda>node.
     if nd_layer_idx node \<noteq> 0 \<or> (case fs_layers s of l # _ \<Rightarrow> ly_low l | [] \<Rightarrow> True) then ret ROk
     else
       bindR (ret (layer_res s (nd_layer_idx node))) (\<lambda>layer.
       bindR (world (safe_openat os (ds_root_fd (ly_ds layer)) (node_path s node_id)
                       (O_NOFOLLOW OR O_DIRECTORY) 0)) (\<lambda>fd.
       sync_fd os fd datasync)))))"

section \<open>ioctl\<close>

abbreviation (input) FS_IOC_GETVERSION :: "64 word" where "FS_IOC_GETVERSION \<equiv> 0x80087601"
abbreviation (input) FS_IOC_SETVERSION :: "64 word" where "FS_IOC_SETVERSION \<equiv> 0x40087602"
abbreviation (input) FS_IOC_GETFLAGS :: "64 word" where "FS_IOC_GETFLAGS \<equiv> 0x80086601"
abbreviation (input) FS_IOC_SETFLAGS :: "64 word" where "FS_IOC_SETFLAGS \<equiv> 0x40086602"

definition FUSE_OVFS_IOC_REFRESH_DIR :: "64 word" where
  "FUSE_OVFS_IOC_REFRESH_DIR = push_bit 8 0x66 OR 0x66"

text \<open>\<^verbatim>\<open>c_long::to_ne_bytes\<close> and \<^verbatim>\<open>from_ne_bytes\<close> on a little-endian machine.\<close>

definition to_ne_bytes :: "64 word \<Rightarrow> bytes" where
  "to_ne_bytes v = map (\<lambda>i. char_of (unat (drop_bit (8 * i) v AND 0xFF))) [0..<8]"

definition from_ne_bytes :: "bytes \<Rightarrow> 64 word" where
  "from_ne_bytes bs = foldr (\<lambda>b acc. push_bit 8 acc OR of_nat (of_char b)) bs 0"

definition ioctl_reply :: "'w os \<Rightarrow> int \<Rightarrow> 64 word \<Rightarrow> 64 word \<Rightarrow> 32 word \<Rightarrow> ('w fs, reply) prog" where
  "ioctl_reply os fd cmd val out_size =
     bindR (world (ioctl_long os fd cmd val)) (\<lambda>val'.
     ret (RIoctl 0 (if out_size > 0 then to_ne_bytes val' else [])))"

definition refresh_dir :: "'w os \<Rightarrow> node_id \<Rightarrow> ('w fs, reply) prog" where
  "refresh_dir os node_id =
     withS (\<lambda>s. bindR (ret (node_at s node_id)) (\<lambda>node.
       if \<not> is_dir node then reply_err ENOTDIR
       else
         doS (update_node node_id clear_children)
        (doS (load_dir_impl os node_id (node_path s node_id) (Some (nd_last_layer_idx node)))
             (ret (RIoctl 0 [])))))"

text \<open>\<open>compat_call\<close> is \<^verbatim>\<open>flags.contains(FUSE_IOCTL_COMPAT)\<close>.\<close>

definition ioctl_op ::
  "'w os \<Rightarrow> 64 word \<Rightarrow> nat \<Rightarrow> bool \<Rightarrow> 32 word \<Rightarrow> bytes \<Rightarrow> 32 word \<Rightarrow> ('w fs, reply) prog" where
  "ioctl_op os ino fh compat_call cmd in_data out_size =
     (if compat_call then reply_err ENOSYS
      else
     bindR (ask (\<lambda>s. resolve_node os s ino)) (\<lambda>node_id.
     let cmd_ioctl = ucast cmd;
         is_set = (cmd_ioctl = FS_IOC_SETVERSION \<or> cmd_ioctl = FS_IOC_SETFLAGS);
         is_get = (cmd_ioctl = FS_IOC_GETVERSION \<or> cmd_ioctl = FS_IOC_GETFLAGS) in
     if cmd_ioctl = FUSE_OVFS_IOC_REFRESH_DIR then refresh_dir os node_id
     else if \<not> is_set \<and> \<not> is_get then reply_err ENOSYS
     else
       bindR (if is_set then get_node_up os node_id else ok ()) (\<lambda>_.
       let val = (if is_set \<and> length in_data \<ge> 8 then from_ne_bytes (take 8 in_data) else 0) in
       withS (\<lambda>s. bindR (ret (node_at s node_id)) (\<lambda>node.
         case (if is_get \<and> \<not> is_dir node \<and> fh \<noteq> 0 then get_file s fh else None) of
           Some f \<Rightarrow> ioctl_reply os f cmd_ioctl val out_size
         | None \<Rightarrow>
             bindR (ret (layer_res s (nd_layer_idx node))) (\<lambda>layer.
             bindR (world (ds_openat (ly_ds layer) (node_path s node_id) (O_RDONLY OR O_NONBLOCK) 0x1ED)) (\<lambda>opened.
             ioctl_reply os opened cmd_ioctl val out_size)))))))"

section \<open>Every handler keeps the invariants\<close>

lemma keeps_ok_handles [keeps_intro]:
  "keeps (fs_ok L r) (alloc_fh fd)" "keeps (fs_ok L r) (alloc_dh es)" "keeps (fs_ok L r) (alloc_backed ino fd bc)"
  "keeps (fs_ok L r) disable_passthrough"
  by (auto simp: keeps_def alloc_fh_def alloc_dh_def alloc_backed_run disable_passthrough_def modS_def
      intro: fs_ok_same)

lemma keeps_ok_open_replies [keeps_intro]:
  "keeps (fs_ok L r) (reply_open_maybe_passthrough os ino fd)" "keeps (fs_ok L r) (reply_created os ino fd attr)"
  unfolding reply_open_maybe_passthrough_def open_reuse_def open_register_def reply_created_def
  by (intro keeps_intro)+

lemma keeps_ok_release [keeps_intro]: "keeps (fs_ok L r) (release_op fh)" "keeps (fs_ok L r) (releasedir_op fh)"
  by (auto simp: keeps_def release_run releasedir_op_def prog_defs intro: fs_ok_same)

lemma keeps_with_file [keeps_intro]: "(\<And>fd. keeps I (k fd)) \<Longrightarrow> keeps I (with_file fh k)"
  unfolding with_file_def by (intro keeps_intro)

lemma keeps_case_list [keeps_intro]:
  "(x = [] \<Longrightarrow> keeps I m) \<Longrightarrow> (\<And>a b. x = a # b \<Longrightarrow> keeps I (f a b)) \<Longrightarrow>
   keeps I (case x of [] \<Rightarrow> m | a # b \<Rightarrow> f a b)"
  by (cases x) auto

text \<open>The handlers that only look up a handle and run system calls, for both invariants at once.\<close>

lemma keeps_io:
  assumes [keeps_intro]: "\<And>(m :: 'w \<Rightarrow> (fs_error + unit) \<times> 'w). keeps I (world m)"
    "\<And>(m :: 'w \<Rightarrow> (fs_error + nat) \<times> 'w). keeps I (world m)"
    "\<And>(m :: 'w \<Rightarrow> (fs_error + 64 word) \<times> 'w). keeps I (world m)"
  shows "keeps I (read_op os fh off n)" "keeps I (write_op os fh off dat wc)" "keeps I (fsync_op os fh ds)"
    "keeps I (fallocate_op os fh off len mode)" "keeps I (lseek_op os fh off wh)"
    "keeps I (copy_file_range_op os fh off fh' off' len)" "keeps I (readdir_op full fh k)"
    "keeps I (statfs_op os)" "keeps I access_op"
  unfolding read_op_def write_op_def fsync_op_def sync_fd_def fallocate_op_def lseek_op_def
    copy_file_range_op_def readdir_op_def statfs_op_def access_op_def
  by (intro keeps_intro)+

lemmas keeps_ok_io [keeps_intro] = keeps_io[OF keeps_ok_world keeps_ok_world keeps_ok_world]
lemmas keeps_handles_io [keeps_intro] =
  keeps_io[OF keeps_handles_world(1) keeps_handles_world(1) keeps_handles_world(1)]

lemmas keeps_handles_inner [keeps_intro] =
  tables.frames_primitives[THEN keeps_handles_tables] tables.frames_copyup[THEN keeps_handles_tables]
  tables.frames_loading[THEN keeps_handles_tables] tables.frames_root_loaded[THEN keeps_handles_tables]
  tables.frames_small[THEN keeps_handles_tables] tables.frames_node_ops[THEN keeps_handles_tables]
  tables.frames_creation[THEN keeps_handles_tables]

declare handles_ok_release [keeps_intro]

lemma keeps_ok_init_op [keeps_intro]: "keeps (fs_ok L r) (init_op np kh)" "keeps handles_ok (init_op np kh)"
  unfolding init_op_def Let_def
  by (intro keeps_intro keeps_modS; erule fs_ok_same handles_ok_same, simp_all)+

lemma keeps_ok_open_op [keeps_intro]: "keeps (fs_ok L r) (open_op os ino flags)" "keeps handles_ok (open_op os ino flags)"
  unfolding open_op_def by (intro keeps_intro)+

lemma keeps_ok_create_parts [keeps_intro]:
  "keeps (fs_ok L r) (create_check_name os ino name)"
  "keeps (fs_ok L r) (create_over_whiteout os fd pp name path fl mode)"
  "keeps handles_ok (create_check_name os ino name)"
  "keeps handles_ok (create_over_whiteout os fd pp name path fl mode)"
  unfolding create_check_name_def create_over_whiteout_def by (intro keeps_intro)+

lemma keeps_ok_create_op [keeps_intro]:
  "keeps (fs_ok L r) (create_op os req parent name mode flags)"
  "keeps handles_ok (create_op os req parent name mode flags)"
  unfolding create_op_def by (intro keeps_intro)+

lemma keeps_ok_xattr_target [keeps_intro]:
  "keeps (fs_ok L r) (xattr_target os ino)" "keeps handles_ok (xattr_target os ino)"
  unfolding xattr_target_def by (intro keeps_intro)+

lemma keeps_ok_xattr [keeps_intro]:
  "keeps (fs_ok L r) (setxattr_op os ino name v fl)" "keeps (fs_ok L r) (getxattr_op os ino name n)"
  "keeps (fs_ok L r) (listxattr_op os ino n)" "keeps (fs_ok L r) (removexattr_op os ino name)"
  "keeps handles_ok (setxattr_op os ino name v fl)" "keeps handles_ok (getxattr_op os ino name n)"
  "keeps handles_ok (listxattr_op os ino n)" "keeps handles_ok (removexattr_op os ino name)"
  unfolding setxattr_op_def getxattr_op_def listxattr_op_def removexattr_op_def by (intro keeps_intro)+

lemma keeps_ok_opendir_op [keeps_intro]: "keeps (fs_ok L r) (opendir_op os ino)" "keeps handles_ok (opendir_op os ino)"
  unfolding opendir_op_def by (intro keeps_intro)+

lemma keeps_ok_plus_register [keeps_intro]: "keeps (fs_ok L r) (plus_register e)" "keeps handles_ok (plus_register e)"
  unfolding plus_register_def by (intro keeps_intro)+

lemma keeps_ok_plus_fill [keeps_intro]:
  "keeps (fs_ok L r) (plus_fill full ttl added es)" "keeps handles_ok (plus_fill full ttl added es)"
  by (induction full ttl added es rule: plus_fill.induct) (auto intro!: keeps_intro)

lemma keeps_ok_readdirplus_op [keeps_intro]:
  "keeps (fs_ok L r) (readdirplus_op full fh k)" "keeps handles_ok (readdirplus_op full fh k)"
  unfolding readdirplus_op_def by (intro keeps_intro)+

lemma keeps_ok_fsyncdir_op [keeps_intro]:
  "keeps (fs_ok L r) (fsyncdir_op os ino ds)" "keeps handles_ok (fsyncdir_op os ino ds)"
  unfolding fsyncdir_op_def sync_fd_def by (intro keeps_intro)+

lemma keeps_ok_ioctl_op [keeps_intro]:
  "keeps (fs_ok L r) (ioctl_op os ino fh c cmd dat n)" "keeps handles_ok (ioctl_op os ino fh c cmd dat n)"
  unfolding ioctl_op_def ioctl_reply_def refresh_dir_def by (intro keeps_intro)+

end
