(* ===== verification/Mount.thy ===== *)
theory Mount
  imports Handlers_Files
begin

text \<open>
  \<^verbatim>\<open>src/main.rs\<close>: from the command line to the file system that is handed to the FUSE session. The process
  functions (logging, resource limits, the check of \<^verbatim>\<open>/proc\<close>, daemonising, the signal thread) print or
  change the process only; \<open>fuser::Session\<close> is third-party code. Shown: what is mounted is well formed.
\<close>

section \<open>Mount options\<close>

datatype mount_option =
    FSName bytes | DefaultPermissions | RO | Suid | NoSuid | Dev | NoDev | Exec | NoExec | Atime | NoAtime
  | CUSTOM bytes

datatype session_acl = Owner | RootAndOwner | All

fun mount_options :: "bytes list \<Rightarrow> mount_option list \<Rightarrow> session_acl \<Rightarrow> mount_option list \<times> session_acl" where
  "mount_options [] opts acl = (opts, acl)"
| "mount_options (opt # rest) opts acl =
     (if opt = ''default_permissions'' then mount_options rest (opts @ [DefaultPermissions]) acl
      else if opt = ''allow_other'' then mount_options rest opts All
      else if opt = ''allow_root'' then mount_options rest opts RootAndOwner
      else if opt = ''ro'' then mount_options rest (opts @ [RO]) acl
      else if opt = ''suid'' then mount_options rest (opts @ [Suid]) acl
      else if opt = ''nosuid'' then mount_options rest (opts @ [NoSuid]) acl
      else if opt = ''dev'' then mount_options rest (opts @ [Dev]) acl
      else if opt = ''nodev'' then mount_options rest (opts @ [NoDev]) acl
      else if opt = ''exec'' then mount_options rest (opts @ [Exec]) acl
      else if opt = ''noexec'' then mount_options rest (opts @ [NoExec]) acl
      else if opt = ''atime'' then mount_options rest (opts @ [Atime]) acl
      else if opt = ''noatime'' then mount_options rest (opts @ [NoAtime]) acl
      else if opt = ''diratime'' then mount_options rest (opts @ [CUSTOM ''diratime'']) acl
      else if opt = ''nodiratime'' then mount_options rest (opts @ [CUSTOM ''nodiratime'']) acl
      else if opt = ''debug'' then mount_options rest (opts @ [CUSTOM ''debug'']) acl
      else if starts_with opt ''max_write='' then mount_options rest (opts @ [CUSTOM opt]) acl
      else if starts_with opt ''fsname='' then mount_options rest opts acl
      else mount_options rest (opts @ [CUSTOM opt]) acl)"

section \<open>Start\<close>

datatype start_error =
    BadArguments bytes | HelpOrVersion | NoLowerdir | NoMountpoint | RedirectDir
  | BadWorkdir bytes fs_error | BadLayers layer_error

text \<open>
  \<open>overflow\<close> and \<open>disable_wh\<close> are what \<^verbatim>\<open>OverlayFs::new\<close> reads from \<^verbatim>\<open>/proc\<close> and the environment. Every error
  ends the process with status 1 (help and version with 0).
\<close>

definition validate :: "32 word \<Rightarrow> bytes list \<Rightarrow> start_error + overlay_config \<times> bytes \<times> bytes" where
  "validate uid args =
     (case parse_args uid args of
        ArgsErr e \<Rightarrow> Inl (BadArguments e)
      | ArgsExit \<Rightarrow> Inl HelpOrVersion
      | ArgsOk config \<Rightarrow>
          (case lowerdir config of None \<Rightarrow> Inl NoLowerdir
           | Some lower \<Rightarrow>
          (case mountpoint config of None \<Rightarrow> Inl NoMountpoint
           | Some mnt \<Rightarrow>
           if (case redirect_dir config of Some r \<Rightarrow> r \<noteq> ''off'' | None \<Rightarrow> False) then Inl RedirectDir
           else Inr (config, lower, mnt))))"

definition open_dirs ::
  "'w os \<Rightarrow> overlay_config \<Rightarrow> bytes \<Rightarrow> ('w, start_error + int \<times> 'w ovl_layer list) prog" where
  "open_dirs os config lower =
     bindE (case workdir config of
         None \<Rightarrow> ret (Inr (-1))
       | Some wd \<Rightarrow> bindS (open_trusted os wd O_DIRECTORY 0) (\<lambda>r. case r of
             Inl e \<Rightarrow> ret (Inl (BadWorkdir wd e)) | Inr fd \<Rightarrow> ret (Inr fd))) (\<lambda>workdir_fd.
     bindE (bindS (init_layers os lower (upperdir config) (nfs_filehandles config) (xattr_permissions config))
              (\<lambda>r. case r of Inl e \<Rightarrow> ret (Inl (BadLayers e)) | Inr ls \<Rightarrow> ret (Inr ls))) (\<lambda>layers.
     ret (Inr (workdir_fd, layers))))"

definition start ::
  "'w os \<Rightarrow> 32 word \<Rightarrow> bytes list \<Rightarrow> overflow_ids \<Rightarrow> bool \<Rightarrow>
     ('w, start_error + 'w fs \<times> bytes \<times> mount_option list \<times> session_acl) prog" where
  "start os uid args overflow disable_wh =
     (case validate uid args of
        Inl e \<Rightarrow> ret (Inl e)
      | Inr (config, lower, mnt) \<Rightarrow>
          bindE (open_dirs os config lower) (\<lambda>(workdir_fd, layers).
          case mount_options (fuse_options config) [FSName ''fuse-overlayfs''] Owner of (opts, acl) \<Rightarrow>
            withS (\<lambda>w. ret (Inr (overlay_new config layers workdir_fd overflow disable_wh w, mnt, opts, acl)))))"

text \<open>After \<^verbatim>\<open>Session::new\<close> the notifier is set.\<close>

definition set_notifier :: "'w fs \<Rightarrow> 'w fs" where
  "set_notifier s = s\<lparr>fs_notifier := True\<rparr>"

section \<open>Properties\<close>

lemma overlay_new_fields:
  "fs_layers (overlay_new c ls wfd ov dis w) = ls" "fs_config (overlay_new c ls wfd ov dis w) = c"
  "fs_workdir_fd (overlay_new c ls wfd ov dis w) = wfd" "fs_world (overlay_new c ls wfd ov dis w) = w"
  by (simp_all add: overlay_new_def Let_def split: prod.splits)

lemma start_run:
  assumes "start os uid args ov dis w = (Inr (s, mnt, opts, acl), w')"
  obtains config lower layers wfd w1 where "parse_args uid args = ArgsOk config"
    "lowerdir config = Some lower" "mountpoint config = Some mnt" "redirect_dir config \<in> {None, Some ''off''}"
    "init_layers os lower (upperdir config) (nfs_filehandles config) (xattr_permissions config) w1 = (Inr layers, w')"
    "s = overlay_new config layers wfd ov dis w'" "workdir config = None \<longrightarrow> wfd = -1"
proof -
  from assms obtain config lower where c: "parse_args uid args = ArgsOk config" "lowerdir config = Some lower"
    "mountpoint config = Some mnt" "redirect_dir config \<in> {None, Some ''off''}"
    by (auto simp: start_def validate_def open_dirs_def prog_defs
        split: args_result.splits option.splits if_splits prod.splits sum.splits)
  with assms obtain wfd w1 layers where
    "init_layers os lower (upperdir config) (nfs_filehandles config) (xattr_permissions config) w1 = (Inr layers, w')"
    "s = overlay_new config layers wfd ov dis w'" "workdir config = None \<longrightarrow> wfd = -1"
    by (auto simp: start_def validate_def open_dirs_def prog_defs split: option.splits if_splits prod.splits sum.splits)
  with c show ?thesis by (rule that)
qed

lemma upper_layer_hd: "fs_layers s \<noteq> [] \<Longrightarrow> upper_layer s = (if ly_low (hd (fs_layers s)) then None else Some (hd (fs_layers s)))"
  by (cases "fs_layers s") (auto simp: upper_layer_def layer_at_def)

lemma start_state:
  assumes "start os uid args ov dis w = (Inr (s, mnt, opts, acl), w')"
  shows "fs_ok (length (fs_layers s)) 1 s" "handles_ok s" "layers_ok (fs_layers s)"
    "upper_layer s = None \<longleftrightarrow> upperdir (fs_config s) = None" "redirect_dir (fs_config s) \<in> {None, Some ''off''}"
    "fs_world s = w'" "workdir (fs_config s) = None \<Longrightarrow> fs_workdir_fd s = -1"
proof -
  obtain config lower layers wfd w1 where "parse_args uid args = ArgsOk config"
    "lowerdir config = Some lower" "mountpoint config = Some mnt" and c: "redirect_dir config \<in> {None, Some ''off''}"
    and l: "init_layers os lower (upperdir config) (nfs_filehandles config) (xattr_permissions config) w1 = (Inr layers, w')"
    and s: "s = overlay_new config layers wfd ov dis w'" and wd: "workdir config = None \<longrightarrow> wfd = -1"
    by (rule start_run[OF assms])
  note shape = init_layers_shape[OF l]
  then have ne: "layers \<noteq> []" by (simp add: layers_ok_def)
  show "fs_ok (length (fs_layers s)) 1 s" using fs_ok_new[OF ne] by (simp add: s overlay_new_fields)
  show "handles_ok s" using backings_exact_new[of config layers wfd ov dis w'] by (simp add: s backings_exact_def)
  show "layers_ok (fs_layers s)" "upper_layer s = None \<longleftrightarrow> upperdir (fs_config s) = None"
    "redirect_dir (fs_config s) \<in> {None, Some ''off''}" "fs_world s = w'"
    using shape ne c by (simp_all add: s overlay_new_fields upper_layer_hd)
  show "fs_workdir_fd s = -1" if "workdir (fs_config s) = None"
    using that wd by (simp add: s overlay_new_fields)
qed

text \<open>C25: What is mounted is well formed: a command line that is accepted leads to a state that
  satisfies the invariants of the tree, the inode table and the handles, with
  only the first layer writable, and that one exactly if an upper directory was given; only
  \<^verbatim>\<open>redirect_dir=off\<close> is accepted. An upper directory without a work directory is accepted too, with
  \<open>-1\<close> as the descriptor of the work directory.\<close>

theorem start_mounts:
  assumes "start os uid args ov dis w = (Inr (s, mnt, opts, acl), w')"
  shows "fs_ok (length (fs_layers s)) 1 s \<and> handles_ok s \<and> layers_ok (fs_layers s) \<and>
    (upper_layer s = None \<longleftrightarrow> upperdir (fs_config s) = None) \<and>
    redirect_dir (fs_config s) \<in> {None, Some ''off''} \<and> fs_world s = w' \<and>
    (workdir (fs_config s) = None \<longrightarrow> fs_workdir_fd s = -1)"
  using start_state[OF assms] by blast

text \<open>Witness: one lower and one upper directory, no work directory.\<close>

definition sample_args :: "bytes list" where
  "sample_args = [''fuse-overlayfs'', ''-o'', ''lowerdir=/l,upperdir=/u'', ''/m'']"

lemma sample_config:
  "parse_args 1 sample_args = ArgsOk ((config_default 1)\<lparr>fuse_options := [''default_permissions'', ''noatime''],
     lowerdir := Some ''/l'', upperdir := Some ''/u'', mountpoint := Some ''/m''\<rparr>)"
  by (simp add: parse_args_def sample_args_def config_default_def default_fuse_options_def finish_mappings_def
      parse_option_string_def split_options_def parse_single_option_def parse_key_value_def strip_prefix_def
      starts_with_def Let_def)

lemma sample_start:
  obtains s mnt opts acl where "start opening_os 1 sample_args \<lparr>ov_uid = 65534, ov_gid = 65534\<rparr> False () =
    (Inr (s, mnt, opts, acl), ())"
proof -
  from opening_init_layers obtain layers where
    "init_layers opening_os ''/l'' (Some ''/u'') 0 0 () = (Inr layers, ())" by blast
  then show ?thesis
    using that by (simp add: start_def validate_def open_dirs_def sample_config config_default_def prog_defs starts_with_def)
qed

text \<open>A mount without an upper directory.\<close>

definition read_only_args :: "bytes list" where
  "read_only_args = [''fuse-overlayfs'', ''-o'', ''lowerdir=/l'', ''/m'']"

lemma read_only_config:
  "parse_args 1 read_only_args = ArgsOk ((config_default 1)\<lparr>fuse_options := [''default_permissions'', ''noatime''],
     lowerdir := Some ''/l'', mountpoint := Some ''/m''\<rparr>)"
  by (simp add: parse_args_def read_only_args_def config_default_def default_fuse_options_def finish_mappings_def
      parse_option_string_def split_options_def parse_single_option_def parse_key_value_def strip_prefix_def
      starts_with_def Let_def)

lemma read_only_start:
  obtains s mnt opts acl where "start opening_os 1 read_only_args \<lparr>ov_uid = 65534, ov_gid = 65534\<rparr> False () =
    (Inr (s, mnt, opts, acl), ())" "upperdir (fs_config s) = None"
proof -
  from opening_init_lower obtain layers where "init_layers opening_os ''/l'' None 0 0 () = (Inr layers, ())" by blast
  then show ?thesis
    using that by (simp add: start_def validate_def open_dirs_def read_only_config config_default_def prog_defs starts_with_def overlay_new_fields)
qed

theorem start_mounts_witness:
  "\<exists>s mnt opts acl. start opening_os 1 sample_args \<lparr>ov_uid = 65534, ov_gid = 65534\<rparr> False () =
     (Inr (s, mnt, opts, acl), ()) \<and> fs_ok (length (fs_layers s)) 1 s \<and> layers_ok (fs_layers s)"
proof -
  obtain s mnt opts acl where run: "start opening_os 1 sample_args \<lparr>ov_uid = 65534, ov_gid = 65534\<rparr> False () =
    (Inr (s, mnt, opts, acl), ())" by (rule sample_start)
  with start_mounts[OF run] show ?thesis by blast
qed

end
