(* ===== verification/Requests.thy ===== *)
theory Requests
  imports Mount
begin

text \<open>
  \<^verbatim>\<open>impl Filesystem for OverlayFs\<close> as a state machine: the requests of the kernel, the handler each is served
  by, and the states a mounted file system can reach, with other processes free to change the
  underlying file systems at any time. Shown: the invariants hold in every reachable state, and the
  configuration and the layers never change.
\<close>

section \<open>Requests\<close>

datatype request =
    Init bool bool
  | Lookup "64 word" bytes
  | Forget "64 word" "64 word"
  | Getattr "64 word"
  | Setattr "64 word" "32 word option" "32 word option" "32 word option" "64 word option"
      "time_or_now option" "time_or_now option" "nat option"
  | Readlink "64 word"
  | Mknod "32 word \<times> 32 word" "64 word" bytes mode_t "32 word"
  | Mkdir "32 word \<times> 32 word" "64 word" bytes mode_t
  | Unlink "64 word" bytes
  | Rmdir "64 word" bytes
  | Symlink "32 word \<times> 32 word" "64 word" bytes bytes
  | Rename "64 word" bytes "64 word" bytes "32 word"
  | Link "64 word" "64 word" bytes
  | Open "64 word" oflags
  | Read nat "64 word" "32 word"
  | Write nat "64 word" bytes bool
  | Release nat
  | Statfs
  | Setxattr "64 word" bytes bytes "32 word"
  | Getxattr "64 word" bytes "32 word"
  | Listxattr "64 word" "32 word"
  | Removexattr "64 word" bytes
  | Access
  | Create "32 word \<times> 32 word" "64 word" bytes mode_t oflags
  | Opendir "64 word"
  | Readdir "bytes list \<Rightarrow> bytes \<Rightarrow> bool" nat nat
  | Readdirplus "bytes list \<Rightarrow> bytes \<Rightarrow> bool" nat nat
  | Releasedir nat
  | Fsync nat bool
  | Fsyncdir "64 word" bool
  | Fallocate nat "64 word" "64 word" "32 word"
  | Lseek nat "64 word" "32 word"
  | Copy_File_Range nat "64 word" nat "64 word" "64 word"
  | Ioctl "64 word" nat bool "32 word" bytes "32 word"

primrec serve :: "'w os \<Rightarrow> request \<Rightarrow> ('w fs, reply) prog" where
  "serve os (Init np kh) = doS (init_op np kh) (ret ROk)"
| "serve os (Lookup parent name) = lookup_op os parent name"
| "serve os (Forget ino n) = forget_op ino n"
| "serve os (Getattr ino) = getattr_op os ino"
| "serve os (Setattr ino mode uid gid sz atime mtime fh) = setattr_op os ino mode uid gid sz atime mtime fh"
| "serve os (Readlink ino) = readlink_op os ino"
| "serve os (Mknod req parent name mode rdev) = mknod_op os req parent name mode rdev"
| "serve os (Mkdir req parent name mode) = mkdir_op os req parent name mode"
| "serve os (Unlink parent name) = unlink_op os parent name"
| "serve os (Rmdir parent name) = rmdir_op os parent name"
| "serve os (Symlink req parent name link) = symlink_op os req parent name link"
| "serve os (Rename parent name newparent newname flags) = rename_op os parent name newparent newname flags"
| "serve os (Link ino newparent newname) = link_op os ino newparent newname"
| "serve os (Open ino flags) = open_op os ino flags"
| "serve os (Read fh off n) = read_op os fh off n"
| "serve os (Write fh off dat wc) = write_op os fh off dat wc"
| "serve os (Release fh) = release_op fh"
| "serve os Statfs = statfs_op os"
| "serve os (Setxattr ino name val flags) = setxattr_op os ino name val flags"
| "serve os (Getxattr ino name n) = getxattr_op os ino name n"
| "serve os (Listxattr ino n) = listxattr_op os ino n"
| "serve os (Removexattr ino name) = removexattr_op os ino name"
| "serve os Access = access_op"
| "serve os (Create req parent name mode flags) = create_op os req parent name mode flags"
| "serve os (Opendir ino) = opendir_op os ino"
| "serve os (Readdir full fh off) = readdir_op full fh off"
| "serve os (Readdirplus full fh off) = readdirplus_op full fh off"
| "serve os (Releasedir fh) = releasedir_op fh"
| "serve os (Fsync fh ds) = fsync_op os fh ds"
| "serve os (Fsyncdir ino ds) = fsyncdir_op os ino ds"
| "serve os (Fallocate fh off len mode) = fallocate_op os fh off len mode"
| "serve os (Lseek fh off wh) = lseek_op os fh off wh"
| "serve os (Copy_File_Range fi oi fo oo len) = copy_file_range_op os fi oi fo oo len"
| "serve os (Ioctl ino fh cc cmd dat n) = ioctl_op os ino fh cc cmd dat n"

section \<open>Reachable states\<close>

text \<open>
  A run is a sequence of served requests and of changes of the world by others. The sections of
  \<^verbatim>\<open>open\<close> that take the lock of the backing ids separately may also run on their own, because
  other requests may be served between them.
\<close>

inductive reachable :: "'w os \<Rightarrow> 'w fs \<Rightarrow> 'w fs \<Rightarrow> bool" for os s0 where
  start: "reachable os s0 s0"
| request: "reachable os s0 s \<Longrightarrow> serve os rq s = (r, s') \<Longrightarrow> reachable os s0 s'"
| reuse: "reachable os s0 s \<Longrightarrow> open_reuse ino fd s = (rp, s') \<Longrightarrow> reachable os s0 s'"
| register: "reachable os s0 s \<Longrightarrow> open_register ino fd b s = (r, s') \<Longrightarrow> reachable os s0 s'"
| environment: "reachable os s0 s \<Longrightarrow> reachable os s0 (s\<lparr>fs_world := w\<rparr>)"
| notifier: "reachable os s0 s \<Longrightarrow> reachable os s0 (set_notifier s)"

lemma keeps_ok_serve: "keeps (fs_ok L r) (serve os rq)"
  by (cases rq; simp only: serve.simps; intro keeps_intro)

lemma keeps_handles_serve: "keeps handles_ok (serve os rq)"
proof -
  note names = tables.frames_lookup_op tables.frames_attributes tables.frames_setattr_op tables.frames_new_files
    tables.frames_removal tables.frames_rename_op tables.frames_link_op
  show ?thesis
    by (cases rq; simp only: serve.simps; intro keeps_intro names[THEN keeps_handles_tables])
qed

lemma reachable_invariant:
  assumes "reachable os s0 s" "I s0" "\<And>rq. keeps I (serve os rq)"
    and "\<And>s w. I s \<Longrightarrow> I (s\<lparr>fs_world := w\<rparr>)" "\<And>s. I s \<Longrightarrow> I (set_notifier s)"
    and "\<And>ino fd. keeps I (open_reuse ino fd)" "\<And>ino fd b. keeps I (open_register ino fd b)"
  shows "I s"
  using assms(1)
proof (induction rule: reachable.induct)
  case (request s rq r s')
  from keepsD[OF assms(3) request.IH request.hyps(2)] show ?case .
next
  case (reuse s ino fd rp s')
  from keepsD[OF assms(6) reuse.IH reuse.hyps(2)] show ?case .
next
  case (register s ino fd b r s')
  from keepsD[OF assms(7) register.IH register.hyps(2)] show ?case .
qed (use assms in auto)

lemma reachable_fs_ok:
  assumes "reachable os s0 s" "fs_ok L r s0"
  shows "fs_ok L r s"
  using assms
proof (rule reachable_invariant)
  show "keeps (fs_ok L r) (open_reuse ino fd)" "keeps (fs_ok L r) (open_register ino fd b)" for ino fd b
    unfolding open_reuse_def open_register_def by (intro keeps_intro)+
qed (auto simp: set_notifier_def intro: keeps_ok_serve fs_ok_same)

lemma reachable_handles_ok:
  assumes "reachable os s0 s" "handles_ok s0"
  shows "handles_ok s"
  using assms
  by (rule reachable_invariant)
    (auto simp: set_notifier_def intro: keeps_handles_serve keeps_handles_open_sections handles_ok_same)

section \<open>What requests keep\<close>

text \<open>
  An invariant that looks at none of the tables, and at the two passthrough flags only in a way
  that setting both to the same value cannot break. Every request keeps it.
\<close>

lemma keeps_of_frames: "frames I m \<Longrightarrow> keeps I m"
  by (simp add: frames_def keeps_def)

locale request_invariant = inner_observation I for I :: "'w fs \<Rightarrow> bool" +
  assumes I_open_files: "I (s\<lparr>fs_open_files := a\<rparr>) = I s"
    and I_next_fh: "I (s\<lparr>fs_next_fh := k\<rparr>) = I s"
    and I_open_dirs: "I (s\<lparr>fs_open_dirs := d\<rparr>) = I s"
    and I_next_dh: "I (s\<lparr>fs_next_dh := k\<rparr>) = I s"
    and I_backings: "I (s\<lparr>fs_inode_backings := c\<rparr>) = I s"
    and I_fh_to_ino: "I (s\<lparr>fs_fh_to_ino := e\<rparr>) = I s"
    and I_notifier: "I (s\<lparr>fs_notifier := b\<rparr>) = I s"
    and I_passthrough: "I s \<Longrightarrow> I (s\<lparr>fs_passthrough_enabled := b, fs_STAT_PASSTHROUGH := b\<rparr>)"

context request_invariant
begin

lemmas keeps_inner [keeps_intro] =
  frames_primitives[THEN keeps_of_frames] frames_copyup[THEN keeps_of_frames] frames_loading[THEN keeps_of_frames]
  frames_root_loaded[THEN keeps_of_frames] frames_small[THEN keeps_of_frames] frames_node_ops[THEN keeps_of_frames]
  frames_creation[THEN keeps_of_frames]

lemmas keeps_names =
  frames_lookup_op[THEN keeps_of_frames] frames_attributes[THEN keeps_of_frames] frames_setattr_op[THEN keeps_of_frames]
  frames_new_files[THEN keeps_of_frames] frames_removal[THEN keeps_of_frames] frames_rename_op[THEN keeps_of_frames]
  frames_link_op[THEN keeps_of_frames]

lemma keeps_tables [keeps_intro]:
  "keeps I (alloc_fh fd)" "keeps I (alloc_dh es)" "keeps I (alloc_backed ino fd bc)" "keeps I disable_passthrough"
  "keeps I (release_op fh)" "keeps I (releasedir_op fh)"
  by (simp_all add: keeps_def alloc_fh_def alloc_dh_def alloc_backed_run disable_passthrough_def modS_def
      release_run releasedir_op_def doS_def bindS_def ret_def I_open_files I_next_fh I_open_dirs I_next_dh I_backings
      I_fh_to_ino I_passthrough)

lemma keeps_opening [keeps_intro]:
  "keeps I (open_reuse ino fd)" "keeps I (open_register ino fd b)" "keeps I (reply_created os ino fd attr)"
  unfolding open_reuse_def open_register_def reply_created_def by (intro keeps_intro)+

lemma keeps_reply_open [keeps_intro]: "keeps I (reply_open_maybe_passthrough os ino fd)"
  unfolding reply_open_maybe_passthrough_def by (intro keeps_intro)

lemma keeps_init_op [keeps_intro]: "keeps I (init_op np kh)"
  unfolding init_op_def Let_def by (intro keeps_intro keeps_modS I_passthrough)

lemma keeps_open_op [keeps_intro]: "keeps I (open_op os ino flags)"
  unfolding open_op_def by (intro keeps_intro)

lemma keeps_create_op [keeps_intro]: "keeps I (create_op os req parent name mode flags)"
  unfolding create_op_def create_check_name_def create_over_whiteout_def by (intro keeps_intro)

lemma keeps_xattr_ops [keeps_intro]:
  "keeps I (setxattr_op os ino name v fl)" "keeps I (getxattr_op os ino name n)"
  "keeps I (listxattr_op os ino n)" "keeps I (removexattr_op os ino name)"
  unfolding setxattr_op_def getxattr_op_def listxattr_op_def removexattr_op_def xattr_target_def
  by (intro keeps_intro)+

lemmas keeps_io_ops [keeps_intro] = keeps_io[OF keeps_inner(5) keeps_inner(5) keeps_inner(5)]

lemma keeps_plus_fill [keeps_intro]: "keeps I (plus_fill full ttl added es)"
  by (induction full ttl added es rule: plus_fill.induct) (auto simp: plus_register_def intro!: keeps_intro)

lemma keeps_dir_ops [keeps_intro]:
  "keeps I (opendir_op os ino)" "keeps I (readdirplus_op full fh k)"
  "keeps I (fsyncdir_op os ino ds)" "keeps I (ioctl_op os ino fh c cmd dat n)"
  unfolding opendir_op_def readdirplus_op_def fsyncdir_op_def sync_fd_def ioctl_op_def
    ioctl_reply_def refresh_dir_def
  by (intro keeps_intro)+

lemma keeps_serve: "keeps I (serve os rq)"
  by (cases rq; simp only: serve.simps; intro keeps_intro keeps_names)

lemma reachable_keeps:
  assumes "reachable os s0 s" "I s0"
  shows "I s"
  using assms by (rule reachable_invariant) (auto simp: set_notifier_def f_world I_notifier intro: keeps_serve keeps_opening)

end

text \<open>An observation that looks at nothing any handler changes.\<close>

locale fixed_observation = inner_observation +
  assumes f_open_files: "f (s\<lparr>fs_open_files := a\<rparr>) = f s"
    and f_next_fh: "f (s\<lparr>fs_next_fh := k\<rparr>) = f s"
    and f_open_dirs: "f (s\<lparr>fs_open_dirs := d\<rparr>) = f s"
    and f_next_dh: "f (s\<lparr>fs_next_dh := k\<rparr>) = f s"
    and f_backings: "f (s\<lparr>fs_inode_backings := c\<rparr>) = f s"
    and f_fh_to_ino: "f (s\<lparr>fs_fh_to_ino := e\<rparr>) = f s"
    and f_passthrough: "f (s\<lparr>fs_passthrough_enabled := b\<rparr>) = f s"
    and f_stat_passthrough: "f (s\<lparr>fs_STAT_PASSTHROUGH := b\<rparr>) = f s"
    and f_notifier: "f (s\<lparr>fs_notifier := b\<rparr>) = f s"

sublocale fixed_observation \<subseteq> fixed: request_invariant "\<lambda>s. f s = v" for v
  by unfold_locales
    (simp_all add: f_nodes f_inodes f_world f_hung f_CAN_MKNOD f_wd f_notified f_open_files f_next_fh f_open_dirs
      f_next_dh f_backings f_fh_to_ino f_passthrough f_stat_passthrough f_notifier)

context fixed_observation
begin

lemma frames_serve: "frames f (serve os rq)"
  by (rule frames_from_keeps) (rule fixed.keeps_serve)

lemma reachable_fixed: "reachable os s0 s \<Longrightarrow> f s = f s0"
  by (rule fixed.reachable_keeps) simp_all

end

interpretation mounted: fixed_observation mount_view
  by unfold_locales (simp_all add: mount_view_def)

text \<open>The flag reported to the user is the one in force.\<close>

definition flags_agree :: "'w fs \<Rightarrow> bool" where
  "flags_agree s \<longleftrightarrow> fs_STAT_PASSTHROUGH s = fs_passthrough_enabled s"

interpretation flags: request_invariant flags_agree
  by unfold_locales (simp_all add: flags_agree_def)

end
