(* ===== verification/Read_Only.thy ===== *)
theory Read_Only
  imports Requests
begin

text \<open>
  A mount without an upper directory: every request that would change the tree is
  refused. \<open>refuses E m\<close>: started without a writable layer, \<open>m\<close> returns a value with \<open>E\<close> and has made no
  system call that changes the world; \<open>quiet\<close> programs only observe.
\<close>

definition refuses :: "('a \<Rightarrow> bool) \<Rightarrow> ('w fs, 'a) prog \<Rightarrow> bool" where
  "refuses E m \<longleftrightarrow>
     (\<forall>s. upper_layer s = None \<longrightarrow>
        E (fst (m s)) \<and> upper_layer (snd (m s)) = None \<and> fs_world (snd (m s)) = fs_world s)"

abbreviation quiet :: "('w fs, 'a) prog \<Rightarrow> bool" where
  "quiet \<equiv> refuses (\<lambda>_. True)"

definition is_error :: "reply \<Rightarrow> bool" where
  "is_error r \<longleftrightarrow> (\<exists>e. r = RError e)"

named_theorems refuses_intro \<open>rules for \<open>refuses\<close>\<close>

lemma refusesD:
  "refuses E m \<Longrightarrow> upper_layer s = None \<Longrightarrow>
   E (fst (m s)) \<and> upper_layer (snd (m s)) = None \<and> fs_world (snd (m s)) = fs_world s"
  by (simp add: refuses_def)

lemma refuses_bindS [refuses_intro]: "quiet m \<Longrightarrow> (\<And>x. refuses E (k x)) \<Longrightarrow> refuses E (bindS m k)"
  by (simp add: refuses_def bindS_def split_beta)

lemma refuses_doS [refuses_intro]: "quiet m \<Longrightarrow> refuses E k \<Longrightarrow> refuses E (doS m k)"
  unfolding doS_def by (rule refuses_bindS)

lemma refuses_withS [refuses_intro]: "(\<And>s. refuses E (f s)) \<Longrightarrow> refuses E (withS f)"
  by (simp add: refuses_def withS_def)

lemma refuses_if [refuses_intro]: "refuses E m \<Longrightarrow> refuses E n \<Longrightarrow> refuses E (if b then m else n)"
  by simp

lemma refuses_Let [refuses_intro]: "refuses E (f x) \<Longrightarrow> refuses E (Let x f)"
  by simp

lemma refuses_case_option [refuses_intro]:
  "refuses E m \<Longrightarrow> (\<And>a. refuses E (f a)) \<Longrightarrow> refuses E (case x of None \<Rightarrow> m | Some a \<Rightarrow> f a)"
  by (cases x) auto

lemma refuses_case_prod [refuses_intro]: "(\<And>a b. refuses E (f a b)) \<Longrightarrow> refuses E (case x of (a, b) \<Rightarrow> f a b)"
  by (cases x) auto

lemma quiet_ret [refuses_intro]: "quiet (ret x)"
  by (simp add: refuses_def ret_def)

lemma refuses_ret [refuses_intro]: "refuses is_error (ret (RError e))" "refuses isl (ret (Inl e'))"
  by (simp_all add: refuses_def ret_def is_error_def)

text \<open>An error stops the handler; a quiet part leaves it to the rest to refuse.\<close>

lemma refuses_bindR_quiet: "quiet m \<Longrightarrow> (\<And>x. refuses is_error (k x)) \<Longrightarrow> refuses is_error (bindR m k)"
  unfolding bindR_def by (rule refuses_bindS) (auto intro: refuses_ret split: sum.splits)

lemma refuses_bindE_quiet: "quiet m \<Longrightarrow> (\<And>x. refuses isl (k x)) \<Longrightarrow> refuses isl (bindE m k)"
  unfolding bindE_def by (rule refuses_bindS) (auto intro: refuses_ret split: sum.splits)

lemma refuses_isl:
  assumes "refuses isl m" "upper_layer s = None"
  obtains e s1 where "m s = (Inl e, s1)" "upper_layer s1 = None" "fs_world s1 = fs_world s"
  using refusesD[OF assms] that by (cases "m s"; cases "fst (m s)") auto

lemma refuses_bindR_stop:
  fixes m :: "('w fs, 'a fs_result) prog"
  assumes "refuses isl m"
  shows "refuses is_error (bindR m k)"
  unfolding refuses_def
proof (intro allI impI)
  fix s :: "'w fs"
  assume "upper_layer s = None"
  then obtain e s1 where "m s = (Inl e, s1)" "upper_layer s1 = None" "fs_world s1 = fs_world s"
    by (rule refuses_isl[OF assms])
  then show "is_error (fst (bindR m k s)) \<and> upper_layer (snd (bindR m k s)) = None \<and>
      fs_world (snd (bindR m k s)) = fs_world s"
    by (auto simp: bindR_def bindS_def ret_def is_error_def)
qed

lemma refuses_bindE_stop:
  fixes m :: "('w fs, 'e + 'a) prog"
  assumes "refuses isl m"
  shows "refuses isl (bindE m k)"
  unfolding refuses_def
proof (intro allI impI)
  fix s :: "'w fs"
  assume "upper_layer s = None"
  then obtain e s1 where "m s = (Inl e, s1)" "upper_layer s1 = None" "fs_world s1 = fs_world s"
    by (rule refuses_isl[OF assms])
  then show "isl (fst (bindE m k s)) \<and> upper_layer (snd (bindE m k s)) = None \<and>
      fs_world (snd (bindE m k s)) = fs_world s"
    by (auto simp: bindE_def bindS_def ret_def)
qed

lemma quiet_bindE [refuses_intro]: "quiet m \<Longrightarrow> (\<And>x. quiet (k x)) \<Longrightarrow> quiet (bindE m k)"
  unfolding bindE_def by (rule refuses_bindS) (auto intro: quiet_ret split: sum.splits)

text \<open>Programs that leave the world and the layers alone are quiet.\<close>

lemma quiet_framed:
  "frames fs_world m \<Longrightarrow> frames fs_layers m \<Longrightarrow> quiet m"
  by (simp add: refuses_def frames_def upper_layer_def)

lemma quiet_loading [refuses_intro]:
  "quiet (do_lookup_file os ino name)" "quiet (reload_dir os i)"
  by (rule quiet_framed; intro frames_do_lookup_file frames_reload_dir; simp)+

lemma quiet_ask [refuses_intro]: "quiet (ask g)"
  unfolding ask_def by (intro refuses_intro)

lemma refuses_get_node_up: "refuses isl (get_node_up os i)"
  by (simp add: refuses_def get_node_up_def withS_def ret_def)

lemma refuses_prepare_create_parent: "refuses isl (prepare_create_parent os ino name)"
  unfolding prepare_create_parent_def
  by (rule refuses_bindS refuses_case_option refuses_ret refuses_bindE_stop refuses_get_node_up quiet_loading)+

lemma quiet_check_new_name: "quiet (check_new_name os ino name)" "quiet (create_check_name os ino name)"
  unfolding check_new_name_def create_check_name_def by (intro refuses_intro)+

lemmas stops = refuses_bindR_stop[OF refuses_get_node_up] refuses_bindR_stop[OF refuses_prepare_create_parent]
  refuses_bindE_stop[OF refuses_get_node_up]

lemma refuses_creation:
  "refuses is_error (mknod_op os req parent name mode rdev)" "refuses is_error (mkdir_op os req parent name mode)"
  "refuses is_error (symlink_op os req parent name link)" "refuses is_error (create_op os req parent name mode flags)"
  unfolding mknod_op_def mkdir_op_def symlink_op_def create_op_def
  by (rule refuses_bindR_quiet[OF quiet_check_new_name(1)] refuses_bindR_quiet[OF quiet_check_new_name(2)], rule stops)+

lemma refuses_removal: "refuses is_error (unlink_op os parent name)" "refuses is_error (rmdir_op os parent name)"
  unfolding unlink_op_def rmdir_op_def do_rm_def
  by (intro refuses_intro stops refuses_bindR_quiet)+

lemma refuses_rename_op: "refuses is_error (rename_op os parent name newparent newname flags)"
proof -
  have "quiet (rename_check_source os i)" for i
    unfolding rename_check_source_def by (intro refuses_intro)
  then show ?thesis
    unfolding rename_op_def by (intro refuses_intro stops refuses_bindR_quiet)
qed

lemma refuses_link_op: "refuses is_error (link_op os ino newparent newname)"
  unfolding link_op_def by (intro refuses_intro stops)

lemma refuses_setattr_op: "refuses is_error (setattr_op os ino mode uid gid sz at mt fh)"
  unfolding setattr_op_def by (rule refuses_bindR_quiet[OF quiet_ask], rule stops)

lemma refuses_xattr_target: "refuses isl (xattr_target os ino)"
  unfolding xattr_target_def by (rule refuses_bindE_quiet[OF quiet_ask], rule stops)

lemma refuses_xattr_ops:
  "refuses is_error (setxattr_op os ino name v fl)" "refuses is_error (removexattr_op os ino name)"
  unfolding setxattr_op_def removexattr_op_def
  by (intro refuses_intro refuses_bindR_stop[OF refuses_xattr_target])+

text \<open>An open for writing is refused as well when every layer is read-only.\<close>

lemma open_write_refused:
  assumes "list_all ly_low (fs_layers s)"
    and "flags AND (O_APPEND OR O_RDWR OR O_WRONLY OR O_CREAT OR O_TRUNC) \<noteq> 0"
  shows "is_error (fst (open_op os ino flags s)) \<and> fs_world (snd (open_op os ino flags s)) = fs_world s"
proof -
  have up: "upper_layer s = None" using assms(1) by (cases "fs_layers s") (auto simp: upper_layer_def)
  have low: "layer_at s i = Some l \<Longrightarrow> ly_low l" for i l
    using assms(1) by (auto simp: layer_at_def list_all_length split: if_splits)
  show ?thesis
    unfolding open_op_def withS_def Let_def
    using assms(2) get_node_up_erofs[OF up]
    by (auto dest: low simp: bindR_def bindS_def ret_def is_error_def ask_def withS_def layer_res_def
        split: sum.splits option.splits prod.splits)
qed

text \<open>The requests that change a file system.\<close>

fun changes :: "request \<Rightarrow> bool" where
  "changes (Setattr ino mode uid gid sz atime mtime fh) = True"
| "changes (Mknod req parent name mode rdev) = True"
| "changes (Mkdir req parent name mode) = True"
| "changes (Unlink parent name) = True"
| "changes (Rmdir parent name) = True"
| "changes (Symlink req parent name link) = True"
| "changes (Rename parent name newparent newname flags) = True"
| "changes (Link ino newparent newname) = True"
| "changes (Setxattr ino name val flags) = True"
| "changes (Removexattr ino name) = True"
| "changes (Create req parent name mode flags) = True"
| "changes (Open ino flags) = (flags AND (O_APPEND OR O_RDWR OR O_WRONLY OR O_CREAT OR O_TRUNC) \<noteq> 0)"
| "changes _ = False"

lemma refuses_serve:
  assumes "list_all ly_low (fs_layers s)" "changes rq"
  shows "is_error (fst (serve os rq s)) \<and> fs_world (snd (serve os rq s)) = fs_world s"
proof -
  have up: "upper_layer s = None" using assms(1) by (cases "fs_layers s") (auto simp: upper_layer_def)
  note refusals = refuses_creation refuses_removal refuses_rename_op refuses_link_op refuses_setattr_op
    refuses_xattr_ops
  show ?thesis
    using assms(2) refusals[THEN refusesD, OF up] open_write_refused[OF assms(1)]
    by (cases rq) auto
qed

end
