(* ===== verification/Effects.thy ===== *)
theory Effects
  imports Requests
begin

text \<open>
  What single requests do to the tree the user sees: the listing of a directory, the number a lookup hands
  out, removal, the refusal to rename a merged directory, the choice of passthrough at start, and the
  reference counts of \<^verbatim>\<open>readdirplus\<close>.
\<close>

section \<open>Listing a directory\<close>

definition visible_names :: "'w fs \<Rightarrow> ovl_node \<Rightarrow> bytes set" where
  "visible_names s n =
     {name. \<exists>c child. get_child n name = Some c \<and> arena_get (fs_nodes s) c = Some child \<and> \<not> nd_hidden child}"

definition visible_child :: "'w fs \<Rightarrow> bytes \<times> node_id \<Rightarrow> bool" where
  "visible_child s p = (case arena_get (fs_nodes s) (snd p) of None \<Rightarrow> False | Some child \<Rightarrow> \<not> nd_hidden child)"

lemma child_dirents_names:
  "map dn_name (concat (map (child_dirent os s path) ch)) = map fst (filter (visible_child s) ch)"
  by (induction ch) (auto simp: child_dirent_def visible_child_def Let_def split: option.splits)

lemma get_child_children:
  "get_child n name = (case children n of None \<Rightarrow> None | Some ch \<Rightarrow> map_of ch name)"
  by (simp add: get_child_def children_def split: dir_state.splits)

lemma visible_names_children:
  assumes "children n = Some ch" "distinct (map fst ch)"
  shows "visible_names s n = fst ` set (filter (visible_child s) ch)"
  using assms
  by (force simp: visible_names_def get_child_children visible_child_def split: option.splits)

lemma sorted_filter_keys:
  fixes ch :: "('k :: linorder \<times> 'v) list"
  assumes "distinct (map fst ch)"
  shows "sorted (map fst (filter P (sort_key fst ch)))" "distinct (map fst (filter P (sort_key fst ch)))"
    "set (filter P (sort_key fst ch)) = set (filter P ch)"
proof -
  have "distinct (map fst (sort_key fst ch))"
    using assms by (simp add: distinct_map)
  then show "distinct (map fst (filter P (sort_key fst ch)))" by (rule distinct_map_filter)
  show "sorted (map fst (filter P (sort_key fst ch)))" by (rule sorted_filter) simp
qed simp

text \<open>C11: A directory listing is exact: after the entries \<^verbatim>\<open>.\<close> and \<^verbatim>\<open>..\<close> it has the names of the
  visible children, every one exactly once, in ascending byte order.\<close>

theorem listing_exact:
  assumes "fs_ok L r s" "arena_get (fs_nodes s) i = Some n"
  shows "\<exists>names. map dn_name (list_dir_entries os s i) = ''.'' # ''..'' # names \<and>
    sorted names \<and> distinct names \<and> set names = visible_names s n"
proof -
  let ?ch = "case children n of None \<Rightarrow> [] | Some ch \<Rightarrow> ch"
  let ?names = "map fst (filter (visible_child s) (sort_key fst ?ch))"
  have d: "distinct (map fst ?ch)"
    using fs_okD(6)[OF assms] by (auto simp: node_ok_def split: option.splits)
  have "set ?names = visible_names s n"
  proof (cases "children n")
    case None
    then show ?thesis by (simp add: visible_names_def get_child_children)
  next
    case (Some ch)
    then show ?thesis using d by (simp add: visible_names_children)
  qed
  moreover have "map dn_name (list_dir_entries os s i) = ''.'' # ''..'' # ?names"
    using assms(2) by (simp add: list_dir_entries_def Let_def split_beta child_dirents_names)
  ultimately show ?thesis
    using sorted_filter_keys(1,2)[OF d, of "visible_child s"] by (intro exI[of _ ?names] conjI)
qed

theorem listing_exact_witness:
  "\<exists>names. map dn_name (list_dir_entries refusing_os (sample_fs refusing_os ()) 1) = ''.'' # ''..'' # names \<and> sorted names"
proof -
  obtain n where "arena_get (fs_nodes (sample_fs refusing_os ())) 1 = Some n"
    using fs_okD(5)[OF sample_fs_ok[of refusing_os "()"]] by auto
  from listing_exact[OF sample_fs_ok this, of refusing_os] show ?thesis by (elim exE conjE) (intro exI conjI)
qed

section \<open>Numbers in replies\<close>

lemma inc_lookup_number [simp]: "key_to_fuse_ino (inc_lookup k t) k' = key_to_fuse_ino t k'"
  by (simp add: key_to_fuse_ino_def inc_lookup_def split: option.splits)

lemma counted_number:
  assumes "table_wf t" "key_to_fuse_ino t k = Some f"
  shows "\<exists>e. fuse_to_ino (inc_lookup k t) f = Some e \<and> oi_fuse_ino e = f"
proof -
  have wf: "table_wf (inc_lookup k t)" by (rule table_wf_inc_lookup[OF assms(1)])
  have num: "key_to_fuse_ino (inc_lookup k t) k = Some f" using assms(2) by simp
  from fuse_to_ino_number[OF inode_numbers.resolve_number[OF wf num] num] show ?thesis by auto
qed

lemma lookup_fast_number:
  assumes "fs_ok L r s" "lookup_fast os parent name s = (Some (REntry ttl a), s')"
  shows "\<exists>e. fuse_to_ino (fs_inodes s') (fa_ino a) = Some e \<and> oi_fuse_ino e = fa_ino a"
proof -
  from assms(2) obtain k oi where "get_by_key (fs_inodes s) k = Some oi" "fa_ino a = oi_fuse_ino oi"
    "fs_inodes s' = inc_lookup k (fs_inodes s)"
    by (auto simp: lookup_fast_def withS_def doS_def bindS_def mod_inodes_def modS_def ret_def Let_def
        reply_entry_def with_ttl_def split: option.splits if_splits sum.splits)
  with counted_number[OF fs_okD(4)[OF assms(1)], of k "oi_fuse_ino oi"] show ?thesis
    by (simp add: key_to_fuse_ino_def get_by_key_def)
qed

lemma lookup_slow_number:
  assumes "fs_ok L r s" "lookup_slow os parent name s = (REntry ttl a, s')"
  shows "fa_ino a = 1 \<or> (\<exists>e. fuse_to_ino (fs_inodes s') (fa_ino a) = Some e \<and> oi_fuse_ino e = fa_ino a)"
proof -
  obtain i s1 where s1: "do_lookup_file os parent (Some name) s = (i, s1)" by fastforce
  have ok1: "fs_ok L r s1" by (rule keepsD[OF keeps_ok_do_lookup_file assms(1) s1])
  obtain j where i: "i = Some j" using assms(2) s1 by (cases i) (auto simp: lookup_slow_def bindS_def)
  let ?m = "if \<not> static_nlink (fs_config s1) \<and>
        (case arena_get (fs_nodes s1) j of Some n \<Rightarrow> is_dir n | None \<Rightarrow> False)
      then reload_dir os j else ret True"
  obtain b s2 where s2: "?m s1 = (b, s2)" by fastforce
  have "keeps (fs_ok L r) ?m" by (intro keeps_intro)
  from keepsD[OF this ok1 s2] have ok2: "fs_ok L r s2" .
  have "fa_ino a = 1 \<or> (\<exists>ino dev mode t. register (fs_nodes s2) j ino dev mode (fs_inodes s2) = (Some (fa_ino a), t) \<and>
      fs_inodes s' = inc_lookup (InodeKey ino dev) t)"
    using assms(2) s1 s2 i
    by (auto simp: lookup_slow_def bindS_def withS_def doS_def ret_def register_node_def mod_inodes_def modS_def
        Let_def reply_entry_def with_ttl_def split: if_splits sum.splits option.splits prod.splits) blast+
  then show ?thesis
  proof (elim disjE exE conjE)
    fix ino dev mode t
    assume reg: "register (fs_nodes s2) j ino dev mode (fs_inodes s2) = (Some (fa_ino a), t)"
      and s': "fs_inodes s' = inc_lookup (InodeKey ino dev) t"
    have "table_wf t" using table_wf_register[OF fs_okD(4)[OF ok2]] reg by (metis snd_conv)
    from counted_number[OF this register_Some[OF reg]] show ?thesis by (simp add: s')
  qed simp
qed

text \<open>C12: The kernel only gets numbers it can come back with: the number in the entry a lookup
  replies with is the root's or leads to an entry of the inode table, which has that
  number.\<close>

theorem lookup_number_resolves:
  assumes "fs_ok L r s" "lookup_op os parent name s = (REntry ttl a, s')"
  shows "fa_ino a = 1 \<or> (\<exists>e. fuse_to_ino (fs_inodes s') (fa_ino a) = Some e \<and> oi_fuse_ino e = fa_ino a)"
proof -
  obtain f s1 where s1: "lookup_fast os parent name s = (f, s1)" by fastforce
  have ok1: "fs_ok L r s1" by (rule keepsD[OF keeps_ok_lookup_fast assms(1) s1])
  from assms(2) s1 consider "f = Some (REntry ttl a)" "s1 = s'"
    | "f = None" "lookup_slow os parent name s1 = (REntry ttl a, s')"
    by (auto simp: lookup_op_def withS_def bindS_def ret_def split: if_splits option.splits)
  then show ?thesis
  proof cases
    case 1
    with lookup_fast_number[OF assms(1)] s1 show ?thesis by blast
  next
    case 2
    with lookup_slow_number[OF ok1] show ?thesis by blast
  qed
qed

text \<open>Witness: the link of the lower layer, known to the root but not yet to the inode table.\<close>

definition found_fs :: "unit fs" where
  "found_fs = link_fs\<lparr>fs_nodes := arena_update 1 (insert_child ''l'' 2) (fs_nodes link_fs)\<rparr>"

lemma found_fs_ok: "fs_ok 2 1 found_fs"
proof -
  have "fs_ok (Suc (Suc 0)) (Suc 0) link_fs"
    unfolding link_fs_def
    by (rule fs_ok_insert(2)[OF sample_fs_ok]) (simp add: node_ok_parent node_ok_new)
  from keeps_snd[OF keeps_ok_insert_child this, of 2 1 "''l''"] show ?thesis
    by (simp add: found_fs_def update_node_def modS_def numeral_2_eq_2)
qed

lemma found_nodes:
  "arena_get (fs_nodes found_fs) (Suc 0) = Some (insert_child ''l'' 2 (node_new [] 0 0 0 True))"
  "arena_get (fs_nodes found_fs) 2 = Some ((node_new ''l'' 1 42 1 False)\<lparr>nd_parent := Some 1\<rparr>)"
  using link_fs_simps(1,2) by (simp_all add: found_fs_def arena_get_update)

lemma found_fields:
  "fs_root_id found_fs = 1" "fs_config found_fs = config_default 0" "fs_inodes found_fs = set_same_device True table_new"
  "fs_layers found_fs = fs_layers (sample_fs link_os ())" "fs_world found_fs = ()"
  by (simp_all add: found_fs_def link_fs_def sample_fs_def overlay_new_def arena_insert_def arena_new_def
      from_datasource_def direct_ds_def direct_new_def all_same_device_def Let_def)

lemmas found_fs_simps = found_nodes found_fields

lemma found_path: "node_path found_fs 2 = ''l''"
proof -
  have "ar_next_id (fs_nodes found_fs) = 3"
    using link_fs_simps(3) by (simp add: found_fs_def arena_update_def split: option.splits)
  then show ?thesis
    by (simp add: node_path_def compute_path_def path_walk_pos found_fs_simps node_new_def insert_child_def
        del: path_walk.simps)
qed

lemma found_lookup:
  "do_lookup_file link_os 1 (Some ''l'') found_fs = (Some 2, found_fs)"
  "lookup_fast link_os 1 ''l'' found_fs = (None, found_fs)"
  by (simp_all add: do_lookup_file_def lookup_fast_def withS_def lookup_node_id_def found_fs_simps get_child_def
      insert_child_def node_new_def is_whiteout_def get_by_key_def table_new_def set_same_device_def ret_def Let_def)

lemma found_stat: "\<exists>st. rpl_stat link_os found_fs 2 (-1) = Inr st \<and> \<not> attr_panics ((stat_to_attr st)\<lparr>fa_ino := f\<rparr>)"
proof -
  have "ds_stat_override_mode (direct_ds link_os (direct_new\<lparr>da_fd := Some 4\<rparr>)) = SomNone"
    by (simp add: direct_ds_def direct_new_def)
  then show ?thesis
    using link_stat(1)[of STATX_BASIC_STATS]
    by (simp add: rpl_stat_def found_fs_simps found_path rpl_stat_with_path_def do_stat_with_path_def
        layer_res_def layer_at_def link_fs_layers node_new_def from_datasource_def attr_panics_def
        stat_to_attr_def epoch_plus_def statx_to_stat_def link_statx_def Let_def)
qed

lemma found_run: "\<exists>ttl a s'. lookup_op link_os 1 ''l'' found_fs = (REntry ttl a, s')"
proof -
  obtain st where st: "rpl_stat link_os found_fs 2 (-1) = Inr st" using found_stat by blast
  have ttl: "duration_from_secs_f64 (timeout (config_default 0)) \<noteq> None"
    by (simp add: duration_from_secs_f64_def config_default_def)
  obtain f t where reg: "register (fs_nodes found_fs) 2 42 1 (st_mode st) (fs_inodes found_fs) = (Some f, t)"
    by (simp add: register_def register_new_def found_fs_simps set_same_device_def table_new_def
        compute_fuse_ino_def free_fuse_ino_now Let_def)
  from found_stat[of f] st have "\<not> attr_panics ((stat_to_attr st)\<lparr>fa_ino := f\<rparr>)" by simp
  with st reg ttl show ?thesis
    by (auto simp: lookup_op_def starts_with_def found_lookup bindS_def withS_def lookup_slow_def found_fs_simps
        is_whiteout_or_missing_def arena_contains_get is_dir_def node_new_def ret_def node_at_def register_node_def
        doS_def mod_inodes_def modS_def reply_entry_def with_ttl_def config_default_def Let_def)
qed

theorem lookup_number_resolves_witness:
  "\<exists>ttl a s'. lookup_op link_os 1 ''l'' found_fs = (REntry ttl a, s') \<and>
     (fa_ino a = 1 \<or> (\<exists>e. fuse_to_ino (fs_inodes s') (fa_ino a) = Some e))"
  using found_run lookup_number_resolves[OF found_fs_ok] by blast

section \<open>Removal\<close>

lemma bindR_ROk: "bindR m k s = (ROk, s') \<longleftrightarrow> (\<exists>x s1. m s = (Inr x, s1) \<and> k x s1 = (ROk, s'))"
  by (auto simp: bindR_def bindS_def ret_def split: prod.splits sum.splits)

text \<open>The node leaves the arena and its parent forgets the name.\<close>

lemma detach_removed_nodes:
  "fs_nodes (snd (detach_removed os p name s)) =
     (case Option.bind (arena_get (fs_nodes s) p) (\<lambda>n. get_child n name) of
        None \<Rightarrow> fs_nodes s
      | Some c \<Rightarrow> snd (arena_remove c (arena_update p (remove_child name) (fs_nodes s))))"
  by (auto simp: detach_removed_def withS_def doS_def bindS_def ret_def update_node_def modS_def mod_inodes_def
      remove_node_def world_def Let_def split: option.splits prod.splits)

lemma get_child_remove_child [simp]:
  "get_child (remove_child name n) x = (if x = name then None else get_child n x)"
  by (simp add: get_child_def remove_child_def split: dir_state.splits)

text \<open>Copying up does not change which node a number denotes.\<close>

lemma only_layers_lookup:
  assumes "only_layers s s'"
  shows "lookup_node_id os s' ino = lookup_node_id os s ino"
proof -
  have "(arena_get (fs_nodes s') i \<noteq> None) = (arena_get (fs_nodes s) i \<noteq> None)" for i
    using assms unfolding only_layers_def by (metis option.map_disc_iff)
  then have "arena_contains (fs_nodes s') = arena_contains (fs_nodes s)"
    by (simp add: fun_eq_iff arena_contains_get)
  with assms show ?thesis by (simp add: lookup_node_id_def only_layers_def split: option.splits)
qed

lemma detach_removed_gone:
  assumes "detach_removed os p name s = (r, s')"
  shows "arena_get (fs_nodes s') p = Some n \<Longrightarrow> get_child n name = None"
    and "arena_get (fs_nodes s) p = Some m \<Longrightarrow> get_child m name = Some c \<Longrightarrow> \<not> arena_contains (fs_nodes s') c"
proof -
  have nodes: "fs_nodes s' = (case Option.bind (arena_get (fs_nodes s) p) (\<lambda>n. get_child n name) of
        None \<Rightarrow> fs_nodes s
      | Some c \<Rightarrow> snd (arena_remove c (arena_update p (remove_child name) (fs_nodes s))))"
    using detach_removed_nodes[of os p name s] assms by simp
  show "arena_get (fs_nodes s') p = Some n \<Longrightarrow> get_child n name = None"
    by (auto simp: nodes arena_get_remove arena_get_update split: option.splits if_splits)
  show "\<not> arena_contains (fs_nodes s') c" if "arena_get (fs_nodes s) p = Some m" "get_child m name = Some c"
    using that by (simp add: nodes arena_contains_get arena_get_remove)
qed


text \<open>Witness: a file of the upper layer, known to the root.\<close>

definition up_os :: "unit os" where
  "up_os = refusing_os\<lparr>k_renameat := \<lambda>_ _ _ _ w. (Inr (), w)\<rparr>"

definition up_fs :: "unit fs" where
  "up_fs = (sample_fs up_os ())\<lparr>fs_nodes :=
     arena_update 1 (insert_child ''f'' 2) (snd (arena_insert ((node_new ''f'' 0 42 1 False)\<lparr>nd_parent := Some 1\<rparr>)
       (fs_nodes (sample_fs up_os ()))))\<rparr>"

lemma up_nodes:
  "arena_get (fs_nodes up_fs) (Suc 0) = Some (insert_child ''f'' 2 (node_new [] 0 0 0 True))"
  "arena_get (fs_nodes up_fs) 2 = Some ((node_new ''f'' 0 42 1 False)\<lparr>nd_parent := Some 1\<rparr>)"
  "ar_next_id (fs_nodes up_fs) = 3"
  by (simp_all add: up_fs_def sample_fs_def overlay_new_def arena_insert_def arena_new_def arena_get_update
      arena_update_def arena_get_def Let_def)

lemma up_fields:
  "fs_root_id up_fs = 1" "fs_inodes up_fs = set_same_device True table_new" "fs_world up_fs = ()"
  "fs_layers up_fs = fs_layers (sample_fs up_os ())" "fs_workdir_fd up_fs = 5" "fs_wd_counter up_fs = 1"
  by (simp_all add: up_fs_def sample_fs_def overlay_new_def arena_insert_def arena_new_def
      from_datasource_def direct_ds_def direct_new_def all_same_device_def Let_def)

lemma up_path: "node_path (up_fs\<lparr>fs_wd_counter := c\<rparr>) 2 = ''f''"
  by (simp add: node_path_def compute_path_def path_walk_pos up_nodes node_new_def insert_child_def
      del: path_walk.simps)

lemma up_hide: "fst (hide_node up_os 2 True up_fs) = Inr ()"
proof -
  have up: "upper_res up_fs = Inr (from_datasource (direct_ds up_os (direct_new\<lparr>da_fd := Some 3\<rparr>)) False)"
    by (simp add: upper_res_def upper_layer_def up_fields link_fs_layers from_datasource_def)
  show ?thesis
    by (simp add: hide_node_def withS_def up next_wd_counter_def bindS_def bindE_def ret_def cstr_def show_nat_no_char
        hide_source_def up_path open_parent_safe_cstr_def open_parent_safe_def world_def up_nodes needs_whiteout_def
        node_new_def insert_child_def with_cstrP_def cstr_bytes_def renameat_def lift_eff_def lift_obs_def up_os_def
        up_fields doS_def update_node_def modS_def)
qed

lemma up_run: "fst (do_rm up_os 1 ''f'' False up_fs) = ROk"
proof -
  have l: "do_lookup_file up_os 1 (Some ''f'') up_fs = (Some 2, up_fs)" "do_lookup_file up_os 1 None up_fs = (Some 1, up_fs)"
    by (simp_all add: do_lookup_file_def withS_def lookup_node_id_def up_fields up_nodes get_child_def
        insert_child_def node_new_def ret_def Let_def)
  have g: "get_node_up up_os 2 up_fs = (Inr (), up_fs)" "get_node_up up_os (Suc 0) up_fs = (Inr (), up_fs)"
    by (simp_all add: get_node_up_def withS_def upper_layer_def up_fields link_fs_layers from_datasource_def up_nodes
        node_new_def insert_child_def layer_at_def ret_def)
  obtain t where "hide_node up_os 2 True up_fs = (Inr (), t)" using up_hide by (metis prod.collapse)
  with l g show ?thesis
    by (simp add: do_rm_def bindS_def withS_def bindR_def ret_def is_whiteout_or_missing_def arena_contains_get up_nodes
        doS_def split_beta)
qed


section \<open>Renaming a directory\<close>

text \<open>C13: A directory with content on a lower layer is not renamed: if, after it was read, the directory lies
  on a lower layer or reaches down to one, \<^verbatim>\<open>rename\<close> replies \<^verbatim>\<open>EXDEV\<close> (on which tools copy
  instead) and no system call has changed anything.\<close>

theorem rename_merged_directory:
  assumes "length newname \<le> get_fs_namemax os s"
    and "do_lookup_file os parent (Some name) s = (Some i, s1)"
    and "arena_get (fs_nodes s1) i = Some n" "is_dir n"
    and "arena_get (fs_nodes (snd (reload_dir os i s1))) i = Some n'"
    and "0 < nd_layer_idx n' \<or> 0 < nd_last_layer_idx n'"
  shows "fst (rename_op os parent name newparent newname flags s) = RError EXDEV \<and>
    fs_world (snd (rename_op os parent name newparent newname flags s)) = fs_world s"
proof -
  obtain b s2 where s2: "reload_dir os i s1 = (b, s2)" by fastforce
  have "rename_check_source os i s1 = (Inl (FsError EXDEV), s2)"
    using assms s2
    by (auto simp: rename_check_source_def withS_def doS_def bindS_def bindE_def ask_def ret_def node_at_def)
  then have "rename_op os parent name newparent newname flags s = (RError EXDEV, s2)"
    using assms by (simp add: rename_op_def withS_def bindS_def bindR_def ret_def is_whiteout_or_missing_def
        arena_contains_get)
  moreover have "fs_world s2 = fs_world s1"
    by (rule framesD[OF frames_reload_dir s2]) simp
  moreover have "fs_world s1 = fs_world s"
    by (rule framesD[OF frames_do_lookup_file assms(2)]) simp_all
  ultimately show ?thesis by simp
qed

text \<open>Witness: a loaded directory of the lower layer.\<close>

definition merged_fs :: "unit fs" where
  "merged_fs = (sample_fs refusing_os ())\<lparr>fs_nodes :=
     arena_update 1 (insert_child ''d'' 2)
       (snd (arena_insert (mark_loaded ((node_new ''d'' 1 42 1 True)\<lparr>nd_parent := Some 1\<rparr>))
         (fs_nodes (sample_fs refusing_os ()))))\<rparr>"

lemma merged_nodes:
  "arena_get (fs_nodes merged_fs) (Suc 0) = Some (insert_child ''d'' 2 (node_new [] 0 0 0 True))"
  "arena_get (fs_nodes merged_fs) 2 = Some (mark_loaded ((node_new ''d'' 1 42 1 True)\<lparr>nd_parent := Some 1\<rparr>))"
  "fs_root_id merged_fs = 1" "fs_layers merged_fs = fs_layers (sample_fs refusing_os ())"
  by (simp_all add: merged_fs_def sample_fs_def overlay_new_def arena_insert_def arena_new_def arena_get_update
      arena_update_def arena_get_def Let_def)

theorem rename_merged_directory_witness:
  "fst (rename_op refusing_os 1 ''d'' 1 ''e'' 0 merged_fs) = RError EXDEV"
proof -
  let ?n = "mark_loaded ((node_new ''d'' 1 42 1 True)\<lparr>nd_parent := Some 1\<rparr>)"
  have n: "is_dir ?n" "is_loaded ?n" "0 < nd_layer_idx ?n"
    by (simp_all add: mark_loaded_def set_loaded_def node_new_def is_dir_def is_loaded_def)
  have "do_lookup_file refusing_os 1 (Some ''d'') merged_fs = (Some 2, merged_fs)"
    by (simp add: do_lookup_file_def withS_def lookup_node_id_def merged_nodes get_child_def insert_child_def
        node_new_def ret_def Let_def)
  moreover have "reload_dir refusing_os 2 merged_fs = (True, merged_fs)"
    using n by (simp add: reload_dir_def withS_def merged_nodes ret_def)
  moreover have "length ''e'' \<le> get_fs_namemax refusing_os merged_fs"
    by (simp add: get_fs_namemax_def merged_nodes link_fs_layers fstatvfs_def lift_obs_def refusing_os_def)
  ultimately show ?thesis
    using n rename_merged_directory[of "''e''" refusing_os merged_fs 1 "''d''" 2 merged_fs ?n ?n 1 0]
    by (simp add: merged_nodes)
qed

section \<open>Passthrough at start\<close>

text \<open>The choice of passthrough is consistent: after \<^verbatim>\<open>init\<close> passthrough is on exactly if it
  was not disabled, the mount is not volatile and the kernel has it; the writeback cache is asked for only
  when it is off, and the mode reported to the user is the one in force.\<close>

lemma init_passthrough:
  "\<exists>flags s'. init_op no_passthrough kernel_has s = (flags, s') \<and>
    (fs_passthrough_enabled s' \<longleftrightarrow> \<not> no_passthrough \<and> cfg_fsync (fs_config s) \<and> kernel_has) \<and>
    (FUSE_WRITEBACK_CACHE \<in> set flags \<longleftrightarrow> writeback (fs_config s) \<and> \<not> fs_passthrough_enabled s') \<and>
    (FUSE_PASSTHROUGH \<in> set flags \<longleftrightarrow> \<not> no_passthrough \<and> cfg_fsync (fs_config s)) \<and>
    fs_STAT_PASSTHROUGH s' = fs_passthrough_enabled s'"
  by (auto simp: init_op_def withS_def doS_def bindS_def modS_def ret_def Let_def)

section \<open>The reference counts of readdirplus\<close>

text \<open>C38: \<^verbatim>\<open>readdirplus\<close> counts a reference for an entry it does not return: when the next entry does not
  fit into the reply, the reply ends before it, but its inode has been registered
  and its count increased. The kernel, which never got the entry, will not give that reference back.\<close>

theorem readdirplus_counts_unreturned:
  assumes "dn_node_id e = Some nid" "arena_get (fs_nodes s) nid = Some node" "full added (dn_name e)"
    and "register (fs_nodes s) nid (nd_tmp_ino node) (nd_tmp_dev node) (nd_mode node) (fs_inodes s) = (Some f, t)"
    and "get_by_key t (InodeKey (nd_tmp_ino node) (nd_tmp_dev node)) = Some oi"
  shows "fst (plus_fill full ttl added ((i, e) # es) s) = [] \<and>
    get_by_key (fs_inodes (snd (plus_fill full ttl added ((i, e) # es) s)))
      (InodeKey (nd_tmp_ino node) (nd_tmp_dev node)) = Some (oi\<lparr>oi_lookups := oi_lookups oi + 1\<rparr>)"
  using assms
  by (simp add: plus_register_def withS_def bindS_def register_node_def doS_def mod_inodes_def modS_def ret_def
      inc_lookup_def get_by_key_def)

theorem readdirplus_counts_unreturned_witness:
  "\<exists>oi. get_by_key (fs_inodes (snd (plus_fill (\<lambda>_ _. True) F64_nan []
       [(0, \<lparr>dn_name = ''l'', dn_ino = 42, dn_mode = S_IFLNK, dn_attr = None, dn_node_id = Some 2\<rparr>)] found_fs)))
     (InodeKey 42 1) = Some oi \<and> oi_lookups oi = 1"
proof -
  let ?n = "(node_new ''l'' 1 42 1 False)\<lparr>nd_parent := Some 1\<rparr>"
  let ?e = "\<lparr>dn_name = ''l'', dn_ino = 42, dn_mode = S_IFLNK, dn_attr = None, dn_node_id = Some 2\<rparr> :: dirent"
  have key: "nd_tmp_ino (node_new nm l i dv d) = i" "nd_tmp_dev (node_new nm l i dv d) = dv" for nm l i dv d
    by (simp_all add: node_new_def)
  obtain f t oi where "register (fs_nodes found_fs) 2 42 1 (nd_mode ?n) (fs_inodes found_fs) = (Some f, t)"
    "get_by_key t (InodeKey 42 1) = Some oi" "oi_lookups oi = 0"
    by (simp add: register_def register_new_def found_fs_simps set_same_device_def table_new_def
        compute_fuse_ino_def free_fuse_ino_now get_by_key_def Let_def)
  with readdirplus_counts_unreturned[of ?e 2 found_fs ?n "\<lambda>_ _. True" "[]" f t oi F64_nan 0 "[]"]
  show ?thesis by (simp add: key found_nodes)
qed

end
