(* ===== verification/Confinement.thy ===== *)
theory Confinement
  imports Requests
begin

text \<open>
  The discipline by which the program never changes a lower layer. What the kernel promises is stated over
  three observations of the world: which descriptors belong to the upper layer or the work
  directory, which were opened for reading only, and what the lower layers hold. \<open>safe os V F m G\<close>: run
  where the facts \<open>F\<close> about descriptors hold, \<open>m\<close> leaves the lower layers as they are, keeps the
  descriptors of the state in their classes, and establishes the facts \<open>G r\<close> about its result \<open>r\<close>.
  Here are the rules and the parts of the program below the handlers.
\<close>

section \<open>What the kernel promises\<close>

record ('w, 'a) kernel_view =
  kv_upper :: "int \<Rightarrow> 'w \<Rightarrow> bool"
  kv_reader :: "int \<Rightarrow> 'w \<Rightarrow> bool"
  kv_lower :: "'w \<Rightarrow> 'a"

abbreviation slash_free :: "bytes \<Rightarrow> bool" where
  "slash_free name \<equiv> CHR ''/'' \<notin> set name"

text \<open>A call leaves the lower layers alone, and descriptors stay what they are.\<close>

definition stepping :: "('w, 'a) kernel_view \<Rightarrow> 'w \<Rightarrow> 'w \<Rightarrow> bool" where
  "stepping V w w' \<longleftrightarrow>
     kv_lower V w' = kv_lower V w \<and> (\<forall>d. kv_upper V d w \<longrightarrow> kv_upper V d w') \<and>
     (\<forall>d. kv_reader V d w \<longrightarrow> kv_reader V d w')"

lemma stepping_refl [simp]: "stepping V w w"
  by (simp add: stepping_def)

lemma stepping_trans: "stepping V w w' \<Longrightarrow> stepping V w' w'' \<Longrightarrow> stepping V w w''"
  by (simp add: stepping_def)

text \<open>Calls on names in a directory of the upper layer or the work directory.\<close>

definition confines_names :: "'w os \<Rightarrow> ('w, 'a) kernel_view \<Rightarrow> bool" where
  "confines_names os V \<longleftrightarrow> (\<forall>w d name. kv_upper V d w \<longrightarrow> slash_free name \<longrightarrow>
     (\<forall>u g fl. stepping V w (snd (k_fchownat os d name u g fl w))) \<and>
     (\<forall>m fl. stepping V w (snd (k_fchmodat os d name m fl w))) \<and>
     (\<forall>ts fl. stepping V w (snd (k_utimensat os d name ts fl w))) \<and>
     (\<forall>m. stepping V w (snd (k_mkdirat os d name m w))) \<and>
     (\<forall>m dev. stepping V w (snd (k_mknodat os d name m dev w))) \<and>
     (\<forall>fl. stepping V w (snd (k_unlinkat os d name fl w))) \<and>
     (\<forall>t. stepping V w (snd (k_symlinkat os t d name w))) \<and>
     (\<forall>d' name'. kv_upper V d' w \<longrightarrow> slash_free name' \<longrightarrow>
        stepping V w (snd (k_renameat os d name d' name' w)) \<and>
        (\<forall>fl. stepping V w (snd (k_renameat2 os d name d' name' fl w))) \<and>
        (\<forall>fl. stepping V w (snd (k_linkat os d name d' name' fl w)))))"

text \<open>
  Calls on descriptors: writing through one that was opened for reading only fails (\<^verbatim>\<open>EBADF\<close>); reading, seeking
  and flushing change no content, nor do the two reading \<^verbatim>\<open>ioctl\<close>s; a directory delivers names
  without a slash.
\<close>

definition confines_fds :: "'w os \<Rightarrow> ('w, 'a) kernel_view \<Rightarrow> bool" where
  "confines_fds os V \<longleftrightarrow>
     (\<forall>w d. kv_upper V d w \<longrightarrow>
        (\<forall>u g. stepping V w (snd (k_fchown os d u g w))) \<and>
        (\<forall>m. stepping V w (snd (k_fchmod os d m w))) \<and>
        (\<forall>ts. stepping V w (snd (k_futimens os d ts w))) \<and>
        (\<forall>n. stepping V w (snd (k_ftruncate os d n w))) \<and>
        (\<forall>n v fl. stepping V w (snd (k_fsetxattr os d n v fl w))) \<and>
        (\<forall>b off. stepping V w (snd (k_pwrite os d b off w))) \<and>
        (\<forall>b. stepping V w (snd (k_write os d b w))) \<and>
        (\<forall>m off n. stepping V w (snd (k_fallocate os d m off n w))) \<and>
        (\<forall>c v. stepping V w (snd (k_ioctl_long os d c v w))) \<and>
        (\<forall>i n. stepping V w (snd (k_sendfile os d i n w))) \<and>
        (\<forall>i. stepping V w (snd (k_ficlone os d i w))) \<and>
        (\<forall>i io oo n. stepping V w (snd (k_copy_file_range os i io d oo n w)))) \<and>
     (\<forall>w d. kv_reader V d w \<longrightarrow>
        (\<forall>b off. \<exists>e. k_pwrite os d b off w = (Inl e, w)) \<and>
        (\<forall>m off n. \<exists>e. k_fallocate os d m off n w = (Inl e, w)) \<and>
        (\<forall>i io oo n. \<exists>e. k_copy_file_range os i io d oo n w = (Inl e, w))) \<and>
     (\<forall>w d.
        (\<forall>n. stepping V w (snd (k_read os d n w))) \<and>
        (\<forall>off wh. stepping V w (snd (k_lseek os d off wh w))) \<and>
        stepping V w (snd (k_fsync os d w)) \<and> stepping V w (snd (k_fdatasync os d w)) \<and>
        stepping V w (snd (k_open_backing os d w)) \<and>
        (\<forall>c v. c \<in> {FS_IOC_GETVERSION, FS_IOC_GETFLAGS} \<longrightarrow> stepping V w (snd (k_ioctl_long os d c v w))) \<and>
        (\<forall>es e. k_readdir os d w = Inr es \<longrightarrow> e \<in> set es \<longrightarrow> slash_free (de_name e)))"

text \<open>
  Opening: below a directory of the upper layer \<^verbatim>\<open>RESOLVE_IN_ROOT\<close> does not lead out of it; opening for
  reading changes nothing anywhere.
\<close>

definition WRITE_FLAGS :: "64 word" where
  "WRITE_FLAGS = ucast (O_WRONLY OR O_RDWR OR O_CREAT OR O_TRUNC)"

definition confines_opens :: "'w os \<Rightarrow> ('w, 'a) kernel_view \<Rightarrow> bool" where
  "confines_opens os V \<longleftrightarrow> (\<forall>w d path fl mode r w'. k_openat2 os d path fl mode RESOLVE_IN_ROOT w = (r, w') \<longrightarrow>
     (kv_upper V d w \<longrightarrow> stepping V w w' \<and> (\<forall>fd. r = Inr fd \<longrightarrow> kv_upper V fd w')) \<and>
     (fl AND WRITE_FLAGS = 0 \<longrightarrow> stepping V w w' \<and> (\<forall>fd. r = Inr fd \<longrightarrow> kv_reader V fd w')))"

text \<open>
  The three calls by a path through \<^verbatim>\<open>/proc/self/fd\<close>: below a directory of the upper layer the path stays
  in it, that is, nobody has put a symbolic link where the path runs.
\<close>

definition confines_paths :: "'w os \<Rightarrow> ('w, 'a) kernel_view \<Rightarrow> bool" where
  "confines_paths os V \<longleftrightarrow> (\<forall>w d path. kv_upper V d w \<longrightarrow>
     (\<forall>n v fl. stepping V w (snd (k_lsetxattr os (proc_fd_path d path) n v fl w))) \<and>
     (\<forall>n. stepping V w (snd (k_lremovexattr os (proc_fd_path d path) n w))) \<and>
     (\<forall>n. stepping V w (snd (k_truncate os (proc_fd_path d path) n w))))"

definition confines :: "'w os \<Rightarrow> ('w, 'a) kernel_view \<Rightarrow> bool" where
  "confines os V \<longleftrightarrow> confines_names os V \<and> confines_fds os V \<and> confines_opens os V \<and> confines_paths os V"

section \<open>Facts about descriptors\<close>

datatype fact = Up int | Reads int | HasUpper

definition known :: "('w, 'a) kernel_view \<Rightarrow> 'w fs \<Rightarrow> fact set" where
  "known V s = {f. case f of Up d \<Rightarrow> kv_upper V d (fs_world s) | Reads d \<Rightarrow> kv_reader V d (fs_world s)
     | HasUpper \<Rightarrow> upper_layer s \<noteq> None}"

lemma known_iff:
  "Up d \<in> known V s \<longleftrightarrow> kv_upper V d (fs_world s)"
  "Reads d \<in> known V s \<longleftrightarrow> kv_reader V d (fs_world s)"
  "HasUpper \<in> known V s \<longleftrightarrow> upper_layer s \<noteq> None"
  by (simp_all add: known_def)

lemma known_nodes [simp]: "known V (s\<lparr>fs_nodes := a\<rparr>) = known V s"
  by (auto simp: known_def upper_layer_def split: fact.splits)

definition direct :: "'w os \<Rightarrow> 'w data_source \<Rightarrow> bool" where
  "direct os ds \<longleftrightarrow> (\<exists>da. ds = direct_ds os da)"

text \<open>The names a node carries, and the descriptor by which its hidden file is removed.\<close>

definition tag :: "ovl_node \<Rightarrow> bytes \<times> bytes option \<times> int" where
  "tag n = (nd_name n, nd_hidden_path n, nd_hidden_dirfd n)"

definition node_safe :: "fact set \<Rightarrow> ovl_node \<Rightarrow> bool" where
  "node_safe K n \<longleftrightarrow> slash_free (nd_name n) \<and>
     (\<forall>p. nd_hidden_path n = Some p \<longrightarrow> slash_free p \<and> Up (nd_hidden_dirfd n) \<in> K)"

lemma node_safe_mono: "node_safe K m \<Longrightarrow> K \<subseteq> K' \<Longrightarrow> tag n = tag m \<Longrightarrow> node_safe K' n"
  by (auto simp: node_safe_def tag_def)

definition fds_ok :: "'w os \<Rightarrow> ('w, 'a) kernel_view \<Rightarrow> 'w fs \<Rightarrow> bool" where
  "fds_ok os V s \<longleftrightarrow>
     layers_ok (fs_layers s) \<and> list_all (\<lambda>l. direct os (ly_ds l)) (fs_layers s) \<and>
     (\<not> ly_low (hd (fs_layers s)) \<longrightarrow> Up (ds_root_fd (ly_ds (hd (fs_layers s)))) \<in> known V s) \<and>
     Up (fs_workdir_fd s) \<in> known V s \<and>
     (\<forall>fh fd. fs_open_files s fh = Some fd \<longrightarrow> Up fd \<in> known V s \<or> Reads fd \<in> known V s) \<and>
     (\<forall>i n. arena_get (fs_nodes s) i = Some n \<longrightarrow> node_safe (known V s) n)"

definition follows :: "'w os \<Rightarrow> ('w, 'a) kernel_view \<Rightarrow> 'w fs \<Rightarrow> 'w fs \<Rightarrow> bool" where
  "follows os V s s' \<longleftrightarrow>
     fds_ok os V s' \<and> kv_lower V (fs_world s') = kv_lower V (fs_world s) \<and> known V s \<subseteq> known V s'"

definition safe ::
  "'w os \<Rightarrow> ('w, 'a) kernel_view \<Rightarrow> fact set \<Rightarrow> ('w fs, 'b) prog \<Rightarrow> ('b \<Rightarrow> fact set) \<Rightarrow> bool" where
  "safe os V F m G \<longleftrightarrow> (\<forall>s. confines os V \<longrightarrow> fds_ok os V s \<longrightarrow> F \<subseteq> known V s \<longrightarrow>
     follows os V s (snd (m s)) \<and> G (fst (m s)) \<subseteq> known V (snd (m s)))"

abbreviation calm :: "'w os \<Rightarrow> ('w, 'a) kernel_view \<Rightarrow> fact set \<Rightarrow> ('w fs, 'b) prog \<Rightarrow> bool" where
  "calm os V F m \<equiv> safe os V F m (\<lambda>_. {})"

text \<open>The facts that come with a success only.\<close>

definition on_ok :: "('b \<Rightarrow> fact set) \<Rightarrow> 'e + 'b \<Rightarrow> fact set" where
  "on_ok G r = (case r of Inl _ \<Rightarrow> {} | Inr x \<Rightarrow> G x)"

lemma on_ok_simps [simp]: "on_ok G (Inl e) = {}" "on_ok G (Inr x) = G x"
  by (simp_all add: on_ok_def)

section \<open>Rules\<close>

named_theorems safe_intro \<open>rules for \<open>safe\<close>\<close>
named_theorems safe_seq \<open>rules for sequencing, to be tried last\<close>

lemma safeD:
  assumes "safe os V F m G" "confines os V" "fds_ok os V s" "F \<subseteq> known V s"
  shows "follows os V s (snd (m s))" "G (fst (m s)) \<subseteq> known V (snd (m s))"
  using assms by (simp_all add: safe_def)

lemma follows_refl: "fds_ok os V s \<Longrightarrow> follows os V s s"
  by (simp add: follows_def)

lemma follows_trans: "follows os V s s' \<Longrightarrow> follows os V s' s'' \<Longrightarrow> follows os V s s''"
  by (auto simp: follows_def)

lemma safe_weaken: "safe os V F m G \<Longrightarrow> F \<subseteq> F' \<Longrightarrow> (\<And>x. H x \<subseteq> G x) \<Longrightarrow> safe os V F' m H"
  by (fastforce simp: safe_def)

lemma safe_ret: "G x \<subseteq> F \<Longrightarrow> safe os V F (ret x) G"
  by (auto simp: safe_def ret_def follows_refl)

lemma calm_ret [safe_intro]: "calm os V F (ret x)"
  by (rule safe_ret) simp

text \<open>\<open>gives os V F m P\<close>: run under the discipline \<open>m\<close> returns a value with \<open>P\<close>.\<close>

definition gives ::
  "'w os \<Rightarrow> ('w, 'a) kernel_view \<Rightarrow> fact set \<Rightarrow> ('w fs, 'b) prog \<Rightarrow> ('b \<Rightarrow> bool) \<Rightarrow> bool" where
  "gives os V F m P \<longleftrightarrow> (\<forall>s. confines os V \<longrightarrow> fds_ok os V s \<longrightarrow> F \<subseteq> known V s \<longrightarrow> P (fst (m s)))"

lemma gives_any: "gives os V F m (\<lambda>_. True)"
  by (simp add: gives_def)

lemma safe_bindS_val:
  assumes "safe os V F m G" "gives os V F m P" "\<And>x. P x \<Longrightarrow> safe os V (F \<union> G x) (k x) H"
  shows "safe os V F (bindS m k) H"
  unfolding safe_def
proof (intro allI impI)
  fix s
  assume s: "confines os V" "fds_ok os V s" "F \<subseteq> known V s"
  obtain x s1 where run: "m s = (x, s1)" by fastforce
  note 1 = safeD[OF assms(1) s, unfolded run, simplified]
  then have "fds_ok os V s1" "F \<union> G x \<subseteq> known V s1" using s(3) by (auto simp: follows_def)
  moreover have "P x" using assms(2) s run by (auto simp: gives_def dest!: spec[of _ s])
  ultimately have 2: "follows os V s1 (snd (k x s1))" "H (fst (k x s1)) \<subseteq> known V (snd (k x s1))"
    using safeD[OF assms(3)[of x] s(1)] by blast+
  show "follows os V s (snd (bindS m k s)) \<and> H (fst (bindS m k s)) \<subseteq> known V (snd (bindS m k s))"
    using follows_trans[OF 1(1) 2(1)] 2(2) by (simp add: bindS_def run)
qed

lemma safe_bindE_val:
  assumes "safe os V F m (on_ok G)" "gives os V F m (\<lambda>r. \<forall>x. r = Inr x \<longrightarrow> P x)"
    and "\<And>x. P x \<Longrightarrow> safe os V (F \<union> G x) (k x) H" "\<And>e. H (Inl e) = {}"
  shows "safe os V F (bindE m k) H"
  unfolding bindE_def
proof (rule safe_bindS_val[OF assms(1,2)])
  show "safe os V (F \<union> on_ok G r) (case r of Inl e \<Rightarrow> ret (Inl e) | Inr x \<Rightarrow> k x) H"
    if "\<forall>x. r = Inr x \<longrightarrow> P x" for r
    using that assms(3,4) by (cases r) (simp_all add: safe_ret)
qed

lemma safe_bindR_val:
  assumes "safe os V F m (on_ok G)" "gives os V F m (\<lambda>r. \<forall>x. r = Inr x \<longrightarrow> P x)"
    and "\<And>x. P x \<Longrightarrow> calm os V (F \<union> G x) (k x)"
  shows "calm os V F (bindR m k)"
  unfolding bindR_def
proof (rule safe_bindS_val[OF assms(1,2)])
  show "calm os V (F \<union> on_ok G r) (case r of Inl e \<Rightarrow> ret (RError (errno_of e)) | Inr x \<Rightarrow> k x)"
    if "\<forall>x. r = Inr x \<longrightarrow> P x" for r
    using that assms(3) by (cases r) (simp_all add: safe_ret)
qed

lemma safe_bindS: "safe os V F m G \<Longrightarrow> (\<And>x. safe os V (F \<union> G x) (k x) H) \<Longrightarrow> safe os V F (bindS m k) H"
  by (rule safe_bindS_val[OF _ gives_any])

lemma safe_bindE:
  "safe os V F m (on_ok G) \<Longrightarrow> (\<And>x. safe os V (F \<union> G x) (k x) H) \<Longrightarrow> (\<And>e. H (Inl e) = {}) \<Longrightarrow>
   safe os V F (bindE m k) H"
  by (rule safe_bindE_val[where P = "\<lambda>_. True"]) (simp_all add: gives_any)

lemma safe_bindR:
  "safe os V F m (on_ok G) \<Longrightarrow> (\<And>x. calm os V (F \<union> G x) (k x)) \<Longrightarrow> calm os V F (bindR m k)"
  by (rule safe_bindR_val[where P = "\<lambda>_. True"]) (simp_all add: gives_any)

text \<open>Sequencing when the first part establishes nothing.\<close>

lemma safe_bindS0 [safe_seq]:
  "calm os V F m \<Longrightarrow> (\<And>x. safe os V F (k x) H) \<Longrightarrow> safe os V F (bindS m k) H"
  using safe_bindS[of os V F m "\<lambda>_. {}" k H] by simp

lemma on_ok_empty: "on_ok (\<lambda>_. {}) = (\<lambda>_. {})"
  by (auto simp: fun_eq_iff on_ok_def split: sum.splits)

lemma safe_bindE0 [safe_seq]:
  "calm os V F m \<Longrightarrow> (\<And>x. safe os V F (k x) H) \<Longrightarrow> (\<And>e. H (Inl e) = {}) \<Longrightarrow> safe os V F (bindE m k) H"
  using safe_bindE[of os V F m "\<lambda>_. {}" k H] by (simp add: on_ok_empty)

lemma safe_bindR0 [safe_seq]:
  "calm os V F m \<Longrightarrow> (\<And>x. calm os V F (k x)) \<Longrightarrow> calm os V F (bindR m k)"
  using safe_bindR[of os V F m "\<lambda>_. {}" k] by (simp add: on_ok_empty)

lemma safe_doS [safe_intro]: "calm os V F m \<Longrightarrow> safe os V F k H \<Longrightarrow> safe os V F (doS m k) H"
  unfolding doS_def by (rule safe_bindS0)

lemma safe_withS [safe_intro]:
  "(\<And>s. fds_ok os V s \<Longrightarrow> F \<subseteq> known V s \<Longrightarrow> confines os V \<Longrightarrow>
     safe os V (F \<union> known V s) (f s) H) \<Longrightarrow>
   safe os V F (withS f) H"
  by (simp add: safe_def withS_def)

lemma calm_ask [safe_intro]: "calm os V F (ask f)" "calm os V F (obs g)"
  unfolding ask_def obs_def by (intro safe_intro safe_seq)+

lemma safe_if [safe_intro]:
  "(b \<Longrightarrow> safe os V F m H) \<Longrightarrow> (\<not> b \<Longrightarrow> safe os V F n H) \<Longrightarrow> safe os V F (if b then m else n) H"
  by simp

lemma safe_Let [safe_intro]: "safe os V F (f x) H \<Longrightarrow> safe os V F (Let x f) H"
  by simp

lemma safe_case_option [safe_intro]:
  "(x = None \<Longrightarrow> safe os V F m H) \<Longrightarrow> (\<And>a. x = Some a \<Longrightarrow> safe os V F (f a) H) \<Longrightarrow>
   safe os V F (case x of None \<Rightarrow> m | Some a \<Rightarrow> f a) H"
  by (cases x) auto

lemma safe_case_sum [safe_intro]:
  "(\<And>a. x = Inl a \<Longrightarrow> safe os V F (f a) H) \<Longrightarrow> (\<And>b. x = Inr b \<Longrightarrow> safe os V F (g b) H) \<Longrightarrow>
   safe os V F (case x of Inl a \<Rightarrow> f a | Inr b \<Rightarrow> g b) H"
  by (cases x) auto

lemma safe_case_prod [safe_intro]:
  "(\<And>a b. x = (a, b) \<Longrightarrow> safe os V F (f a b) H) \<Longrightarrow> safe os V F (case x of (a, b) \<Rightarrow> f a b) H"
  by (cases x) auto

lemma safe_case_fs_error [safe_intro]:
  "(\<And>e. safe os V F (f e) H) \<Longrightarrow> safe os V F (case x of FsError e \<Rightarrow> f e) H"
  by (cases x) auto

section \<open>Primitive state changes\<close>

text \<open>What the discipline looks at, besides the world, the nodes and the open files.\<close>

definition fixed_part :: "'w fs \<Rightarrow> 'w ovl_layer list \<times> int" where
  "fixed_part s = (fs_layers s, fs_workdir_fd s)"

lemma fds_ok_step:
  assumes "fds_ok os V s" "fixed_part s' = fixed_part s" "stepping V (fs_world s) (fs_world s')"
    and "\<And>fh fd. fs_open_files s' fh = Some fd \<Longrightarrow>
      fs_open_files s fh = Some fd \<or> Up fd \<in> known V s' \<or> Reads fd \<in> known V s'"
    and "\<And>i n. arena_get (fs_nodes s') i = Some n \<Longrightarrow>
      arena_get (fs_nodes s) i = Some n \<or> node_safe (known V s') n"
  shows "follows os V s s'"
proof -
  have up: "upper_layer s' = upper_layer s" using assms(2) by (simp add: upper_layer_def fixed_part_def)
  have mono: "known V s \<subseteq> known V s'"
    using assms(3) up by (auto simp: known_def stepping_def split: fact.splits)
  have "node_safe (known V s') n" if "arena_get (fs_nodes s') i = Some n" for i n
    using assms(5)[OF that] assms(1) mono unfolding fds_ok_def by (metis node_safe_mono)
  moreover have "Up fd \<in> known V s' \<or> Reads fd \<in> known V s'" if "fs_open_files s' fh = Some fd" for fh fd
    using assms(4)[OF that] assms(1) mono unfolding fds_ok_def by blast
  ultimately have "fds_ok os V s'"
    using assms(1,2) mono unfolding fds_ok_def fixed_part_def by auto
  then show ?thesis using assms(3) mono by (simp add: follows_def stepping_def)
qed

lemma calm_frame:
  assumes "frames fixed_part m" "frames fs_world m" "frames fs_open_files m" "frames fs_nodes m"
  shows "calm os V F m"
  using assms by (simp add: safe_def frames_def) (intro allI impI fds_ok_step, auto)

lemma calm_update:
  assumes "\<And>K n. F \<subseteq> K \<Longrightarrow> node_safe K n \<Longrightarrow> node_safe K (f n)"
  shows "calm os V F (update_node i f)"
  unfolding safe_def
proof (intro allI impI conjI)
  fix s
  assume s: "confines os V" "fds_ok os V s" "F \<subseteq> known V s"
  show "follows os V s (snd (update_node i f s))"
  proof (rule fds_ok_step[OF s(2)])
    fix j n
    assume "arena_get (fs_nodes (snd (update_node i f s))) j = Some n"
    then have n: "map_option (if j = i then f else (\<lambda>x. x)) (arena_get (fs_nodes s) j) = Some n"
      by (auto simp: update_node_def modS_def arena_get_update split: if_splits)
    then obtain m where m: "arena_get (fs_nodes s) j = Some m" "n = (if j = i then f else (\<lambda>x. x)) m" by auto
    have K: "known V (snd (update_node i f s)) = known V s"
      by (simp add: update_node_def modS_def)
    have "node_safe (known V s) m" using s(2) m(1) by (auto simp: fds_ok_def)
    then have "node_safe (known V s) n" using assms[OF s(3)] m(2) by simp
    then show "arena_get (fs_nodes s) j = Some n \<or> node_safe (known V (snd (update_node i f s))) n"
      by (simp add: K)
  qed (simp_all add: update_node_def modS_def fixed_part_def)
qed simp

lemma calm_update_tag: "(\<And>n. tag (f n) = tag n) \<Longrightarrow> calm os V F (update_node i f)"
  by (rule calm_update) (metis node_safe_mono order_refl)

lemma tag_updates [simp]:
  "tag (n\<lparr>nd_layer_idx := x\<rparr>) = tag n" "tag (n\<lparr>nd_last_layer_idx := x\<rparr>) = tag n" "tag (n\<lparr>nd_parent := p\<rparr>) = tag n"
  "tag (n\<lparr>nd_mode := m\<rparr>) = tag n" "tag (n\<lparr>nd_tmp_ino := a\<rparr>) = tag n" "tag (n\<lparr>nd_tmp_dev := a\<rparr>) = tag n"
  "tag (n\<lparr>nd_dir_state := d\<rparr>) = tag n"
  by (simp_all add: tag_def)

lemma tag_dir_updates [simp]:
  "tag (insert_child name c n) = tag n" "tag (remove_child name n) = tag n" "tag (mark_loaded n) = tag n"
  "tag (mark_unloaded n) = tag n" "tag (clear_children n) = tag n" "tag (insert_whiteout name n) = tag n"
  by (simp_all add: insert_child_def remove_child_def mark_loaded_def mark_unloaded_def set_loaded_def
      clear_children_def insert_whiteout_def split: dir_state.splits)

lemmas calm_updates [safe_intro] =
  calm_update_tag[OF tag_updates(1)] calm_update_tag[OF tag_updates(2)] calm_update_tag[OF tag_updates(3)]
  calm_update_tag[OF tag_dir_updates(1)] calm_update_tag[OF tag_dir_updates(2)] calm_update_tag[OF tag_dir_updates(3)]
  calm_update_tag[OF tag_dir_updates(4)] calm_update_tag[OF tag_dir_updates(5)] calm_update_tag[OF tag_dir_updates(6)]

text \<open>A node as it is made: a name of one component and nothing hidden.\<close>

definition fresh_node :: "ovl_node \<Rightarrow> bool" where
  "fresh_node n \<longleftrightarrow> slash_free (nd_name n) \<and> nd_hidden_path n = None"

lemma fresh_node_safe: "fresh_node n \<Longrightarrow> node_safe K n"
  by (simp add: fresh_node_def node_safe_def)

lemma fresh_node_tag: "tag n = tag m \<Longrightarrow> fresh_node n = fresh_node m"
  by (simp add: fresh_node_def tag_def)

lemma fresh_node_new [simp]: "fresh_node (node_new name l ino dev d) \<longleftrightarrow> slash_free name"
  by (simp add: fresh_node_def node_new_def)

lemma fresh_node_updates [simp]:
  "fresh_node (n\<lparr>nd_last_layer_idx := x\<rparr>) = fresh_node n" "fresh_node (n\<lparr>nd_parent := p\<rparr>) = fresh_node n"
  "fresh_node (n\<lparr>nd_mode := m\<rparr>) = fresh_node n" "fresh_node (n\<lparr>nd_tmp_ino := a\<rparr>) = fresh_node n"
  "fresh_node (n\<lparr>nd_tmp_dev := a\<rparr>) = fresh_node n" "fresh_node (mark_loaded n) = fresh_node n"
  by (rule fresh_node_tag; simp)+

lemma calm_insert_node [safe_intro]:
  assumes "fresh_node n"
  shows "calm os V F (insert_node n)"
  unfolding safe_def
  using assms
  by (auto simp: insert_node_def arena_insert_def arena_get_def fixed_part_def fresh_node_safe split: if_splits
      intro!: fds_ok_step)

lemma calm_tables [safe_intro]:
  "calm os V F (register_node i ino dev m)" "calm os V F (mod_inodes h)" "calm os V F hang"
  "calm os V F next_wd_counter" "calm os V F (modS (\<lambda>s. s\<lparr>fs_CAN_MKNOD := b\<rparr>))" "calm os V F (notify_inval f)"
  by (rule calm_frame; simp add: frames_def register_node_def mod_inodes_def hang_def next_wd_counter_def modS_def
      notify_inval_def fixed_part_def split_beta split: option.splits)+

lemma safe_next_wd_name [safe_intro]:
  assumes "\<And>name. slash_free name \<Longrightarrow> safe os V F (k name) H"
  shows "safe os V F (bindS next_wd_name k) H"
proof -
  have "bindS next_wd_name k = bindS next_wd_counter (\<lambda>c. k (show_nat c))"
    by (simp add: fun_eq_iff next_wd_name_def bindS_def ret_def split_beta)
  then show ?thesis
    using safe_bindS0[OF calm_tables(4), of os V F "\<lambda>c. k (show_nat c)" H] assms by (simp add: show_nat_no_char)
qed

section \<open>Calls\<close>

lemma calm_call:
  assumes "\<And>s. confines os V \<Longrightarrow> F \<subseteq> known V s \<Longrightarrow> stepping V (fs_world s) (snd (m (fs_world s)))"
  shows "calm os V F (world m)"
  unfolding safe_def using assms
  by (auto simp: world_def split_beta fixed_part_def intro!: fds_ok_step)

lemma UpD: "Up d \<in> F \<Longrightarrow> F \<subseteq> known V s \<Longrightarrow> kv_upper V d (fs_world s)"
  by (auto simp: known_iff)

lemma snd_lift_eff [simp]: "snd (lift_eff c w) = snd (c w)" "fst (lift_eff c w) = lift_obs (fst (c w))"
  by (simp_all add: lift_eff_def split_beta)

lemma calm_with_cstr:
  "(\<And>c. calm os V F (world (f c))) \<Longrightarrow> calm os V F (world (with_cstrP s f))"
  by (cases "cstr_bytes s") (simp_all add: with_cstrP_def, simp add: safe_def world_def ret_def follows_refl)

lemma confines_namesD:
  assumes "confines os V" "kv_upper V d w" "slash_free name"
  shows "stepping V w (snd (k_fchownat os d name u g fl w))" "stepping V w (snd (k_fchmodat os d name m fl w))"
    "stepping V w (snd (k_utimensat os d name ts fl w))" "stepping V w (snd (k_mkdirat os d name m w))"
    "stepping V w (snd (k_mknodat os d name m dev w))" "stepping V w (snd (k_unlinkat os d name fl w))"
    "stepping V w (snd (k_symlinkat os target d name w))"
    "kv_upper V d' w \<Longrightarrow> slash_free name' \<Longrightarrow> stepping V w (snd (k_renameat os d name d' name' w))"
    "kv_upper V d' w \<Longrightarrow> slash_free name' \<Longrightarrow> stepping V w (snd (k_renameat2 os d name d' name' fl' w))"
    "kv_upper V d' w \<Longrightarrow> slash_free name' \<Longrightarrow> stepping V w (snd (k_linkat os d name d' name' fl w))"
proof -
  have "confines_names os V" using assms(1) by (simp add: confines_def)
  note h = this[unfolded confines_names_def, THEN spec, of w, THEN spec, of d, THEN spec, of name,
      THEN mp, OF assms(2), THEN mp, OF assms(3)]
  from h show "stepping V w (snd (k_fchownat os d name u g fl w))" "stepping V w (snd (k_fchmodat os d name m fl w))"
    "stepping V w (snd (k_utimensat os d name ts fl w))" "stepping V w (snd (k_mkdirat os d name m w))"
    "stepping V w (snd (k_mknodat os d name m dev w))" "stepping V w (snd (k_unlinkat os d name fl w))"
    "stepping V w (snd (k_symlinkat os target d name w))"
    "kv_upper V d' w \<Longrightarrow> slash_free name' \<Longrightarrow> stepping V w (snd (k_renameat os d name d' name' w))"
    "kv_upper V d' w \<Longrightarrow> slash_free name' \<Longrightarrow> stepping V w (snd (k_renameat2 os d name d' name' fl' w))"
    "kv_upper V d' w \<Longrightarrow> slash_free name' \<Longrightarrow> stepping V w (snd (k_linkat os d name d' name' fl w))"
    by (simp_all only: simp_thms)
qed

lemma confines_fdsD:
  assumes "confines os V" "kv_upper V d w"
  shows "stepping V w (snd (k_fchown os d u g w))" "stepping V w (snd (k_fchmod os d m w))"
    "stepping V w (snd (k_futimens os d ts w))" "stepping V w (snd (k_ftruncate os d k w))"
    "stepping V w (snd (k_fsetxattr os d name v fl w))" "stepping V w (snd (k_pwrite os d b off w))"
    "stepping V w (snd (k_write os d b w))" "stepping V w (snd (k_fallocate os d fm off len w))"
    "stepping V w (snd (k_ioctl_long os d c x w))" "stepping V w (snd (k_sendfile os d i n w))"
    "stepping V w (snd (k_ficlone os d i w))" "stepping V w (snd (k_copy_file_range os i io d oo n w))"
proof -
  have "confines_fds os V" using assms(1) by (simp add: confines_def)
  note h = this[unfolded confines_fds_def, THEN conjunct1, THEN spec, of w, THEN spec, of d, THEN mp, OF assms(2)]
  from h show "stepping V w (snd (k_fchown os d u g w))" "stepping V w (snd (k_fchmod os d m w))"
    "stepping V w (snd (k_futimens os d ts w))" "stepping V w (snd (k_ftruncate os d k w))"
    "stepping V w (snd (k_fsetxattr os d name v fl w))" "stepping V w (snd (k_pwrite os d b off w))"
    "stepping V w (snd (k_write os d b w))" "stepping V w (snd (k_fallocate os d fm off len w))"
    "stepping V w (snd (k_ioctl_long os d c x w))" "stepping V w (snd (k_sendfile os d i n w))"
    "stepping V w (snd (k_ficlone os d i w))" "stepping V w (snd (k_copy_file_range os i io d oo n w))"
    by (simp_all only: simp_thms)
qed

lemma confines_readerD:
  assumes "confines os V" "kv_reader V d w"
  shows "\<exists>e. k_pwrite os d b off w = (Inl e, w)" "\<exists>e. k_fallocate os d fm off len w = (Inl e, w)"
    "\<exists>e. k_copy_file_range os i io d oo n w = (Inl e, w)"
  using assms unfolding confines_def confines_fds_def by blast+

lemma confines_anyD:
  assumes "confines os V"
  shows "stepping V w (snd (k_read os d n w))" "stepping V w (snd (k_lseek os d off wh w))"
    "stepping V w (snd (k_fsync os d w))" "stepping V w (snd (k_fdatasync os d w))"
    "stepping V w (snd (k_open_backing os d w))"
    "c = FS_IOC_GETVERSION \<or> c = FS_IOC_GETFLAGS \<Longrightarrow> stepping V w (snd (k_ioctl_long os d c v w))"
    "k_readdir os d w = Inr es \<Longrightarrow> e \<in> set es \<Longrightarrow> slash_free (de_name e)"
proof -
  have "confines_fds os V" using assms(1) by (simp add: confines_def)
  note h = this[unfolded confines_fds_def, THEN conjunct2, THEN conjunct2, THEN spec, of w, THEN spec, of d]
  from h show "stepping V w (snd (k_read os d n w))" "stepping V w (snd (k_lseek os d off wh w))"
    "stepping V w (snd (k_fsync os d w))" "stepping V w (snd (k_fdatasync os d w))"
    "stepping V w (snd (k_open_backing os d w))" by (simp_all only: simp_thms)
  from h show "c = FS_IOC_GETVERSION \<or> c = FS_IOC_GETFLAGS \<Longrightarrow> stepping V w (snd (k_ioctl_long os d c v w))"
    "k_readdir os d w = Inr es \<Longrightarrow> e \<in> set es \<Longrightarrow> slash_free (de_name e)" by auto
qed

lemma confines_pathsD:
  assumes "confines os V" "kv_upper V d w"
  shows "stepping V w (snd (k_lsetxattr os (proc_fd_path d path) name v fl w))"
    "stepping V w (snd (k_lremovexattr os (proc_fd_path d path) name w))"
    "stepping V w (snd (k_truncate os (proc_fd_path d path) len w))"
  using assms unfolding confines_def confines_paths_def by blast+

lemma calm_names [safe_intro]:
  assumes "Up d \<in> F" "slash_free name"
  shows "calm os V F (world (fchownat os d name u g fl))" "calm os V F (world (fchmodat os d name m fl))"
    "calm os V F (world (utimensat os d name ts fl))" "calm os V F (world (mkdirat os d name m))"
    "calm os V F (world (mknodat os d name m dev))" "calm os V F (world (unlinkat os d name fl))"
    "calm os V F (world (symlinkat os target d name))"
  unfolding fchownat_def fchmodat_def utimensat_def mkdirat_def mknodat_def unlinkat_def symlinkat_def
  by (rule calm_call; simp add: confines_namesD UpD[OF assms(1)] assms(2))+

lemma calm_renames [safe_intro]:
  assumes "Up d \<in> F" "slash_free name" "Up d' \<in> F" "slash_free name'"
  shows "calm os V F (world (renameat os d name d' name'))" "calm os V F (world (renameat2 os d name d' name' fl))"
    "calm os V F (world (linkat os d name d' name' fl))"
  unfolding renameat_def renameat2_def linkat_def
  by (rule calm_call; simp add: confines_namesD UpD[OF assms(1)] UpD[OF assms(3)] assms(2,4))+

lemma calm_fds [safe_intro]:
  assumes "Up d \<in> F"
  shows "calm os V F (world (fchown os d u g))" "calm os V F (world (fchmod os d m))"
    "calm os V F (world (futimens os d ts))" "calm os V F (world (ftruncate os d n))"
    "calm os V F (world (ioctl_long os d c v))"
  unfolding fchown_def fchmod_def futimens_def ftruncate_def ioctl_long_def
  by (rule calm_call; simp add: confines_fdsD UpD[OF assms(1)])+

text \<open>Writing calls, which fail on a descriptor that was opened for reading.\<close>

lemma calm_writes [safe_intro]:
  assumes "Up d \<in> F \<or> Reads d \<in> F"
  shows "calm os V F (world (pwrite os d b off))" "calm os V F (world (fallocate os d m off n))"
    "calm os V F (world (copy_file_range_call os i io d oo k))"
proof -
  have d: "kv_upper V d (fs_world s) \<or> kv_reader V d (fs_world s)" if "F \<subseteq> known V s" for s
    using assms that by (auto simp: known_iff)
  show "calm os V F (world (pwrite os d b off))"
    unfolding pwrite_def
    by (rule calm_call) (use d in \<open>fastforce dest: confines_fdsD(6)[of os V d _ b off] confines_readerD(1)[of os V d _ b off]\<close>)
  show "calm os V F (world (fallocate os d m off n))"
    unfolding fallocate_def
    by (rule calm_call) (use d in \<open>fastforce dest: confines_fdsD(8)[of os V d _ m off n] confines_readerD(2)[of os V d _ m off n]\<close>)
  show "calm os V F (world (copy_file_range_call os i io d oo k))"
    unfolding copy_file_range_call_def
    by (rule calm_call)
      (use d in \<open>fastforce dest: confines_fdsD(12)[of os V d _ i io oo k] confines_readerD(3)[of os V d _ i io oo k]\<close>)
qed

lemma calm_fsetxattr [safe_intro]:
  assumes "Up d \<in> F"
  shows "calm os V F (world (fsetxattr os d name v fl))"
  unfolding fsetxattr_def
  by (rule calm_with_cstr, rule calm_call) (simp add: confines_fdsD UpD[OF assms])

lemma calm_paths [safe_intro]:
  assumes "Up d \<in> F"
  shows "calm os V F (world (lsetxattr os (proc_fd_path d path) name v fl))"
    "calm os V F (world (lremovexattr os (proc_fd_path d path) name))"
  unfolding lsetxattr_def lremovexattr_def with_cstrP_def
  by (rule calm_call; auto split: sum.splits simp: cstr_bytes_Inr confines_pathsD UpD[OF assms] ret_def)+

lemma calm_truncate [safe_intro]:
  assumes "Up d \<in> F" "cstr_bytes (proc_fd_path d path) = Inr c"
  shows "calm os V F (world (Sys.truncate os c n))"
  using assms(2) unfolding Sys.truncate_def
  by (intro calm_call) (simp add: cstr_bytes_Inr confines_pathsD UpD[OF assms(1)])

lemma calm_harmless [safe_intro]:
  "calm os V F (world (lseek_call os d off wh))" "calm os V F (world (fsync_call os d))"
  "calm os V F (world (fdatasync os d))" "calm os V F (world (k_open_backing os d))"
  "c = FS_IOC_GETVERSION \<or> c = FS_IOC_GETFLAGS \<Longrightarrow> calm os V F (world (ioctl_long os d c v))"
  unfolding lseek_call_def fsync_call_def fdatasync_def ioctl_long_def
  by (rule calm_call; simp add: confines_anyD)+

section \<open>Opening\<close>

definition READ_FLAGS :: "oflags \<Rightarrow> bool" where
  "READ_FLAGS fl \<longleftrightarrow> fl AND (O_WRONLY OR O_RDWR OR O_CREAT OR O_TRUNC) = 0"

lemma read_flags_extended: "READ_FLAGS fl \<Longrightarrow> (scast fl AND VALID_OPEN_FLAGS) AND WRITE_FLAGS = 0"
proof -
  assume fl: "READ_FLAGS fl"
  have small: "n < 10" if "bit WRITE_FLAGS n" for n
  proof -
    have "take_bit 10 WRITE_FLAGS = WRITE_FLAGS" by (simp add: WRITE_FLAGS_def)
    with that show ?thesis by (metis bit_take_bit_iff)
  qed
  have "(scast fl :: 64 word) AND WRITE_FLAGS = 0"
  proof (rule bit_word_eqI)
    fix n
    have "fl AND 0x243 = 0" using fl by (simp add: READ_FLAGS_def)
    then have "\<not> (bit fl n \<and> bit (0x243 :: oflags) n)" by (metis bit_0_eq bit_and_iff bot_apply bot_bool_def)
    moreover have "bit WRITE_FLAGS n \<longleftrightarrow> bit (0x243 :: oflags) n" if "n < 10"
      using that by (simp add: WRITE_FLAGS_def bit_simps flip: bit_ucast_iff)
    ultimately show "bit ((scast fl :: 64 word) AND WRITE_FLAGS) n \<longleftrightarrow> bit (0 :: 64 word) n"
      using small[of n] by (auto simp: bit_simps min_def)
  qed
  then show ?thesis by (metis and.assoc and.commute and_zero_eq)
qed

lemma confines_opensD:
  assumes "confines os V" "k_openat2 os d path fl mode RESOLVE_IN_ROOT w = (r, w')"
  shows "kv_upper V d w \<Longrightarrow> stepping V w w' \<and> (\<forall>fd. r = Inr fd \<longrightarrow> kv_upper V fd w')"
    "fl AND WRITE_FLAGS = 0 \<Longrightarrow> stepping V w w' \<and> (\<forall>fd. r = Inr fd \<longrightarrow> kv_reader V fd w')"
proof -
  have "confines_opens os V" using assms(1) by (simp add: confines_def)
  note h = this[unfolded confines_opens_def, rule_format, OF assms(2)]
  then show "kv_upper V d w \<Longrightarrow> stepping V w w' \<and> (\<forall>fd. r = Inr fd \<longrightarrow> kv_upper V fd w')"
    "fl AND WRITE_FLAGS = 0 \<Longrightarrow> stepping V w w' \<and> (\<forall>fd. r = Inr fd \<longrightarrow> kv_reader V fd w')" by blast+
qed

lemma openat_run:
  assumes "confines os V" "safe_openat os d path fl mode w = (r, w')"
  shows "kv_upper V d w \<Longrightarrow> stepping V w w' \<and> (\<forall>fd. r = Inr fd \<longrightarrow> kv_upper V fd w')"
    "READ_FLAGS fl \<Longrightarrow> stepping V w w' \<and> (\<forall>fd. r = Inr fd \<longrightarrow> kv_reader V fd w')"
proof -
  consider "w' = w" "isl r"
    | r0 m where "k_openat2 os d path (scast fl AND VALID_OPEN_FLAGS) m RESOLVE_IN_ROOT w = (r0, w')" "r = lift_obs r0"
    using assms(2)
    by (auto simp: safe_openat_def with_cstrP_def syscall_openat2_def lift_eff_def cstr_bytes_Inr ret_def
        split: sum.splits prod.splits)
  note c = this
  show "stepping V w w' \<and> (\<forall>fd. r = Inr fd \<longrightarrow> kv_upper V fd w')" if "kv_upper V d w"
    using c confines_opensD(1)[OF assms(1) _ that] by cases auto
  show "stepping V w w' \<and> (\<forall>fd. r = Inr fd \<longrightarrow> kv_reader V fd w')" if "READ_FLAGS fl"
    using c confines_opensD(2)[OF assms(1) _ read_flags_extended[OF that]] by cases auto
qed

lemma safe_world:
  assumes "\<And>s r w. confines os V \<Longrightarrow> F \<subseteq> known V s \<Longrightarrow> m (fs_world s) = (r, w) \<Longrightarrow>
    stepping V (fs_world s) w \<and> G r \<subseteq> known V (s\<lparr>fs_world := w\<rparr>)"
  shows "safe os V F (world m) G"
  unfolding safe_def
proof (intro allI impI)
  fix s
  assume s: "confines os V" "fds_ok os V s" "F \<subseteq> known V s"
  obtain r w where run: "m (fs_world s) = (r, w)" by fastforce
  have "calm os V F (world m)"
    by (rule calm_call) (use assms[OF _ _ prod.collapse[symmetric]] in blast)
  from safeD(1)[OF this s] assms[OF s(1,3) run]
  show "follows os V s (snd (world m s)) \<and> G (fst (world m s)) \<subseteq> known V (snd (world m s))"
    by (simp add: world_def run)
qed

lemma safe_openat_up: "Up d \<in> F \<Longrightarrow> safe os V F (world (safe_openat os d path fl mode)) (on_ok (\<lambda>fd. {Up fd}))"
  by (rule safe_world) (auto simp: on_ok_def known_iff split: sum.splits dest: UpD openat_run(1))

lemma safe_openat_reads:
  "READ_FLAGS fl \<Longrightarrow> safe os V F (world (safe_openat os d path fl mode)) (on_ok (\<lambda>fd. {Reads fd}))"
  by (rule safe_world) (auto simp: on_ok_def known_iff split: sum.splits dest: openat_run(2))

lemma calm_openat_up [safe_intro]: "Up d \<in> F \<Longrightarrow> calm os V F (world (safe_openat os d path fl mode))"
  by (rule safe_weaken[OF safe_openat_up]) auto

text \<open>The flags with which the program reads.\<close>

lemma read_flags_numeral [simp]: "READ_FLAGS (numeral k) \<longleftrightarrow> numeral k AND 0x243 = (0 :: oflags)"
  by (simp add: READ_FLAGS_def)

lemma read_flags [simp]:
  "READ_FLAGS O_RDONLY" "READ_FLAGS O_NONBLOCK" "READ_FLAGS O_NOFOLLOW" "READ_FLAGS O_DIRECTORY" "READ_FLAGS O_PATH"
  "READ_FLAGS (a OR b) \<longleftrightarrow> READ_FLAGS a \<and> READ_FLAGS b"
  by (auto simp: READ_FLAGS_def bit.conj_disj_distrib2 or_eq_0_iff)

lemma open_parent_run:
  assumes "confines os V" "kv_upper V d w" "open_parent_safe_cstr os d path w = (r, w')"
  shows "stepping V w w' \<and> (\<forall>a b. r = Inr (a, b) \<longrightarrow> kv_upper V a w' \<and> slash_free b)"
proof -
  obtain r1 w1 where p: "open_parent_safe os d path w = (r1, w1)" by fastforce
  have 1: "stepping V w w1 \<and> (\<forall>f b. r1 = Inr (Some f, b) \<longrightarrow> kv_upper V f w1)"
    using p openat_run(1)[OF assms(1) _ assms(2)]
    by (auto simp: open_parent_safe_def bindE_def bindS_def ret_def split: option.splits prod.splits sum.splits)
  have "w' = w1 \<and> (\<forall>a b. r = Inr (a, b) \<longrightarrow> (\<exists>f. r1 = Inr (f, b) \<and> a = (case f of Some f \<Rightarrow> f | None \<Rightarrow> d)))"
    using assms(3) p
    by (auto simp: open_parent_safe_cstr_def with_cstrP_def cstr_bytes_Inr bindE_def bindS_def ret_def
        split: sum.splits prod.splits)
  then show ?thesis
    using 1 assms(2) open_parent_safe_Inr[of os d path w _ _ w1] p
    by (fastforce simp: stepping_def split: option.splits)
qed

lemma safe_open_parent:
  assumes "Up d \<in> F"
  shows "safe os V F (world (open_parent_safe_cstr os d path)) (on_ok (\<lambda>(a, b). {Up a}))"
    "gives os V F (world (open_parent_safe_cstr os d path)) (\<lambda>r. \<forall>x. r = Inr x \<longrightarrow> slash_free (snd x))"
proof -
  show "safe os V F (world (open_parent_safe_cstr os d path)) (on_ok (\<lambda>(a, b). {Up a}))"
    by (rule safe_world)
      (auto simp: on_ok_def known_iff split: sum.splits dest: open_parent_run[OF _ UpD[OF assms]])
  show "gives os V F (world (open_parent_safe_cstr os d path)) (\<lambda>r. \<forall>x. r = Inr x \<longrightarrow> slash_free (snd x))"
    unfolding gives_def world_def
    by (auto split: prod.splits dest: open_parent_run[OF _ UpD[OF assms]])
qed

text \<open>Sequencing after an open.\<close>

lemma safe_bindE_open [safe_intro]:
  "Up d \<in> F \<Longrightarrow> (\<And>fd. safe os V (insert (Up fd) F) (k fd) H) \<Longrightarrow> (\<And>e. H (Inl e) = {}) \<Longrightarrow>
   safe os V F (bindE (world (safe_openat os d path fl mode)) k) H"
  by (rule safe_bindE[OF safe_openat_up]) simp_all

lemma safe_bindR_open [safe_intro]:
  "Up d \<in> F \<Longrightarrow> (\<And>fd. calm os V (insert (Up fd) F) (k fd)) \<Longrightarrow>
   calm os V F (bindR (world (safe_openat os d path fl mode)) k)"
  by (rule safe_bindR[OF safe_openat_up]) simp_all

lemma safe_bindS_open [safe_intro]:
  "Up d \<in> F \<Longrightarrow> (\<And>r. safe os V (F \<union> on_ok (\<lambda>fd. {Up fd}) r) (k r) H) \<Longrightarrow>
   safe os V F (bindS (world (safe_openat os d path fl mode)) k) H"
  by (rule safe_bindS[OF safe_openat_up])

lemma safe_bindE_parent [safe_intro]:
  "Up d \<in> F \<Longrightarrow> (\<And>a b. slash_free b \<Longrightarrow> safe os V (insert (Up a) F) (k a b) H) \<Longrightarrow> (\<And>e. H (Inl e) = {}) \<Longrightarrow>
   safe os V F (bindE (world (open_parent_safe_cstr os d path)) (case_prod k)) H"
  by (rule safe_bindE_val[OF safe_open_parent]) (auto split: prod.splits)

lemma safe_bindR_parent [safe_intro]:
  "Up d \<in> F \<Longrightarrow> (\<And>a b. slash_free b \<Longrightarrow> calm os V (insert (Up a) F) (k a b)) \<Longrightarrow>
   calm os V F (bindR (world (open_parent_safe_cstr os d path)) (case_prod k))"
  by (rule safe_bindR_val[OF safe_open_parent]) (auto split: prod.splits)

lemma safe_bindS_parent [safe_intro]:
  "Up d \<in> F \<Longrightarrow> (\<And>r. (\<And>a b. r = Inr (a, b) \<Longrightarrow> slash_free b) \<Longrightarrow>
     safe os V (F \<union> on_ok (\<lambda>(a, b). {Up a}) r) (k r) H) \<Longrightarrow>
   safe os V F (bindS (world (open_parent_safe_cstr os d path)) k) H"
  by (rule safe_bindS_val[OF safe_open_parent]) auto

text \<open>A file of a layer opened for reading.\<close>

lemma direct_openat: "direct os ds \<Longrightarrow> ds_openat ds = safe_openat os (ds_root_fd ds)"
  by (auto simp: direct_def direct_ds_def direct_openat_def fun_eq_iff)

lemma safe_layer_open:
  "direct os ds \<Longrightarrow> READ_FLAGS fl \<Longrightarrow> safe os V F (world (ds_openat ds path fl mode)) (on_ok (\<lambda>fd. {Reads fd}))"
  "direct os ds \<Longrightarrow> Up (ds_root_fd ds) \<in> F \<Longrightarrow> safe os V F (world (ds_openat ds path fl' mode)) (on_ok (\<lambda>fd. {Up fd}))"
  by (simp_all add: direct_openat safe_openat_reads safe_openat_up)

lemma safe_bindE_layer_open [safe_intro]:
  "direct os ds \<Longrightarrow> READ_FLAGS fl \<Longrightarrow> (\<And>fd. safe os V (insert (Reads fd) F) (k fd) H) \<Longrightarrow> (\<And>e. H (Inl e) = {}) \<Longrightarrow>
   safe os V F (bindE (world (ds_openat ds path fl mode)) k) H"
  by (rule safe_bindE[OF safe_layer_open(1)]) simp_all

lemma safe_bindR_layer_open:
  "direct os ds \<Longrightarrow> READ_FLAGS fl \<Longrightarrow> (\<And>fd. calm os V (insert (Reads fd) F) (k fd)) \<Longrightarrow>
   calm os V F (bindR (world (ds_openat ds path fl mode)) k)"
  "direct os ds \<Longrightarrow> Up (ds_root_fd ds) \<in> F \<Longrightarrow> (\<And>fd. calm os V (insert (Up fd) F) (k fd)) \<Longrightarrow>
   calm os V F (bindR (world (ds_openat ds path fl' mode)) k)"
  by (rule safe_bindR[OF safe_layer_open(1)], simp_all) (rule safe_bindR[OF safe_layer_open(2)], simp_all)

lemma calm_layer_open [safe_intro]:
  "direct os ds \<Longrightarrow> READ_FLAGS fl \<Longrightarrow> calm os V F (world (ds_openat ds path fl mode))"
  by (rule safe_weaken[OF safe_layer_open(1)]) auto

section \<open>Programs on the world\<close>

lemma world_simps [simp]:
  "world (ret x) = ret x"
  "world (bindS m k) = bindS (world m) (\<lambda>x. world (k x))"
  "world (bindE m' k') = bindE (world m') (\<lambda>x. world (k' x))"
  "world (doS m k0) = doS (world m) (world k0)"
  "world (withS f) = withS (\<lambda>s. world (f (fs_world s)))"
  "world (if b then m else n) = (if b then world m else world n)"
  "world (case r of Inl e \<Rightarrow> g e | Inr x \<Rightarrow> h x) = (case r of Inl e \<Rightarrow> world (g e) | Inr x \<Rightarrow> world (h x))"
  "world (case err of FsError e \<Rightarrow> g' e) = (case err of FsError e \<Rightarrow> world (g' e))"
  "world (case opt of None \<Rightarrow> m | Some x \<Rightarrow> h' x) = (case opt of None \<Rightarrow> world m | Some x \<Rightarrow> world (h' x))"
  by (simp_all add: fun_eq_iff world_def prog_defs split: prod.splits sum.splits fs_error.splits option.splits)

lemma calm_install [safe_intro]:
  assumes "Up wd \<in> F" "slash_free wd_name" "Up d \<in> F" "slash_free name"
  shows "calm os V F (world (install_directory os wd wd_name d name))"
    "calm os V F (world (install_file os wd wd_name d name))"
  unfolding install_directory_def install_file_def world_simps by (intro safe_intro safe_seq assms)+

lemma calm_copy_xattr [safe_intro]: "Up dfd \<in> F \<Longrightarrow> calm os V F (world (copy_xattr os sfd dfd))"
proof -
  assume d: "Up dfd \<in> F"
  have "Up dfd \<in> F' \<Longrightarrow> calm os V F' (world (copy_xattr_go os sfd dfd names))" for F' names
    by (induction names arbitrary: F') (auto intro!: safe_intro safe_seq)
  with d show ?thesis unfolding copy_xattr_def by (auto intro!: safe_intro safe_seq)
qed

lemma calm_set_fd_opaque [safe_intro]: "Up fd \<in> F \<Longrightarrow> calm os V F (world (set_fd_opaque os fd))"
  unfolding set_fd_opaque_def world_simps by (intro safe_intro safe_seq) auto

lemma calm_node_drop:
  assumes "node_safe F n"
  shows "calm os V F (world (node_drop os n))"
  using assms unfolding node_drop_def node_safe_def
  by (auto simp: cstr_bytes_Inr intro!: safe_intro safe_seq split: option.splits)

section \<open>The copy loops\<close>

lemma stepping_upper: "stepping V w w' \<Longrightarrow> kv_upper V d w \<Longrightarrow> kv_upper V d w'"
  by (simp add: stepping_def)

lemma stepping_then:
  "stepping V w w1 \<Longrightarrow> kv_upper V d w \<Longrightarrow> (kv_upper V d w1 \<Longrightarrow> stepping V w1 w2) \<Longrightarrow> stepping V w w2"
  by (simp add: stepping_def)

lemma lift_eff_step: "lift_eff c w = (r, w') \<Longrightarrow> stepping V w (snd (c w)) \<Longrightarrow> stepping V w w'"
  by (metis snd_conv snd_lift_eff(1))

lemma sendfile_loop_step:
  "sendfile_loop os dfd sfd n c w = Some y \<Longrightarrow> confines os V \<longrightarrow> kv_upper V dfd w \<longrightarrow> stepping V w (snd y)"
proof (erule sendfile_loop.raw_induct[rotated], intro impI)
  fix loop :: "'a os \<Rightarrow> int \<Rightarrow> int \<Rightarrow> int \<Rightarrow> int \<Rightarrow> 'a \<Rightarrow> (int option \<times> 'a) option" and os dfd sfd n c w y
  assume K: "confines os V" "kv_upper V dfd w"
    and IH: "\<And>os dfd sfd n c w y. loop os dfd sfd n c w = Some y \<Longrightarrow>
      confines os V \<longrightarrow> kv_upper V dfd w \<longrightarrow> stepping V w (snd y)"
    and run: "(if c < n then
        (case sendfile os dfd sfd (nat (n - c)) w of
           (Inl err, w') \<Rightarrow> if errno_of err = EINTR then loop os dfd sfd n c w' else Some (Some c, w')
         | (Inr k, w') \<Rightarrow> if k = 0 then Some (None, w') else loop os dfd sfd n (c + int k) w')
      else Some (Some c, w)) = Some y"
  obtain r w1 where call: "sendfile os dfd sfd (nat (n - c)) w = (r, w1)" by fastforce
  then have 1: "stepping V w w1"
    unfolding sendfile_def by (rule lift_eff_step) (rule confines_fdsD[OF K])
  have "stepping V w (snd y)" if "loop os dfd sfd n c' w1 = Some y" for c'
    using stepping_then[OF 1 K(2)] IH[OF that] K(1) by simp
  with run call 1 show "stepping V w (snd y)" by (auto split: if_splits sum.splits)
qed

lemma write_loop_step:
  "write_loop os dfd b w = Some y \<Longrightarrow> confines os V \<longrightarrow> kv_upper V dfd w \<longrightarrow> stepping V w (snd y)"
proof (erule write_loop.raw_induct[rotated], intro impI)
  fix loop :: "'a os \<Rightarrow> int \<Rightarrow> bytes \<Rightarrow> 'a \<Rightarrow> (unit fs_result \<times> 'a) option" and os dfd b w y
  assume K: "confines os V" "kv_upper V dfd w"
    and IH: "\<And>os dfd b w y. loop os dfd b w = Some y \<Longrightarrow> confines os V \<longrightarrow> kv_upper V dfd w \<longrightarrow> stepping V w (snd y)"
    and run: "(if b = [] then Some (Inr (), w)
      else case io_write os dfd b w of
          (Inl e, w') \<Rightarrow> Some (Inl e, w') | (Inr n, w') \<Rightarrow> loop os dfd (drop n b) w') = Some y"
  obtain r w1 where call: "io_write os dfd b w = (r, w1)" by fastforce
  then have 1: "stepping V w w1"
    unfolding io_write_def by (rule lift_eff_step) (rule confines_fdsD[OF K])
  have "stepping V w (snd y)" if "loop os dfd b' w1 = Some y" for b'
    using stepping_then[OF 1 K(2)] IH[OF that] K(1) by simp
  with run call 1 show "stepping V w (snd y)" by (auto split: if_splits sum.splits)
qed

lemma read_write_loop_step:
  "read_write_loop os sfd dfd w = Some y \<Longrightarrow> confines os V \<longrightarrow> kv_upper V dfd w \<longrightarrow> stepping V w (snd y)"
proof (erule read_write_loop.raw_induct[rotated], intro impI)
  fix loop :: "'a os \<Rightarrow> int \<Rightarrow> int \<Rightarrow> 'a \<Rightarrow> (unit fs_result \<times> 'a) option" and os sfd dfd w y
  assume K: "confines os V" "kv_upper V dfd w"
    and IH: "\<And>os sfd dfd w y. loop os sfd dfd w = Some y \<Longrightarrow> confines os V \<longrightarrow> kv_upper V dfd w \<longrightarrow> stepping V w (snd y)"
    and run: "(case io_read os sfd 1048576 w of
        (Inl e, w') \<Rightarrow> Some (Inl e, w')
      | (Inr buf, w') \<Rightarrow>
          if buf = [] then Some (Inr (), w')
          else Option.bind (write_loop os dfd buf w') (\<lambda>(r, w'').
            case r of Inl e \<Rightarrow> Some (Inl e, w'') | Inr _ \<Rightarrow> loop os sfd dfd w'')) = Some y"
  obtain r w1 where call: "io_read os sfd 1048576 w = (r, w1)" by fastforce
  then have 1: "stepping V w w1"
    unfolding io_read_def by (rule lift_eff_step) (rule confines_anyD[OF K(1)])
  have 2: "stepping V w (snd x)" if "write_loop os dfd b w1 = Some x" for b x
    using stepping_then[OF 1 K(2)] write_loop_step[OF that, of V] K(1) by simp
  have "stepping V w (snd y)" if "write_loop os dfd b w1 = Some x" "loop os sfd dfd (snd x) = Some y" for b x
    using stepping_then[OF 2[OF that(1)] K(2)] IH[OF that(2)] K(1) by simp
  with run call 1 2 show "stepping V w (snd y)" by (fastforce split: if_splits sum.splits bind_splits)
qed

lemma copy_data_step:
  assumes "confines os V" "kv_upper V dfd w" "copy_data os sfd dfd n w = Some y"
  shows "stepping V w (snd y)"
proof -
  obtain r w1 where call: "ficlone os dfd sfd w = (r, w1)" by fastforce
  then have 1: "stepping V w w1"
    unfolding ficlone_def by (rule lift_eff_step) (rule confines_fdsD[OF assms(1,2)])
  have 2: "stepping V w (snd x)" if "sendfile_loop os dfd sfd k 0 w1 = Some x" for k x
    using stepping_then[OF 1 assms(2)] sendfile_loop_step[OF that, of V] assms(1) by simp
  have 3: "stepping V w (snd y)"
    if "sendfile_loop os dfd sfd k 0 w1 = Some x" "read_write_loop os sfd dfd (snd x) = Some y" for k x
    using stepping_then[OF 2[OF that(1)] assms(2)] read_write_loop_step[OF that(2), of V] assms(1) by simp
  show ?thesis
  proof (cases r)
    case (Inr u)
    with assms(3) call 1 show ?thesis by (auto simp: copy_data_def)
  next
    case (Inl e)
    with assms(3) call obtain x where x: "sendfile_loop os dfd sfd (sint n) 0 w1 = Some x"
      "snd y = snd x \<or> read_write_loop os sfd dfd (snd x) = Some y"
      by (auto simp: copy_data_def split: bind_splits option.splits if_splits)
    from x(2) 2[OF x(1)] 3[OF x(1)] show ?thesis by auto
  qed
qed

lemma calm_copy_data [safe_intro]: "Up dfd \<in> F \<Longrightarrow> calm os V F (looping (copy_data os sfd dfd n))"
  unfolding safe_def
proof (intro allI impI conjI)
  fix s
  assume s: "confines os V" "fds_ok os V s" "F \<subseteq> known V s" and d: "Up dfd \<in> F"
  note up = UpD[OF d s(3)]
  show "follows os V s (snd (looping (copy_data os sfd dfd n) s))"
    using copy_data_step[OF s(1) up, of sfd n]
    by (auto simp: looping_def fixed_part_def split: option.splits prod.splits intro!: fds_ok_step[OF s(2)])
qed simp

end
