(* ===== verification/Confined_Ops.thy ===== *)
theory Confined_Ops
  imports Confinement
begin

text \<open>
  The discipline of the theory \<open>Confinement\<close> for the operations below the handlers: whiteouts, copy-up,
  loading and lookup, hiding and creating nodes. Each is shown \<open>safe\<close> by the rules; what an operation
  needs to know about descriptors is a premise of its rule.
\<close>

section \<open>What the state knows\<close>

lemma fds_okD:
  assumes "fds_ok os V s"
  shows "Up (fs_workdir_fd s) \<in> known V s" "layer_at s i = Some l \<Longrightarrow> direct os (ly_ds l)"
    "direct os (ly_ds (fs_layers s ! 0))"
    "layer_at s i = Some l \<Longrightarrow> \<not> ly_low l \<Longrightarrow> Up (ds_root_fd (ly_ds l)) \<in> known V s \<and> HasUpper \<in> known V s"
    "fs_open_files s fh = Some fd \<Longrightarrow> Up fd \<in> known V s \<or> Reads fd \<in> known V s"
    "arena_get (fs_nodes s) j = Some n \<Longrightarrow> node_safe (known V s) n"
    "arena_get (fs_nodes s) j = Some n \<Longrightarrow> slash_free (nd_name n)"
proof -
  note ok = assms[unfolded fds_ok_def]
  show "Up (fs_workdir_fd s) \<in> known V s" using ok by blast
  show "direct os (ly_ds l)" if "layer_at s i = Some l"
    using ok that by (auto simp: layer_at_def list_all_length split: if_splits)
  show "direct os (ly_ds (fs_layers s ! 0))"
    using ok by (cases "fs_layers s") (auto simp: layers_ok_def)
  show "Up (ds_root_fd (ly_ds l)) \<in> known V s \<and> HasUpper \<in> known V s" if "layer_at s i = Some l" "\<not> ly_low l"
  proof -
    obtain h ls where ls: "fs_layers s = h # ls" using ok by (cases "fs_layers s") (auto simp: layers_ok_def)
    have "i = 0"
      using ok that ls by (cases i) (auto simp: layers_ok_def layer_at_def list_all_length split: if_splits)
    then show ?thesis using ok that ls by (auto simp: layer_at_def known_iff upper_layer_def)
  qed
  show "Up fd \<in> known V s \<or> Reads fd \<in> known V s" if "fs_open_files s fh = Some fd" using ok that by blast
  show "node_safe (known V s) n" if "arena_get (fs_nodes s) j = Some n" using ok that by blast
  then show "slash_free (nd_name n)" if "arena_get (fs_nodes s) j = Some n"
    using that by (simp add: node_safe_def)
qed

lemma has_upper_root:
  assumes "fds_ok os V s" "F \<subseteq> known V s" "HasUpper \<in> F"
  shows "Up (upper_root_fd s) \<in> known V s" "layer_at s 0 = Some l \<Longrightarrow> Up (ds_root_fd (ly_ds l)) \<in> known V s"
proof -
  from assms(2,3) have "upper_layer s \<noteq> None" by (auto simp: known_iff)
  then obtain h where h: "layer_at s 0 = Some h" "\<not> ly_low h" "fs_layers s ! 0 = h"
    by (cases "fs_layers s") (auto simp: upper_layer_def layer_at_def split: if_splits)
  from fds_okD(4)[OF assms(1) h(1,2)] h show "Up (upper_root_fd s) \<in> known V s"
    "layer_at s 0 = Some l \<Longrightarrow> Up (ds_root_fd (ly_ds l)) \<in> known V s" by (auto simp: upper_root_fd_def)
qed

lemmas has_upper_known = has_upper_root[OF _ order_refl]

lemma upper_layer_fd:
  assumes "upper_layer s = Some l" "fds_ok os V s"
  shows "Up (ds_root_fd (ly_ds l)) \<in> known V s"
proof -
  from assms(1) have "layer_at s 0 = Some l" "\<not> ly_low l"
    by (auto simp: upper_layer_def layer_at_def split: list.splits if_splits)
  then show ?thesis using fds_okD(4)[OF assms(2)] by blast
qed

section \<open>Whiteouts and copy-up\<close>

lemma calm_delete_whiteout [safe_intro]:
  assumes "Up ufd \<in> F" "\<And>d. dfd = Some d \<Longrightarrow> Up d \<in> F" "slash_free name"
  shows "calm os V F (delete_whiteout os ufd dfd path name)"
proof -
  have "safe os V F (if dfd = None \<and> path \<noteq> ''.''
      then bindE (world (safe_openat os ufd path (O_DIRECTORY OR O_NOFOLLOW OR O_PATH) 0)) (\<lambda>f. ok (Some f))
      else ok None) (on_ok (\<lambda>p. case p of None \<Rightarrow> {} | Some f \<Rightarrow> {Up f}))"
    using assms by (intro safe_intro safe_seq safe_ret) auto
  then show ?thesis
    unfolding delete_whiteout_def
    by (rule safe_bindE)
      (use assms in \<open>auto simp: Let_def cstr_bytes_Inr intro!: safe_intro safe_seq split: option.splits\<close>)
qed

lemma calm_create_whiteout [safe_intro]:
  assumes "Up dfd \<in> F" "slash_free name"
  shows "calm os V F (create_whiteout os dfd path name b)"
proof -
  have "safe os V F (if path \<noteq> ''.''
      then bindE (world (safe_openat os dfd path (O_DIRECTORY OR O_NOFOLLOW OR O_PATH) 0)) (\<lambda>f. ok (Some f))
      else ok None) (on_ok (\<lambda>p. case p of None \<Rightarrow> {} | Some f \<Rightarrow> {Up f}))"
    using assms by (intro safe_intro safe_seq safe_ret) auto
  then show ?thesis
    unfolding create_whiteout_def try_device_whiteout_def
    by (rule safe_bindE)
      (use assms in \<open>auto simp: Let_def cstr_bytes_Inr intro!: safe_intro safe_seq split: option.splits\<close>)
qed

lemma calm_create_this_directory [safe_intro]:
  assumes "HasUpper \<in> F"
  shows "calm os V F (create_this_directory os i)"
  unfolding create_this_directory_def
  using assms
  by (intro safe_intro safe_seq) (simp_all add: fds_okD(1,2,7) has_upper_root)

lemma calm_create_node_directory_go: "HasUpper \<in> F \<Longrightarrow> calm os V F (create_node_directory_go k os i)"
  by (induction k arbitrary: i F) (auto intro!: safe_intro safe_seq)

lemma calm_create_node_directory [safe_intro]: "HasUpper \<in> F \<Longrightarrow> calm os V F (create_node_directory os i)"
  unfolding create_node_directory_def by (auto intro!: safe_intro safe_seq calm_create_node_directory_go)

lemma slash_free_basename:
  "slash_free (case rsplit_once (CHR ''/'') path of Some (_, b) \<Rightarrow> b | None \<Rightarrow> path)"
  using rsplit_once_Some[of "CHR ''/''" path] by (auto simp: rsplit_once_None_iff split: option.splits)

lemma calm_copyups [safe_intro]:
  assumes "Up wfd \<in> F" "Up ufd \<in> F" "direct os src"
  shows "calm os V F (copyup_symlink os i path st src wfd ufd)"
    "calm os V F (copyup_special os i path st src wfd ufd)"
    "calm os V F (copyup_regular os i path st src wfd ufd)"
proof -
  show "calm os V F (copyup_symlink os i path st src wfd ufd)"
    unfolding copyup_symlink_def using assms by (intro safe_intro safe_seq) auto
  show "calm os V F (copyup_special os i path st src wfd ufd)"
    unfolding copyup_special_def using assms by (intro safe_intro safe_seq) auto
  show "calm os V F (copyup_regular os i path st src wfd ufd)"
    unfolding copyup_regular_def using assms slash_free_basename[of path]
    by (intro safe_intro safe_seq) (auto simp: cstr_bytes_Inr)
qed

lemma calm_copyup [safe_intro]: "calm os V F (copyup os i)"
  unfolding copyup_def by (intro safe_intro safe_seq) (auto dest: fds_okD(1,2,4))

lemma calm_get_node_up [safe_intro]: "calm os V F (get_node_up os i)"
  unfolding get_node_up_def by (intro safe_intro safe_seq)

text \<open>After a copy-up that succeeded there is an upper layer, and the node lies on it.\<close>

lemma safe_get_node_up: "safe os V F (get_node_up os i) (on_ok (\<lambda>_. {HasUpper}))"
  unfolding safe_def
proof (intro allI impI conjI)
  fix s
  assume s: "confines os V" "fds_ok os V s" "F \<subseteq> known V s"
  show "follows os V s (snd (get_node_up os i s))" by (rule safeD(1)[OF calm_get_node_up s])
  obtain r s' where run: "get_node_up os i s = (r, s')" by fastforce
  show "on_ok (\<lambda>_. {HasUpper}) (fst (get_node_up os i s)) \<subseteq> known V (snd (get_node_up os i s))"
    using run get_node_up_upper(2,3)[of os i s s'] by (cases r) (auto simp: known_iff)
qed

lemma safe_bindR_up [safe_intro]:
  "(\<And>x. calm os V (insert HasUpper F) (k x)) \<Longrightarrow> calm os V F (bindR (get_node_up os i) k)"
  by (rule safe_bindR[OF safe_get_node_up]) simp

lemma safe_bindE_up [safe_intro]:
  "(\<And>x. safe os V (insert HasUpper F) (k x) H) \<Longrightarrow> (\<And>e. H (Inl e) = {}) \<Longrightarrow>
   safe os V F (bindE (get_node_up os i) k) H"
  by (rule safe_bindE[OF safe_get_node_up]) simp_all

lemma safe_bindS_at:
  assumes "\<And>s. fds_ok os V s \<Longrightarrow> F \<subseteq> known V s \<Longrightarrow> HasUpper \<in> known V s \<Longrightarrow> on_upper i s \<Longrightarrow>
      safe os V (F \<union> known V s) (f s) H"
    and "\<And>e. safe os V F (g e) H"
  shows "safe os V F (bindS (get_node_up os i) (\<lambda>r. case r of Inl e \<Rightarrow> g e | Inr _ \<Rightarrow> withS f)) H"
  unfolding safe_def
proof (intro allI impI)
  fix s
  assume s: "confines os V" "fds_ok os V s" "F \<subseteq> known V s"
  obtain r s1 where run: "get_node_up os i s = (r, s1)" by fastforce
  from safeD[OF safe_get_node_up[of os V F i] s] run
  have 1: "follows os V s s1" "on_ok (\<lambda>_. {HasUpper}) r \<subseteq> known V s1" by simp_all
  then have ok: "fds_ok os V s1" "F \<subseteq> known V s1" using s(3) by (auto simp: follows_def)
  let ?k = "case r of Inl e \<Rightarrow> g e | Inr _ \<Rightarrow> withS f"
  have "follows os V s1 (snd (?k s1)) \<and> H (fst (?k s1)) \<subseteq> known V (snd (?k s1))"
  proof (cases r)
    case (Inl e)
    then show ?thesis using safeD[OF assms(2)[of e] s(1) ok] by simp
  next
    case (Inr u)
    then have "on_upper i s1" using run get_node_up_upper(1)[of os i s s1] by simp
    moreover have "HasUpper \<in> known V s1" using 1 Inr by simp
    ultimately have "safe os V (F \<union> known V s1) (f s1) H" using assms(1)[OF ok] by blast
    from safeD[OF this s(1) ok(1)] ok(2) Inr show ?thesis by (simp add: withS_def)
  qed
  then show "follows os V s (snd (bindS (get_node_up os i) (\<lambda>r. case r of Inl e \<Rightarrow> g e | Inr _ \<Rightarrow> withS f) s)) \<and>
      H (fst (bindS (get_node_up os i) (\<lambda>r. case r of Inl e \<Rightarrow> g e | Inr _ \<Rightarrow> withS f) s))
        \<subseteq> known V (snd (bindS (get_node_up os i) (\<lambda>r. case r of Inl e \<Rightarrow> g e | Inr _ \<Rightarrow> withS f) s))"
    using follows_trans[OF 1(1)] by (simp add: bindS_def run)
qed

lemma safe_bindR_at:
  assumes "\<And>s. fds_ok os V s \<Longrightarrow> F \<subseteq> known V s \<Longrightarrow> HasUpper \<in> known V s \<Longrightarrow> on_upper i s \<Longrightarrow>
    calm os V (F \<union> known V s) (f s)"
  shows "calm os V F (bindR (get_node_up os i) (\<lambda>_. withS f))"
  unfolding bindR_def by (rule safe_bindS_at[OF assms calm_ret])

lemma safe_bindE_at:
  assumes "\<And>s. fds_ok os V s \<Longrightarrow> F \<subseteq> known V s \<Longrightarrow> HasUpper \<in> known V s \<Longrightarrow> on_upper i s \<Longrightarrow>
      safe os V (F \<union> known V s) (f s) H"
    and "\<And>e. H (Inl e) = {}"
  shows "safe os V F (bindE (get_node_up os i) (\<lambda>_. withS f)) H"
  unfolding bindE_def by (rule safe_bindS_at[OF assms(1)]) (simp_all add: safe_ret assms(2))

lemma bind_ask:
  "bindR (ask g) k = withS (\<lambda>s. bindR (ret (g s)) k)" "bindE (ask g) k' = withS (\<lambda>s. bindE (ret (g s)) k')"
  by (simp_all add: fun_eq_iff ask_def bindR_def bindE_def bindS_def withS_def ret_def)

lemma bind_ret:
  "bindR (ret r) k = (case r of Inl e \<Rightarrow> ret (RError (errno_of e)) | Inr x \<Rightarrow> k x)"
  "bindE (ret r') k' = (case r' of Inl e \<Rightarrow> ret (Inl e) | Inr x \<Rightarrow> k' x)"
  by (simp_all add: bindR_def bindE_def bindS_def ret_def fun_eq_iff)

section \<open>Loading and lookup\<close>

lemma slash_free_entry: "fresh_node (entry_node config ds path idx p e w) \<longleftrightarrow> slash_free (de_name e)"
  by (simp add: entry_node_def Let_def split: prod.splits)

lemma calm_insert_child_node [safe_intro]: "fresh_node n \<Longrightarrow> calm os V F (insert_child_node p n)"
  unfolding insert_child_node_def by (intro safe_intro safe_seq)

lemma calm_load_entry:
  "slash_free (de_name e) \<Longrightarrow> calm os V F (load_entry os config ds path idx p e)"
  unfolding load_entry_def by (intro safe_intro safe_seq) (simp_all add: slash_free_entry)

lemma calm_load_entries:
  "list_all (\<lambda>e. slash_free (de_name e)) es \<Longrightarrow> calm os V F (load_entries os config ds path idx p es)"
  by (induction es) (simp_all add: safe_intro safe_seq calm_load_entry)

lemma direct_opendir_names:
  assumes "confines os V" "direct os ds" "ds_opendir ds path w = Inr es"
  shows "list_all (\<lambda>e. slash_free (de_name e)) es"
  using assms(2,3) confines_anyD(7)[OF assms(1)]
  by (auto simp: direct_def direct_ds_def direct_opendir_def dir_stream_from_fd_def list_all_iff
      split: prod.splits sum.splits)

lemma calm_load_layers:
  "list_all (\<lambda>l. direct os (ly_ds l)) layers \<Longrightarrow> calm os V F (load_layers os config path lst p stop idx layers)"
proof (induction layers arbitrary: idx stop F)
  case (Cons layer layers)
  then show ?case unfolding load_layers.simps
    by (intro safe_intro safe_seq calm_load_entries Cons.IH) (auto dest: direct_opendir_names)
qed (simp add: safe_intro)

lemma calm_loading [safe_intro]:
  "calm os V F (load_dir_impl os p path lst)" "calm os V F (load_dir_entries os p path)"
proof -
  show *: "calm os V F (load_dir_impl os p path lst)" for lst
    unfolding load_dir_impl_def
    by (intro safe_intro safe_seq calm_load_layers) (simp add: fds_ok_def)
  show "calm os V F (load_dir_entries os p path)"
    unfolding load_dir_entries_def by (rule *)
qed

lemma calm_reload [safe_intro]:
  "calm os V F (ensure_root_loaded os)" "calm os V F (reload_dir os i)" "calm os V F (build_dir_entries os i)"
  unfolding ensure_root_loaded_def reload_dir_def build_dir_entries_def by (intro safe_intro safe_seq)+

lemma lazy_layers_fresh:
  "(\<And>n. found = Some n \<Longrightarrow> fresh_node n) \<Longrightarrow> slash_free name \<Longrightarrow>
   lazy_layers os p pp name lst w found stop idx layers = Inr (Some n) \<Longrightarrow> fresh_node n"
proof (induction layers arbitrary: found stop idx)
  case (Cons layer layers)
  note IH = Cons.IH[rotated 2, OF _ _ Cons.prems(2)]
  from Cons.prems show ?case
    by (auto simp: Let_def elim!: IH split: if_splits sum.splits fs_error.splits option.splits)
qed simp

lemma calm_do_lookup_file [safe_intro]:
  assumes "\<And>n. name = Some n \<Longrightarrow> slash_free n"
  shows "calm os V F (do_lookup_file os ino name)"
  unfolding do_lookup_file_def do_lazy_lookup_def
  using assms
  by (intro safe_intro safe_seq) (auto intro!: safe_intro safe_seq dest: lazy_layers_fresh[rotated -1] split: list.splits)

section \<open>Changes of the upper layer\<close>

lemma calm_remove_node [safe_intro]: "calm os V F (remove_node os i)"
  unfolding safe_def
proof (intro allI impI conjI)
  fix s
  assume s: "confines os V" "fds_ok os V s" "F \<subseteq> known V s"
  let ?s = "s\<lparr>fs_nodes := snd (arena_remove i (fs_nodes s))\<rparr>"
  have 1: "follows os V s ?s"
    by (rule fds_ok_step[OF s(2)]) (auto simp: fixed_part_def arena_get_remove split: if_splits)
  then have ok: "fds_ok os V ?s" by (simp add: follows_def)
  show "follows os V s (snd (remove_node os i s))"
  proof (cases "fst (arena_remove i (fs_nodes s))")
    case None
    then show ?thesis using 1 by (auto simp: remove_node_def split: prod.splits)
  next
    case (Some n)
    then have "arena_get (fs_nodes s) i = Some n"
      by (auto simp: arena_remove_def arena_get_def split: option.splits)
    then have "node_safe (known V s) n" by (rule fds_okD(6)[OF s(2)])
    from safeD(1)[OF calm_node_drop[OF this] s(1) ok] have "follows os V ?s (snd (world (node_drop os n) ?s))" by simp
    with 1 Some show ?thesis by (auto simp: remove_node_def split: prod.splits intro: follows_trans)
  qed
qed simp

lemma calm_empty_upper_dir [safe_intro]:
  assumes "direct os (ly_ds l)" "Up (ds_root_fd (ly_ds l)) \<in> F"
  shows "calm os V F (world (empty_upper_dir os l path))"
proof -
  have entries: "calm os V F' (world (empty_entries os fd es))"
    if "Up fd \<in> F'" "list_all (\<lambda>e. slash_free (de_name e)) es" for fd F' es
    using that by (induction es) (auto simp: cstr_bytes_Inr intro!: safe_intro safe_seq)
  have names: "list_all (\<lambda>e. slash_free (de_name e)) es"
    if "confines os V" "dir_stream_from_raw_fd os fd w = Inr es" for fd w es
    using that(2) confines_anyD(7)[OF that(1)]
    by (auto simp: dir_stream_from_raw_fd_def list_all_iff split: sum.splits)
  show ?thesis
    unfolding empty_upper_dir_def world_simps
    by (rule safe_bindE[OF safe_layer_open(2)[OF assms]]; (intro safe_intro safe_seq entries)?)
      (auto dest: names)
qed

lemma calm_inherit_acl [safe_intro]: "Up fd \<in> F \<Longrightarrow> calm os V F (inherit_acl os i fd)"
  unfolding inherit_acl_def by (intro safe_intro safe_seq) simp_all

lemma calm_hide_source [safe_intro]:
  "Up ufd \<in> F \<Longrightarrow> slash_free newname \<Longrightarrow> calm os V F (hide_source os i ufd newname)"
  unfolding hide_source_def by (intro safe_intro safe_seq) (simp_all add: fds_okD(1,7))

lemma calm_hide_update:
  "Up wfd \<in> F \<Longrightarrow> slash_free newname \<Longrightarrow> calm os V F (update_node i (hidden_node wfd newname))"
  by (rule calm_update) (auto simp: hidden_node_def node_safe_def)

lemma calm_hide_node [safe_intro]: "calm os V F (hide_node os i b)"
  unfolding hide_node_def bind_ret
  by (intro safe_intro safe_seq calm_hide_update)
    (auto simp: cstr_def cstr_bytes_Inr show_nat_no_char upper_res_def fds_okD(1) split: option.splits
      dest: upper_layer_fd)

lemma calm_create_and_register_child [safe_intro]:
  "slash_free name \<Longrightarrow> calm os V F (create_and_register_child p name st d)"
  unfolding create_and_register_child_def Let_def by (intro safe_intro safe_seq) simp_all

lemma safe_prepare_create_parent:
  "safe os V F (prepare_create_parent os ino name) (on_ok (\<lambda>(i, p, ufd, path). {HasUpper, Up ufd}))"
  unfolding prepare_create_parent_def Let_def
  by (intro safe_intro safe_seq safe_ret) (simp_all add: has_upper_known)

lemma safe_bindR_parent_up [safe_intro]:
  "(\<And>i p ufd path. calm os V (insert HasUpper (insert (Up ufd) F)) (k i p ufd path)) \<Longrightarrow>
   calm os V F (bindR (prepare_create_parent os ino name) (\<lambda>(i, p, ufd, path). k i p ufd path))"
  by (rule safe_bindR[OF safe_prepare_create_parent]) (auto simp: insert_commute split: prod.splits)

lemma calm_stat_and_register_child [safe_intro]:
  "slash_free name \<Longrightarrow> calm os V F (stat_and_register_child p name path)"
  unfolding stat_and_register_child_def by (intro safe_intro safe_seq) simp_all

end
