(* ===== verification/Lower_Layers.thy ===== *)
theory Lower_Layers
  imports Confined_Ops
begin

text \<open>
  No request changes a lower layer: the discipline of the theory \<open>Confinement\<close> for every handler, and
  the runs of the mounted file system under it. One request escapes: a \<^verbatim>\<open>setattr\<close> with the handle of a
  file that was opened for reading while it was on a lower layer acts on that file.
\<close>

section \<open>Handlers on names\<close>

lemma calm_lookup_op [safe_intro]: "slash_free name \<Longrightarrow> calm os V F (lookup_op os parent name)"
  unfolding lookup_op_def lookup_fast_def lookup_slow_def Let_def
  by (intro safe_intro safe_seq) (simp_all add: safe_intro)

lemma calm_attributes [safe_intro]:
  "calm os V F (forget_op ino n)" "calm os V F (getattr_op os ino)" "calm os V F (readlink_op os ino)"
  unfolding forget_op_def getattr_op_def readlink_op_def Let_def by (intro safe_intro safe_seq)+

lemma safe_move_new:
  assumes "Up ufd \<in> F" "slash_free wd_name"
  shows "safe os V F (move_new os wd_name fl ufd path b) (on_ok (\<lambda>d. {Up d}))"
  unfolding move_new_def Let_def
  using assms by (intro safe_intro safe_seq safe_ret) (auto simp: fds_okD(1))

lemma calm_finish_new [safe_intro]:
  "Up ufd \<in> F \<Longrightarrow> Up d \<in> F \<Longrightarrow> slash_free name \<Longrightarrow> calm os V F (finish_new os ufd d i p name path)"
  unfolding finish_new_def by (intro safe_intro safe_seq) simp_all

lemma safe_bindR_move [safe_intro]:
  "Up ufd \<in> F \<Longrightarrow> slash_free wd_name \<Longrightarrow> (\<And>d. calm os V (insert (Up d) F) (k d)) \<Longrightarrow>
   calm os V F (bindR (move_new os wd_name fl ufd path b) k)"
  by (rule safe_bindR[OF safe_move_new]) simp_all

lemma calm_chown_new [safe_intro]: "slash_free wd_name \<Longrightarrow> calm os V F (chown_new os wd_name req)"
  unfolding chown_new_def by (intro safe_intro safe_seq) (simp_all add: fds_okD(1))

lemma calm_check_new_name [safe_intro]:
  "slash_free name \<Longrightarrow> calm os V F (check_new_name os ino name)"
  "slash_free name \<Longrightarrow> calm os V F (create_check_name os ino name)"
  unfolding check_new_name_def create_check_name_def by (intro safe_intro safe_seq; simp)+

text \<open>A call that takes the work directory from the state.\<close>

lemma safe_bind_workdir_open [safe_intro]:
  "(\<And>r. safe os V (F \<union> on_ok (\<lambda>fd. {Up fd}) r) (k r) H) \<Longrightarrow>
   safe os V F (bindS (withS (\<lambda>s. world (safe_openat os (fs_workdir_fd s) name fl mode))) k) H"
proof (rule safe_bindS)
  show "safe os V F (withS (\<lambda>s. world (safe_openat os (fs_workdir_fd s) name fl mode))) (on_ok (\<lambda>fd. {Up fd}))"
    by (rule safe_withS, rule safe_openat_up) (simp add: fds_okD(1))
qed

lemma calm_creation [safe_intro]:
  assumes "slash_free name"
  shows "calm os V F (mknod_op os req parent name mode rdev)" "calm os V F (mkdir_op os req parent name mode)"
    "calm os V F (symlink_op os req parent name link)"
proof -
  show "calm os V F (mknod_op os req parent name mode rdev)"
    unfolding mknod_op_def using assms by (intro safe_intro safe_seq) (simp_all add: fds_okD(1))
  show "calm os V F (mkdir_op os req parent name mode)"
    unfolding mkdir_op_def using assms by (intro safe_intro safe_seq) (simp_all add: fds_okD(1))
  show "calm os V F (symlink_op os req parent name link)"
    unfolding symlink_op_def using assms by (intro safe_intro safe_seq) (simp_all add: fds_okD(1))
qed

lemma calm_detach_removed [safe_intro]: "calm os V F (detach_removed os p name)"
  unfolding detach_removed_def Let_def by (intro safe_intro safe_seq)

lemma calm_removal [safe_intro]:
  assumes "slash_free name"
  shows "calm os V F (unlink_op os parent name)" "calm os V F (rmdir_op os parent name)"
  unfolding unlink_op_def rmdir_op_def do_rm_def using assms by (intro safe_intro safe_seq; simp)+

lemma calm_rename_checks [safe_intro]:
  "calm os V F (rename_check_source os i)"
  "HasUpper \<in> F \<Longrightarrow> slash_free newname \<Longrightarrow> calm os V F (rename_check_dest os newparent newname flags)"
  unfolding rename_check_source_def rename_check_dest_def
  by (intro safe_intro safe_seq; clarsimp simp: fds_okD(3) has_upper_root(1)[unfolded upper_root_fd_def])+

lemma calm_rename_update:
  "slash_free name \<Longrightarrow> calm os V F (update_node i (renamed_node name p))"
  "slash_free name \<Longrightarrow> calm os V F (update_node i (\<lambda>n. mark_unloaded (renamed_node name p n)))"
proof -
  have r: "node_safe K (renamed_node name p n)" if "slash_free name" "node_safe K n" for K n
    using that by (simp add: renamed_node_def node_safe_def)
  show "slash_free name \<Longrightarrow> calm os V F (update_node i (renamed_node name p))"
    by (rule calm_update) (rule r)
  show "slash_free name \<Longrightarrow> calm os V F (update_node i (\<lambda>n. mark_unloaded (renamed_node name p n)))"
    by (rule calm_update) (rule node_safe_mono[OF r order_refl], simp_all)
qed

lemma calm_rename_tree [safe_intro]:
  "calm os V F (rename_exchange sp name dp newname)"
  "slash_free newname \<Longrightarrow> calm os V F (rename_replace os sp name newparent dp newname)"
  unfolding rename_exchange_def rename_replace_def Let_def
  by (intro safe_intro safe_seq calm_rename_update; simp add: fds_okD(7))+

lemma calm_rename_upper [safe_intro]:
  assumes "HasUpper \<in> F" "slash_free name" "slash_free newname"
  shows "calm os V F (rename_upper os name newparent newname flags src sp dp)"
  unfolding rename_upper_def Let_def world_simps
  using assms by (intro safe_intro safe_seq) (simp_all add: has_upper_root(1))

lemma calm_rename_op [safe_intro]:
  "slash_free name \<Longrightarrow> slash_free newname \<Longrightarrow> calm os V F (rename_op os parent name newparent newname flags)"
  unfolding rename_op_def by (intro safe_intro safe_seq) simp_all

lemma calm_link_op [safe_intro]: "slash_free newname \<Longrightarrow> calm os V F (link_op os ino newparent newname)"
  unfolding link_op_def Let_def by (intro safe_intro safe_seq) (simp_all add: has_upper_known(1))

section \<open>Handlers on files\<close>

lemma calm_alloc [safe_intro]:
  assumes "Up fd \<in> F \<or> Reads fd \<in> F"
  shows "calm os V F (alloc_fh fd)"
  unfolding safe_def
proof (intro allI impI conjI)
  fix s
  assume s: "confines os V" "fds_ok os V s" "F \<subseteq> known V s"
  have "known V (snd (alloc_fh fd s)) = known V s"
    by (auto simp: known_def alloc_fh_def upper_layer_def split: fact.splits)
  then show "follows os V s (snd (alloc_fh fd s))"
    using assms s(3)
    by (intro fds_ok_step[OF s(2)]) (auto simp: alloc_fh_def fixed_part_def split: if_splits)
qed simp

lemma calm_release_op [safe_intro]: "calm os V F (release_op fh)"
  unfolding safe_def
  by (auto simp: release_run fixed_part_def split: if_splits intro!: fds_ok_step)

lemma calm_handle_tables [safe_intro]:
  "calm os V F (alloc_dh es)" "calm os V F disable_passthrough" "calm os V F (releasedir_op fh)"
  "calm os V F (readdir_op full fh k)" "calm os V F (init_op np kh)"
  "calm os V F (modS (\<lambda>s. s\<lparr>fs_inode_backings := g s\<rparr>))" "calm os V F (modS (\<lambda>s. s\<lparr>fs_fh_to_ino := h s\<rparr>))"
  by (rule calm_frame;
      simp add: frames_def alloc_dh_def disable_passthrough_def modS_def releasedir_op_def readdir_op_def init_op_def
        doS_def bindS_def withS_def ret_def fixed_part_def Let_def split: option.splits)+

lemma calm_alloc_backed [safe_intro]:
  "Up fd \<in> F \<or> Reads fd \<in> F \<Longrightarrow> calm os V F (alloc_backed ino fd bc)"
  unfolding alloc_backed_def by (intro safe_intro safe_seq)

lemma calm_opening [safe_intro]:
  assumes "Up fd \<in> F \<or> Reads fd \<in> F"
  shows "calm os V F (open_reuse ino fd)" "calm os V F (open_register ino fd b)"
    "calm os V F (reply_open_maybe_passthrough os ino fd)" "calm os V F (reply_created os ino fd attr)"
proof -
  have r: "calm os V F' (open_reuse ino fd)" "calm os V F' (open_register ino fd b)"
    if "Up fd \<in> F' \<or> Reads fd \<in> F'" for F' b
    unfolding open_reuse_def open_register_def using that by (intro safe_intro safe_seq; auto)+
  then show "calm os V F (open_reuse ino fd)" "calm os V F (open_register ino fd b)" using assms by blast+
  show "calm os V F (reply_open_maybe_passthrough os ino fd)" "calm os V F (reply_created os ino fd attr)"
    unfolding reply_open_maybe_passthrough_def reply_created_def Let_def
    using assms by (intro safe_intro safe_seq r; auto)+
qed

lemma calm_with_file [safe_intro]:
  assumes "\<And>fd s. fds_ok os V s \<Longrightarrow> Up fd \<in> known V s \<or> Reads fd \<in> known V s \<Longrightarrow> calm os V (F \<union> known V s) (k fd)"
  shows "calm os V F (with_file fh k)"
  unfolding with_file_def get_file_def
  by (intro safe_intro safe_seq assms) (auto dest: fds_okD(5))

lemma calm_write_reader:
  assumes "Reads fd \<in> F"
  shows "calm os V F (bindR (world (pwrite os fd dat off)) k)"
  unfolding safe_def
proof (intro allI impI conjI)
  fix s
  assume s: "confines os V" "fds_ok os V s" "F \<subseteq> known V s"
  with assms have "kv_reader V fd (fs_world s)" by (auto simp: known_iff)
  from confines_readerD(1)[OF s(1) this] obtain e where "k_pwrite os fd dat off (fs_world s) = (Inl e, fs_world s)" by blast
  then show "follows os V s (snd (bindR (world (pwrite os fd dat off)) k s))"
    using s(2) by (simp add: bindR_def bindS_def world_def pwrite_def lift_eff_def lift_obs_def ret_def follows_refl)
qed simp

lemma calm_write_op [safe_intro]: "calm os V F (write_op os fh off dat wc)"
proof -
  have "calm os V (F \<union> known V s) (withS (\<lambda>s. let restore_mode =
         (if wc
          then case fstat os fd (fs_world s) of
                 Inr st \<Rightarrow> if st_mode st AND (S_ISUID OR S_ISGID) \<noteq> 0 then Some (st_mode st) else None
               | Inl _ \<Rightarrow> None
          else None)
       in bindR (world (pwrite os fd dat off)) (\<lambda>n.
          doS (case restore_mode of Some mode \<Rightarrow> doS (world (fchmod os fd mode)) (ret ()) | None \<Rightarrow> ret ())
              (ret (RWritten (n mod 2 ^ 32))))))"
    if "Up fd \<in> known V s \<or> Reads fd \<in> known V s" for fd s
    using that
  proof
    assume "Up fd \<in> known V s"
    then show ?thesis unfolding Let_def by (intro safe_intro safe_seq) auto
  next
    assume "Reads fd \<in> known V s"
    then show ?thesis unfolding Let_def by (intro safe_withS calm_write_reader) auto
  qed
  then show ?thesis unfolding write_op_def by (rule calm_with_file)
qed

lemma calm_io_ops [safe_intro]:
  "calm os V F (read_op os fh off n)" "calm os V F (fsync_op os fh ds)"
  "calm os V F (fallocate_op os fh off len mode)" "calm os V F (lseek_op os fh off wh)"
  "calm os V F (copy_file_range_op os fh off fh' off' len)" "calm os V F (statfs_op os)" "calm os V F access_op"
proof -
  show "calm os V F (read_op os fh off n)" "calm os V F (fsync_op os fh ds)" "calm os V F (lseek_op os fh off wh)"
    unfolding read_op_def fsync_op_def sync_fd_def lseek_op_def world_simps by (intro safe_intro safe_seq)+
  show "calm os V F (fallocate_op os fh off len mode)" "calm os V F (copy_file_range_op os fh off fh' off' len)"
    unfolding fallocate_op_def copy_file_range_op_def by (intro safe_intro safe_seq; auto)+
  show "calm os V F (statfs_op os)" "calm os V F access_op"
    unfolding statfs_op_def access_op_def Let_def by (auto intro!: safe_intro safe_seq split: list.splits)
qed

text \<open>The node after a copy-up, and where it is opened.\<close>

lemma layer_res_at: "layer_res s i = Inr l \<Longrightarrow> layer_at s i = Some l"
  by (simp add: layer_res_def split: option.splits)

lemma node_layer_up:
  assumes "node_and_layer s i = Inr (n, l)" "on_upper i s" "fds_ok os V s" "HasUpper \<in> known V s"
  shows "direct os (ly_ds l)" "Up (ds_root_fd (ly_ds l)) \<in> known V s"
proof -
  from assms(1,2) have "layer_at s 0 = Some l"
    by (auto simp: node_and_layer_def node_at_def on_upper_def layer_res_def split: sum.splits option.splits)
  then show "direct os (ly_ds l)" "Up (ds_root_fd (ly_ds l)) \<in> known V s"
    using fds_okD(2)[OF assms(3)] has_upper_known(2)[OF assms(3,4)] by auto
qed

lemma read_open_flags:
  assumes "flags AND (O_APPEND OR O_RDWR OR O_WRONLY OR O_CREAT OR O_TRUNC) = 0"
  shows "READ_FLAGS (host_open_flags cfg flags)"
proof -
  have part: "READ_FLAGS (a AND b)" if "READ_FLAGS a" for a b
  proof -
    have "(a AND b) AND (O_WRONLY OR O_RDWR OR O_CREAT OR O_TRUNC) =
        (a AND (O_WRONLY OR O_RDWR OR O_CREAT OR O_TRUNC)) AND b"
      by (simp only: and.assoc and.commute and.left_commute)
    with that show ?thesis by (simp add: READ_FLAGS_def)
  qed
  have "flags AND 0x643 = 0" using assms by simp
  then have "(flags AND 0x643) AND 0x243 = 0" by simp
  then have "READ_FLAGS flags" by (simp add: READ_FLAGS_def and.assoc)
  then have fl: "READ_FLAGS ((flags OR O_NOFOLLOW) AND NOT O_DIRECT)" by (simp add: part)
  then have "(((flags OR O_NOFOLLOW) AND NOT O_DIRECT) AND 0x243) AND 1 = 0"
    unfolding READ_FLAGS_def by simp
  then have "((flags OR O_NOFOLLOW) AND NOT O_DIRECT) AND 1 = 0" by (simp add: and.assoc)
  moreover have "(((flags OR O_NOFOLLOW) AND NOT O_DIRECT) AND O_ACCMODE) AND 1 = ((flags OR O_NOFOLLOW) AND NOT O_DIRECT) AND 1"
    by (simp add: and.assoc)
  ultimately have "((flags OR O_NOFOLLOW) AND NOT O_DIRECT) AND O_ACCMODE \<noteq> O_WRONLY" by (metis and.idem zero_neq_one)
  then show ?thesis using fl part by (simp add: host_open_flags_def Let_def)
qed

lemma calm_open_op [safe_intro]: "calm os V F (open_op os ino flags)"
  unfolding open_op_def bind_ask bind_ret Let_def
proof (intro safe_withS safe_case_sum safe_if calm_ret)
  fix s i node
  assume s: "fds_ok os V s" "F \<subseteq> known V s"
  let ?low = "case layer_at s (nd_layer_idx node) of None \<Rightarrow> False | Some l \<Rightarrow> ly_low l"
  let ?open = "\<lambda>layer. bindR (world (ds_openat (ly_ds layer) (node_path s i) (host_open_flags (fs_config s) flags) 0x1C0))
      (reply_open_maybe_passthrough os ino)"
  show "calm os V (F \<union> known V s) (?open layer)"
    if "\<not> flags AND (O_APPEND OR O_RDWR OR O_WRONLY OR O_CREAT OR O_TRUNC) \<noteq> 0 \<or> \<not> ?low"
      "layer_res s (nd_layer_idx node) = Inr layer" for layer
  proof -
    note l = layer_res_at[OF that(2)]
    note d = fds_okD(2)[OF s(1) l]
    show ?thesis
    proof (cases "ly_low layer")
      case True
      with that l have "READ_FLAGS (host_open_flags (fs_config s) flags)" by (simp add: read_open_flags)
      then show ?thesis by (rule safe_bindR_layer_open(1)[OF d]) (intro safe_intro, simp)
    next
      case False
      then have "Up (ds_root_fd (ly_ds layer)) \<in> F \<union> known V s" using fds_okD(4)[OF s(1) l] by simp
      then show ?thesis by (rule safe_bindR_layer_open(2)[OF d]) (intro safe_intro, simp)
    qed
  qed
  fix t j
  assume t: "fds_ok os V t" "F \<union> known V s \<subseteq> known V t"
  show "calm os V (F \<union> known V s \<union> known V t)
      (bindR (get_node_up os j) (\<lambda>_. withS (\<lambda>u. case node_and_layer u j of
          Inl e \<Rightarrow> ret (RError (errno_of e))
        | Inr p \<Rightarrow> (case p of (_, layer) \<Rightarrow>
            bindR (world (ds_openat (ly_ds layer) (node_path u j) (host_open_flags (fs_config s) flags) 0x1C0))
              (reply_open_maybe_passthrough os ino)))))"
    by (intro safe_bindR_at safe_case_sum safe_case_prod calm_ret safe_bindR_layer_open(2) safe_intro)
      (auto dest: node_layer_up)
qed

lemma safe_create_file:
  assumes "HasUpper \<in> F"
  shows "safe os V F (withS (\<lambda>s. world (ds_openat (ly_ds (fs_layers s ! 0)) path fl mode))) (on_ok (\<lambda>fd. {Up fd}))"
  using assms
  by (intro safe_withS safe_layer_open(2)) (auto simp: fds_okD(3) dest: has_upper_root(1)[unfolded upper_root_fd_def])

lemma safe_bindE_move:
  "Up ufd \<in> F \<Longrightarrow> slash_free wd_name \<Longrightarrow> (\<And>d. safe os V (insert (Up d) F) (k d) H) \<Longrightarrow> (\<And>e. H (Inl e) = {}) \<Longrightarrow>
   safe os V F (bindE (move_new os wd_name fl ufd path b) k) H"
  by (rule safe_bindE[OF safe_move_new]) simp_all

lemma safe_create_over_whiteout:
  assumes "Up ufd \<in> F" "HasUpper \<in> F" "slash_free name"
  shows "safe os V F (create_over_whiteout os ufd ppath name path fl mode) (on_ok (\<lambda>fd. {Up fd}))"
  unfolding create_over_whiteout_def
  using assms
  by (intro safe_next_wd_name safe_bindE_move safe_bindE0 safe_doS safe_create_file calm_delete_whiteout)
    (auto simp: fds_okD(1) intro!: safe_intro)

lemma calm_create_op [safe_intro]: "slash_free name \<Longrightarrow> calm os V F (create_op os req parent name mode flags)"
proof -
  assume name: "slash_free name"
  have opened: "calm os V (F' \<union> known V s) (bindR (if \<not> b then world (ds_openat (ly_ds (fs_layers s ! 0)) path fl mode)
      else create_over_whiteout os ufd ppath name path fl mode) k)"
    if "fds_ok os V s" "F' \<subseteq> known V s" "Up ufd \<in> F'" "HasUpper \<in> F'"
      "\<And>fd. calm os V (insert (Up fd) (F' \<union> known V s)) (k fd)" for F' b s path ufd ppath fl k
  proof -
    have "Up (ds_root_fd (ly_ds (fs_layers s ! 0))) \<in> F' \<union> known V s"
      using has_upper_root(1)[OF that(1,2,4)] by (simp add: upper_root_fd_def)
    then show ?thesis
      using that(3,4) name
      by (intro safe_bindR[where G = "\<lambda>fd. {Up fd}"] safe_if safe_layer_open(2) safe_create_over_whiteout fds_okD(3)[OF that(1)])
        (auto simp: that(5))
  qed
  show ?thesis
    unfolding create_op_def Let_def using name
    by (intro safe_bindR0 calm_check_new_name safe_bindR_parent_up safe_withS opened)
      (auto intro!: safe_intro safe_seq)
qed

lemma calm_xattr_ops [safe_intro]:
  "calm os V F (setxattr_op os ino name v fl)" "calm os V F (getxattr_op os ino name n)"
  "calm os V F (listxattr_op os ino n)" "calm os V F (removexattr_op os ino name)"
proof -
  have target: "safe os V F' (xattr_target os ino) (on_ok (\<lambda>_. {HasUpper}))" for F'
    unfolding xattr_target_def by (intro safe_intro safe_seq safe_ret) auto
  have bind: "calm os V F' (bindR (xattr_target os ino) k)" if "\<And>x. calm os V (insert HasUpper F') (k x)" for F' k
    by (rule safe_bindR[OF target]) (simp add: that)
  show "calm os V F (setxattr_op os ino name v fl)" "calm os V F (removexattr_op os ino name)"
    unfolding setxattr_op_def removexattr_op_def
    by (intro bind safe_intro safe_seq; simp add: has_upper_known(1))+
  show "calm os V F (getxattr_op os ino name n)" "calm os V F (listxattr_op os ino n)"
    unfolding getxattr_op_def listxattr_op_def Let_def by (intro safe_intro safe_seq)+
qed

lemma calm_plus_fill [safe_intro]: "calm os V F (plus_fill full ttl added es)"
  by (induction full ttl added es rule: plus_fill.induct)
    (auto simp: plus_register_def intro!: safe_intro safe_seq)

lemma calm_dir_ops [safe_intro]:
  "calm os V F (opendir_op os ino)" "calm os V F (readdirplus_op full fh k)" "calm os V F (fsyncdir_op os ino ds)"
proof -
  show "calm os V F (opendir_op os ino)" "calm os V F (readdirplus_op full fh k)"
    unfolding opendir_op_def readdirplus_op_def Let_def by (intro safe_intro safe_seq)+
  have "calm os V F' (world (safe_openat os d path (O_NOFOLLOW OR O_DIRECTORY) 0))" for F' d path
    by (rule safe_weaken[OF safe_openat_reads]) auto
  then show "calm os V F (fsyncdir_op os ino ds)"
    unfolding fsyncdir_op_def sync_fd_def world_simps
    by (intro safe_withS safe_if calm_ret safe_bindR0 calm_harmless)
qed

lemma calm_ioctl_reply:
  "Up fd \<in> F \<or> c = FS_IOC_GETVERSION \<or> c = FS_IOC_GETFLAGS \<Longrightarrow> calm os V F (ioctl_reply os fd c v n)"
  unfolding ioctl_reply_def by (intro safe_bindR0 calm_ret) (auto intro: calm_fds(5) calm_harmless(5))

lemma calm_refresh_dir [safe_intro]: "calm os V F (refresh_dir os i)"
  unfolding refresh_dir_def bind_ret by (intro safe_intro safe_seq)

text \<open>A setting \<^verbatim>\<open>ioctl\<close> works on the copied node, a reading one on any descriptor.\<close>

lemma calm_ioctl_op [safe_intro]: "calm os V F (ioctl_op os ino fh c cmd dat n)"
proof -
  let ?cmd = "ucast cmd :: 64 word"
  let ?get = "?cmd = FS_IOC_GETVERSION \<or> ?cmd = FS_IOC_GETFLAGS"
  let ?set = "?cmd = FS_IOC_SETVERSION \<or> ?cmd = FS_IOC_SETFLAGS"
  let ?k = "\<lambda>i val s. case node_at s i of Inl e \<Rightarrow> ret (RError (errno_of e))
     | Inr node \<Rightarrow> (case (if ?get \<and> \<not> is_dir node \<and> fh \<noteq> 0 then get_file s fh else None) of
           Some f \<Rightarrow> ioctl_reply os f ?cmd val n
         | None \<Rightarrow> (case layer_res s (nd_layer_idx node) of Inl e \<Rightarrow> ret (RError (errno_of e))
             | Inr layer \<Rightarrow> bindR (world (ds_openat (ly_ds layer) (node_path s i) (O_RDONLY OR O_NONBLOCK) 0x1ED))
                 (\<lambda>opened. ioctl_reply os opened ?cmd val n)))"
  have get: "calm os V F' (withS (?k i val))" if ?get for F' i val
    using that
    by (intro safe_withS safe_case_sum safe_case_option calm_ret calm_ioctl_reply safe_bindR_layer_open(1))
      (auto dest: layer_res_at fds_okD(2))
  have set: "calm os V F' (bindR (get_node_up os i) (\<lambda>_. withS (?k i val)))" if "\<not> ?get" for F' i val
    using that
    by (intro safe_bindR_at safe_case_sum safe_case_option calm_ret safe_bindR_layer_open(2) calm_ioctl_reply)
      (auto simp: node_at_def on_upper_def split: option.splits
        dest!: layer_res_at dest: fds_okD(2) has_upper_known(2))
  have ok_bind: "bindR (ok ()) h = h ()" for h :: "unit \<Rightarrow> ('a fs, reply) prog"
    by (simp add: bindR_def bindS_def ret_def)
  show ?thesis
    unfolding ioctl_op_def bind_ask bind_ret Let_def
  proof (intro safe_if safe_withS safe_case_sum calm_ret calm_refresh_dir)
    fix s i
    assume "\<not> (\<not> ?set \<and> \<not> ?get)"
    then consider "?get" "\<not> ?set" | "?set" "\<not> ?get" by auto
    then show "calm os V (F \<union> known V s) (bindR (if ?set then get_node_up os i else ok ()) (\<lambda>_. withS (?k i
        (if ?set \<and> 8 \<le> length dat then from_ne_bytes (take 8 dat) else 0))))"
    proof cases
      case 1
      show ?thesis unfolding if_not_P[OF 1(2), of "get_node_up os i" "ok ()"] ok_bind by (rule get[OF 1(1)])
    next
      case 2
      show ?thesis unfolding if_P[OF 2(1), of "get_node_up os i" "ok ()"] by (rule set[OF 2(2)])
    qed
  qed
qed

section \<open>Setting attributes\<close>

text \<open>\<^verbatim>\<open>setattr\<close> with the descriptor of the handle already looked up.\<close>

definition setattr_using ::
  "'w os \<Rightarrow> 64 word \<Rightarrow> 32 word option \<Rightarrow> 32 word option \<Rightarrow> 32 word option \<Rightarrow> 64 word option \<Rightarrow>
     time_or_now option \<Rightarrow> time_or_now option \<Rightarrow> int option \<Rightarrow> ('w fs, reply) prog" where
  "setattr_using os ino mode uid gid new_size atime mtime f =
     bindR (ask (\<lambda>s. resolve_node os s ino)) (\<lambda>node_id.
     bindR (get_node_up os node_id) (\<lambda>_.
     bindR (ask (\<lambda>s. node_and_layer s node_id)) (\<lambda>(_, layer).
     withS (\<lambda>s.
       let path = node_path s node_id; ds = ly_ds layer; root_fd = ds_root_fd ds in
       bindS (case f of
                Some f \<Rightarrow> ret f
              | None \<Rightarrow>
                  bindS (world (ds_openat ds path (O_NOFOLLOW OR O_NONBLOCK OR
                           (if new_size \<noteq> None then O_WRONLY else O_RDONLY)) 0))
                    (\<lambda>r. ret (case r of Inr f \<Rightarrow> f | Inl _ \<Rightarrow> -1))) (\<lambda>fd.
       bindR (setattr_times os fd root_fd path atime mtime) (\<lambda>_.
       bindR (case override_xattr_name (ds_stat_override_mode ds) of
                Some xattr_name \<Rightarrow>
                  if mode \<noteq> None \<or> uid \<noteq> None \<or> gid \<noteq> None
                  then setattr_override os fd ds path xattr_name mode uid gid
                  else ok ()
              | None \<Rightarrow>
                  bindE (setattr_chmod os fd root_fd path mode) (\<lambda>_.
                  setattr_chown os fd root_fd path uid gid)) (\<lambda>_.
       bindR (setattr_size os fd root_fd path new_size) (\<lambda>_.
       withS (\<lambda>s. case do_getattr os s node_id of
           Some attr \<Rightarrow> ret (reply_attr (fs_config s) attr)
         | None \<Rightarrow> reply_err EIO)))))))))"

lemma setattr_op_using:
  "setattr_op os ino mode uid gid new_size atime mtime fh s =
   setattr_using os ino mode uid gid new_size atime mtime (Option.bind fh (fs_open_files s)) s"
proof -
  have "fs_open_files (snd (get_node_up os i s)) = fs_open_files s" for i
    using get_node_up_only_layers[of s os i] by (simp add: only_layers_def)
  then have "get_node_up os i s = (r, s1) \<Longrightarrow> fs_open_files s1 = fs_open_files s" for i r s1
    by (metis snd_conv)
  then show ?thesis
    unfolding setattr_op_def setattr_using_def
    by (auto simp: bindR_def bindS_def ask_def withS_def ret_def split: prod.splits sum.splits)
qed

lemma calm_at_safe_parent:
  "Up root_fd \<in> F \<Longrightarrow> (\<And>d name. slash_free name \<Longrightarrow> calm os V (insert (Up d) F) (world (f d name))) \<Longrightarrow>
   calm os V F (at_safe_parent os root_fd path f)"
  unfolding at_safe_parent_def by (intro safe_intro) simp_all

lemma calm_setattr_steps:
  assumes "0 \<le> fd \<Longrightarrow> Up fd \<in> F" "Up root_fd \<in> F"
  shows "calm os V F (setattr_times os fd root_fd path atime mtime)"
    "calm os V F (setattr_chmod os fd root_fd path mode)" "calm os V F (setattr_chown os fd root_fd path uid gid)"
    "calm os V F (setattr_size os fd root_fd path new_size)"
proof -
  show "calm os V F (setattr_times os fd root_fd path atime mtime)"
    unfolding setattr_times_def Let_def using assms
    by (intro safe_if calm_ret calm_fds calm_at_safe_parent calm_names) simp_all
  show "calm os V F (setattr_chmod os fd root_fd path mode)"
    unfolding setattr_chmod_def using assms
    by (intro safe_if safe_case_option calm_ret calm_fds calm_at_safe_parent calm_names) simp_all
  show "calm os V F (setattr_chown os fd root_fd path uid gid)"
    unfolding setattr_chown_def Let_def using assms
    by (intro safe_if safe_withS calm_ret calm_fds calm_at_safe_parent calm_names) simp_all
  show "calm os V F (setattr_size os fd root_fd path new_size)"
    unfolding setattr_size_def using assms
    by (intro safe_if safe_case_option calm_ret calm_fds calm_at_safe_parent)
      (auto split: sum.splits intro: calm_ret calm_truncate)
qed

lemma calm_setattr_override:
  assumes "0 \<le> fd \<Longrightarrow> Up fd \<in> F" "HasUpper \<in> F"
  shows "calm os V F (setattr_override os fd ds path xattr_name mode uid gid)"
  unfolding setattr_override_def Let_def using assms
  by (intro safe_withS safe_case_sum calm_ret safe_case_prod safe_if calm_fsetxattr calm_paths)
    (auto dest: has_upper_root)

lemma safe_setattr_fd:
  assumes "\<And>fd. f = Some fd \<Longrightarrow> Up fd \<in> F" "direct os ds" "Up (ds_root_fd ds) \<in> F"
  shows "safe os V F (case f of Some f \<Rightarrow> ret f
       | None \<Rightarrow> bindS (world (ds_openat ds path fl 0)) (\<lambda>r. ret (case r of Inr f \<Rightarrow> f | Inl _ \<Rightarrow> -1)))
     (\<lambda>fd. if 0 \<le> fd then {Up fd} else {})"
  using assms
  by (intro safe_case_option safe_ret safe_bindS[OF safe_layer_open(2)])
    (auto simp: on_ok_def split: sum.splits)

lemma calm_setattr_using:
  assumes "\<And>fd. f = Some fd \<Longrightarrow> Up fd \<in> F"
  shows "calm os V F (setattr_using os ino mode uid gid new_size atime mtime f)"
  unfolding setattr_using_def bind_ask bind_ret Let_def
  by (intro safe_withS safe_case_sum calm_ret safe_bindR_at safe_case_prod safe_bindS[OF safe_setattr_fd] safe_bindR0
      safe_case_option safe_if safe_bindE0 calm_setattr_steps calm_setattr_override)
    (auto dest: node_layer_up assms split: if_splits)

lemma setattr_op_follows:
  assumes "confines os V" "fds_ok os V s"
    and "\<And>h fd. fh = Some h \<Longrightarrow> fs_open_files s h = Some fd \<Longrightarrow> Up fd \<in> known V s"
  shows "follows os V s (snd (setattr_op os ino mode uid gid new_size atime mtime fh s))"
  unfolding setattr_op_using
  using assms(3)
  by (intro safeD(1)[OF calm_setattr_using assms(1,2) order_refl]) (auto simp: bind_eq_Some_conv)


section \<open>Runs\<close>

text \<open>
  The names in a request are single components, which is what the kernel sends; a handle given to \<^verbatim>\<open>setattr\<close>
  must be of a file on the upper layer.
\<close>

fun request_ok :: "('w, 'a) kernel_view \<Rightarrow> 'w fs \<Rightarrow> request \<Rightarrow> bool" where
  "request_ok V s (Lookup _ name) = slash_free name"
| "request_ok V s (Setattr _ _ _ _ _ _ _ fh) =
     (case Option.bind fh (fs_open_files s) of None \<Rightarrow> True | Some fd \<Rightarrow> kv_upper V fd (fs_world s))"
| "request_ok V s (Mknod _ _ name _ _) = slash_free name"
| "request_ok V s (Mkdir _ _ name _) = slash_free name"
| "request_ok V s (Unlink _ name) = slash_free name"
| "request_ok V s (Rmdir _ name) = slash_free name"
| "request_ok V s (Symlink _ _ name _) = slash_free name"
| "request_ok V s (Rename _ name _ newname _) = (slash_free name \<and> slash_free newname)"
| "request_ok V s (Link _ _ newname) = slash_free newname"
| "request_ok V s (Create _ _ name _ _) = slash_free name"
| "request_ok V s _ = True"

lemma serve_follows:
  assumes "confines os V" "fds_ok os V s" "request_ok V s rq"
  shows "follows os V s (snd (serve os rq s))"
proof (cases "\<exists>ino mode uid gid sz atime mtime fh. rq = Setattr ino mode uid gid sz atime mtime fh")
  case True
  then show ?thesis
    using assms by (auto intro!: setattr_op_follows simp: known_iff split: option.splits)
next
  case False
  then have "calm os V {} (serve os rq)"
    using assms(3) by (cases rq; simp only: serve.simps request_ok.simps; (intro safe_intro safe_seq)?; simp?)
  from safeD(1)[OF this assms(1,2)] show ?thesis by simp
qed

text \<open>Runs in which other processes leave the lower layers alone too.\<close>

inductive orderly :: "'w os \<Rightarrow> ('w, 'a) kernel_view \<Rightarrow> 'w fs \<Rightarrow> 'w fs \<Rightarrow> bool" for os V s0 where
  start: "orderly os V s0 s0"
| request: "orderly os V s0 s \<Longrightarrow> request_ok V s rq \<Longrightarrow> serve os rq s = (r, s') \<Longrightarrow> orderly os V s0 s'"
| reuse: "orderly os V s0 s \<Longrightarrow> Up fd \<in> known V s \<or> Reads fd \<in> known V s \<Longrightarrow>
    open_reuse ino fd s = (rp, s') \<Longrightarrow> orderly os V s0 s'"
| register: "orderly os V s0 s \<Longrightarrow> Up fd \<in> known V s \<or> Reads fd \<in> known V s \<Longrightarrow>
    open_register ino fd b s = (rp', s') \<Longrightarrow> orderly os V s0 s'"
| environment: "orderly os V s0 s \<Longrightarrow> stepping V (fs_world s) w \<Longrightarrow> orderly os V s0 (s\<lparr>fs_world := w\<rparr>)"
| notifier: "orderly os V s0 s \<Longrightarrow> orderly os V s0 (set_notifier s)"

lemma orderly_follows:
  assumes "orderly os V s0 s" "confines os V" "fds_ok os V s0"
  shows "follows os V s0 s"
  using assms(1)
proof (induction rule: orderly.induct)
  case start
  show ?case by (rule follows_refl[OF assms(3)])
next
  case (request s rq r s')
  from request.IH have "fds_ok os V s" by (simp add: follows_def)
  from serve_follows[OF assms(2) this request.hyps(2)] request.hyps(3) have "follows os V s s'" by simp
  with request.IH show ?case by (rule follows_trans)
next
  case (reuse s fd ino rp s')
  from reuse.IH have ok: "fds_ok os V s" by (simp add: follows_def)
  from safeD(1)[OF calm_opening(1)[OF reuse.hyps(2)] assms(2) ok order_refl, of ino] reuse.hyps(3)
  have "follows os V s s'" by simp
  with reuse.IH show ?case by (rule follows_trans)
next
  case (register s fd ino b rp s')
  from register.IH have ok: "fds_ok os V s" by (simp add: follows_def)
  from safeD(1)[OF calm_opening(2)[OF register.hyps(2)] assms(2) ok order_refl, of ino b] register.hyps(3)
  have "follows os V s s'" by simp
  with register.IH show ?case by (rule follows_trans)
next
  case (environment s w)
  from environment.IH have "fds_ok os V s" by (simp add: follows_def)
  then have "follows os V s (s\<lparr>fs_world := w\<rparr>)"
    by (rule fds_ok_step) (use environment.hyps in \<open>auto simp: fixed_part_def\<close>)
  with environment.IH show ?case by (rule follows_trans)
next
  case (notifier s)
  from notifier.IH have "fds_ok os V s" by (simp add: follows_def)
  then have "follows os V s (set_notifier s)"
    by (rule fds_ok_step) (auto simp: fixed_part_def set_notifier_def)
  with notifier.IH show ?case by (rule follows_trans)
qed

section \<open>The state at the start\<close>

lemma init_lowers_direct:
  "init_lowers os nfs dirs acc w = (Inr ls, w') \<Longrightarrow> list_all (\<lambda>l. direct os (ly_ds l)) acc \<Longrightarrow>
   list_all (\<lambda>l. direct os (ly_ds l)) ls"
  by (induction os nfs dirs acc arbitrary: w rule: init_lowers.induct)
    (fastforce simp: prog_defs from_datasource_def direct_def split: prod.splits sum.splits if_splits option.splits)+

lemma init_layers_direct:
  assumes "init_layers os lower upper nfs xp w = (Inr ls, w')"
  shows "list_all (\<lambda>l. direct os (ly_ds l)) ls"
proof -
  from assms obtain us w1 where u: "init_upper os upper nfs xp w = (Inr us, w1)"
    and l: "init_lowers os nfs (parse_lowerdir lower) us w1 = (Inr ls, w')"
    by (auto simp: init_layers_def prog_defs split: prod.splits sum.splits if_splits)
  from u have "list_all (\<lambda>l. direct os (ly_ds l)) us"
    by (auto simp: init_upper_def prog_defs from_datasource_def direct_def Let_def
        split: option.splits prod.splits sum.splits if_splits)
  with l show ?thesis by (rule init_lowers_direct)
qed

lemma start_fds_ok:
  assumes "start os uid args ov dis w = (Inr (s, mnt, opts, acl), w')"
    and "kv_upper V (fs_workdir_fd s) w'"
    and "\<And>u. upper_layer s = Some u \<Longrightarrow> kv_upper V (ds_root_fd (ly_ds u)) w'"
  shows "fds_ok os V s"
proof -
  obtain config lower layers wfd w1 where
    l: "init_layers os lower (upperdir config) (nfs_filehandles config) (xattr_permissions config) w1 = (Inr layers, w')"
    and s: "s = overlay_new config layers wfd ov dis w'"
    by (rule start_run[OF assms(1)])
  note s0 = start_state[OF assms(1)]
  have "fs_open_files s = Map.empty" by (simp add: s overlay_new_def Let_def split: prod.splits)
  moreover have "node_safe (known V s) n" if "arena_get (fs_nodes s) i = Some n" for i n
    using that fresh_node_safe[of "node_new [] 0 0 0 True"]
    by (auto simp: s overlay_new_def Let_def arena_insert_def arena_get_def arena_new_def split: prod.splits if_splits)
  moreover have "list_all (\<lambda>l. direct os (ly_ds l)) (fs_layers s)"
    using init_layers_direct[OF l] by (simp add: s overlay_new_fields)
  moreover have "Up (ds_root_fd (ly_ds (hd (fs_layers s)))) \<in> known V s" if "\<not> ly_low (hd (fs_layers s))"
    using s0(3,6) assms(3) that by (simp add: upper_layer_hd layers_ok_def known_iff)
  ultimately show ?thesis
    using s0(3,6) assms(2) by (simp add: fds_ok_def known_iff)
qed


section \<open>Properties\<close>


text \<open>
  Witness: a kernel that records the descriptor of every call that makes, renames or removes a name. The upper
  directory is 3, the lower one is 4; what is opened below a directory has its descriptor.
\<close>

definition recording_os :: "int list os" where
  "recording_os = refusing_os\<lparr>k_realpath := \<lambda>p w. Inr p,
     k_open := \<lambda>p _ _ w. (Inr (if p = ''/u'' then 3 else 4), w), k_fstat := \<lambda>_ w. Inr zeroed_stat,
     k_openat2 := \<lambda>d _ _ _ _ w. (Inr d, w), k_mkdirat := \<lambda>d _ _ w. (Inr (), d # w),
     k_renameat := \<lambda>d _ d' _ w. (Inr (), d # d' # w), k_unlinkat := \<lambda>d _ _ w. (Inr (), d # w)\<rparr>"

definition recording_view :: "(int list, int list) kernel_view" where
  "recording_view = \<lparr>kv_upper = \<lambda>d _. d \<noteq> 4, kv_reader = \<lambda>_ _. True, kv_lower = filter (\<lambda>d. d = 4)\<rparr>"

lemma recording_confines: "confines recording_os recording_view"
proof -
  have "confines_names recording_os recording_view" "confines_fds recording_os recording_view"
    "confines_opens recording_os recording_view" "confines_paths recording_os recording_view"
    by (simp_all add: confines_names_def confines_fds_def confines_opens_def confines_paths_def stepping_def
        recording_os_def recording_view_def refusing_os_def)
  then show ?thesis by (simp add: confines_def)
qed

lemma recording_layers:
  "\<exists>u. init_upper recording_os (Some ''/u'') 0 0 [] = (Inr [u], []) \<and> ds_root_fd (ly_ds u) = 3"
  "\<exists>ls. init_lowers recording_os 0 [''/l''] acc [] = (Inr (acc @ ls), [])"
proof -
  note eval = load_data_source_def cstr_def cstr_bytes_def prog_defs realpath_def recording_os_def open_trusted_def
    with_cstrP_def lift_eff_def lift_obs_def fstat_def probe_nfs_handles_def name_to_handle_at_def with_cstr_def
    refusing_os_def detect_stat_override_def fgetxattr_def direct_new_def Let_def
  show "\<exists>u. init_upper recording_os (Some ''/u'') 0 0 [] = (Inr [u], []) \<and> ds_root_fd (ly_ds u) = 3"
    by (simp add: init_upper_def eval from_datasource_def) (simp add: direct_ds_def direct_raw_fd_def)
  have "parse_plugin_path ''/l'' = None"
    by (simp add: parse_plugin_path_def strip_prefix_def starts_with_def)
  then show "\<exists>ls. init_lowers recording_os 0 [''/l''] acc [] = (Inr (acc @ ls), [])"
    by (simp add: eval)
qed

lemma recording_start:
  obtains s mnt opts acl where "start recording_os 1 sample_args \<lparr>ov_uid = 65534, ov_gid = 65534\<rparr> False [] =
    (Inr (s, mnt, opts, acl), [])" "fs_workdir_fd s = -1" "\<forall>u. upper_layer s = Some u \<longrightarrow> ds_root_fd (ly_ds u) = 3"
proof -
  have "parse_lowerdir ''/l'' = [''/l'']" by (simp add: parse_lowerdir_def)
  moreover obtain u where u: "init_upper recording_os (Some ''/u'') 0 0 [] = (Inr [u], [])" "ds_root_fd (ly_ds u) = 3"
    using recording_layers(1) by blast
  moreover obtain ls where "init_lowers recording_os 0 [''/l''] [u] [] = (Inr ([u] @ ls), [])"
    using recording_layers(2) by blast
  ultimately have "init_layers recording_os ''/l'' (Some ''/u'') 0 0 [] = (Inr (u # ls), [])"
    by (simp add: init_layers_def bindE_def bindS_def ret_def)
  then obtain config opts acl where "start recording_os 1 sample_args \<lparr>ov_uid = 65534, ov_gid = 65534\<rparr> False [] =
      (Inr (overlay_new config (u # ls) (-1) \<lparr>ov_uid = 65534, ov_gid = 65534\<rparr> False [], ''/m'', opts, acl), [])"
    by (simp add: start_def validate_def open_dirs_def sample_config config_default_def prog_defs starts_with_def)
  then show ?thesis
    by (rule that) (use u(2) in \<open>auto simp: overlay_new_fields upper_layer_def layer_at_def split: if_splits\<close>)
qed



text \<open>C39: The exception is real: \<^verbatim>\<open>setattr\<close> copies the file up and then, given a handle, changes the mode
  through the descriptor of the handle, whatever that descriptor was opened on. A file that was opened for
  reading on a lower layer has its mode changed there, and not on the copy.\<close>

theorem setattr_acts_on_handle:
  assumes "resolve_node os s ino = Inr i" "get_node_up os i s = (Inr (), s1)"
    and "fs_open_files s h = Some fd" "0 \<le> fd"
    and "\<And>l. layer_at s1 0 = Some l \<Longrightarrow> override_xattr_name (ds_stat_override_mode (ly_ds l)) = None"
  shows "fs_world (snd (setattr_op os ino (Some mode) None None None None None (Some h) s)) =
    snd (k_fchmod os fd mode (fs_world s1))"
proof -
  from get_node_up_upper[OF assms(2)] have up: "on_upper i s1" "upper_layer s \<noteq> None"
    "arena_get (fs_nodes s) i \<noteq> None" by simp_all
  have only: "only_layers s s1" using get_node_up_only_layers[of s os i] assms(2) by simp
  then have "fs_layers s1 = fs_layers s" by (simp add: only_layers_def)
  with up(2) have "upper_layer s1 \<noteq> None" by (simp add: upper_layer_def)
  then obtain l where l: "layer_at s1 0 = Some l" by (cases "fs_layers s1") (auto simp: upper_layer_def layer_at_def)
  have "map_option lowered (arena_get (fs_nodes s1) i) = map_option lowered (arena_get (fs_nodes s) i)"
    using only by (simp add: only_layers_def)
  with up(3) obtain n where "arena_get (fs_nodes s1) i = Some n" by (cases "arena_get (fs_nodes s1) i") auto
  with up(1) l have nl: "node_and_layer s1 i = Inr (n, l)"
    by (simp add: on_upper_def node_and_layer_def node_at_def layer_res_def)
  have calm: "setattr_times os fd d p None None = ok ()" "setattr_size os fd d p None = ok ()"
    "setattr_chown os fd d p None None = ok ()" for d p
    by (simp_all add: setattr_times_def setattr_time_def setattr_size_def setattr_chown_def)
  have run: "snd (k_fchmod os fd mode (fs_world s1)) = w'"
    if "lift_eff (k_fchmod os fd mode) (fs_world s1) = (r, w')" for r w'
    using that by (metis snd_conv snd_lift_eff(1))
  show ?thesis
    using assms(4) nl assms(5)[OF l]
    by (auto dest: run simp: setattr_op_using setattr_using_def assms(1,2,3) calm setattr_chmod_def fchmod_def world_def
        bindR_def bindE_def bindS_def withS_def ask_def ret_def split: prod.splits sum.splits option.splits)
qed


text \<open>Witness: the root of the sample state, with a handle that was opened on descriptor 4.\<close>

definition chmod_os :: "int list os" where
  "chmod_os = refusing_os\<lparr>k_fchmod := \<lambda>d _ w. (Inr (), d # w)\<rparr>"

theorem setattr_acts_on_handle_witness:
  "fs_world (snd (setattr_op chmod_os 1 (Some 0x1C0) None None None None None (Some 1)
     ((sample_fs chmod_os [])\<lparr>fs_open_files := [1 \<mapsto> 4]\<rparr>))) = [4]"
proof -
  let ?s = "(sample_fs chmod_os [])\<lparr>fs_open_files := [1 \<mapsto> 4]\<rparr>"
  have root: "fs_root_id ?s = 1" "arena_get (fs_nodes ?s) 1 = Some (node_new [] 0 0 0 True)"
    by (simp_all add: sample_fs_def overlay_new_def arena_insert_def arena_new_def arena_get_def Let_def)
  have "resolve_node chmod_os ?s 1 = Inr 1"
    using root by (simp add: resolve_node_def lookup_node_id_def is_whiteout_or_missing_def arena_contains_def arena_get_def)
  moreover have "get_node_up chmod_os 1 ?s = (Inr (), ?s)"
    using root by (simp add: get_node_up_def withS_def ret_def upper_layer_def layer_at_def link_fs_layers
        from_datasource_def node_new_def)
  moreover have "override_xattr_name (ds_stat_override_mode (ly_ds l)) = None" if "layer_at ?s 0 = Some l" for l
    using that by (auto simp: layer_at_def link_fs_layers from_datasource_def direct_ds_def direct_new_def override_xattr_name_def)
  ultimately show ?thesis
    using setattr_acts_on_handle[of chmod_os ?s 1 1 ?s 1 4 "0x1C0"] by (simp add: chmod_os_def sample_fs_def overlay_new_fields)
qed

end
