(* ===== verification/Creation.thy ===== *)
theory Creation
  imports Effects
begin

text \<open>
  What the creating requests achieve in the tree and the inode table: the new name is a child of the
  directory the request named, its node lies on the upper layer, and the number in the reply leads to an entry
  of the inode table that has been counted.
\<close>

section \<open>The new child\<close>

definition shows_new :: "'w fs \<Rightarrow> node_id \<Rightarrow> bytes \<Rightarrow> 64 word \<Rightarrow> bool" where
  "shows_new s p name f \<longleftrightarrow>
     (\<exists>m c n e. arena_get (fs_nodes s) p = Some m \<and> (is_dir m \<longrightarrow> get_child m name = Some c \<and> \<not> is_whiteout m name) \<and>
        arena_get (fs_nodes s) c = Some n \<and> nd_name n = name \<and> nd_parent n = Some p \<and> nd_layer_idx n = 0 \<and>
        \<not> nd_hidden n \<and> fuse_to_ino (fs_inodes s) f = Some e \<and> oi_fuse_ino e = f)"

lemma get_child_insert_child [simp]: "is_dir n \<Longrightarrow> get_child (insert_child name c n) name = Some c"
  by (auto simp: get_child_def insert_child_def is_dir_def update_conv split: dir_state.splits)

lemma is_whiteout_insert_child [simp]: "\<not> is_whiteout (insert_child name c n) name"
  by (simp add: is_whiteout_def insert_child_def split: dir_state.splits)

lemma is_dir_insert_child [simp]: "is_dir (insert_child name c n) = is_dir n"
  by (simp add: is_dir_def insert_child_def split: dir_state.splits)

lemma insert_child_fields:
  "nd_name (insert_child name c n) = nd_name n" "nd_parent (insert_child name c n) = nd_parent n"
  "nd_layer_idx (insert_child name c n) = nd_layer_idx n" "nd_hidden (insert_child name c n) = nd_hidden n"
  by (simp_all add: insert_child_def split: dir_state.splits)

lemma inserted_child_shows:
  assumes "nd_name child = name" "nd_parent child = Some p" "nd_layer_idx child = 0" "\<not> nd_hidden child"
    and "fs_nodes s = arena_update p (insert_child name (ar_next_id a)) (snd (arena_insert child a))"
    and "arena_get (snd (arena_insert child a)) p \<noteq> None"
    and "fuse_to_ino (fs_inodes s) f = Some e" "oi_fuse_ino e = f"
  shows "shows_new s p name f"
proof -
  let ?c = "ar_next_id a"
  from assms(6) obtain m where m: "arena_get (snd (arena_insert child a)) p = Some m" by blast
  have "arena_get (fs_nodes s) ?c = Some (if ?c = p then insert_child name ?c child else child)"
    by (simp add: assms(5) arena_get_update arena_get_insert)
  moreover have "arena_get (fs_nodes s) p = Some (insert_child name ?c m)"
    using m by (simp add: assms(5) arena_get_update)
  ultimately show ?thesis
    using assms(1-4,7,8) unfolding shows_new_def by (auto simp: insert_child_fields)
qed

lemma create_and_register_shows:
  assumes "fs_ok L r s" "create_and_register_child p name st d s = (Some (c, f), s')"
  shows "shows_new s' p name f"
proof -
  define child where "child = (let n = (node_new name 0 (st_ino st) (st_dev st) d)
      \<lparr>nd_parent := Some p, nd_mode := st_mode st\<rparr> in if d then mark_loaded n else n)"
  let ?a = "snd (arena_insert child (fs_nodes s))"
  from assms(2) obtain t where
    reg: "register ?a (ar_next_id (fs_nodes s)) (st_ino st) (st_dev st) (st_mode st) (fs_inodes s) = (Some f, t)"
    and m: "arena_get ?a p \<noteq> None"
    and nodes: "fs_nodes s' = arena_update p (insert_child name (ar_next_id (fs_nodes s))) ?a"
    and inodes: "fs_inodes s' = inc_lookup (InodeKey (st_ino st) (st_dev st)) t"
    unfolding child_def Let_def
    by (auto simp: create_and_register_child_def insert_node_def register_node_def mod_inodes_def update_node_def
        modS_def withS_def doS_def bindS_def ret_def Let_def arena_insert_def split: option.splits prod.splits if_splits)
  have "table_wf t" using table_wf_register[OF fs_okD(4)[OF assms(1)]] reg by (metis snd_conv)
  from counted_number[OF this register_Some[OF reg]] obtain e where
    "fuse_to_ino (fs_inodes s') f = Some e" "oi_fuse_ino e = f" by (auto simp: inodes)
  moreover have "nd_name child = name" "nd_parent child = Some p" "nd_layer_idx child = 0" "\<not> nd_hidden child"
    by (simp_all add: child_def mark_loaded_def set_loaded_def node_new_def Let_def split: dir_state.splits)
  ultimately show ?thesis using inserted_child_shows[OF _ _ _ _ nodes m] by blast
qed

section \<open>Handlers\<close>

text \<open>The attributes in a reply that hands out a number.\<close>

fun entry_of :: "reply \<Rightarrow> file_attr option" where
  "entry_of (REntry _ a) = Some a"
| "entry_of (RCreated _ a _ _) = Some a"
| "entry_of (RCreatedPassthrough _ a _ _) = Some a"
| "entry_of _ = None"

definition makes :: "node_id \<Rightarrow> bytes \<Rightarrow> ('w fs, reply) prog \<Rightarrow> bool" where
  "makes p name m \<longleftrightarrow> (\<forall>L r s a. fs_ok L r s \<longrightarrow> entry_of (fst (m s)) = Some a \<longrightarrow> shows_new (snd (m s)) p name (fa_ino a))"

named_theorems makes_intro \<open>rules for \<open>makes\<close>\<close>

lemma makes_bindS [makes_intro]:
  "(\<And>L r. keeps (fs_ok L r) m) \<Longrightarrow> (\<And>x. makes p name (k x)) \<Longrightarrow> makes p name (bindS m k)"
  unfolding makes_def bindS_def keeps_def split_beta by blast

lemma makes_bindR [makes_intro]:
  "(\<And>L r. keeps (fs_ok L r) m) \<Longrightarrow> (\<And>x. makes p name (k x)) \<Longrightarrow> makes p name (bindR m k)"
  unfolding bindR_def by (rule makes_bindS) (auto simp: makes_def ret_def split: sum.splits)

lemma makes_doS [makes_intro]:
  "(\<And>L r. keeps (fs_ok L r) m) \<Longrightarrow> makes p name k \<Longrightarrow> makes p name (doS m k)"
  unfolding doS_def by (rule makes_bindS)

lemma makes_withS [makes_intro]: "(\<And>s. makes p name (f s)) \<Longrightarrow> makes p name (withS f)"
  by (simp add: makes_def withS_def)

lemma makes_error [makes_intro]: "makes p name (reply_err e)"
  by (simp add: makes_def ret_def)

lemma makes_registered:
  assumes "\<And>s c f a. entry_of (fst (k c f s)) = Some a \<Longrightarrow>
      fa_ino a = f \<and> fs_nodes (snd (k c f s)) = fs_nodes s \<and> fs_inodes (snd (k c f s)) = fs_inodes s"
  shows "makes p name (bindS (create_and_register_child p name st d)
    (\<lambda>r. case r of None \<Rightarrow> reply_err e | Some (c, f) \<Rightarrow> k c f))"
  unfolding makes_def
proof (intro allI impI)
  fix L r s a
  let ?m = "bindS (create_and_register_child p name st d) (\<lambda>r. case r of None \<Rightarrow> reply_err e | Some (c, f) \<Rightarrow> k c f)"
  assume ok: "fs_ok L r s" and e: "entry_of (fst (?m s)) = Some a"
  obtain x s1 where run: "create_and_register_child p name st d s = (x, s1)" by fastforce
  from e run obtain c f where x: "x = Some (c, f)" by (cases x) (auto simp: bindS_def ret_def)
  from e have k: "entry_of (fst (k c f s1)) = Some a" by (simp add: bindS_def run x)
  have "shows_new s1 p name f" using create_and_register_shows[OF ok] run x by simp
  with assms[OF k] show "shows_new (snd (?m s)) p name (fa_ino a)"
    by (simp add: shows_new_def bindS_def run x)
qed

lemma entry_of_reply_entry: "entry_of (reply_entry cfg attr) = Some a \<Longrightarrow> a = attr"
  by (auto simp: reply_entry_def with_ttl_def split: if_splits option.splits)

lemma entry_of_reply_created:
  assumes "entry_of (fst (reply_created os f fd attr s)) = Some a"
  shows "a = attr \<and> fs_nodes (snd (reply_created os f fd attr s)) = fs_nodes s \<and>
    fs_inodes (snd (reply_created os f fd attr s)) = fs_inodes s"
  using assms
  by (auto simp: reply_created_def withS_def bindS_def doS_def ret_def Let_def with_ttl_def alloc_fh_def alloc_backed_def
      disable_passthrough_def modS_def world_def split: if_splits option.splits prod.splits sum.splits)

lemma makes_finish_new [makes_intro]: "makes p name (finish_new os ufd d p pp name path)"
proof -
  have run: "bindR (stat_and_register_child p name path) (\<lambda>(_, attr). ask (\<lambda>s. reply_entry (fs_config s) attr)) =
    withS (\<lambda>s. case ds_statat (ly_ds (fs_layers s ! 0)) path AT_SYMLINK_NOFOLLOW STATX_BASIC_STATS (fs_world s) of
         Inl e \<Rightarrow> reply_err (errno_of e)
       | Inr st \<Rightarrow> bindS (create_and_register_child p name st (st_mode st AND S_IFMT = S_IFDIR)) (\<lambda>r. case r of
             None \<Rightarrow> reply_err ENOMEM
           | Some (c, f) \<Rightarrow> ask (\<lambda>s. reply_entry (fs_config s) ((stat_to_attr st)\<lparr>fa_ino := f\<rparr>))))"
    by (auto simp: fun_eq_iff stat_and_register_child_def bindR_def bindS_def withS_def ret_def
        split: sum.splits option.splits prod.splits)
  have made: "makes p name (case x of
         Inl e \<Rightarrow> reply_err (errno_of e)
       | Inr st \<Rightarrow> bindS (create_and_register_child p name st (st_mode st AND S_IFMT = S_IFDIR)) (\<lambda>r. case r of
             None \<Rightarrow> reply_err ENOMEM
           | Some (c, f) \<Rightarrow> ask (\<lambda>s. reply_entry (fs_config s) ((stat_to_attr st)\<lparr>fa_ino := f\<rparr>))))" for x
  proof (cases x)
    case (Inr st)
    show ?thesis unfolding Inr sum.case
      by (rule makes_registered) (auto simp: ask_def withS_def ret_def dest: entry_of_reply_entry)
  qed (simp add: makes_intro)
  show ?thesis
    unfolding finish_new_def run by (intro makes_doS makes_withS made keeps_intro)
qed

lemma prepare_create_parent_lookup:
  "prepare_create_parent os parent name s = (Inr (pid, x), s') \<Longrightarrow> lookup_node_id os s parent = Some pid"
  by (auto simp: prepare_create_parent_def do_lookup_file_def bindS_def bindE_def withS_def ret_def Let_def
      split: option.splits prod.splits sum.splits)

lemma created_in_parent:
  assumes "\<And>L r. keeps (fs_ok L r) chk" "\<And>x pid pp ufd path. makes pid name (k x pid pp ufd path)"
    and "fs_ok L r s"
    and "entry_of (fst (bindR chk (\<lambda>x. bindR (prepare_create_parent os parent name)
           (\<lambda>(pid, pp, ufd, path). k x pid pp ufd path)) s)) = Some a"
  shows "\<exists>pid. lookup_node_id os (snd (chk s)) parent = Some pid \<and>
    shows_new (snd (bindR chk (\<lambda>x. bindR (prepare_create_parent os parent name)
           (\<lambda>(pid, pp, ufd, path). k x pid pp ufd path)) s)) pid name (fa_ino a)"
proof -
  obtain y s1 where y: "chk s = (y, s1)" by fastforce
  with assms(4) obtain x where x: "y = Inr x" by (cases y) (auto simp: bindR_def bindS_def ret_def)
  obtain z s2 where z: "prepare_create_parent os parent name s1 = (z, s2)" by fastforce
  with assms(4) y x obtain pid pp ufd path where q: "z = Inr (pid, pp, ufd, path)"
    by (cases z) (auto simp: bindR_def bindS_def ret_def)
  have "fs_ok L r s2" using keepsD[OF assms(1,3) y] keepsD[OF keeps_ok_prepare_create_parent _ z] by blast
  moreover have run: "bindR chk (\<lambda>x. bindR (prepare_create_parent os parent name)
      (\<lambda>(pid, pp, ufd, path). k x pid pp ufd path)) s = k x pid pp ufd path s2"
    by (simp add: bindR_def bindS_def y x z q)
  ultimately have "shows_new (snd (k x pid pp ufd path s2)) pid name (fa_ino a)"
    using assms(2)[of pid x pp ufd path] assms(4) unfolding makes_def run by blast
  with prepare_create_parent_lookup[of os parent name s1 pid] z q y show ?thesis by (simp add: run)
qed

text \<open>The directory and the name a creating request is about, and the state in which the directory is
  looked up.\<close>

fun creates :: "request \<Rightarrow> (64 word \<times> bytes) option" where
  "creates (Mknod _ parent name _ _) = Some (parent, name)"
| "creates (Mkdir _ parent name _) = Some (parent, name)"
| "creates (Symlink _ parent name _) = Some (parent, name)"
| "creates (Create _ parent name _ _) = Some (parent, name)"
| "creates (Link _ newparent newname) = Some (newparent, newname)"
| "creates _ = None"

fun parent_state :: "'w os \<Rightarrow> request \<Rightarrow> 'w fs \<Rightarrow> 'w fs" where
  "parent_state os (Mknod _ parent name _ _) s = snd (check_new_name os parent name s)"
| "parent_state os (Mkdir _ parent name _) s = snd (check_new_name os parent name s)"
| "parent_state os (Symlink _ parent name _) s = snd (check_new_name os parent name s)"
| "parent_state os (Create _ parent name _ _) s = snd (create_check_name os parent name s)"
| "parent_state os _ s = s"

lemma new_file_shows:
  assumes "fs_ok L r s"
  shows "entry_of (fst (mknod_op os req parent name mode rdev s)) = Some a \<Longrightarrow>
    \<exists>pid. lookup_node_id os (snd (check_new_name os parent name s)) parent = Some pid \<and>
      shows_new (snd (mknod_op os req parent name mode rdev s)) pid name (fa_ino a)"
    and "entry_of (fst (mkdir_op os req parent name mode s)) = Some a \<Longrightarrow>
    \<exists>pid. lookup_node_id os (snd (check_new_name os parent name s)) parent = Some pid \<and>
      shows_new (snd (mkdir_op os req parent name mode s)) pid name (fa_ino a)"
    and "entry_of (fst (symlink_op os req parent name target s)) = Some a \<Longrightarrow>
    \<exists>pid. lookup_node_id os (snd (check_new_name os parent name s)) parent = Some pid \<and>
      shows_new (snd (symlink_op os req parent name target s)) pid name (fa_ino a)"
proof -
  note start = created_in_parent[OF keeps_ok_check_new_name _ assms, rotated]
  show "\<exists>pid. lookup_node_id os (snd (check_new_name os parent name s)) parent = Some pid \<and>
      shows_new (snd (mknod_op os req parent name mode rdev s)) pid name (fa_ino a)"
    if "entry_of (fst (mknod_op os req parent name mode rdev s)) = Some a"
    using that unfolding mknod_op_def by (rule start) (intro makes_intro keeps_intro)
  show "\<exists>pid. lookup_node_id os (snd (check_new_name os parent name s)) parent = Some pid \<and>
      shows_new (snd (mkdir_op os req parent name mode s)) pid name (fa_ino a)"
    if "entry_of (fst (mkdir_op os req parent name mode s)) = Some a"
    using that unfolding mkdir_op_def by (rule start) (intro makes_intro keeps_intro)
  show "\<exists>pid. lookup_node_id os (snd (check_new_name os parent name s)) parent = Some pid \<and>
      shows_new (snd (symlink_op os req parent name target s)) pid name (fa_ino a)"
    if "entry_of (fst (symlink_op os req parent name target s)) = Some a"
    using that unfolding symlink_op_def by (rule start) (intro makes_intro keeps_intro)
qed

lemma create_op_shows:
  assumes "fs_ok L r s" "entry_of (fst (create_op os req parent name mode flags s)) = Some a"
  shows "\<exists>pid. lookup_node_id os (snd (create_check_name os parent name s)) parent = Some pid \<and>
      shows_new (snd (create_op os req parent name mode flags s)) pid name (fa_ino a)"
  using assms(2) unfolding create_op_def Let_def
  by (rule created_in_parent[OF keeps_ok_create_parts(1) _ assms(1), rotated])
    (intro makes_intro keeps_intro makes_registered, auto dest: entry_of_reply_created)

lemma do_lookup_file_None: "do_lookup_file os ino None s = (lookup_node_id os s ino, s)"
  by (simp add: do_lookup_file_def withS_def ret_def split: option.splits)

lemma makes_case_prod:
  "(\<And>a b. x = (a, b) \<Longrightarrow> makes p name (f a b)) \<Longrightarrow> makes p name (case x of (a, b) \<Rightarrow> f a b)"
  by (cases x) auto

lemma makes_if:
  "(b \<Longrightarrow> makes p name m) \<Longrightarrow> (\<not> b \<Longrightarrow> makes p name n) \<Longrightarrow> makes p name (if b then m else n)"
  by simp

text \<open>\<^verbatim>\<open>link\<close>, from the point where the new directory is known.\<close>

lemma link_op_shows:
  assumes "fs_ok L r s" "entry_of (fst (link_op os ino newparent newname s)) = Some a"
  shows "\<exists>pid. lookup_node_id os s newparent = Some pid \<and>
      shows_new (snd (link_op os ino newparent newname s)) pid newname (fa_ino a)"
proof -
  from assms(2) obtain i where i: "lookup_node_id os s ino = Some i" and len: "length newname \<le> get_fs_namemax os s"
    by (auto simp: link_op_def withS_def bindS_def ret_def do_lookup_file_None split: option.splits if_splits)
  obtain x s1 where up: "get_node_up os i s = (x, s1)" by fastforce
  from assms(2) i len up obtain y where x: "x = Inr y"
    by (cases x) (auto simp: link_op_def withS_def bindR_def bindS_def ret_def do_lookup_file_None)
  have ok: "fs_ok L r s1" by (rule keepsD[OF keeps_ok_get_node_up assms(1) up])
  have same: "lookup_node_id os s1 newparent = lookup_node_id os s newparent"
    using only_layers_lookup get_node_up_only_layers[of s os i] up by (metis snd_conv)
  from assms(2) i len up x same obtain p where p: "lookup_node_id os s newparent = Some p"
    by (cases "lookup_node_id os s newparent")
      (auto simp: link_op_def withS_def bindR_def bindS_def ret_def do_lookup_file_None)
  let ?rest = "bindS (do_lookup_file os newparent (Some newname)) (\<lambda>r.
     withS (\<lambda>s. if (case r of Some dst_id \<Rightarrow> \<not> is_whiteout_or_missing s dst_id | None \<Rightarrow> False)
       then reply_err EEXIST
       else
     bindR (get_node_up os p) (\<lambda>_.
     withS (\<lambda>s. let src_path = node_path s i; dparent_path = node_path s p;
         upper_fd = upper_root_fd s; new_path = child_path dparent_path newname in
     doS (delete_whiteout os upper_fd None dparent_path newname)
    (bindR (world (open_parent_safe_cstr os upper_fd src_path)) (\<lambda>(src_dirfd, c_old).
     bindR (world (open_parent_safe_cstr os upper_fd new_path)) (\<lambda>(dst_dirfd, c_new_link).
     bindR (world (linkat os src_dirfd c_old dst_dirfd c_new_link 0)) (\<lambda>_.
     bindR (ask (\<lambda>s. ds_statat (ly_ds (fs_layers s ! 0)) new_path AT_SYMLINK_NOFOLLOW STATX_BASIC_STATS
                        (fs_world s))) (\<lambda>st.
     bindS (create_and_register_child p newname st False) (\<lambda>r. case r of
         None \<Rightarrow> reply_err ENOMEM
       | Some (_, fuse_ino) \<Rightarrow>
           ask (\<lambda>s. reply_entry (fs_config s) ((stat_to_attr st)\<lparr>fa_ino := fuse_ino\<rparr>))))))))))))"
  have run: "link_op os ino newparent newname s = ?rest s1"
    using i len up x p same
    by (simp add: link_op_def withS_def bindR_def bindS_def do_lookup_file_None)
  have "makes p newname ?rest"
    unfolding Let_def
    by (intro makes_intro makes_if makes_case_prod keeps_intro makes_registered)
      (auto simp: ask_def withS_def ret_def dest: entry_of_reply_entry)
  with ok assms(2) p show ?thesis unfolding makes_def run by blast
qed

section \<open>Properties\<close>

text \<open>C8: Creation takes effect: when \<^verbatim>\<open>mknod\<close>, \<^verbatim>\<open>mkdir\<close>, \<^verbatim>\<open>symlink\<close>, \<^verbatim>\<open>create\<close> or \<^verbatim>\<open>link\<close> replies with an entry, the directory with
  the parent's number has the new name as a child, no whiteout hides the name, the child is a visible node of that name
  and parent on the upper layer, and the number in the reply leads to an entry of
  the inode table, which has that number.\<close>

theorem creation_takes_effect:
  assumes "fs_ok L r s" "creates rq = Some (parent, name)" "entry_of (fst (serve os rq s)) = Some a"
  shows "\<exists>pid. lookup_node_id os (parent_state os rq s) parent = Some pid \<and>
    shows_new (snd (serve os rq s)) pid name (fa_ino a)"
  using assms
  by (cases rq) (auto intro: new_file_shows create_op_shows link_op_shows)


text \<open>Witness: a symbolic link made in a root that has been read and is empty.\<close>

definition empty_fs :: "unit fs" where
  "empty_fs = (sample_fs link_os ())\<lparr>fs_nodes := arena_update 1 mark_loaded (fs_nodes (sample_fs link_os ()))\<rparr>"

lemma empty_fs_ok: "fs_ok 2 1 empty_fs"
  using keeps_snd[OF keeps_ok_update_simple(2) sample_fs_ok[of link_os "()"]]
  by (simp add: empty_fs_def update_node_def modS_def numeral_2_eq_2)

lemma empty_fs_simps:
  "arena_get (fs_nodes empty_fs) (Suc 0) = Some (mark_loaded (node_new [] 0 0 0 True))"
  "fs_root_id empty_fs = 1" "fs_config empty_fs = config_default 0" "fs_inodes empty_fs = set_same_device True table_new"
  "fs_layers empty_fs = fs_layers (sample_fs link_os ())" "fs_world empty_fs = ()"
  by (simp_all add: empty_fs_def sample_fs_def overlay_new_def arena_insert_def arena_new_def arena_update_def
      from_datasource_def direct_ds_def direct_new_def all_same_device_def arena_get_def Let_def)


lemma empty_check: "check_new_name link_os 1 ''n'' empty_fs = (Inr (), empty_fs)"
proof -
  have "get_fs_namemax link_os empty_fs \<ge> 1"
    by (simp add: get_fs_namemax_def empty_fs_simps link_fs_layers fstatvfs_def lift_obs_def link_os_def refusing_os_def)
  moreover have "do_lookup_file link_os 1 (Some ''n'') empty_fs = (None, empty_fs)"
    by (simp add: do_lookup_file_def withS_def lookup_node_id_def empty_fs_simps get_child_def mark_loaded_def
        set_loaded_def node_new_def is_whiteout_def is_loaded_def ret_def Let_def)
  ultimately show ?thesis by (simp add: check_new_name_def withS_def bindS_def ret_def)
qed

lemma empty_prepare:
  "prepare_create_parent link_os 1 ''n'' empty_fs = (Inr (1, ''.'', 3, ''n''), empty_fs)"
proof -
  have "get_node_up link_os (Suc 0) empty_fs = (Inr (), empty_fs)"
    by (simp add: get_node_up_def withS_def upper_layer_def empty_fs_simps link_fs_layers from_datasource_def
        mark_loaded_def set_loaded_def node_new_def layer_at_def ret_def)
  moreover have "node_path empty_fs (Suc 0) = ''.''"
    by (simp add: node_path_def compute_path_def path_walk_pos empty_fs_simps mark_loaded_def set_loaded_def node_new_def
        del: path_walk.simps)
  ultimately show ?thesis
    by (simp add: prepare_create_parent_def do_lookup_file_None lookup_node_id_def empty_fs_simps bindS_def bindE_def
        withS_def upper_root_fd_def link_fs_layers from_datasource_def direct_ds_def direct_raw_fd_def direct_new_def
        child_path_def ret_def Let_def)
qed


lemma empty_finish:
  "\<exists>ttl a s'. finish_new link_os 3 3 1 ''.'' ''n'' ''n'' (empty_fs\<lparr>fs_wd_counter := c\<rparr>) = (REntry ttl a, s')"
proof -
  let ?s = "empty_fs\<lparr>fs_wd_counter := c\<rparr>"
  let ?st = "statx_to_stat link_os link_statx"
  have wh: "snd (delete_whiteout link_os 3 (Some 3) ''.'' ''n'' ?s) = ?s"
    by (simp add: delete_whiteout_def bindE_def bindS_def ret_def Let_def cstr_bytes_def cstr_def withS_def obs_def world_def
        unlinkat_def fstatat_def lift_eff_def lift_obs_def empty_fs_simps link_os_def refusing_os_def split: option.splits)
  have stat: "ds_statat (ly_ds (fs_layers ?s ! 0)) ''n'' AT_SYMLINK_NOFOLLOW STATX_BASIC_STATS (fs_world ?s) = Inr ?st"
    by (simp add: empty_fs_simps link_fs_layers from_datasource_def direct_ds_def direct_statat_def at_parent_def
        open_parent_safe_def ret_def with_cstr_def cstr_bytes_def statx_call_def lift_obs_def link_os_def)
  have ttl: "duration_from_secs_f64 (timeout (config_default 0)) \<noteq> None"
    by (simp add: duration_from_secs_f64_def config_default_def)
  have attr: "\<not> attr_panics ((stat_to_attr ?st)\<lparr>fa_ino := f\<rparr>)" for f
    by (simp add: attr_panics_def stat_to_attr_def epoch_plus_def statx_to_stat_def link_statx_def)
  have mode: "st_mode ?st = 0xA1FF" by (simp add: statx_to_stat_def link_statx_def)
  have ino: "st_ino ?st = 42" by (simp add: statx_to_stat_def link_statx_def)
  have reg: "\<exists>f t. register a i 42 dev m (fs_inodes ?s) = (Some f, t)" for a i dev m
    by (simp add: register_def register_new_def empty_fs_simps set_same_device_def table_new_def
        compute_fuse_ino_def free_fuse_ino_now Let_def)
  have root: "arena_get (snd (arena_insert n (fs_nodes ?s))) 1 \<noteq> None" for n
    by (simp add: arena_get_insert empty_fs_simps)
  have cr: "fst (create_and_register_child 1 ''n'' ?st False ?s) \<noteq> None"
  proof -
    let ?n = "(node_new ''n'' 0 42 (st_dev ?st) False)\<lparr>nd_parent := Some 1, nd_mode := st_mode ?st\<rparr>"
    obtain f t where "register (snd (arena_insert ?n (fs_nodes ?s))) (fst (arena_insert ?n (fs_nodes ?s)))
        42 (st_dev ?st) (st_mode ?st) (fs_inodes ?s) = (Some f, t)"
      using reg by blast
    then show ?thesis
      using root[of ?n]
      by (simp add: create_and_register_child_def insert_node_def register_node_def mod_inodes_def update_node_def
          modS_def withS_def doS_def bindS_def ret_def ino split_beta Let_def)
  qed
  have cfg: "fs_config (snd (create_and_register_child 1 ''n'' ?st False ?s)) = config_default 0"
    using framesD[OF mount.frames_node_ops(2) prod.collapse[symmetric], of 1 "''n''" ?st False ?s]
    by (simp add: mount_view_def empty_fs_simps)
  show ?thesis
    using wh stat ttl attr cr cfg
    by (auto simp: finish_new_def doS_def bindS_def bindR_def stat_and_register_child_def withS_def mode ask_def ret_def
        reply_entry_def with_ttl_def split_beta split: option.splits)
qed


lemma empty_run: "\<exists>ttl a s'. symlink_op link_os (0, 0) 1 ''n'' ''t'' empty_fs = (REntry ttl a, s')"
proof -
  obtain ttl a s' where fin: "finish_new link_os 3 3 1 ''.'' ''n'' ''n'' (empty_fs\<lparr>fs_wd_counter := fs_wd_counter empty_fs + 1\<rparr>) =
    (REntry ttl a, s')" using empty_finish by blast
  have id: "world (fchownat link_os d p u g fl) s = (Inl (FsError ENOSYS), s)"
    "world (symlinkat link_os t d p) s = (Inr (), s)" "world (renameat link_os d p d' p') s = (Inr (), s)" for d p u g fl s t d' p'
    by (cases s; simp add: world_def fchownat_def symlinkat_def renameat_def lift_eff_def lift_obs_def link_os_calls)+
  have parent: "world (open_parent_safe_cstr link_os 3 ''n'') s = (Inr (3, ''n''), s)" for s
    by (cases s; simp add: world_def open_parent_safe_cstr_def open_parent_safe_def with_cstrP_def cstr_bytes_def ret_def
        bindE_def bindS_def)
  show ?thesis
    using fin
    by (simp add: symlink_op_def bindR_def bindS_def doS_def withS_def ret_def empty_check empty_prepare next_wd_name_def
        next_wd_counter_def cstr_bytes_def chown_new_def move_new_def id parent Let_def)
qed

theorem creation_takes_effect_witness:
  "\<exists>a. entry_of (fst (serve link_os (Symlink (0, 0) 1 ''n'' ''t'') empty_fs)) = Some a \<and>
     shows_new (snd (serve link_os (Symlink (0, 0) 1 ''n'' ''t'') empty_fs)) 1 ''n'' (fa_ino a)"
proof -
  obtain ttl a s' where run: "symlink_op link_os (0, 0) 1 ''n'' ''t'' empty_fs = (REntry ttl a, s')"
    using empty_run by blast
  then have "entry_of (fst (serve link_os (Symlink (0, 0) 1 ''n'' ''t'') empty_fs)) = Some a" by simp
  from creation_takes_effect[OF empty_fs_ok _ this] this show ?thesis
    by (simp add: empty_check lookup_node_id_def empty_fs_simps)
qed

end
