(* ===== verification/Renaming.thy ===== *)
theory Renaming
  imports Creation
begin

text \<open>
  What a rename that does not exchange achieves: the old name is gone from its directory, the node that had
  it is the child of the new name, and the node that was replaced has left the arena.
\<close>

section \<open>The tree of nodes\<close>

text \<open>
  A reference for the change of the tree: \<open>d\<close> is the node that has the new name. It goes away, then the node
  of the old name takes its place.
\<close>

definition without_replaced :: "node_id option \<Rightarrow> node_id \<Rightarrow> bytes \<Rightarrow> node_arena \<Rightarrow> node_arena" where
  "without_replaced d dp newname a =
     (case d of
        None \<Rightarrow> a
      | Some j \<Rightarrow>
          if arena_contains a j then snd (arena_remove j (arena_update dp (remove_child newname) a)) else a)"

definition moved_tree ::
  "node_id \<Rightarrow> bytes \<Rightarrow> node_id \<Rightarrow> bytes \<Rightarrow> node_arena \<Rightarrow> node_arena" where
  "moved_tree sp name dp newname a =
     (case Option.bind (arena_get a sp) (\<lambda>p. get_child p name) of
        None \<Rightarrow> a
      | Some c \<Rightarrow>
          arena_update dp (insert_child newname c)
            (arena_update c (renamed_node newname (Some dp)) (arena_update sp (remove_child name) a)))"

lemma rename_replace_tree:
  assumes "rename_replace os sp name newparent dp newname t = (x, t')"
    and "do_lookup_file os newparent (Some newname) t = (d, t1)"
  shows "fs_nodes t' = moved_tree sp name dp newname (without_replaced d dp newname (fs_nodes t1))"
  using assms
  by (auto simp: rename_replace_def moved_tree_def without_replaced_def bindS_def doS_def withS_def ret_def mod_inodes_def
      modS_def update_node_def remove_node_def world_def arena_contains_get split: option.splits prod.splits)

section \<open>What the new tree shows\<close>

lemma get_child_insert_other [simp]: "x \<noteq> name \<Longrightarrow> get_child (insert_child name c n) x = get_child n x"
  by (simp add: get_child_def insert_child_def update_conv split: dir_state.splits)

lemma renamed_node_simps [simp]:
  "get_child (renamed_node name p n) = get_child n" "is_dir (renamed_node name p n) = is_dir n"
  "is_whiteout (renamed_node name p n) = is_whiteout n" "nd_name (renamed_node name p n) = name"
  "nd_parent (renamed_node name p n) = p" "nd_layer_idx (renamed_node name p n) = nd_layer_idx n"
  "nd_tmp_ino (renamed_node name p n) = nd_tmp_ino n" "nd_tmp_dev (renamed_node name p n) = nd_tmp_dev n"
  by (simp_all add: renamed_node_def get_child_def is_dir_def is_whiteout_def fun_eq_iff)

lemma child_ops_fields [simp]:
  "nd_tmp_ino (insert_child x c n) = nd_tmp_ino n" "nd_tmp_dev (insert_child x c n) = nd_tmp_dev n"
  "nd_tmp_ino (remove_child x n) = nd_tmp_ino n" "nd_tmp_dev (remove_child x n) = nd_tmp_dev n"
  "nd_layer_idx (remove_child x n) = nd_layer_idx n" "is_dir (remove_child x n) = is_dir n"
  by (simp_all add: insert_child_def remove_child_def is_dir_def split: dir_state.splits)

lemma moved_tree_old_name:
  assumes "arena_get (moved_tree sp name dp newname a) sp = Some n" "sp = dp \<longrightarrow> name \<noteq> newname"
  shows "get_child n name = None"
  using assms by (auto simp: moved_tree_def arena_get_update split: option.splits if_splits)

text \<open>A node \<open>c\<close> that was called \<open>name\<close> in \<open>sp\<close> is called \<open>newname\<close> in \<open>dp\<close>.\<close>

definition moved_to :: "'w fs \<Rightarrow> 'w fs \<Rightarrow> node_id \<Rightarrow> bytes \<Rightarrow> node_id \<Rightarrow> bool" where
  "moved_to s s' dp newname c \<longleftrightarrow>
     (\<exists>q n n'. arena_get (fs_nodes s') dp = Some q \<and> get_child q newname = Some c \<and> \<not> is_whiteout q newname \<and>
        arena_get (fs_nodes s) c = Some n \<and> arena_get (fs_nodes s') c = Some n' \<and>
        nd_name n' = newname \<and> nd_parent n' = Some dp \<and> nd_layer_idx n' = nd_layer_idx n \<and>
        nd_tmp_ino n' = nd_tmp_ino n \<and> nd_tmp_dev n' = nd_tmp_dev n)"

lemma without_replaced_get:
  assumes "d \<noteq> Some i"
  shows "arena_get (without_replaced d dp newname a) i =
    (if i = dp \<and> (\<exists>j. d = Some j \<and> arena_contains a j) then map_option (remove_child newname) (arena_get a i)
     else arena_get a i)"
  using assms by (auto simp: without_replaced_def arena_get_remove arena_get_update split: option.splits)

lemma moved_tree_new_name:
  assumes "arena_get (fs_nodes s) sp = Some p" "get_child p name = Some c" "arena_get (fs_nodes s) c = Some n"
    and "arena_get (fs_nodes s) dp = Some q" "is_dir q" "sp = dp \<longrightarrow> name \<noteq> newname"
    and "d \<noteq> Some c" "d \<noteq> Some sp" "d \<noteq> Some dp"
    and s': "fs_nodes s' = moved_tree sp name dp newname (without_replaced d dp newname (fs_nodes s))"
  shows "moved_to s s' dp newname c"
proof -
  let ?a = "without_replaced d dp newname (fs_nodes s)"
  note got = without_replaced_get[where dp = dp and newname = newname and a = "fs_nodes s"]
  have "\<exists>p'. arena_get ?a sp = Some p' \<and> get_child p' name = Some c"
    using assms(1,2,6,8) by (auto simp: got)
  moreover have "\<exists>q'. arena_get ?a dp = Some q' \<and> is_dir q'"
    using assms(4,5,9) by (auto simp: got)
  moreover have "\<exists>n'. arena_get ?a c = Some n' \<and> nd_layer_idx n' = nd_layer_idx n \<and>
      nd_tmp_ino n' = nd_tmp_ino n \<and> nd_tmp_dev n' = nd_tmp_dev n"
    using assms(3,7) by (auto simp: got)
  ultimately show ?thesis
    using assms(3) by (auto simp: moved_to_def s' moved_tree_def arena_get_update insert_child_fields)
qed

lemma replaced_gone:
  assumes "d = Some j" "fs_nodes s' = moved_tree sp name dp newname (without_replaced d dp newname a)"
  shows "\<not> arena_contains (fs_nodes s') j"
  using assms
  by (auto simp: moved_tree_def without_replaced_def arena_contains_get arena_get_update arena_get_remove
      split: option.splits if_splits)

section \<open>The handler\<close>

text \<open>The rename on the upper layer, seen from the world it leaves behind.\<close>

definition renamed_on_disk :: "'w os \<Rightarrow> 32 word \<Rightarrow> int \<Rightarrow> bytes \<Rightarrow> bytes \<Rightarrow> 'w \<Rightarrow> bool" where
  "renamed_on_disk os flags upper_fd old_path new_path w' \<longleftrightarrow>
     (\<exists>w0 w1 w2 sd c_old dd c_new. open_parent_safe_cstr os upper_fd old_path w0 = (Inr (sd, c_old), w1) \<and>
        open_parent_safe_cstr os upper_fd new_path w1 = (Inr (dd, c_new), w2) \<and>
        (if flags \<noteq> 0 then renameat2 os sd c_old dd c_new flags else renameat os sd c_old dd c_new) w2 = (Inr (), w'))"

text \<open>A whiteout for the old name is asked for when the layers below still have the file.\<close>

definition whiteout_asked :: "'w os \<Rightarrow> int \<Rightarrow> node_id \<Rightarrow> node_id \<Rightarrow> bytes \<Rightarrow> 'w fs \<Rightarrow> 'w fs \<Rightarrow> bool" where
  "whiteout_asked os upper_fd i sp name t s' \<longleftrightarrow>
     (\<forall>n. arena_get (fs_nodes t) i = Some n \<and> 0 < nd_last_layer_idx n \<longrightarrow>
        (\<exists>x v. create_whiteout os upper_fd (node_path v sp) name (fs_can_mknod v) v = (x, s')))"

lemma mark_unloaded_layers [simp]: "nd_last_layer_idx (mark_unloaded n) = nd_last_layer_idx n"
  by (simp add: mark_unloaded_def set_loaded_def split: dir_state.splits)

lemma rename_upper_run:
  assumes "rename_upper os name newparent newname flags i sp dp u = (ROk, s')" "flags AND 2 = 0"
  shows "\<exists>t t'. renamed_on_disk os flags (upper_root_fd u) (node_path u i) (child_path (node_path u dp) newname) (fs_world t) \<and>
    rename_replace os sp name newparent dp newname t = (Inr (), t') \<and> fs_nodes s' = fs_nodes t' \<and>
    whiteout_asked os (upper_root_fd u) i sp name t s'"
proof -
  let ?fd = "upper_root_fd u"
  from assms obtain s1 s2 sd co s3 dd cn s4 s5 t t' last where
    opened: "world (open_parent_safe_cstr os ?fd (node_path u i)) s1 = (Inr (sd, co), s2)"
      "world (open_parent_safe_cstr os ?fd (child_path (node_path u dp) newname)) s2 = (Inr (dd, cn), s3)"
      "world (if flags \<noteq> 0 then renameat2 os sd co dd cn flags else renameat os sd co dd cn) s3 = (Inr (), s4)"
    and last: "last = (case arena_get (fs_nodes s4) i of Some n \<Rightarrow> nd_last_layer_idx n | None \<Rightarrow> 0)"
    and marked: "update_node sp mark_unloaded s4 = ((), s5)"
      "(if dp \<noteq> sp then update_node dp mark_unloaded else ret ()) s5 = ((), t)"
    and run: "rename_replace os sp name newparent dp newname t = (Inr (), t')"
    and wh: "(if 0 < last then withS (\<lambda>s. doS (create_whiteout os ?fd (node_path s sp) name (fs_can_mknod s)) (ret ()))
          else ret ()) t' = ((), s')"
    by (auto simp: rename_upper_def withS_def bindR_ROk bindS_iff doS_def Let_def ret_iff split: prod.splits)
  have "fs_world t = fs_world s4" and layers: "map_option nd_last_layer_idx (arena_get (fs_nodes t) i) =
      map_option nd_last_layer_idx (arena_get (fs_nodes s4) i)"
    using marked by (auto simp: update_node_def modS_def ret_def arena_get_update option.map_comp comp_def split: if_splits)
  then have "renamed_on_disk os flags ?fd (node_path u i) (child_path (node_path u dp) newname) (fs_world t)"
    using opened unfolding renamed_on_disk_def world_run by metis
  moreover have "fs_nodes s' = fs_nodes t'"
    using wh framesD[OF frames_create_whiteout[where f = fs_nodes]]
    by (auto simp: withS_def bindS_iff doS_def ret_iff split: if_splits)
  moreover have "whiteout_asked os ?fd i sp name t s'"
    unfolding whiteout_asked_def
  proof (intro allI impI, elim conjE)
    fix n
    assume "arena_get (fs_nodes t) i = Some n" "0 < nd_last_layer_idx n"
    with layers last have "0 < last" by (auto split: option.splits)
    with wh show "\<exists>x v. create_whiteout os ?fd (node_path v sp) name (fs_can_mknod v) v = (x, s')"
      by (auto simp: withS_def bindS_iff doS_def ret_iff)
  qed
  ultimately show ?thesis using run by blast
qed

lemma rename_op_run:
  assumes "rename_op os parent name newparent newname flags s = (ROk, s')"
  shows "\<exists>i s1 s2 sp dp. do_lookup_file os parent (Some name) s = (Some i, s1) \<and>
    rename_check_source os i s1 = (Inr (), s2) \<and>
    lookup_node_id os s2 parent = Some sp \<and> lookup_node_id os s2 newparent = Some dp \<and>
    rename_upper os name newparent newname flags i sp dp
      (snd (get_node_up os dp (snd (get_node_up os sp (snd (get_node_up os i s2)))))) = (ROk, s')"
proof -
  from assms obtain i s1 s2 s3 sp s4 dp u where
    c: "do_lookup_file os parent (Some name) s = (Some i, s1)" "rename_check_source os i s1 = (Inr (), s2)"
      "get_node_up os i s2 = (Inr (), s3)" "lookup_node_id os s3 parent = Some sp"
      "get_node_up os sp s3 = (Inr (), s4)" "lookup_node_id os s4 newparent = Some dp"
      "get_node_up os dp s4 = (Inr (), u)" "rename_upper os name newparent newname flags i sp dp u = (ROk, s')"
    by (auto simp: rename_op_def withS_def bindR_ROk bindS_iff do_lookup_file_None ret_iff split: option.splits if_splits)
  have "only_layers s2 s3" "only_layers s3 s4"
    using get_node_up_only_layers[of s2 os i] get_node_up_only_layers[of s3 os sp] c(3,5) by simp_all
  with c show ?thesis by (auto simp: only_layers_lookup)
qed

section \<open>The property\<close>


text \<open>Witness: a file of the upper layer, known to a root that has been read, gets a new name.\<close>

definition read_fs :: "unit fs" where
  "read_fs = up_fs\<lparr>fs_nodes := arena_update 1 mark_loaded (fs_nodes up_fs)\<rparr>"

lemma read_fs_simps:
  "arena_get (fs_nodes read_fs) (Suc 0) = Some (mark_loaded (insert_child ''f'' 2 (node_new [] 0 0 0 True)))"
  "arena_get (fs_nodes read_fs) 2 = Some ((node_new ''f'' 0 42 1 False)\<lparr>nd_parent := Some 1\<rparr>)"
  "ar_next_id (fs_nodes read_fs) = 3" "fs_root_id read_fs = 1"
  "fs_layers read_fs = fs_layers (sample_fs up_os ())" "fs_world read_fs = ()"
proof -
  show "ar_next_id (fs_nodes read_fs) = 3"
    using up_nodes(3) by (simp add: read_fs_def arena_update_def split: option.splits)
qed (simp_all add: read_fs_def arena_get_update up_nodes up_fields)

lemma read_lookup:
  "do_lookup_file up_os 1 (Some ''f'') read_fs = (Some 2, read_fs)" "lookup_node_id up_os read_fs 1 = Some 1"
  "do_lookup_file up_os 1 (Some ''g'') read_fs = (None, read_fs)"
  by (simp_all add: do_lookup_file_def withS_def lookup_node_id_def read_fs_simps get_child_def is_whiteout_def is_loaded_def
      mark_loaded_def set_loaded_def insert_child_def node_new_def ret_def Let_def)

lemma read_source: "rename_check_source up_os 2 read_fs = (Inr (), read_fs)"
  by (simp add: rename_check_source_def withS_def read_fs_simps is_dir_def node_new_def ret_def)

lemma read_up: "get_node_up up_os 2 read_fs = (Inr (), read_fs)" "get_node_up up_os (Suc 0) read_fs = (Inr (), read_fs)"
  by (simp_all add: get_node_up_def withS_def upper_layer_def read_fs_simps link_fs_layers from_datasource_def
      node_new_def insert_child_def mark_loaded_def set_loaded_def layer_at_def ret_def)

lemma read_paths: "node_path read_fs 2 = ''f''" "node_path read_fs (Suc 0) = ''.''"
  by (simp_all add: node_path_def compute_path_def path_walk_pos read_fs_simps node_new_def insert_child_def
      mark_loaded_def set_loaded_def del: path_walk.simps)

lemma rename_replace_Inr: "fst (rename_replace os sp name newparent dp newname t) = Inr ()"
  by (auto simp: rename_replace_def bindS_def doS_def withS_def ret_def split: option.splits prod.splits)

lemma read_run: "fst (rename_op up_os 1 ''f'' 1 ''g'' 0 read_fs) = ROk"
proof -
  have "get_fs_namemax up_os read_fs \<ge> 1"
    by (simp add: get_fs_namemax_def read_fs_simps link_fs_layers fstatvfs_def lift_obs_def up_os_def refusing_os_def)
  then have start: "rename_op up_os 1 ''f'' 1 ''g'' 0 read_fs = rename_upper up_os ''f'' 1 ''g'' 0 2 1 1 read_fs"
    by (simp add: rename_op_def withS_def bindS_def bindR_def read_lookup read_source read_up do_lookup_file_None
        is_whiteout_or_missing_def arena_contains_get read_fs_simps)
  have fd: "upper_root_fd read_fs = 3"
    by (simp add: upper_root_fd_def read_fs_simps link_fs_layers from_datasource_def direct_ds_def direct_new_def
        direct_raw_fd_def)
  have calls: "world (renameat up_os d p d' p') s = (Inr (), s)"
    "world (open_parent_safe_cstr up_os 3 ''f'') s = (Inr (3, ''f''), s)"
    "world (open_parent_safe_cstr up_os 3 ''g'') s = (Inr (3, ''g''), s)" for d p d' p' s
    by (cases s; simp add: world_def renameat_def lift_eff_def lift_obs_def up_os_def open_parent_safe_cstr_def
        open_parent_safe_def with_cstrP_def cstr_bytes_def ret_def bindE_def bindS_def)+
  have dest: "rename_check_dest up_os 1 ''g'' 0 read_fs = (Inr (), read_fs)"
    by (simp add: rename_check_dest_def bindS_def read_lookup ret_def)
  show ?thesis
    unfolding start
    by (simp add: rename_upper_def Let_def withS_def fd read_paths child_path_def dest bindR_def bindS_def doS_def ret_def calls
        read_fs_simps is_dir_def node_new_def update_node_def modS_def rename_replace_Inr split_beta)
qed


end
