(* ===== verification/Replies.thy ===== *)
theory Replies
  imports Requests
begin

text \<open>
  The reply objects of the fuser crate are typed: \<^verbatim>\<open>ReplyEntry\<close>, \<^verbatim>\<open>ReplyAttr\<close>, \<^verbatim>\<open>ReplyXattr\<close> and so on, one per
  request. The model sends every reply as a value of one datatype, so this is shown: each request is
  answered by a reply its reply object can send, by an error, or, only where a time stamp or a
  timeout is converted, by a panic; and what is sent respects the sizes and offsets asked for.
\<close>

section \<open>Replies a request admits\<close>

text \<open>An entry or attributes on the wire have times that can be converted.\<close>

definition entry_reply :: "reply \<Rightarrow> bool" where
  "entry_reply r =
     (case r of RError _ \<Rightarrow> True | RPanic \<Rightarrow> True | REntry _ a \<Rightarrow> \<not> attr_panics a | _ \<Rightarrow> False)"

definition attr_reply :: "reply \<Rightarrow> bool" where
  "attr_reply r =
     (case r of RError _ \<Rightarrow> True | RPanic \<Rightarrow> True | RAttr _ a \<Rightarrow> \<not> attr_panics a | _ \<Rightarrow> False)"

definition create_reply :: "reply \<Rightarrow> bool" where
  "create_reply r =
     (case r of RError _ \<Rightarrow> True | RPanic \<Rightarrow> True
      | RCreated _ a _ fl \<Rightarrow> \<not> attr_panics a \<and> (fl = 0 \<or> fl = FOPEN_KEEP_CACHE)
      | RCreatedPassthrough _ a _ _ \<Rightarrow> \<not> attr_panics a
      | _ \<Rightarrow> False)"

definition empty_reply :: "reply \<Rightarrow> bool" where
  "empty_reply r = (case r of RError _ \<Rightarrow> True | ROk \<Rightarrow> True | _ \<Rightarrow> False)"

definition data_reply :: "reply \<Rightarrow> bool" where
  "data_reply r = (case r of RError _ \<Rightarrow> True | RData _ \<Rightarrow> True | _ \<Rightarrow> False)"

definition open_reply :: "reply \<Rightarrow> bool" where
  "open_reply r =
     (case r of RError _ \<Rightarrow> True | ROpened _ fl \<Rightarrow> fl = 0 \<or> fl = FOPEN_KEEP_CACHE
      | ROpenedPassthrough _ _ \<Rightarrow> True | _ \<Rightarrow> False)"

definition opendir_reply :: "reply \<Rightarrow> bool" where
  "opendir_reply r =
     (case r of RError _ \<Rightarrow> True | RPanic \<Rightarrow> True
      | ROpened _ fl \<Rightarrow> fl = 0 \<or> fl = FOPEN_KEEP_CACHE | _ \<Rightarrow> False)"

text \<open>The count of a write has 32 bits.\<close>

definition write_reply :: "reply \<Rightarrow> bool" where
  "write_reply r = (case r of RError _ \<Rightarrow> True | RWritten k \<Rightarrow> k < 2 ^ 32 | _ \<Rightarrow> False)"

definition statfs_reply :: "reply \<Rightarrow> bool" where
  "statfs_reply r = (case r of RError _ \<Rightarrow> True | RStatfs _ _ _ _ _ _ _ _ \<Rightarrow> True | _ \<Rightarrow> False)"

text \<open>A caller with an empty buffer is told the size, any other gets the data.\<close>

definition xattr_reply :: "32 word \<Rightarrow> reply \<Rightarrow> bool" where
  "xattr_reply n r = (case r of RError _ \<Rightarrow> True | RSize _ \<Rightarrow> n = 0 | RData _ \<Rightarrow> n \<noteq> 0 | _ \<Rightarrow> False)"

definition listxattr_reply :: "32 word \<Rightarrow> reply \<Rightarrow> bool" where
  "listxattr_reply n r =
     (xattr_reply n r \<and> (case r of RData d \<Rightarrow> length d \<le> unat n | _ \<Rightarrow> True))"

text \<open>The offset sent with each entry continues behind it, without gaps.\<close>

definition readdir_reply :: "nat \<Rightarrow> reply \<Rightarrow> bool" where
  "readdir_reply off r =
     (case r of RError _ \<Rightarrow> True
      | RDir rows \<Rightarrow> map (fst \<circ> snd) rows = [off + 1..<off + 1 + length rows] | _ \<Rightarrow> False)"

definition readdirplus_reply :: "nat \<Rightarrow> reply \<Rightarrow> bool" where
  "readdirplus_reply off r =
     (case r of RError _ \<Rightarrow> True | RPanic \<Rightarrow> True
      | RDirPlus rows \<Rightarrow>
          map (fst \<circ> snd) rows = [off + 1..<off + 1 + length rows] \<and>
          list_all (\<lambda>(ino, _, _, _, a). fa_ino a = ino) rows
      | _ \<Rightarrow> False)"

definition lseek_reply :: "reply \<Rightarrow> bool" where
  "lseek_reply r = (case r of RError _ \<Rightarrow> True | ROffset _ \<Rightarrow> True | _ \<Rightarrow> False)"

text \<open>An ioctl sends back one C long or nothing, and nothing when no room was given.\<close>

definition ioctl_answer :: "32 word \<Rightarrow> reply \<Rightarrow> bool" where
  "ioctl_answer n r =
     (case r of RError _ \<Rightarrow> True | RIoctl res d \<Rightarrow> res = 0 \<and> (d = [] \<or> 0 < n \<and> length d = 8) | _ \<Rightarrow> False)"

primrec fits :: "request \<Rightarrow> reply \<Rightarrow> bool" where
  "fits (Init np kh) = (\<lambda>r. r = ROk)"
| "fits (Lookup parent name) = entry_reply"
| "fits (Forget ino n) = (\<lambda>r. r = RNone)"
| "fits (Getattr ino) = attr_reply"
| "fits (Setattr ino mode uid gid sz atime mtime fh) = attr_reply"
| "fits (Readlink ino) = data_reply"
| "fits (Mknod req parent name mode rdev) = entry_reply"
| "fits (Mkdir req parent name mode) = entry_reply"
| "fits (Unlink parent name) = empty_reply"
| "fits (Rmdir parent name) = empty_reply"
| "fits (Symlink req parent name link) = entry_reply"
| "fits (Rename parent name newparent newname flags) = empty_reply"
| "fits (Link ino newparent newname) = entry_reply"
| "fits (Open ino flags) = open_reply"
| "fits (Read fh off n) = data_reply"
| "fits (Write fh off dat wc) = write_reply"
| "fits (Release fh) = (\<lambda>r. r = ROk)"
| "fits Statfs = statfs_reply"
| "fits (Setxattr ino name val flags) = empty_reply"
| "fits (Getxattr ino name n) = xattr_reply n"
| "fits (Listxattr ino n) = listxattr_reply n"
| "fits (Removexattr ino name) = empty_reply"
| "fits Access = (\<lambda>r. r = ROk)"
| "fits (Create req parent name mode flags) = create_reply"
| "fits (Opendir ino) = opendir_reply"
| "fits (Readdir full fh off) = readdir_reply off"
| "fits (Readdirplus full fh off) = readdirplus_reply off"
| "fits (Releasedir fh) = (\<lambda>r. r = ROk)"
| "fits (Fsync fh ds) = empty_reply"
| "fits (Fsyncdir ino ds) = empty_reply"
| "fits (Fallocate fh off len mode) = empty_reply"
| "fits (Lseek fh off wh) = lseek_reply"
| "fits (Copy_File_Range fi oi fo oo len) = write_reply"
| "fits (Ioctl ino fh cc cmd dat n) = ioctl_answer n"

section \<open>Results of programs\<close>

definition answers :: "('a \<Rightarrow> bool) \<Rightarrow> ('s, 'a) prog \<Rightarrow> bool" where
  "answers P m \<longleftrightarrow> (\<forall>s. P (fst (m s)))"

named_theorems answers_intro \<open>rules for \<open>answers\<close>\<close>

lemma answersD: "answers P m \<Longrightarrow> P (fst (m s))"
  by (simp add: answers_def)

lemma answers_ret [answers_intro]: "P x \<Longrightarrow> answers P (ret x)"
  by (simp add: answers_def ret_def)

lemma answers_ask [answers_intro]: "(\<And>s. P (f s)) \<Longrightarrow> answers P (ask f)"
  by (simp add: answers_def ask_def withS_def ret_def)

lemma answers_bind: "answers Q m \<Longrightarrow> (\<And>x. Q x \<Longrightarrow> answers P (k x)) \<Longrightarrow> answers P (bindS m k)"
  by (auto simp: answers_def bindS_def split: prod.splits) (metis fst_conv)

lemma answers_bindS [answers_intro]: "(\<And>x. answers P (k x)) \<Longrightarrow> answers P (bindS m k)"
  by (rule answers_bind[where Q = "\<lambda>_. True"]) (simp_all add: answers_def)

lemma answers_doS [answers_intro]: "answers P k \<Longrightarrow> answers P (doS m k)"
  unfolding doS_def by (rule answers_bindS)

lemma answers_withS [answers_intro]: "(\<And>s. answers P (f s)) \<Longrightarrow> answers P (withS f)"
  by (simp add: answers_def withS_def)

lemma answers_if [answers_intro]:
  "(b \<Longrightarrow> answers P m) \<Longrightarrow> (\<not> b \<Longrightarrow> answers P n) \<Longrightarrow> answers P (if b then m else n)"
  by simp

lemma answers_option [answers_intro]:
  "(x = None \<Longrightarrow> answers P m) \<Longrightarrow> (\<And>a. x = Some a \<Longrightarrow> answers P (f a)) \<Longrightarrow> answers P (case x of None \<Rightarrow> m | Some a \<Rightarrow> f a)"
  by (cases x) auto

lemma answers_sum [answers_intro]:
  "(\<And>a. answers P (f a)) \<Longrightarrow> (\<And>b. answers P (g b)) \<Longrightarrow> answers P (case x of Inl a \<Rightarrow> f a | Inr b \<Rightarrow> g b)"
  by (cases x) auto

lemma answers_list [answers_intro]:
  "answers P m \<Longrightarrow> (\<And>a b. answers P (f a b)) \<Longrightarrow> answers P (case x of [] \<Rightarrow> m | a # b \<Rightarrow> f a b)"
  by (cases x) auto

lemma answers_prod [answers_intro]: "(\<And>a b. answers P (f a b)) \<Longrightarrow> answers P (case x of (a, b) \<Rightarrow> f a b)"
  by (cases x) auto

lemma answers_Let [answers_intro]: "answers P (f x) \<Longrightarrow> answers P (Let x f)"
  by simp

lemma answers_bindR [answers_intro]:
  "(\<And>e. P (RError e)) \<Longrightarrow> (\<And>x. answers P (k x)) \<Longrightarrow> answers P (bindR m k)"
  unfolding bindR_def by (intro answers_intro) auto

lemma answers_with_file [answers_intro]:
  "(\<And>e. P (RError e)) \<Longrightarrow> (\<And>fd. answers P (k fd)) \<Longrightarrow> answers P (with_file fh k)"
  unfolding with_file_def by (intro answers_intro) auto

section \<open>Every handler\<close>

lemmas reply_kinds = entry_reply_def attr_reply_def create_reply_def empty_reply_def data_reply_def
  open_reply_def opendir_reply_def write_reply_def statfs_reply_def xattr_reply_def listxattr_reply_def
  readdir_reply_def readdirplus_reply_def lseek_reply_def ioctl_answer_def

lemma reply_kinds_RError [simp]:
  "entry_reply (RError e)" "attr_reply (RError e)" "create_reply (RError e)" "empty_reply (RError e)"
  "data_reply (RError e)" "open_reply (RError e)" "opendir_reply (RError e)" "write_reply (RError e)"
  "statfs_reply (RError e)" "xattr_reply n (RError e)" "listxattr_reply n (RError e)"
  "readdir_reply off (RError e)" "readdirplus_reply off (RError e)" "lseek_reply (RError e)"
  "ioctl_answer n (RError e)"
  by (simp_all add: reply_kinds)

lemma entry_replies [simp]: "entry_reply (reply_entry cfg a)" "attr_reply (reply_attr cfg a)"
  by (simp_all add: reply_entry_def reply_attr_def with_ttl_def reply_kinds split: option.splits)

lemma keep_cache_values: "keep_cache s = 0 \<or> keep_cache s = FOPEN_KEEP_CACHE"
  by (simp add: keep_cache_def)

lemma length_to_ne_bytes [simp]: "length (to_ne_bytes v) = 8"
  by (simp add: to_ne_bytes_def)

lemma answers_lookup: "answers entry_reply (lookup_op os parent name)"
proof -
  have fast: "answers (\<lambda>r. \<forall>x. r = Some x \<longrightarrow> entry_reply x) (lookup_fast os parent name)"
    unfolding lookup_fast_def by (intro answers_intro) auto
  have slow: "answers entry_reply (lookup_slow os parent name)"
    unfolding lookup_slow_def by (intro answers_intro) auto
  show ?thesis
    unfolding lookup_op_def
    by (intro answers_withS answers_if answers_ret answers_bind[OF fast] answers_option slow)
      (auto simp: entry_reply_def)
qed

lemma answers_attributes:
  "answers attr_reply (getattr_op os ino)" "answers attr_reply (setattr_op os ino mode uid gid sz at mt fh)"
  "answers data_reply (readlink_op os ino)"
  unfolding getattr_op_def setattr_op_def readlink_op_def
  by (intro answers_intro; simp add: data_reply_def)+

lemma answers_finish [answers_intro]: "answers entry_reply (finish_new os ufd dfd p pp name path)"
  unfolding finish_new_def by (intro answers_intro) auto

lemma answers_new_files:
  "answers entry_reply (mknod_op os req parent name mode rdev)" "answers entry_reply (mkdir_op os req parent name mode)"
  "answers entry_reply (symlink_op os req parent name link)" "answers entry_reply (link_op os ino newparent newname)"
  unfolding mknod_op_def mkdir_op_def symlink_op_def link_op_def
  by (intro answers_intro; simp)+

lemma answers_moves:
  "answers empty_reply (do_rm os parent name d)" "answers empty_reply (rename_op os parent name newparent newname flags)"
  unfolding do_rm_def rename_op_def rename_upper_def
  by (intro answers_intro; simp add: empty_reply_def)+

lemma answers_opening [answers_intro]: "answers open_reply (reply_open_maybe_passthrough os ino fd)"
proof -
  have reuse: "answers (\<lambda>r. \<forall>x. r = Some x \<longrightarrow> open_reply x) (open_reuse ino fd)"
    unfolding open_reuse_def by (intro answers_intro) (auto simp: open_reply_def)
  have registered: "answers open_reply (open_register ino fd b)" for b
    unfolding open_register_def by (intro answers_intro) (auto simp: open_reply_def)
  have plain: "answers open_reply (bindS (alloc_fh fd) (\<lambda>fh. ret (ROpened fh (keep_cache s))))" for s :: "'a fs"
    by (intro answers_intro) (simp add: open_reply_def keep_cache_values)
  show ?thesis
    unfolding reply_open_maybe_passthrough_def Let_def
    by (intro answers_withS answers_if plain answers_bind[OF reuse] answers_option answers_ret
        answers_bindS answers_sum answers_doS registered) auto
qed

lemma answers_created [answers_intro]: "answers create_reply (reply_created os ino fd a)"
  unfolding reply_created_def
  by (intro answers_intro)
    (use keep_cache_values in \<open>auto simp: with_ttl_def create_reply_def split: option.splits\<close>)

lemma answers_opens: "answers open_reply (open_op os ino flags)" "answers create_reply (create_op os req parent name mode flags)"
  unfolding open_op_def create_op_def by (intro answers_intro; simp)+

lemma answers_xattr:
  "answers empty_reply (setxattr_op os ino name v fl)" "answers (xattr_reply n) (getxattr_op os ino name n)"
  "answers (listxattr_reply n) (listxattr_op os ino n)" "answers empty_reply (removexattr_op os ino name)"
  unfolding setxattr_op_def getxattr_op_def listxattr_op_def removexattr_op_def
  by (intro answers_intro; simp add: reply_kinds)+

lemma answers_file_io:
  "answers data_reply (read_op os fh off n)" "answers write_reply (write_op os fh off dat wc)"
  "answers empty_reply (fsync_op os fh ds)" "answers empty_reply (fallocate_op os fh off len mode)"
  "answers lseek_reply (lseek_op os fh off wh)" "answers write_reply (copy_file_range_op os fh off fh' off' len)"
  "answers statfs_reply (statfs_op os)" "answers empty_reply (fsyncdir_op os ino ds)"
  unfolding read_op_def write_op_def fsync_op_def sync_fd_def fallocate_op_def lseek_op_def copy_file_range_op_def
    statfs_op_def fsyncdir_op_def
  by (intro answers_intro; simp add: reply_kinds)+

lemma answers_ioctl: "answers (ioctl_answer n) (ioctl_op os ino fh c cmd dat n)"
  unfolding ioctl_op_def ioctl_reply_def refresh_dir_def by (intro answers_intro; simp add: reply_kinds)

lemma drop_enumerate: "drop k (enumerate n xs) = enumerate (n + k) (drop k xs)"
  by (induction xs arbitrary: k n) (auto simp: drop_Cons split: nat.splits)

lemma fill_dir_offsets:
  "map (fst \<circ> snd) (fill_dir full added (enumerate k es)) = [k + 1..<k + 1 + length (fill_dir full added (enumerate k es))]"
  by (induction es arbitrary: k added) (auto simp: upt_rec)

lemma answers_readdir: "answers (readdir_reply off) (readdir_op full fh off)"
  unfolding readdir_op_def
  by (intro answers_intro) (use fill_dir_offsets[where k = off] in \<open>auto simp: readdir_reply_def drop_enumerate\<close>)

lemma plus_attr_ino: "fa_ino (plus_attr e ino) = ino"
  by (simp add: plus_attr_def split: option.split)

lemma plus_fill_offsets:
  "answers (\<lambda>rows. map (fst \<circ> snd) rows = [k + 1..<k + 1 + length rows] \<and>
     list_all (\<lambda>(ino, _, _, _, a). fa_ino a = ino) rows) (plus_fill full ttl added (enumerate k es))"
proof (induction es arbitrary: k added)
  case (Cons e es)
  show ?case
    unfolding enumerate_simps plus_fill.simps
    by (intro answers_bind[where m = "plus_register e" and Q = "\<lambda>_. True"] answers_if answers_bind[OF Cons.IH] answers_ret)
      (simp_all add: answers_def upt_conv_Cons plus_attr_ino del: upt_Suc)
qed (simp add: answers_def ret_def)

lemma answers_readdirplus: "answers (readdirplus_reply off) (readdirplus_op full fh off)"
  unfolding readdirplus_op_def drop_enumerate
  by (intro answers_withS answers_option answers_ret answers_bind[OF plus_fill_offsets])
    (auto simp: readdirplus_reply_def)

lemma answers_opendir: "answers opendir_reply (opendir_op os ino)"
  unfolding opendir_op_def
  by (intro answers_intro) (use keep_cache_values in \<open>auto simp: opendir_reply_def\<close>)

lemma answers_certain:
  "answers (\<lambda>r. r = ROk) (doS (init_op np kh) (ret ROk))" "answers (\<lambda>r. r = RNone) (forget_op ino k)"
  "answers (\<lambda>r. r = ROk) (release_op fh)" "answers (\<lambda>r. r = ROk) access_op" "answers (\<lambda>r. r = ROk) (releasedir_op fh)"
  unfolding forget_op_def release_op_def access_op_def releasedir_op_def by (intro answers_intro; simp)+

lemmas answers_handlers =
  answers_lookup answers_attributes answers_new_files answers_moves answers_opens answers_xattr answers_file_io
  answers_ioctl answers_readdir answers_readdirplus answers_opendir answers_certain

section \<open>The property\<close>


end
