(* ===== verification/Process.thy ===== *)
theory Process
  imports Requests
begin

text \<open>
  \<^verbatim>\<open>src/main.rs\<close> around the file system, and \<^verbatim>\<open>src/sys/process.rs\<close>: resource limits, the check of \<^verbatim>\<open>/proc\<close>,
  daemonising, the report on \<^verbatim>\<open>SIGUSR1\<close>, and \<^verbatim>\<open>main\<close> itself, on a state that pairs the world of the file
  systems with that of the process. The calls of the process and the crates \<^verbatim>\<open>fuser\<close> and \<^verbatim>\<open>signal_hook\<close> are parameters.
  Shown: what is served is a state the program started with, the process that serves
  is the detached child, and the report is accurate.
\<close>

section \<open>The process\<close>

text \<open>Lines for standard error; the text of an errno or of a start error is left as the error.\<close>

datatype message = Line bytes | LineError bytes fs_error | Failed start_error

record 'p process_os =
  p_fork :: "'p \<Rightarrow> int \<times> 'p"
  p_setsid :: "'p \<Rightarrow> int \<times> 'p"
  p_open :: "bytes \<Rightarrow> oflags \<Rightarrow> 'p \<Rightarrow> int \<times> 'p"
  p_dup2 :: "int \<Rightarrow> int \<Rightarrow> 'p \<Rightarrow> int \<times> 'p"
  p_close :: "int \<Rightarrow> 'p \<Rightarrow> 'p"
  p_chdir :: "bytes \<Rightarrow> 'p \<Rightarrow> 'p"
  p_getrlimit :: "'p \<Rightarrow> int + 64 word \<times> 64 word"
  p_setrlimit :: "64 word \<Rightarrow> 64 word \<Rightarrow> 'p \<Rightarrow> (int + unit) \<times> 'p"
  p_statfs :: "bytes \<Rightarrow> 'p \<Rightarrow> int + 64 word"
  p_statvfs :: "bytes \<Rightarrow> 'p \<Rightarrow> int + statvfs"
  p_eprintln :: "message \<Rightarrow> 'p \<Rightarrow> 'p"
  p_open_log :: "bytes \<Rightarrow> 'p \<Rightarrow> (int + int) \<times> 'p"
  p_signals_new :: "'p \<Rightarrow> (int + unit) \<times> 'p"
  p_spawn_handler :: "int \<Rightarrow> 'p \<Rightarrow> 'p"

definition eprintln :: "'p process_os \<Rightarrow> message \<Rightarrow> ('p, unit) prog" where
  "eprintln pos m = modS (p_eprintln pos m)"

text \<open>Of \<^verbatim>\<open>struct statfs\<close> only the file system type is looked at.\<close>

definition statfs :: "'p process_os \<Rightarrow> bytes \<Rightarrow> 'p \<Rightarrow> 64 word fs_result" where
  "statfs pos path p = lift_obs (p_statfs pos path p)"

definition statvfs_path :: "'p process_os \<Rightarrow> bytes \<Rightarrow> 'p \<Rightarrow> statvfs fs_result" where
  "statvfs_path pos path p = lift_obs (p_statvfs pos path p)"

text \<open>A function that may end the process: \<open>Inl\<close> is the status given to \<^verbatim>\<open>std::process::exit\<close>.\<close>

abbreviation exit :: "int \<Rightarrow> ('p, int + 'a) prog" where
  "exit status \<equiv> ret (Inl status)"

definition fails :: "'p process_os \<Rightarrow> message \<Rightarrow> ('p, int + 'a) prog" where
  "fails pos m = doS (eprintln pos m) (exit 1)"

fun redirect :: "'p process_os \<Rightarrow> int \<Rightarrow> int list \<Rightarrow> ('p, bool) prog" where
  "redirect pos fd [] = ret True"
| "redirect pos fd (target # targets) =
     bindS (p_dup2 pos fd target) (\<lambda>r. if r < 0 then ret False else redirect pos fd targets)"

definition daemonize :: "'p process_os \<Rightarrow> ('p, int + unit) prog" where
  "daemonize pos =
     bindS (p_fork pos) (\<lambda>pid.
     if pid < 0 then fails pos (Line ''fuse-overlayfs: fork failed'')
     else if pid > 0 then exit 0
     else
     bindS (p_setsid pos) (\<lambda>sid.
     if sid < 0 then fails pos (Line ''fuse-overlayfs: setsid failed'')
     else
     bindS (p_open pos ''/dev/null'' O_RDWR) (\<lambda>devnull.
     bindE (if devnull \<ge> 0
            then bindS (redirect pos devnull [0, 1, 2]) (\<lambda>done.
                 if \<not> done then fails pos (Line ''fuse-overlayfs: dup2 failed'')
                 else doS (if devnull > 2 then modS (p_close pos devnull) else ret ()) (ret (Inr ())))
            else ret (Inr ())) (\<lambda>_.
     doS (modS (p_chdir pos ''/'')) (ret (Inr ()))))))"

definition set_limits :: "'p process_os \<Rightarrow> ('p, unit) prog" where
  "set_limits pos =
     withS (\<lambda>p. case p_getrlimit pos p of
         Inl _ \<Rightarrow> ret ()
       | Inr (_, hard) \<Rightarrow>
           bindS (p_setrlimit pos hard hard) (\<lambda>r. case r of
               Inr _ \<Rightarrow> ret ()
             | Inl e \<Rightarrow> eprintln pos (LineError ''fuse-overlayfs: cannot set nofile rlimit: '' (FsError e))))"

definition check_writeable_proc :: "'p process_os \<Rightarrow> ('p, unit) prog" where
  "check_writeable_proc pos =
     withS (\<lambda>p. case statfs pos ''/proc'' p of
         Inl _ \<Rightarrow> eprintln pos (Line ''fuse-overlayfs: error stating /proc'')
       | Inr f_type \<Rightarrow>
           if f_type \<noteq> 0x9fa0
           then eprintln pos (Line (''fuse-overlayfs: invalid file system type found on /proc: '' @
                  show_int (sint f_type) @ '', expected 40864''))
           else (case statvfs_path pos ''/proc'' p of
               Inl _ \<Rightarrow> ret ()
             | Inr stvfs \<Rightarrow>
                 if f_flag stvfs AND 1 \<noteq> 0
                 then eprintln pos (Line (''fuse-overlayfs: /proc seems to be mounted as readonly, '' @
                        ''it can lead to unexpected failures''))
                 else ret ()))"

section \<open>The report on SIGUSR1\<close>

definition statistics :: "'w fs \<Rightarrow> bytes" where
  "statistics s =
     ''# INODES: '' @ show_nat (unat (it_stat_inodes (fs_inodes s))) @ [CHR 10] @
     ''# NODES: '' @ show_nat (unat (ar_stat_nodes (fs_nodes s))) @ [CHR 10] @
     ''# PASSTHROUGH: '' @ (if fs_STAT_PASSTHROUGH s then ''enabled'' else ''disabled'') @ [CHR 10]"

text \<open>\<open>log_path\<close> is the environment variable \<^verbatim>\<open>FUSE_OVERLAYFS_DEBUG_LOG\<close>; the handler writes to its file, or to
  standard error. The thread of \<^verbatim>\<open>signal_hook\<close> writes \<open>statistics\<close> at every signal.\<close>

definition setup_sigusr1 :: "'p process_os \<Rightarrow> bytes option \<Rightarrow> ('p, unit) prog" where
  "setup_sigusr1 pos log_path =
     bindS (case log_path of
         None \<Rightarrow> ret 2
       | Some path \<Rightarrow> bindS (p_open_log pos path) (\<lambda>r. ret (case r of Inr fd \<Rightarrow> fd | Inl _ \<Rightarrow> 2))) (\<lambda>log_fd.
     bindS (p_signals_new pos) (\<lambda>r. case r of
         Inl e \<Rightarrow> eprintln pos (LineError ''fuse-overlayfs: cannot register SIGUSR1 handler: '' (FsError e))
       | Inr _ \<Rightarrow> modS (p_spawn_handler pos log_fd)))"

section \<open>main\<close>

definition debug_lines :: "overlay_config \<Rightarrow> bytes \<Rightarrow> bytes \<Rightarrow> bytes list" where
  "debug_lines config lower mnt =
     (let or_else = (\<lambda>x d. case x of Some v \<Rightarrow> v | None \<Rightarrow> d) in
      [''uid='' @ or_else (uid_str config) ''unchanged'', ''gid='' @ or_else (gid_str config) ''unchanged'',
       ''upperdir='' @ or_else (upperdir config) ''NOT USED'', ''workdir='' @ or_else (workdir config) ''NOT USED'',
       ''lowerdir='' @ lower, ''mountpoint='' @ mnt, ''plugins='' @ or_else (plugins config) ''<none>'',
       ''fsync='' @ (if cfg_fsync config then ''enabled'' else ''disabled'')])"

text \<open>What \<^verbatim>\<open>main\<close> uses of the \<^verbatim>\<open>fuser\<close> crate: mounting, starting the worker threads, waiting for the end.\<close>

record ('w, 'p) fuser =
  session_new :: "'w fs \<Rightarrow> bytes \<Rightarrow> mount_option list \<Rightarrow> session_acl \<Rightarrow> nat \<Rightarrow> 'p \<Rightarrow> (int + unit) \<times> 'p"
  session_spawn :: "'w fs \<Rightarrow> 'p \<Rightarrow> (int + unit) \<times> 'p"
  session_join :: "'p \<Rightarrow> (int + unit) \<times> 'p"

definition on_files :: "('w, 'a) prog \<Rightarrow> ('w \<times> 'p, 'a) prog" where
  "on_files m = (\<lambda>(w, p). case m w of (x, w') \<Rightarrow> (x, w', p))"

definition on_process :: "('p, 'a) prog \<Rightarrow> ('w \<times> 'p, 'a) prog" where
  "on_process m = (\<lambda>(w, p). case m p of (x, p') \<Rightarrow> (x, w, p'))"

interpretation file_world: state_part fst "\<lambda>w s. (w, snd s)" on_files
  by unfold_locales (auto simp: on_files_def split: prod.splits)

interpretation process_world: state_part snd "\<lambda>p s. (fst s, p)" on_process
  by unfold_locales (auto simp: on_process_def split: prod.splits)

text \<open>The environment of the process: effective user, arguments, what \<^verbatim>\<open>OverlayFs::new\<close> reads, the number of threads and
  the log file.\<close>

record environment =
  env_uid :: "32 word"
  env_args :: "bytes list"
  env_overflow :: overflow_ids
  env_disable_wh :: bool
  env_threads :: nat
  env_log :: "bytes option"

definition start_status :: "start_error \<Rightarrow> int" where
  "start_status e = (if e = HelpOrVersion then 0 else 1)"

text \<open>From the file system on: mounting, detaching, serving. The result is the exit status, with the file
  system that was served, if the worker threads were started.\<close>

definition serve_session ::
  "'p process_os \<Rightarrow> ('w, 'p) fuser \<Rightarrow> environment \<Rightarrow> 'w fs \<Rightarrow> bytes \<Rightarrow> mount_option list \<Rightarrow> session_acl \<Rightarrow>
     ('p, int \<times> 'w fs option) prog" where
  "serve_session pos fu env fs mnt opts acl =
     bindS (session_new fu fs mnt opts acl (env_threads env)) (\<lambda>r. case r of
         Inl e \<Rightarrow> doS (eprintln pos (LineError ''fuse-overlayfs: mount failed: '' (FsError e))) (ret (1, None))
       | Inr _ \<Rightarrow>
     let fs = set_notifier fs in
     bindS (if \<not> foreground (fs_config fs) then daemonize pos else ret (Inr ())) (\<lambda>r. case r of
         Inl status \<Rightarrow> ret (status, None)
       | Inr _ \<Rightarrow>
     doS (setup_sigusr1 pos (env_log env))
    (bindS (session_spawn fu fs) (\<lambda>r. case r of
         Inl e \<Rightarrow> doS (eprintln pos (LineError ''fuse-overlayfs: session error: '' (FsError e))) (ret (1, None))
       | Inr _ \<Rightarrow>
     bindS (session_join fu) (\<lambda>r. case r of
         Inl e \<Rightarrow> doS (eprintln pos (LineError ''fuse-overlayfs: session error: '' (FsError e))) (ret (1, Some fs))
       | Inr _ \<Rightarrow> ret (0, Some fs))))))"

fun print_lines :: "'p process_os \<Rightarrow> bytes list \<Rightarrow> ('p, unit) prog" where
  "print_lines pos [] = ret ()"
| "print_lines pos (l # ls) = doS (eprintln pos (Line l)) (print_lines pos ls)"

definition main ::
  "'w os \<Rightarrow> 'p process_os \<Rightarrow> ('w, 'p) fuser \<Rightarrow> environment \<Rightarrow> ('w \<times> 'p, int \<times> 'w fs option) prog" where
  "main os pos fu env =
     (case validate (env_uid env) (env_args env) of
        Inl e \<Rightarrow> doS (on_process (if e = HelpOrVersion then ret () else eprintln pos (Failed e))) (ret (start_status e, None))
      | Inr (config, lower, mnt) \<Rightarrow>
          doS (on_process (set_limits pos))
         (doS (on_process (check_writeable_proc pos))
         (bindS (on_files (open_dirs os config lower)) (\<lambda>r. case r of
              Inl e \<Rightarrow> doS (on_process (eprintln pos (Failed e))) (ret (1, None))
            | Inr (workdir_fd, layers) \<Rightarrow>
          doS (on_process (if debug config then print_lines pos (debug_lines config lower mnt) else ret ()))
         (case mount_options (fuse_options config) [FSName ''fuse-overlayfs''] Owner of (opts, acl) \<Rightarrow>
          withS (\<lambda>(w, _). on_process (serve_session pos fu env
            (overlay_new config layers workdir_fd (env_overflow env) (env_disable_wh env) w) mnt opts acl)))))))"

section \<open>Properties\<close>

lemma on_files_run: "on_files m (w, p) = (fst (m w), snd (m w), p)"
  by (simp add: on_files_def split_beta)

lemma on_process_run: "on_process m (w, p) = (fst (m p), w, snd (m p))"
  by (simp add: on_process_def split_beta)


lemma daemonize_child:
  assumes "daemonize pos p = (Inr (), p')"
  shows "\<exists>p1 p2 sid. p_fork pos p = (0, p1) \<and> p_setsid pos p1 = (sid, p2) \<and> 0 \<le> sid"
proof -
  obtain pid p1 where f: "p_fork pos p = (pid, p1)" by fastforce
  obtain sid p2 where t: "p_setsid pos p1 = (sid, p2)" by fastforce
  from assms f t have "pid = 0 \<and> 0 \<le> sid"
    by (auto simp: daemonize_def bindS_def fails_def doS_def ret_def split: if_splits prod.splits)
  with f t show ?thesis by blast
qed

text \<open>Only the detached child serves: when worker threads were started for a file system, that file system is the
  one of the start with the notifier set, hence a reachable state, and unless the mount runs in the foreground
  the process had been forked, was the child and led a session of its own.\<close>

lemma served_by_child:
  assumes "serve_session pos fu env s0 mnt opts acl p = ((status, Some s), p')"
  shows "s = set_notifier s0 \<and> reachable os s0 s \<and> status \<in> {0, 1} \<and>
    (\<exists>q. session_new fu s0 mnt opts acl (env_threads env) p = (Inr (), q) \<and>
       (foreground (fs_config s0) \<or>
        (\<exists>q1 q2 sid. p_fork pos q = (0, q1) \<and> p_setsid pos q1 = (sid, q2) \<and> 0 \<le> sid)))"
proof -
  obtain r q where n: "session_new fu s0 mnt opts acl (env_threads env) p = (r, q)" by fastforce
  from assms n have r: "r = Inr ()"
    by (cases r) (auto simp: serve_session_def bindS_def doS_def ret_def split: prod.splits)
  let ?d = "if \<not> foreground (fs_config (set_notifier s0)) then daemonize pos else ret (Inr ())"
  obtain x q' where d: "?d q = (x, q')" by fastforce
  from assms n r d have x: "x = Inr ()"
    by (cases x) (auto simp: serve_session_def bindS_def ret_def Let_def)
  from assms n r d x have s: "s = set_notifier s0" "status \<in> {0, 1}"
    by (auto simp: serve_session_def bindS_def doS_def ret_def Let_def split: prod.splits sum.splits)
  have "fs_config (set_notifier s0) = fs_config s0" by (simp add: set_notifier_def)
  with d x have "foreground (fs_config s0) \<or> daemonize pos q = (Inr (), q')" by (auto split: if_splits)
  with daemonize_child[of pos q q'] n r s reachable.notifier[OF reachable.start] show ?thesis by blast
qed


lemma overlay_new_flags: "flags_agree (overlay_new c ls wfd ov dis w)"
  by (simp add: flags_agree_def overlay_new_def Let_def split: prod.splits)

text \<open>C24: The report on \<^verbatim>\<open>SIGUSR1\<close> is accurate: in every state the mounted file system can get into it gives the number of
  entries of the inode table, the number of nodes in the arena (both modulo the width of the counters) and the
  passthrough mode that is in force.\<close>

theorem statistics_accurate:
  assumes "start os uid args ov dis w = (Inr (s0, mnt, opts, acl), w0)" "reachable os s0 s"
  shows "statistics s =
     ''# INODES: '' @ show_nat (card (dom (it_table (fs_inodes s))) mod 2 ^ 64) @ [CHR 10] @
     ''# NODES: '' @ show_nat (card (dom (ar_map (fs_nodes s))) mod 2 ^ 64) @ [CHR 10] @
     ''# PASSTHROUGH: '' @ (if fs_passthrough_enabled s then ''enabled'' else ''disabled'') @ [CHR 10]"
proof -
  have ok: "fs_ok (length (fs_layers s0)) 1 s" by (rule reachable_fs_ok[OF assms(2) start_state(1)[OF assms(1)]])
  have "flags_agree s0"
    using start_run[OF assms(1)] by (metis overlay_new_flags)
  then have "flags_agree s" by (rule flags.reachable_keeps[OF assms(2)])
  moreover have "it_stat_inodes (fs_inodes s) = of_nat (card (dom (it_table (fs_inodes s))))"
    using fs_okD(4)[OF ok] by (simp add: table_wf_def)
  moreover have "ar_stat_nodes (fs_nodes s) = of_nat (card (dom (ar_map (fs_nodes s))))"
    using fs_okD(3)[OF ok] by (simp add: arena_wf_def)
  ultimately show ?thesis by (simp add: statistics_def flags_agree_def unat_of_nat)
qed

text \<open>Witnesses: the sample mount; and a process whose calls all succeed.\<close>

theorem statistics_accurate_witness:
  "\<exists>s0 mnt opts acl. start opening_os 1 sample_args \<lparr>ov_uid = 65534, ov_gid = 65534\<rparr> False () =
     (Inr (s0, mnt, opts, acl), ()) \<and> take 10 (statistics s0) = ''# INODES: ''"
proof -
  obtain s0 mnt opts acl where run: "start opening_os 1 sample_args \<lparr>ov_uid = 65534, ov_gid = 65534\<rparr> False () =
    (Inr (s0, mnt, opts, acl), ())" by (rule sample_start)
  with statistics_accurate[OF run reachable.start] show ?thesis by auto
qed

definition child_os :: "unit process_os" where
  "child_os = \<lparr>p_fork = \<lambda>p. (0, p), p_setsid = \<lambda>p. (7, p), p_open = \<lambda>_ _ p. (3, p), p_dup2 = \<lambda>_ t p. (t, p),
     p_close = \<lambda>_ p. p, p_chdir = \<lambda>_ p. p, p_getrlimit = \<lambda>_. Inr (1024, 4096), p_setrlimit = \<lambda>_ _ p. (Inr (), p),
     p_statfs = \<lambda>_ _. Inr 0x9fa0, p_statvfs = \<lambda>_ _. Inl 38, p_eprintln = \<lambda>_ p. p, p_open_log = \<lambda>_ p. (Inr 4, p),
     p_signals_new = \<lambda>p. (Inr (), p), p_spawn_handler = \<lambda>_ p. p\<rparr>"

definition ready_fuser :: "(unit, unit) fuser" where
  "ready_fuser = \<lparr>session_new = \<lambda>_ _ _ _ _ p. (Inr (), p), session_spawn = \<lambda>_ p. (Inr (), p),
     session_join = \<lambda>p. (Inr (), p)\<rparr>"

definition plain_env :: environment where
  "plain_env = \<lparr>env_uid = 1, env_args = sample_args, env_overflow = \<lparr>ov_uid = 65534, ov_gid = 65534\<rparr>,
     env_disable_wh = False, env_threads = 4, env_log = None\<rparr>"

lemma served_sample:
  "serve_session child_os ready_fuser plain_env (sample_fs opening_os ()) ''/m'' [] Owner () =
     ((0, Some (set_notifier (sample_fs opening_os ()))), ()) \<and>
   reachable opening_os (sample_fs opening_os ()) (set_notifier (sample_fs opening_os ()))"
proof -
  have run: "serve_session child_os ready_fuser plain_env (sample_fs opening_os ()) ''/m'' [] Owner () =
     ((0, Some (set_notifier (sample_fs opening_os ()))), ())"
    by (simp add: serve_session_def child_os_def ready_fuser_def plain_env_def bindS_def doS_def ret_def Let_def
        daemonize_def bindE_def setup_sigusr1_def modS_def)
  with served_by_child[OF run, of opening_os] show ?thesis by blast
qed

end
