(* ===== verification/Spec2Isabelle.thy ===== *)
theory Spec2Isabelle
  imports Merge Read_Only Effects Lower_Layers Renaming Replies Process
begin

text \<open>
  A verification development for fuse-overlayfs, the Rust program under \<^verbatim>\<open>src/src\<close>: a FUSE file system that shows
  a stack of directories as one tree. The topmost directory may be writable (the upper layer); what is
  changed is first copied up to it, and what is removed below is hidden by whiteouts.

  \<^bold>\<open>The program and its model.\<close> A function of the source that changes state is a program
  \<open>'s \<Rightarrow> 'a \<times> 's\<close> (theory \<open>Ovl_Prelude\<close>: \<open>bindS\<close> sequences, \<open>bindE\<close> is Rust's \<^verbatim>\<open>?\<close>, \<open>bindR\<close> replies with the error);
  every error is a value \<open>Inl (FsError errno)\<close> and every panic the reply \<open>RPanic\<close>. Machine integers are words of
  their width, byte strings are lists of characters, and hash maps are maps or association lists (the order in which
  a hash set is iterated is the parameter \<open>hs_order\<close>). The kernel is the record \<open>'w os\<close> of the system
  calls the program makes, over a world \<open>'w\<close> about which nothing is assumed; where a property relies on the
  kernel, it says so in a hypothesis that a witness instantiates.

  \<^item> \<open>Rust_Std\<close>: what the code uses of the standard library (splitting, parsing and printing of numbers, UTF-8).
  \<^item> \<open>Id_Mapping\<close> (\<^verbatim>\<open>mapping.rs\<close>), \<open>Xattr\<close> (\<^verbatim>\<open>xattr.rs\<close>), \<open>Config\<close> (\<^verbatim>\<open>config.rs\<close>): the pure parts, with round trips
    of their text formats and of the mappings, and what can never leave them (ids outside the table, internal
    attribute names).
  \<^item> \<open>Sys\<close> (\<^verbatim>\<open>sys/*.rs\<close>, \<^verbatim>\<open>error.rs\<close>): the wrappers of system calls, opening below a directory (\<^verbatim>\<open>RESOLVE_IN_ROOT\<close>).
  \<^item> \<open>Layer\<close> (\<^verbatim>\<open>datasource.rs\<close>, \<^verbatim>\<open>direct.rs\<close>, \<^verbatim>\<open>layer.rs\<close>): the trait \<^verbatim>\<open>DataSource\<close> as a record of its methods, the
    direct implementation, the stack of layers; \<open>Attr\<close>: attributes and the override attribute.
  \<^item> \<open>Node\<close>, \<open>Inode_Table\<close> (\<^verbatim>\<open>node.rs\<close>): the arena of nodes, paths, FUSE numbers and reference counts.
  \<^item> \<open>State\<close>, \<open>Whiteout\<close> (\<^verbatim>\<open>whiteout.rs\<close>), \<open>Copy_Data\<close>, \<open>Copyup\<close> (\<^verbatim>\<open>copyup.rs\<close>): the state of \<^verbatim>\<open>OverlayFs\<close> and \<^verbatim>\<open>OverlayInner\<close>
    as the record \<open>fs\<close>, the invariant \<open>fs_ok\<close>, whiteouts with their fallbacks, and copying up.
  \<^item> \<open>Overlay_Stat\<close>, \<open>Overlay_Load\<close>, \<open>Overlay_Ops\<close>, \<open>Handlers_Names\<close>, \<open>Handles\<close>, \<open>Handlers_Files\<close> (\<^verbatim>\<open>overlay.rs\<close>): reported
    attributes, loading and merging directories, hiding and registering nodes, and all FUSE handlers.
  \<^item> \<open>Mount\<close>, \<open>Process\<close> (\<^verbatim>\<open>main.rs\<close>, \<^verbatim>\<open>sys/process.rs\<close>): the start of the file system, \<^verbatim>\<open>main\<close> around it, daemonising, the report
    on \<^verbatim>\<open>SIGUSR1\<close>.
  \<^item> \<open>Requests\<close>: the requests, the handler of each (\<open>serve\<close>), and the states a mounted file system can reach.

  \<^bold>\<open>What is shown.\<close> In this theory: every reachable state is well formed, and a mount without an upper directory
  refuses every change. \<open>Lower_Layers\<close> (on the discipline of \<open>Confinement\<close> and \<open>Confined_Ops\<close>): no request changes a lower
  layer, with the one exception that is a defect of \<^verbatim>\<open>setattr\<close>. \<open>Merge\<close>: loading a directory refines an abstract merge
  of the layers' verdicts on each name, and shows exactly the names whose topmost verdict is an entry. \<open>Copyup\<close>,
  \<open>Copy_Data\<close>: a copy-up that succeeds puts the node on the upper layer and disturbs nothing else, and the data is
  complete. \<open>Effects\<close>, \<open>Creation\<close>, \<open>Renaming\<close>: what creation, removal, listing, lookup and renaming achieve. \<open>Replies\<close>:
  every request is answered by a reply of its own kind, within the sizes and offsets it asked for. \<open>Whiteout\<close>,
  \<open>Overlay_Ops\<close>: the marks that removal leaves. \<open>Inode_Table\<close>, \<open>Handles\<close>: numbers are unique and resolve, counts are exact,
  reading a directory in pages is complete. The interfaces are locales, each interpreted on the model: \<open>codec\<close>
  (text formats), \<open>id_store\<close> (arena), \<open>numbering\<close> (inode table), \<open>state_part\<close> (a world inside a state), \<open>copyup_invariant\<close> (what
  copying up keeps), \<open>handle_table\<close> (open files and directories), \<open>inner_observation\<close>, \<open>request_invariant\<close> and
  \<open>fixed_observation\<close> (what requests keep and leave alone).

  \<^bold>\<open>Loops and fuel.\<close> Loops are recursive functions. The walks over parent pointers take as fuel the
  number of ids the arena has given out, which exceeds the length of every chain that ends
  (shown in \<open>Node\<close> and \<open>Copyup\<close>); the search for a free FUSE number is a partial function that is shown in
  \<open>Inode_Table\<close> to return while any number from 2 on is free. A loop of the source that the kernel can keep from ending
  (copying data) is a partial function, and \<open>fs_hung\<close> records that it did not return.

  \<^bold>\<open>Concurrency.\<close> The lock \<^verbatim>\<open>inner\<close> makes the handlers on names atomic, so a request is one step. The sections
  of \<^verbatim>\<open>open\<close> that take the lock of the backing ids separately are steps of their own (\<open>reachable.reuse\<close>, \<open>reachable.register\<close>), and other
  processes may change the world between any two steps.

  \<^bold>\<open>Not modelled.\<close> The closing of descriptors when their owner is dropped, log output, and
  \<^verbatim>\<open>destroy\<close>, which only logs; the text of \<^verbatim>\<open>--help\<close> and \<^verbatim>\<open>--version\<close>; the reply buffers, the session loop and the mounting done by
  the \<^verbatim>\<open>fuser\<close> crate, the thread of \<^verbatim>\<open>signal_hook\<close>, and the kernel, which are parameters; and
  memory exhaustion. Interleavings finer than the sections named above are not steps of the model.
\<close>

section \<open>The mounted file system\<close>

text \<open>C1: Every state the mounted file system can get into is well formed: whatever requests
  the kernel sends, in whatever order, and whatever other processes do to the underlying
  file systems meanwhile, the tree of nodes, the inode table and the handle tables keep their invariants, the
  root stays a directory without a parent, and the configuration, the layers and the work directory are those the program started
  with.\<close>

theorem mounted_well_formed:
  assumes "start os uid args ov dis w = (Inr (s0, mnt, opts, acl), w0)" "reachable os s0 s"
  shows "fs_ok (length (fs_layers s0)) 1 s \<and> handles_ok s \<and> mount_view s = mount_view s0 \<and>
    (\<exists>root. arena_get (fs_nodes s) 1 = Some root \<and> is_dir root \<and> nd_parent root = None)"
proof -
  note s0 = start_state[OF assms(1)]
  have ok: "fs_ok (length (fs_layers s0)) 1 s" by (rule reachable_fs_ok[OF assms(2) s0(1)])
  moreover have "handles_ok s" by (rule reachable_handles_ok[OF assms(2) s0(2)])
  moreover have "mount_view s = mount_view s0" by (rule mounted.reachable_fixed[OF assms(2)])
  moreover obtain root where "arena_get (fs_nodes s) 1 = Some root" using fs_okD(5)[OF ok] by auto
  moreover from fs_okD(6)[OF ok this] have "is_dir root" "nd_parent root = None" by (auto simp: node_ok_def)
  ultimately show ?thesis by blast
qed

theorem mounted_well_formed_witness:
  "\<exists>s0 mnt opts acl. start opening_os 1 sample_args \<lparr>ov_uid = 65534, ov_gid = 65534\<rparr> False () =
     (Inr (s0, mnt, opts, acl), ()) \<and> handles_ok (snd (serve opening_os (Unlink 1 ''f'') s0))"
proof -
  obtain s0 mnt opts acl where run: "start opening_os 1 sample_args \<lparr>ov_uid = 65534, ov_gid = 65534\<rparr> False () =
    (Inr (s0, mnt, opts, acl), ())" by (rule sample_start)
  have "reachable opening_os s0 (snd (serve opening_os (Unlink 1 ''f'') s0))"
    by (rule reachable.request[OF reachable.start prod.collapse[symmetric]])
  from mounted_well_formed[OF run this] run show ?thesis by blast
qed

text \<open>C3: Without an upper directory the mount is read-only: in every state it can reach, each request that would
  change the tree (creation, removal, renaming, linking, attributes, extended attributes, opening for writing)
  is answered with an error, and no system call has changed anything.\<close>

theorem read_only_mount_refuses:
  assumes "start os uid args ov dis w = (Inr (s0, mnt, opts, acl), w0)" "upperdir (fs_config s0) = None"
    and "reachable os s0 s" "changes rq"
  shows "\<exists>e. fst (serve os rq s) = RError e \<and> fs_world (snd (serve os rq s)) = fs_world s"
proof -
  note s0 = start_state[OF assms(1)]
  from s0(3,4) assms(2) have "list_all ly_low (fs_layers s0)"
    by (cases "fs_layers s0") (auto simp: layers_ok_def upper_layer_hd split: if_splits)
  moreover have "fs_layers s = fs_layers s0"
    using mounted.reachable_fixed[OF assms(3)] by (simp add: mount_view_def)
  ultimately show ?thesis using refuses_serve[OF _ assms(4), of s os] by (auto simp: is_error_def)
qed

theorem read_only_mount_refuses_witness:
  "\<exists>s0 mnt opts acl e. start opening_os 1 read_only_args \<lparr>ov_uid = 65534, ov_gid = 65534\<rparr> False () =
     (Inr (s0, mnt, opts, acl), ()) \<and> fst (serve opening_os (Mkdir (0, 0) 1 ''d'' 0x1FF) s0) = RError e"
proof -
  obtain s0 mnt opts acl where run: "start opening_os 1 read_only_args \<lparr>ov_uid = 65534, ov_gid = 65534\<rparr> False () =
    (Inr (s0, mnt, opts, acl), ())" "upperdir (fs_config s0) = None" by (rule read_only_start)
  from read_only_mount_refuses[OF run reachable.start, of "Mkdir (0, 0) 1 ''d'' 0x1FF"] run(1) show ?thesis by auto
qed

end
